(* ===== verification/Prelude.thy ===== *)
theory Prelude
  imports Main "HOL-Library.Word" "HOL-Library.Monad_Syntax" "HOL-Library.Signed_Division"
begin

text \<open>
  Shared vocabulary of the development: the Rust machine integers as words, the methods of the
  Rust integer types the sources call (saturating, checked and wrapping forms), slices with
  their bounds checks, little-endian byte codecs, and the generic lemmas the components share.

  A Rust value of type \<open>u64\<close> or \<open>i64\<close> is a 64-bit word; the signed reading is made explicit by
  the operation (\<open>sint\<close>, signed comparison, signed shift, sign-extending cast).  A \<open>usize\<close> that
  counts or indexes is a \<open>nat\<close> on a 64-bit host, with the saturation of the \<open>usize\<close> methods
  written out.

  A Rust function that can panic, or whose \<open>unsafe\<close> blocks could touch memory the process does
  not own, returns an \<open>option\<close>: \<open>None\<close> is "the execution goes wrong" (an out-of-range index, a
  division by zero, an arithmetic overflow of a build with overflow checks, an \<open>unwrap\<close> of a
  missing value, a raw access outside allocated memory).  The errors the program itself returns
  are values of \<open>Result\<close>-like types inside the \<open>Some\<close>.
\<close>

unbundle bit_operations_syntax

section \<open>Types\<close>

type_synonym u8 = "8 word"
type_synonym u16 = "16 word"
type_synonym u32 = "32 word"
type_synonym u64 = "64 word"
type_synonym u128 = "128 word"
type_synonym i16 = "16 word"
type_synonym i32 = "32 word"
type_synonym i64 = "64 word"
type_synonym i128 = "128 word"
type_synonym usize = nat
type_synonym bytes = "8 word list"

named_theorems rust_int "definitions of the methods of the Rust integer types"
named_theorems slice "facts on checked slice accesses"

section \<open>Methods of the Rust integer types\<close>

definition u64_max :: u64 where
  "u64_max = - 1"

definition usize_max :: usize where
  "usize_max = 2 ^ 64 - 1"

definition usize_saturating_add :: "usize \<Rightarrow> usize \<Rightarrow> usize" where
  "usize_saturating_add a b = min (a + b) usize_max"

definition usize_saturating_mul :: "usize \<Rightarrow> usize \<Rightarrow> usize" where
  "usize_saturating_mul a b = min (a * b) usize_max"

definition saturating_add :: "'a::len word \<Rightarrow> 'a word \<Rightarrow> 'a word" where
  "saturating_add a b = (if unat a + unat b < 2 ^ LENGTH('a) then a + b else - 1)"

definition saturating_sub :: "'a::len word \<Rightarrow> 'a word \<Rightarrow> 'a word" where
  "saturating_sub a b = (if b \<le> a then a - b else 0)"

definition saturating_mul :: "'a::len word \<Rightarrow> 'a word \<Rightarrow> 'a word" where
  "saturating_mul a b = (if unat a * unat b < 2 ^ LENGTH('a) then a * b else - 1)"

definition checked_add :: "'a::len word \<Rightarrow> 'a word \<Rightarrow> 'a word option" where
  "checked_add a b = (if unat a + unat b < 2 ^ LENGTH('a) then Some (a + b) else None)"

definition checked_sub :: "'a::len word \<Rightarrow> 'a word \<Rightarrow> 'a word option" where
  "checked_sub a b = (if b \<le> a then Some (a - b) else None)"

text \<open>\<open>checked_shr\<close> and \<open>checked_shl\<close> are \<open>None\<close> for a shift by the width or more; the
  \<open>wrapping_\<close> forms reduce the shift modulo the width.\<close>

definition checked_shr :: "'a::len word \<Rightarrow> nat \<Rightarrow> 'a word option" where
  "checked_shr a n = (if n < LENGTH('a) then Some (drop_bit n a) else None)"

definition checked_shl :: "'a::len word \<Rightarrow> nat \<Rightarrow> 'a word option" where
  "checked_shl a n = (if n < LENGTH('a) then Some (push_bit n a) else None)"

definition wrapping_shl :: "'a::len word \<Rightarrow> u32 \<Rightarrow> 'a word" where
  "wrapping_shl a n = push_bit (unat n mod LENGTH('a)) a"

definition wrapping_shr :: "'a::len word \<Rightarrow> u32 \<Rightarrow> 'a word" where
  "wrapping_shr a n = drop_bit (unat n mod LENGTH('a)) a"

definition wrapping_sar :: "'a::len word \<Rightarrow> u32 \<Rightarrow> 'a word" where
  "wrapping_sar a n = signed_drop_bit (unat n mod LENGTH('a)) a"

text \<open>Signed saturating arithmetic.  The bounds are those of the signed reading of the width.\<close>

definition sint_min :: "'a::len itself \<Rightarrow> int" where
  "sint_min _ = - (2 ^ (LENGTH('a) - 1))"

definition sint_max :: "'a::len itself \<Rightarrow> int" where
  "sint_max _ = 2 ^ (LENGTH('a) - 1) - 1"

definition clamp_int :: "int \<Rightarrow> int \<Rightarrow> int \<Rightarrow> int" where
  "clamp_int lo hi x = max lo (min hi x)"

definition i64_saturating_add :: "i64 \<Rightarrow> i64 \<Rightarrow> i64" where
  "i64_saturating_add a b =
     word_of_int (clamp_int (sint_min TYPE(64)) (sint_max TYPE(64)) (sint a + sint b))"

definition i64_saturating_sub :: "i64 \<Rightarrow> i64 \<Rightarrow> i64" where
  "i64_saturating_sub a b =
     word_of_int (clamp_int (sint_min TYPE(64)) (sint_max TYPE(64)) (sint a - sint b))"

text \<open>Signed division and remainder truncate towards zero.  They panic on a zero divisor and on
  \<open>MIN / -1\<close>; the same two inputs make \<open>checked_div\<close> return \<open>None\<close>.\<close>

definition int_fits :: "'a::len itself \<Rightarrow> int \<Rightarrow> bool" where
  "int_fits t x \<longleftrightarrow> sint_min t \<le> x \<and> x \<le> sint_max t"

definition signed_div :: "'a::len word \<Rightarrow> 'a word \<Rightarrow> 'a word option" where
  "signed_div a b =
     (if b = 0 \<or> \<not> int_fits TYPE('a) (sint a sdiv sint b) then None
      else Some (word_of_int (sint a sdiv sint b)))"

definition signed_rem :: "'a::len word \<Rightarrow> 'a word \<Rightarrow> 'a word option" where
  "signed_rem a b =
     (if b = 0 \<or> \<not> int_fits TYPE('a) (sint a sdiv sint b) then None
      else Some (word_of_int (sint a smod sint b)))"

definition unsigned_div :: "'a::len word \<Rightarrow> 'a word \<Rightarrow> 'a word option" where
  "unsigned_div a b = (if b = 0 then None else Some (a div b))"

definition unsigned_rem :: "'a::len word \<Rightarrow> 'a word \<Rightarrow> 'a word option" where
  "unsigned_rem a b = (if b = 0 then None else Some (a mod b))"

text \<open>The plain operators of a build with overflow checks.\<close>

definition add_ovf :: "'a::len word \<Rightarrow> 'a word \<Rightarrow> 'a word option" where
  "add_ovf a b = checked_add a b"

definition sub_ovf :: "'a::len word \<Rightarrow> 'a word \<Rightarrow> 'a word option" where
  "sub_ovf a b = checked_sub a b"

definition signed_add_ovf :: "'a::len word \<Rightarrow> 'a word \<Rightarrow> 'a word option" where
  "signed_add_ovf a b =
     (if int_fits TYPE('a) (sint a + sint b) then Some (a + b) else None)"

definition signed_sub_ovf :: "'a::len word \<Rightarrow> 'a word \<Rightarrow> 'a word option" where
  "signed_sub_ovf a b =
     (if int_fits TYPE('a) (sint a - sint b) then Some (a - b) else None)"

definition usize_add_ovf :: "usize \<Rightarrow> usize \<Rightarrow> usize option" where
  "usize_add_ovf a b = (if a + b \<le> usize_max then Some (a + b) else None)"

definition usize_mul_ovf :: "usize \<Rightarrow> usize \<Rightarrow> usize option" where
  "usize_mul_ovf a b = (if a * b \<le> usize_max then Some (a * b) else None)"

lemmas [rust_int] = saturating_add_def saturating_sub_def saturating_mul_def checked_add_def
  checked_sub_def checked_shr_def checked_shl_def add_ovf_def sub_ovf_def

section \<open>Slices\<close>

definition slice_get :: "'a list \<Rightarrow> nat \<Rightarrow> 'a option" where
  "slice_get xs i = (if i < length xs then Some (xs ! i) else None)"

definition slice_set :: "'a list \<Rightarrow> nat \<Rightarrow> 'a \<Rightarrow> 'a list option" where
  "slice_set xs i v = (if i < length xs then Some (xs[i := v]) else None)"

definition slice_from :: "'a list \<Rightarrow> nat \<Rightarrow> 'a list option" where
  "slice_from xs i = (if i \<le> length xs then Some (drop i xs) else None)"

definition slice_range :: "'a list \<Rightarrow> nat \<Rightarrow> nat \<Rightarrow> 'a list option" where
  "slice_range xs i j = (if i \<le> j \<and> j \<le> length xs then Some (take (j - i) (drop i xs)) else None)"

lemma slice_get_Some [slice]: "i < length xs \<Longrightarrow> slice_get xs i = Some (xs ! i)"
  by (simp add: slice_get_def)

lemma slice_get_None [slice]: "length xs \<le> i \<Longrightarrow> slice_get xs i = None"
  by (simp add: slice_get_def)

lemma slice_get_eq_Some: "slice_get xs i = Some v \<longleftrightarrow> i < length xs \<and> xs ! i = v"
  by (auto simp: slice_get_def)

lemma slice_set_Some [slice]: "i < length xs \<Longrightarrow> slice_set xs i v = Some (xs[i := v])"
  by (simp add: slice_set_def)

lemma slice_set_eq_Some: "slice_set xs i v = Some ys \<longleftrightarrow> i < length xs \<and> ys = xs[i := v]"
  by (auto simp: slice_set_def)

lemma slice_from_Some [slice]: "i \<le> length xs \<Longrightarrow> slice_from xs i = Some (drop i xs)"
  by (simp add: slice_from_def)

section \<open>Little-endian codecs\<close>

text \<open>\<open>le_bytes n x\<close> are the \<open>n\<close> low bytes of \<open>x\<close>, least significant first (\<open>to_le_bytes\<close>);
  \<open>le_word\<close> reads a byte list back into a word.\<close>

fun le_bytes :: "nat \<Rightarrow> 'a::len word \<Rightarrow> bytes" where
  "le_bytes 0 x = []"
| "le_bytes (Suc n) x = ucast x # le_bytes n (drop_bit 8 x)"

fun le_word :: "bytes \<Rightarrow> 'a::len word" where
  "le_word [] = 0"
| "le_word (b # bs) = ucast b OR push_bit 8 (le_word bs)"

text \<open>\<open>LittleEndian::read_i16\<close> and \<open>read_i32\<close> read a prefix of the slice and panic when it is
  too short.\<close>

definition read_i16 :: "bytes \<Rightarrow> i16 option" where
  "read_i16 bs = (if 2 \<le> length bs then Some (le_word (take 2 bs)) else None)"

definition read_i32 :: "bytes \<Rightarrow> i32 option" where
  "read_i32 bs = (if 4 \<le> length bs then Some (le_word (take 4 bs)) else None)"

lemma length_le_bytes [simp]: "length (le_bytes n x) = n"
  by (induction n arbitrary: x) auto

lemma le_bytes_2: "le_bytes 2 x = [ucast x, ucast (drop_bit 8 x)]"
  by (simp add: eval_nat_numeral)

lemma le_bytes_4:
  "le_bytes 4 x = [ucast x, ucast (drop_bit 8 x), ucast (drop_bit 16 x), ucast (drop_bit 24 x)]"
proof -
  have "le_bytes 4 x = le_bytes (Suc (Suc (Suc (Suc 0)))) x" by (simp add: eval_nat_numeral)
  then show ?thesis by (simp add: drop_bit_drop_bit)
qed

lemma bit_le_word:
  "bit (le_word bs :: 'a::len word) n \<longleftrightarrow>
     n < LENGTH('a) \<and> n div 8 < length bs \<and> bit (bs ! (n div 8)) (n mod 8)"
proof (induction bs arbitrary: n)
  case Nil
  then show ?case by simp
next
  case (Cons b bs)
  show ?case
  proof (cases "n < 8")
    case True
    then show ?thesis by (auto simp: bit_simps)
  next
    case False
    then obtain m where m: "n = m + 8"
      by (metis add.commute le_Suc_ex not_less)
    have out: "\<not> bit b n"
      using False by (auto dest: bit_imp_le_length)
    have "n div 8 = Suc (m div 8)" and "n mod 8 = m mod 8"
      by (simp_all add: m)
    then show ?thesis
      using out Cons.IH[of m] by (auto simp: bit_simps m)
  qed
qed

lemma nth_le_bytes: "i < n \<Longrightarrow> le_bytes n x ! i = ucast (drop_bit (8 * i) x)"
proof (induction n arbitrary: x i)
  case 0
  then show ?case by simp
next
  case (Suc n)
  then show ?case by (cases i) (simp_all add: drop_bit_drop_bit add.commute)
qed

lemma le_word_le_bytes:
  fixes x :: "'a::len word"
  assumes "LENGTH('a) \<le> 8 * n"
  shows "le_word (le_bytes n x) = x"
proof (rule bit_word_eqI)
  fix k assume k: "k < LENGTH('a)"
  then have i: "k div 8 < n" using assms by (simp add: div_less_iff_less_mult mult.commute)
  then show "bit (le_word (le_bytes n x) :: 'a word) k = bit x k"
    using k by (simp add: bit_le_word nth_le_bytes bit_simps)
qed

lemma le_bytes_le_word:
  assumes "8 * length bs \<le> LENGTH('a)"
  shows "le_bytes (length bs) (le_word bs :: 'a::len word) = bs"
proof (rule nth_equalityI)
  show "length (le_bytes (length bs) (le_word bs :: 'a word)) = length bs" by simp
next
  fix i assume "i < length (le_bytes (length bs) (le_word bs :: 'a word))"
  then have i: "i < length bs" by simp
  show "le_bytes (length bs) (le_word bs :: 'a word) ! i = bs ! i"
  proof (rule bit_word_eqI)
    fix k assume k: "k < LENGTH(8)"
    have "8 * i + k < LENGTH('a)" using k i assms by simp
    then show "bit (le_bytes (length bs) (le_word bs :: 'a word) ! i) k = bit (bs ! i) k"
      using k i by (simp add: nth_le_bytes bit_simps bit_le_word)
  qed
qed

lemma le_bytes_le_word_numeral:
  "length bs = n \<Longrightarrow> 8 * n \<le> LENGTH('a) \<Longrightarrow> le_bytes n (le_word bs :: 'a::len word) = bs"
  using le_bytes_le_word by blast

section \<open>Bytes of a word of the default byte order\<close>

text \<open>The host is little-endian, as every target the crate's JIT supports: \<open>to_le\<close> is the
  identity and \<open>to_be\<close> swaps the bytes.\<close>

definition to_le :: "'a::len word \<Rightarrow> 'a word" where
  "to_le x = x"

definition swap_bytes :: "'a::len word \<Rightarrow> 'a word" where
  "swap_bytes x = le_word (rev (le_bytes (LENGTH('a) div 8) x))"

definition to_be :: "'a::len word \<Rightarrow> 'a word" where
  "to_be x = swap_bytes x"

section \<open>Generic facts\<close>

lemma bind_eq_SomeE:
  assumes "Option.bind m f = Some y"
  obtains x where "m = Some x" and "f x = Some y"
  using assms by (cases m) auto

lemma unat_lt_u64 [simp]: "unat (x :: u64) < 18446744073709551616"
  using unsigned_less[of x, where ?'a = nat] by simp

end
