(* ===== verification/Errors.thy ===== *)
theory Errors
  imports Prelude
begin

text \<open>
  The error and result types: \<^verbatim>\<open>src/src/error.rs\<close>, the error enumerations of
  \<^verbatim>\<open>src/src/elf.rs\<close> and \<^verbatim>\<open>src/src/verifier.rs\<close>, and \<open>AccessType\<close> of
  \<^verbatim>\<open>src/src/memory_region.rs\<close>.  A boxed \<open>dyn Error\<close> of a syscall is represented by the text it
  displays, and \<open>&'static str\<close> and \<open>String\<close> payloads by strings.
\<close>

datatype AccessType = Load | Store

datatype ElfError =
    FailedToParse string
  | EntrypointOutOfBounds
  | InvalidEntrypoint
  | FailedToGetSection string
  | UnresolvedSymbol string usize usize
  | SectionNotFound string
  | RelativeJumpOutOfBounds usize
  | SymbolHashCollision u32
  | WrongEndianess
  | WrongAbi
  | WrongMachine
  | WrongClass
  | NotOneTextSection
  | WritableSectionNotSupported string
  | AddressOutsideLoadableSection u64
  | InvalidVirtualAddress u64
  | UnknownRelocation u32
  | FailedToReadRelocationInfo
  | WrongType
  | UnknownSymbol usize
  | ValueOutOfBounds
  | UnsupportedSBPFVersion
  | InvalidProgramHeader

datatype VerifierError =
    ProgramLengthNotMultiple
  | ProgramTooLarge usize
  | NoProgram
  | DivisionByZero usize
  | UnsupportedLEBEArgument usize
  | LDDWCannotBeLast
  | IncompleteLDDW usize
  | InfiniteLoop usize
  | JumpOutOfCode usize usize
  | JumpToMiddleOfLDDW usize usize
  | InvalidSourceRegister usize
  | CannotWriteR10 usize
  | InvalidDestinationRegister usize
  | UnknownOpCode u8 usize
  | ShiftWithOverflow u64 u64 usize
  | InvalidRegister usize
  | InvalidFunction usize
  | InvalidSyscall u32
  | UnalignedImmediate usize

datatype EbpfError =
    ElfError ElfError
  | FunctionAlreadyRegistered usize
  | CallDepthExceeded
  | ExitRootCallFrame
  | DivideByZero
  | DivideOverflow
  | ExecutionOverrun
  | CallOutsideTextSegment
  | ExceededMaxInstructions
  | JitNotCompiled
  | InvalidMemoryRegion usize
  | AccessViolation AccessType u64 u64 string
  | StackAccessViolation AccessType u64 u64 i64
  | InvalidInstruction
  | UnsupportedInstruction
  | ExhaustedTextSegment usize
  | LibcInvocationFailed string "string list" i32
  | VerifierError VerifierError
  | SyscallError BoxedError
and BoxedError =
    BoxedEbpfError EbpfError
  | OtherError string

section \<open>StableResult\<close>

datatype ('t, 'e) StableResult = Ok 't | Err 'e

type_synonym ProgramResult = "(u64, EbpfError) StableResult"

fun is_ok :: "('t, 'e) StableResult \<Rightarrow> bool" where
  "is_ok (Ok _) = True"
| "is_ok (Err _) = False"

fun is_err :: "('t, 'e) StableResult \<Rightarrow> bool" where
  "is_err (Ok _) = False"
| "is_err (Err _) = True"

fun unwrap :: "('t, 'e) StableResult \<Rightarrow> 't option" where
  "unwrap (Ok v) = Some v"
| "unwrap (Err _) = None"

fun unwrap_err :: "('t, 'e) StableResult \<Rightarrow> 'e option" where
  "unwrap_err (Ok _) = None"
| "unwrap_err (Err e) = Some e"

fun result_map :: "('t \<Rightarrow> 'u) \<Rightarrow> ('t, 'e) StableResult \<Rightarrow> ('u, 'e) StableResult" where
  "result_map f (Ok v) = Ok (f v)"
| "result_map f (Err e) = Err e"

fun result_map_err :: "('e \<Rightarrow> 'f) \<Rightarrow> ('t, 'e) StableResult \<Rightarrow> ('t, 'f) StableResult" where
  "result_map_err f (Ok v) = Ok v"
| "result_map_err f (Err e) = Err (f e)"

text \<open>The discriminant is the first word of the \<open>repr(C, u64)\<close> layout: the constructor's number.\<close>

fun discriminant :: "('t, 'e) StableResult \<Rightarrow> u64" where
  "discriminant (Ok _) = 0"
| "discriminant (Err _) = 1"

text \<open>Results of the functions that return Rust's own \<open>Result\<close> are sums, \<open>Inl\<close> the error; the
  two \<open>From\<close> implementations convert between the types.\<close>

fun result_from :: "('t, 'e) StableResult \<Rightarrow> 'e + 't" where
  "result_from (Ok v) = Inr v"
| "result_from (Err e) = Inl e"

fun stable_result_from :: "'e + 't \<Rightarrow> ('t, 'e) StableResult" where
  "stable_result_from (Inr v) = Ok v"
| "stable_result_from (Inl e) = Err e"

text \<open>The \<open>?\<close> operator on \<open>Result\<close>.\<close>

definition try_op :: "'e + 'a \<Rightarrow> ('a \<Rightarrow> 'e + 'b) \<Rightarrow> 'e + 'b" where
  "try_op r f = (case r of Inl e \<Rightarrow> Inl e | Inr v \<Rightarrow> f v)"

lemma try_op_simps [simp]: "try_op (Inl e) f = Inl e" "try_op (Inr v) f = f v"
  by (simp_all add: try_op_def)

lemma try_op_eq_Inr: "try_op r f = Inr y \<longleftrightarrow> (\<exists>v. r = Inr v \<and> f v = Inr y)"
  by (cases r) simp_all

text \<open>The same operator on results of functions that can go wrong.\<close>

definition try_bind :: "('e + 'a) option \<Rightarrow> ('a \<Rightarrow> ('e + 'b) option) \<Rightarrow> ('e + 'b) option" where
  "try_bind r f = (case r of None \<Rightarrow> None | Some (Inl e) \<Rightarrow> Some (Inl e) | Some (Inr v) \<Rightarrow> f v)"

lemma try_bind_simps [simp]:
  "try_bind None f = None" "try_bind (Some (Inl e)) f = Some (Inl e)" "try_bind (Some (Inr v)) f = f v"
  by (simp_all add: try_bind_def)

lemma try_bind_cong [fundef_cong]:
  "r = r' \<Longrightarrow> (\<And>v. r' = Some (Inr v) \<Longrightarrow> f v = g v) \<Longrightarrow> try_bind r f = try_bind r' g"
  by (auto simp: try_bind_def split: option.splits sum.splits)

lemma map_sum_eq_Inr: "map_sum f g z = Inr y \<longleftrightarrow> (\<exists>v. z = Inr v \<and> y = g v)"
  by (cases z) auto

lemma try_bind_Inr: "try_bind r f = Some (Inr y) \<longleftrightarrow> (\<exists>v. r = Some (Inr v) \<and> f v = Some (Inr y))"
  by (auto simp: try_bind_def split: option.splits sum.splits)

lemma try_bind_Inl:
  "try_bind r f = Some (Inl e) \<longleftrightarrow> r = Some (Inl e) \<or> (\<exists>v. r = Some (Inr v) \<and> f v = Some (Inl e))"
  by (auto simp: try_bind_def split: option.splits sum.splits)

lemma try_bind_None: "try_bind r f = None \<longleftrightarrow> r = None \<or> (\<exists>v. r = Some (Inr v) \<and> f v = None)"
  by (auto simp: try_bind_def split: option.splits sum.splits)

end
