(* ===== verification/Elf_Consts.thy ===== *)
theory Elf_Consts
  imports Errors
begin

text \<open>
  The constants of \<^verbatim>\<open>src/src/elf_parser/consts.rs\<close> and the integer types of
  \<^verbatim>\<open>src/src/elf_parser/types.rs\<close>.  The collection \<open>elf_const\<close> gives the values to \<open>simp\<close>.
\<close>

type_synonym Elf64Half = u16
type_synonym Elf64Word = u32
type_synonym Elf64Xword = u64
type_synonym Elf64Addr = u64
type_synonym Elf64Off = u64
type_synonym Elf64Section = u16

named_theorems elf_const "values of the ELF constants"

definition ELFMAG :: bytes where
  "ELFMAG = [0x7f, 0x45, 0x4c, 0x46]"

definition ELFCLASSNONE :: u8 where
  "ELFCLASSNONE = 0"

definition ELFCLASS32 :: u8 where
  "ELFCLASS32 = 1"

definition ELFCLASS64 :: u8 where
  "ELFCLASS64 = 2"

definition ELFDATANONE :: u8 where
  "ELFDATANONE = 0"

definition ELFDATA2LSB :: u8 where
  "ELFDATA2LSB = 1"

definition ELFDATA2MSB :: u8 where
  "ELFDATA2MSB = 2"

definition EI_OSABI :: u8 where
  "EI_OSABI = 7"

definition ELFOSABI_NONE :: u8 where
  "ELFOSABI_NONE = 0"

definition EM_BPF :: Elf64Half where
  "EM_BPF = 247"

definition EM_SBPF :: Elf64Half where
  "EM_SBPF = 263"

definition ET_NONE :: Elf64Half where
  "ET_NONE = 0"

definition ET_REL :: Elf64Half where
  "ET_REL = 1"

definition ET_EXEC :: Elf64Half where
  "ET_EXEC = 2"

definition ET_DYN :: Elf64Half where
  "ET_DYN = 3"

definition ET_CORE :: Elf64Half where
  "ET_CORE = 4"

definition EV_NONE :: Elf64Word where
  "EV_NONE = 0"

definition EV_CURRENT :: Elf64Word where
  "EV_CURRENT = 1"

definition PT_NULL :: Elf64Word where
  "PT_NULL = 0"

definition PT_LOAD :: Elf64Word where
  "PT_LOAD = 1"

definition PT_DYNAMIC :: Elf64Word where
  "PT_DYNAMIC = 2"

definition PT_INTERP :: Elf64Word where
  "PT_INTERP = 3"

definition PT_NOTE :: Elf64Word where
  "PT_NOTE = 4"

definition PT_SHLIB :: Elf64Word where
  "PT_SHLIB = 5"

definition PT_PHDR :: Elf64Word where
  "PT_PHDR = 6"

definition PT_TLS :: Elf64Word where
  "PT_TLS = 7"

definition PT_GNU_EH_FRAME :: Elf64Word where
  "PT_GNU_EH_FRAME = 0x6474e550"

definition PT_GNU_STACK :: Elf64Word where
  "PT_GNU_STACK = 0x6474e551"

definition PF_X :: Elf64Word where
  "PF_X = 0x1"

definition PF_W :: Elf64Word where
  "PF_W = 0x2"

definition PF_R :: Elf64Word where
  "PF_R = 0x4"

definition SHT_NULL :: Elf64Word where
  "SHT_NULL = 0"

definition SHT_PROGBITS :: Elf64Word where
  "SHT_PROGBITS = 1"

definition SHT_SYMTAB :: Elf64Word where
  "SHT_SYMTAB = 2"

definition SHT_STRTAB :: Elf64Word where
  "SHT_STRTAB = 3"

definition SHT_RELA :: Elf64Word where
  "SHT_RELA = 4"

definition SHT_HASH :: Elf64Word where
  "SHT_HASH = 5"

definition SHT_DYNAMIC :: Elf64Word where
  "SHT_DYNAMIC = 6"

definition SHT_NOTE :: Elf64Word where
  "SHT_NOTE = 7"

definition SHT_NOBITS :: Elf64Word where
  "SHT_NOBITS = 8"

definition SHT_REL :: Elf64Word where
  "SHT_REL = 9"

definition SHT_SHLIB :: Elf64Word where
  "SHT_SHLIB = 10"

definition SHT_DYNSYM :: Elf64Word where
  "SHT_DYNSYM = 11"

definition SHT_INIT_ARRAY :: Elf64Word where
  "SHT_INIT_ARRAY = 14"

definition SHT_FINI_ARRAY :: Elf64Word where
  "SHT_FINI_ARRAY = 15"

definition SHT_PREINIT_ARRAY :: Elf64Word where
  "SHT_PREINIT_ARRAY = 16"

definition SHT_GROUP :: Elf64Word where
  "SHT_GROUP = 17"

definition SHT_SYMTAB_SHNDX :: Elf64Word where
  "SHT_SYMTAB_SHNDX = 18"

definition SHF_WRITE :: Elf64Xword where
  "SHF_WRITE = 0x1"

definition SHF_ALLOC :: Elf64Xword where
  "SHF_ALLOC = 0x2"

definition SHF_EXECINSTR :: Elf64Xword where
  "SHF_EXECINSTR = 0x4"

definition SHF_MERGE :: Elf64Xword where
  "SHF_MERGE = 0x10"

definition SHF_STRINGS :: Elf64Xword where
  "SHF_STRINGS = 0x20"

definition SHF_INFO_LINK :: Elf64Xword where
  "SHF_INFO_LINK = 0x40"

definition SHF_LINK_ORDER :: Elf64Xword where
  "SHF_LINK_ORDER = 0x80"

definition SHF_OS_NONCONFORMING :: Elf64Xword where
  "SHF_OS_NONCONFORMING = 0x100"

definition SHF_GROUP :: Elf64Xword where
  "SHF_GROUP = 0x200"

definition SHF_TLS :: Elf64Xword where
  "SHF_TLS = 0x400"

definition SHN_UNDEF :: Elf64Half where
  "SHN_UNDEF = 0"

definition DT_NULL :: Elf64Xword where
  "DT_NULL = 0"

definition DT_NEEDED :: Elf64Xword where
  "DT_NEEDED = 1"

definition DT_PLTRELSZ :: Elf64Xword where
  "DT_PLTRELSZ = 2"

definition DT_PLTGOT :: Elf64Xword where
  "DT_PLTGOT = 3"

definition DT_HASH :: Elf64Xword where
  "DT_HASH = 4"

definition DT_STRTAB :: Elf64Xword where
  "DT_STRTAB = 5"

definition DT_SYMTAB :: Elf64Xword where
  "DT_SYMTAB = 6"

definition DT_RELA :: Elf64Xword where
  "DT_RELA = 7"

definition DT_RELASZ :: Elf64Xword where
  "DT_RELASZ = 8"

definition DT_RELAENT :: Elf64Xword where
  "DT_RELAENT = 9"

definition DT_STRSZ :: Elf64Xword where
  "DT_STRSZ = 10"

definition DT_SYMENT :: Elf64Xword where
  "DT_SYMENT = 11"

definition DT_INIT :: Elf64Xword where
  "DT_INIT = 12"

definition DT_FINI :: Elf64Xword where
  "DT_FINI = 13"

definition DT_SONAME :: Elf64Xword where
  "DT_SONAME = 14"

definition DT_RPATH :: Elf64Xword where
  "DT_RPATH = 15"

definition DT_SYMBOLIC :: Elf64Xword where
  "DT_SYMBOLIC = 16"

definition DT_REL :: Elf64Xword where
  "DT_REL = 17"

definition DT_RELSZ :: Elf64Xword where
  "DT_RELSZ = 18"

definition DT_RELENT :: Elf64Xword where
  "DT_RELENT = 19"

definition DT_PLTREL :: Elf64Xword where
  "DT_PLTREL = 20"

definition DT_DEBUG :: Elf64Xword where
  "DT_DEBUG = 21"

definition DT_TEXTREL :: Elf64Xword where
  "DT_TEXTREL = 22"

definition DT_JMPREL :: Elf64Xword where
  "DT_JMPREL = 23"

definition DT_BIND_NOW :: Elf64Xword where
  "DT_BIND_NOW = 24"

definition DT_INIT_ARRAY :: Elf64Xword where
  "DT_INIT_ARRAY = 25"

definition DT_FINI_ARRAY :: Elf64Xword where
  "DT_FINI_ARRAY = 26"

definition DT_INIT_ARRAYSZ :: Elf64Xword where
  "DT_INIT_ARRAYSZ = 27"

definition DT_FINI_ARRAYSZ :: Elf64Xword where
  "DT_FINI_ARRAYSZ = 28"

definition DT_RUNPATH :: Elf64Xword where
  "DT_RUNPATH = 29"

definition DT_FLAGS :: Elf64Xword where
  "DT_FLAGS = 30"

definition DT_ENCODING :: Elf64Xword where
  "DT_ENCODING = 32"

definition DT_PREINIT_ARRAY :: Elf64Xword where
  "DT_PREINIT_ARRAY = 32"

definition DT_PREINIT_ARRAYSZ :: Elf64Xword where
  "DT_PREINIT_ARRAYSZ = 33"

definition DT_SYMTAB_SHNDX :: Elf64Xword where
  "DT_SYMTAB_SHNDX = 34"

definition DT_NUM :: usize where
  "DT_NUM = 35"

definition STT_NOTYPE :: u8 where
  "STT_NOTYPE = 0"

definition STT_OBJECT :: u8 where
  "STT_OBJECT = 1"

definition STT_FUNC :: u8 where
  "STT_FUNC = 2"

definition STT_SECTION :: u8 where
  "STT_SECTION = 3"

definition STT_FILE :: u8 where
  "STT_FILE = 4"

definition STT_COMMON :: u8 where
  "STT_COMMON = 5"

definition STT_TLS :: u8 where
  "STT_TLS = 6"

definition STT_NUM :: u8 where
  "STT_NUM = 7"

definition STT_LOOS :: u8 where
  "STT_LOOS = 10"

definition STT_GNU_IFUNC :: u8 where
  "STT_GNU_IFUNC = 10"

definition STT_HIOS :: u8 where
  "STT_HIOS = 12"

definition STT_LOPROC :: u8 where
  "STT_LOPROC = 13"

definition STT_HIPROC :: u8 where
  "STT_HIPROC = 15"

definition R_X86_64_NONE :: u32 where
  "R_X86_64_NONE = 0"

definition R_X86_64_64 :: u32 where
  "R_X86_64_64 = 1"

definition R_X86_64_PC32 :: u32 where
  "R_X86_64_PC32 = 2"

definition R_X86_64_GOT32 :: u32 where
  "R_X86_64_GOT32 = 3"

definition R_X86_64_PLT32 :: u32 where
  "R_X86_64_PLT32 = 4"

definition R_X86_64_COPY :: u32 where
  "R_X86_64_COPY = 5"

definition R_X86_64_GLOB_DAT :: u32 where
  "R_X86_64_GLOB_DAT = 6"

definition R_X86_64_JUMP_SLOT :: u32 where
  "R_X86_64_JUMP_SLOT = 7"

definition R_X86_64_RELATIVE :: u32 where
  "R_X86_64_RELATIVE = 8"

definition R_X86_64_GOTPCREL :: u32 where
  "R_X86_64_GOTPCREL = 9"

definition R_X86_64_32 :: u32 where
  "R_X86_64_32 = 10"

definition R_X86_64_32S :: u32 where
  "R_X86_64_32S = 11"

definition R_X86_64_16 :: u32 where
  "R_X86_64_16 = 12"

definition R_X86_64_PC16 :: u32 where
  "R_X86_64_PC16 = 13"

definition R_X86_64_8 :: u32 where
  "R_X86_64_8 = 14"

definition R_X86_64_PC8 :: u32 where
  "R_X86_64_PC8 = 15"

definition R_X86_64_DTPMOD64 :: u32 where
  "R_X86_64_DTPMOD64 = 16"

definition R_X86_64_DTPOFF64 :: u32 where
  "R_X86_64_DTPOFF64 = 17"

definition R_X86_64_TPOFF64 :: u32 where
  "R_X86_64_TPOFF64 = 18"

definition R_X86_64_TLSGD :: u32 where
  "R_X86_64_TLSGD = 19"

definition R_X86_64_TLSLD :: u32 where
  "R_X86_64_TLSLD = 20"

definition R_X86_64_DTPOFF32 :: u32 where
  "R_X86_64_DTPOFF32 = 21"

definition R_X86_64_GOTTPOFF :: u32 where
  "R_X86_64_GOTTPOFF = 22"

definition R_X86_64_TPOFF32 :: u32 where
  "R_X86_64_TPOFF32 = 23"

definition R_X86_64_PC64 :: u32 where
  "R_X86_64_PC64 = 24"

definition R_X86_64_GOTOFF64 :: u32 where
  "R_X86_64_GOTOFF64 = 25"

definition R_X86_64_GOTPC32 :: u32 where
  "R_X86_64_GOTPC32 = 26"

definition R_X86_64_GOT64 :: u32 where
  "R_X86_64_GOT64 = 27"

definition R_X86_64_GOTPCREL64 :: u32 where
  "R_X86_64_GOTPCREL64 = 28"

definition R_X86_64_GOTPC64 :: u32 where
  "R_X86_64_GOTPC64 = 29"

definition R_X86_64_GOTPLT64 :: u32 where
  "R_X86_64_GOTPLT64 = 30"

definition R_X86_64_PLTOFF64 :: u32 where
  "R_X86_64_PLTOFF64 = 31"

definition R_X86_64_SIZE32 :: u32 where
  "R_X86_64_SIZE32 = 32"

definition R_X86_64_SIZE64 :: u32 where
  "R_X86_64_SIZE64 = 33"

definition R_X86_64_GOTPC32_TLSDESC :: u32 where
  "R_X86_64_GOTPC32_TLSDESC = 34"

definition R_X86_64_TLSDESC_CALL :: u32 where
  "R_X86_64_TLSDESC_CALL = 35"

definition R_X86_64_TLSDESC :: u32 where
  "R_X86_64_TLSDESC = 36"

definition R_X86_64_IRELATIVE :: u32 where
  "R_X86_64_IRELATIVE = 37"

definition R_X86_64_RELATIVE64 :: u32 where
  "R_X86_64_RELATIVE64 = 38"

definition R_X86_64_GOTPCRELX :: u32 where
  "R_X86_64_GOTPCRELX = 41"

definition R_X86_64_REX_GOTPCRELX :: u32 where
  "R_X86_64_REX_GOTPCRELX = 42"

definition R_X86_64_NUM :: u32 where
  "R_X86_64_NUM = 43"

lemmas [elf_const] =
  ELFMAG_def ELFCLASSNONE_def ELFCLASS32_def ELFCLASS64_def ELFDATANONE_def ELFDATA2LSB_def
  ELFDATA2MSB_def EI_OSABI_def ELFOSABI_NONE_def EM_BPF_def EM_SBPF_def ET_NONE_def ET_REL_def
  ET_EXEC_def ET_DYN_def ET_CORE_def EV_NONE_def EV_CURRENT_def PT_NULL_def PT_LOAD_def
  PT_DYNAMIC_def PT_INTERP_def PT_NOTE_def PT_SHLIB_def PT_PHDR_def PT_TLS_def
  PT_GNU_EH_FRAME_def PT_GNU_STACK_def PF_X_def PF_W_def PF_R_def SHT_NULL_def SHT_PROGBITS_def
  SHT_SYMTAB_def SHT_STRTAB_def SHT_RELA_def SHT_HASH_def SHT_DYNAMIC_def SHT_NOTE_def
  SHT_NOBITS_def SHT_REL_def SHT_SHLIB_def SHT_DYNSYM_def SHT_INIT_ARRAY_def SHT_FINI_ARRAY_def
  SHT_PREINIT_ARRAY_def SHT_GROUP_def SHT_SYMTAB_SHNDX_def SHF_WRITE_def SHF_ALLOC_def
  SHF_EXECINSTR_def SHF_MERGE_def SHF_STRINGS_def SHF_INFO_LINK_def SHF_LINK_ORDER_def
  SHF_OS_NONCONFORMING_def SHF_GROUP_def SHF_TLS_def SHN_UNDEF_def DT_NULL_def DT_NEEDED_def
  DT_PLTRELSZ_def DT_PLTGOT_def DT_HASH_def DT_STRTAB_def DT_SYMTAB_def DT_RELA_def DT_RELASZ_def
  DT_RELAENT_def DT_STRSZ_def DT_SYMENT_def DT_INIT_def DT_FINI_def DT_SONAME_def DT_RPATH_def
  DT_SYMBOLIC_def DT_REL_def DT_RELSZ_def DT_RELENT_def DT_PLTREL_def DT_DEBUG_def DT_TEXTREL_def
  DT_JMPREL_def DT_BIND_NOW_def DT_INIT_ARRAY_def DT_FINI_ARRAY_def DT_INIT_ARRAYSZ_def
  DT_FINI_ARRAYSZ_def DT_RUNPATH_def DT_FLAGS_def DT_ENCODING_def DT_PREINIT_ARRAY_def
  DT_PREINIT_ARRAYSZ_def DT_SYMTAB_SHNDX_def DT_NUM_def STT_NOTYPE_def STT_OBJECT_def
  STT_FUNC_def STT_SECTION_def STT_FILE_def STT_COMMON_def STT_TLS_def STT_NUM_def STT_LOOS_def
  STT_GNU_IFUNC_def STT_HIOS_def STT_LOPROC_def STT_HIPROC_def R_X86_64_NONE_def R_X86_64_64_def
  R_X86_64_PC32_def R_X86_64_GOT32_def R_X86_64_PLT32_def R_X86_64_COPY_def R_X86_64_GLOB_DAT_def
  R_X86_64_JUMP_SLOT_def R_X86_64_RELATIVE_def R_X86_64_GOTPCREL_def R_X86_64_32_def
  R_X86_64_32S_def R_X86_64_16_def R_X86_64_PC16_def R_X86_64_8_def R_X86_64_PC8_def
  R_X86_64_DTPMOD64_def R_X86_64_DTPOFF64_def R_X86_64_TPOFF64_def R_X86_64_TLSGD_def
  R_X86_64_TLSLD_def R_X86_64_DTPOFF32_def R_X86_64_GOTTPOFF_def R_X86_64_TPOFF32_def
  R_X86_64_PC64_def R_X86_64_GOTOFF64_def R_X86_64_GOTPC32_def R_X86_64_GOT64_def
  R_X86_64_GOTPCREL64_def R_X86_64_GOTPC64_def R_X86_64_GOTPLT64_def R_X86_64_PLTOFF64_def
  R_X86_64_SIZE32_def R_X86_64_SIZE64_def R_X86_64_GOTPC32_TLSDESC_def R_X86_64_TLSDESC_CALL_def
  R_X86_64_TLSDESC_def R_X86_64_IRELATIVE_def R_X86_64_RELATIVE64_def R_X86_64_GOTPCRELX_def
  R_X86_64_REX_GOTPCRELX_def R_X86_64_NUM_def

end
