(* ===== verification/Elf_Types.thy ===== *)
theory Elf_Types
  imports Elf_Consts
begin

text \<open>
  The structures of \<^verbatim>\<open>src/src/elf_parser/types.rs\<close> with their \<open>repr(C)\<close> layouts.  The parser casts
  pointers into the file to references of these types, so a type is described by its size, its
  alignment and the value its bytes stand for.  The locale \<open>plain_data\<close> states what makes such a
  cast sound: every byte string of the right size is the image of exactly one value, so there are
  no invalid bit patterns and no padding.  It is interpreted for every structure of the file format.
\<close>

section \<open>Layouts\<close>

record 't repr_c =
  size_of :: usize
  align_of :: usize
  from_bytes :: "bytes \<Rightarrow> 't"

text \<open>The little-endian field of \<open>n\<close> bytes at offset \<open>i\<close>.\<close>

definition field_at :: "nat \<Rightarrow> nat \<Rightarrow> bytes \<Rightarrow> 'a::len word" where
  "field_at i n bs = le_word (take n (drop i bs))"

text \<open>\<open>slice::from_raw_parts\<close> on a pointer into a buffer: undefined unless the pointer is aligned
  and the elements lie inside the buffer.\<close>

definition slice_from_raw_parts :: "'t repr_c \<Rightarrow> u64 \<times> bytes \<Rightarrow> usize \<Rightarrow> 't list option" where
  "slice_from_raw_parts T b n =
     (if unat (fst b) mod align_of T = 0 \<and> n * size_of T \<le> length (snd b)
      then Some (map (\<lambda>i. from_bytes T (take (size_of T) (drop (i * size_of T) (snd b)))) [0..<n])
      else None)"

section \<open>Structures\<close>

record ElfIdent =
  ei_mag :: bytes
  ei_class :: u8
  ei_data :: u8
  ei_version :: u8
  ei_osabi :: u8
  ei_abiversion :: u8
  ei_pad :: bytes

record Elf64Ehdr =
  e_ident :: ElfIdent
  e_type :: Elf64Half
  e_machine :: Elf64Half
  e_version :: Elf64Word
  e_entry :: Elf64Addr
  e_phoff :: Elf64Off
  e_shoff :: Elf64Off
  e_flags :: Elf64Word
  e_ehsize :: Elf64Half
  e_phentsize :: Elf64Half
  e_phnum :: Elf64Half
  e_shentsize :: Elf64Half
  e_shnum :: Elf64Half
  e_shstrndx :: Elf64Half

record Elf64Phdr =
  p_type :: Elf64Word
  p_flags :: Elf64Word
  p_offset :: Elf64Off
  p_vaddr :: Elf64Addr
  p_paddr :: Elf64Addr
  p_filesz :: Elf64Xword
  p_memsz :: Elf64Xword
  p_align :: Elf64Xword

record Elf64Shdr =
  sh_name :: Elf64Word
  sh_type :: Elf64Word
  sh_flags :: Elf64Xword
  sh_addr :: Elf64Addr
  sh_offset :: Elf64Off
  sh_size :: Elf64Xword
  sh_link :: Elf64Word
  sh_info :: Elf64Word
  sh_addralign :: Elf64Xword
  sh_entsize :: Elf64Xword

record Elf64Sym =
  st_name :: Elf64Word
  st_info :: u8
  st_other :: u8
  st_shndx :: Elf64Section
  st_value :: Elf64Addr
  st_size :: Elf64Xword

record Elf64Dyn =
  d_tag :: Elf64Xword
  d_val :: Elf64Xword

record Elf64Rel =
  r_offset :: Elf64Addr
  r_info :: Elf64Xword

section \<open>The layout of each structure\<close>

definition ElfIdent_from_bytes :: "bytes \<Rightarrow> ElfIdent" where
  "ElfIdent_from_bytes bs =
     \<lparr>ei_mag = take 4 bs, ei_class = bs ! 4, ei_data = bs ! 5, ei_version = bs ! 6,
      ei_osabi = bs ! 7, ei_abiversion = bs ! 8, ei_pad = take 7 (drop 9 bs)\<rparr>"

definition Elf64Ehdr_repr :: "Elf64Ehdr repr_c" where
  "Elf64Ehdr_repr = \<lparr>size_of = 64, align_of = 8, from_bytes = (\<lambda>bs.
     \<lparr>e_ident = ElfIdent_from_bytes (take 16 bs),
      e_type = field_at 16 2 bs, e_machine = field_at 18 2 bs, e_version = field_at 20 4 bs,
      e_entry = field_at 24 8 bs, e_phoff = field_at 32 8 bs, e_shoff = field_at 40 8 bs,
      e_flags = field_at 48 4 bs, e_ehsize = field_at 52 2 bs, e_phentsize = field_at 54 2 bs,
      e_phnum = field_at 56 2 bs, e_shentsize = field_at 58 2 bs, e_shnum = field_at 60 2 bs,
      e_shstrndx = field_at 62 2 bs\<rparr>)\<rparr>"

definition Elf64Phdr_repr :: "Elf64Phdr repr_c" where
  "Elf64Phdr_repr = \<lparr>size_of = 56, align_of = 8, from_bytes = (\<lambda>bs.
     \<lparr>p_type = field_at 0 4 bs, p_flags = field_at 4 4 bs, p_offset = field_at 8 8 bs,
      p_vaddr = field_at 16 8 bs, p_paddr = field_at 24 8 bs, p_filesz = field_at 32 8 bs,
      p_memsz = field_at 40 8 bs, p_align = field_at 48 8 bs\<rparr>)\<rparr>"

definition Elf64Shdr_repr :: "Elf64Shdr repr_c" where
  "Elf64Shdr_repr = \<lparr>size_of = 64, align_of = 8, from_bytes = (\<lambda>bs.
     \<lparr>sh_name = field_at 0 4 bs, sh_type = field_at 4 4 bs, sh_flags = field_at 8 8 bs,
      sh_addr = field_at 16 8 bs, sh_offset = field_at 24 8 bs, sh_size = field_at 32 8 bs,
      sh_link = field_at 40 4 bs, sh_info = field_at 44 4 bs, sh_addralign = field_at 48 8 bs,
      sh_entsize = field_at 56 8 bs\<rparr>)\<rparr>"

definition Elf64Sym_repr :: "Elf64Sym repr_c" where
  "Elf64Sym_repr = \<lparr>size_of = 24, align_of = 8, from_bytes = (\<lambda>bs.
     \<lparr>st_name = field_at 0 4 bs, st_info = field_at 4 1 bs, st_other = field_at 5 1 bs,
      st_shndx = field_at 6 2 bs, st_value = field_at 8 8 bs, st_size = field_at 16 8 bs\<rparr>)\<rparr>"

definition Elf64Dyn_repr :: "Elf64Dyn repr_c" where
  "Elf64Dyn_repr = \<lparr>size_of = 16, align_of = 8, from_bytes = (\<lambda>bs.
     \<lparr>d_tag = field_at 0 8 bs, d_val = field_at 8 8 bs\<rparr>)\<rparr>"

definition Elf64Rel_repr :: "Elf64Rel repr_c" where
  "Elf64Rel_repr = \<lparr>size_of = 16, align_of = 8, from_bytes = (\<lambda>bs.
     \<lparr>r_offset = field_at 0 8 bs, r_info = field_at 8 8 bs\<rparr>)\<rparr>"

section \<open>The images of values\<close>

definition ElfIdent_bytes :: "ElfIdent \<Rightarrow> bytes" where
  "ElfIdent_bytes x =
     ei_mag x @ [ei_class x, ei_data x, ei_version x, ei_osabi x, ei_abiversion x] @ ei_pad x"

definition Elf64Ehdr_bytes :: "Elf64Ehdr \<Rightarrow> bytes" where
  "Elf64Ehdr_bytes x =
     ElfIdent_bytes (e_ident x) @ le_bytes 2 (e_type x) @ le_bytes 2 (e_machine x) @
     le_bytes 4 (e_version x) @ le_bytes 8 (e_entry x) @ le_bytes 8 (e_phoff x) @
     le_bytes 8 (e_shoff x) @ le_bytes 4 (e_flags x) @ le_bytes 2 (e_ehsize x) @
     le_bytes 2 (e_phentsize x) @ le_bytes 2 (e_phnum x) @ le_bytes 2 (e_shentsize x) @
     le_bytes 2 (e_shnum x) @ le_bytes 2 (e_shstrndx x)"

definition Elf64Phdr_bytes :: "Elf64Phdr \<Rightarrow> bytes" where
  "Elf64Phdr_bytes x =
     le_bytes 4 (p_type x) @ le_bytes 4 (p_flags x) @ le_bytes 8 (p_offset x) @
     le_bytes 8 (p_vaddr x) @ le_bytes 8 (p_paddr x) @ le_bytes 8 (p_filesz x) @
     le_bytes 8 (p_memsz x) @ le_bytes 8 (p_align x)"

definition Elf64Shdr_bytes :: "Elf64Shdr \<Rightarrow> bytes" where
  "Elf64Shdr_bytes x =
     le_bytes 4 (sh_name x) @ le_bytes 4 (sh_type x) @ le_bytes 8 (sh_flags x) @
     le_bytes 8 (sh_addr x) @ le_bytes 8 (sh_offset x) @ le_bytes 8 (sh_size x) @
     le_bytes 4 (sh_link x) @ le_bytes 4 (sh_info x) @ le_bytes 8 (sh_addralign x) @
     le_bytes 8 (sh_entsize x)"

definition Elf64Sym_bytes :: "Elf64Sym \<Rightarrow> bytes" where
  "Elf64Sym_bytes x =
     le_bytes 4 (st_name x) @ le_bytes 1 (st_info x) @ le_bytes 1 (st_other x) @
     le_bytes 2 (st_shndx x) @ le_bytes 8 (st_value x) @ le_bytes 8 (st_size x)"

definition Elf64Dyn_bytes :: "Elf64Dyn \<Rightarrow> bytes" where
  "Elf64Dyn_bytes x = le_bytes 8 (d_tag x) @ le_bytes 8 (d_val x)"

definition Elf64Rel_bytes :: "Elf64Rel \<Rightarrow> bytes" where
  "Elf64Rel_bytes x = le_bytes 8 (r_offset x) @ le_bytes 8 (r_info x)"

section \<open>Sound casts\<close>

text \<open>\<open>valid\<close> restricts the image law to the values of the Rust type: an array field has its
  declared length.\<close>

locale plain_data =
  fixes T :: "'t repr_c" and img :: "'t \<Rightarrow> bytes" and valid :: "'t \<Rightarrow> bool"
  assumes size_pos: "0 < size_of T"
    and align_pos: "0 < align_of T"
    and align_dvd: "align_of T dvd size_of T"
    and length_image: "valid x \<Longrightarrow> length (img x) = size_of T"
    and from_bytes_image: "valid x \<Longrightarrow> from_bytes T (img x) = x"
    and image_from_bytes: "length bs = size_of T \<Longrightarrow> img (from_bytes T bs) = bs"
    and valid_from_bytes: "length bs = size_of T \<Longrightarrow> valid (from_bytes T bs)"
begin

lemma concat_chunks:
  "n * k \<le> length bs \<Longrightarrow> concat (map (\<lambda>i. take k (drop (i * k) bs)) [0..<n]) = take (n * k) bs"
proof (induction n)
  case (Suc n)
  then have "concat (map (\<lambda>i. take k (drop (i * k) bs)) [0..<n]) = take (n * k) bs" by simp
  then show ?case by (simp add: take_add[symmetric] add.commute)
qed simp

text \<open>A cast slice is the table whose image is the bytes it covers, and nothing else is.\<close>

lemma raw_parts_image:
  assumes "slice_from_raw_parts T b n = Some ts"
  shows "concat (map img ts) = take (n * size_of T) (snd b)" and "length ts = n"
    and "list_all valid ts"
proof -
  let ?k = "size_of T" and ?c = "\<lambda>i. take (size_of T) (drop (i * size_of T) (snd b))"
  from assms have n: "n * ?k \<le> length (snd b)" and ts: "ts = map (\<lambda>i. from_bytes T (?c i)) [0..<n]"
    by (auto simp: slice_from_raw_parts_def split: if_splits)
  have len: "length (?c i) = ?k" if "i < n" for i
  proof -
    have "i * ?k + ?k \<le> n * ?k" using that mult_le_mono1[of "Suc i" n ?k] by simp
    then show ?thesis using n by simp
  qed
  then have "map img ts = map ?c [0..<n]" by (simp add: ts image_from_bytes)
  then show "concat (map img ts) = take (n * ?k) (snd b)" using concat_chunks[OF n] by simp
  show "length ts = n" by (simp add: ts)
  show "list_all valid ts" using len by (auto simp: ts list_all_iff intro: valid_from_bytes)
qed

lemma chunk_of_image:
  "list_all valid ts \<Longrightarrow> i < length ts \<Longrightarrow>
     take (size_of T) (drop (i * size_of T) (concat (map img ts))) = img (ts ! i)"
proof (induction ts arbitrary: i)
  case (Cons t ts)
  then show ?case by (cases i) (simp_all add: length_image)
qed simp

lemma length_concat_image: "list_all valid ts \<Longrightarrow> length (concat (map img ts)) = length ts * size_of T"
  by (induction ts) (simp_all add: length_image)

lemma raw_parts_of_image:
  assumes "list_all valid ts" and "unat a mod align_of T = 0"
  shows "slice_from_raw_parts T (a, concat (map img ts)) (length ts) = Some ts"
proof -
  have "map (\<lambda>i. from_bytes T (take (size_of T) (drop (i * size_of T) (concat (map img ts))))) [0..<length ts] = ts"
    using assms(1) by (intro nth_equalityI) (auto simp: chunk_of_image from_bytes_image list_all_length)
  then show ?thesis
    using assms by (simp add: slice_from_raw_parts_def length_concat_image)
qed

lemma raw_parts_defined:
  assumes "unat (fst b) mod align_of T = 0" and "length (snd b) mod size_of T = 0"
  shows "\<exists>ts. slice_from_raw_parts T b (length (snd b) div size_of T) = Some ts"
  using assms by (simp add: slice_from_raw_parts_def)

end

lemma field_at_append:
  "length a \<le> i \<Longrightarrow> field_at i n (a @ b) = field_at (i - length a) n b"
  "length a = n \<Longrightarrow> field_at 0 n (a @ b) = le_word a"
  "length a = n \<Longrightarrow> field_at 0 n a = le_word a"
  by (simp_all add: field_at_def)

lemma le_bytes_field_at:
  "i + n \<le> length bs \<Longrightarrow> 8 * n \<le> LENGTH('a::len) \<Longrightarrow>
     le_bytes n (field_at i n bs :: 'a word) = take n (drop i bs)"
  unfolding field_at_def by (rule le_bytes_le_word_numeral) auto

lemma take_drop_rest: "j = i + n \<Longrightarrow> take n (drop i bs) @ drop j bs = drop i bs"
  by (metis add.commute append_take_drop_id drop_drop)

lemma nth_drop_rest: "i < length bs \<Longrightarrow> j = Suc i \<Longrightarrow> bs ! i # drop j bs = drop i bs"
  by (simp add: Cons_nth_drop_Suc)

lemmas repr_defs = Elf64Ehdr_repr_def Elf64Phdr_repr_def Elf64Shdr_repr_def
  Elf64Sym_repr_def Elf64Dyn_repr_def Elf64Rel_repr_def

lemma repr_sizes [simp]:
  "size_of Elf64Ehdr_repr = 64" "align_of Elf64Ehdr_repr = 8"
  "size_of Elf64Phdr_repr = 56" "align_of Elf64Phdr_repr = 8"
  "size_of Elf64Shdr_repr = 64" "align_of Elf64Shdr_repr = 8"
  "size_of Elf64Sym_repr = 24" "align_of Elf64Sym_repr = 8"
  "size_of Elf64Dyn_repr = 16" "align_of Elf64Dyn_repr = 8"
  "size_of Elf64Rel_repr = 16" "align_of Elf64Rel_repr = 8"
  by (simp_all add: repr_defs)

interpretation phdr: plain_data Elf64Phdr_repr Elf64Phdr_bytes "\<lambda>_. True"
  by unfold_locales (auto simp: Elf64Phdr_repr_def Elf64Phdr_bytes_def field_at_append
      le_word_le_bytes le_bytes_field_at take_drop_rest simp del: One_nat_def)

interpretation shdr: plain_data Elf64Shdr_repr Elf64Shdr_bytes "\<lambda>_. True"
  by unfold_locales (auto simp: Elf64Shdr_repr_def Elf64Shdr_bytes_def field_at_append
      le_word_le_bytes le_bytes_field_at take_drop_rest simp del: One_nat_def)

interpretation sym: plain_data Elf64Sym_repr Elf64Sym_bytes "\<lambda>_. True"
  by unfold_locales (auto simp: Elf64Sym_repr_def Elf64Sym_bytes_def field_at_append
      le_word_le_bytes le_bytes_field_at take_drop_rest simp del: One_nat_def)

interpretation dyn: plain_data Elf64Dyn_repr Elf64Dyn_bytes "\<lambda>_. True"
  by unfold_locales (auto simp: Elf64Dyn_repr_def Elf64Dyn_bytes_def field_at_append
      le_word_le_bytes le_bytes_field_at take_drop_rest simp del: One_nat_def)

interpretation rel: plain_data Elf64Rel_repr Elf64Rel_bytes "\<lambda>_. True"
  by unfold_locales (auto simp: Elf64Rel_repr_def Elf64Rel_bytes_def field_at_append
      le_word_le_bytes le_bytes_field_at take_drop_rest simp del: One_nat_def)

text \<open>The file header holds two byte arrays.\<close>

definition ident_valid :: "ElfIdent \<Rightarrow> bool" where
  "ident_valid x \<longleftrightarrow> length (ei_mag x) = 4 \<and> length (ei_pad x) = 7"

lemma ElfIdent_bytes_from_bytes:
  "length bs = 16 \<Longrightarrow> ElfIdent_bytes (ElfIdent_from_bytes bs) = bs"
  by (simp add: ElfIdent_bytes_def ElfIdent_from_bytes_def nth_drop_rest)

lemma ElfIdent_from_bytes_bytes:
  "ident_valid x \<Longrightarrow> ElfIdent_from_bytes (ElfIdent_bytes x) = x"
  by (simp add: ElfIdent_bytes_def ElfIdent_from_bytes_def ident_valid_def nth_append)

interpretation ehdr: plain_data Elf64Ehdr_repr Elf64Ehdr_bytes "\<lambda>x. ident_valid (e_ident x)"
proof
  show "Elf64Ehdr_bytes (from_bytes Elf64Ehdr_repr bs) = bs" if "length bs = size_of Elf64Ehdr_repr" for bs
    using that by (simp add: Elf64Ehdr_repr_def Elf64Ehdr_bytes_def le_bytes_field_at take_drop_rest
        ElfIdent_bytes_from_bytes)
  show "from_bytes Elf64Ehdr_repr (Elf64Ehdr_bytes x) = x" if "ident_valid (e_ident x)" for x
  proof -
    have "length (ElfIdent_bytes (e_ident x)) = 16"
      using that by (simp add: ElfIdent_bytes_def ident_valid_def)
    then show ?thesis
      using that by (simp add: Elf64Ehdr_repr_def Elf64Ehdr_bytes_def field_at_append le_word_le_bytes
          ElfIdent_from_bytes_bytes)
  qed
qed (auto simp: Elf64Ehdr_repr_def Elf64Ehdr_bytes_def ident_valid_def ElfIdent_bytes_def ElfIdent_from_bytes_def)

end
