(* ===== verification/Rust_Text.thy ===== *)
theory Rust_Text
  imports Prelude
begin

text \<open>
  What the sources use of Rust's text handling: byte string literals, the decimal and
  hexadecimal form of an integer, and \<open>String::from_utf8_lossy\<close>.  A Rust \<open>String\<close> is the list of the characters that
  stand for the bytes of its UTF-8 encoding.
\<close>

definition ascii :: "string \<Rightarrow> bytes" where
  "ascii s = map of_char s"

definition text_of :: "bytes \<Rightarrow> string" where
  "text_of bs = map (\<lambda>b. char_of (unat b)) bs"

section \<open>Decimal numbers\<close>

fun show_nat :: "nat \<Rightarrow> string" where
  "show_nat n =
     (if n < 10 then [char_of (48 + n)] else show_nat (n div 10) @ [char_of (48 + n mod 10)])"

declare show_nat.simps [simp del]

definition show_int :: "int \<Rightarrow> string" where
  "show_int i = (if i < 0 then ''-'' @ show_nat (nat (- i)) else show_nat (nat i))"

section \<open>Hexadecimal numbers\<close>

text \<open>The format \<open>{:#x}\<close>: lower case digits behind \<open>0x\<close>, without leading zeros.\<close>

fun show_hex_digits :: "nat \<Rightarrow> string" where
  "show_hex_digits n =
     (if n < 16 then [''0123456789abcdef'' ! n]
      else show_hex_digits (n div 16) @ [''0123456789abcdef'' ! (n mod 16)])"

declare show_hex_digits.simps [simp del]

definition show_hex :: "nat \<Rightarrow> string" where
  "show_hex n = ''0x'' @ show_hex_digits n"

section \<open>Lossy decoding of UTF-8\<close>

definition utf8_width :: "u8 \<Rightarrow> nat" where
  "utf8_width b =
     (if b < 0x80 then 1 else if b < 0xc2 then 0 else if b < 0xe0 then 2
      else if b < 0xf0 then 3 else if b < 0xf5 then 4 else 0)"

definition utf8_continuation :: "u8 \<Rightarrow> bool" where
  "utf8_continuation b \<longleftrightarrow> 0x80 \<le> b \<and> b \<le> 0xbf"

definition utf8_second :: "u8 \<Rightarrow> u8 \<Rightarrow> bool" where
  "utf8_second a b =
     (if a = 0xe0 then 0xa0 \<le> b \<and> b \<le> 0xbf
      else if a = 0xed then 0x80 \<le> b \<and> b \<le> 0x9f
      else if a = 0xf0 then 0x90 \<le> b \<and> b \<le> 0xbf
      else if a = 0xf4 then 0x80 \<le> b \<and> b \<le> 0x8f
      else utf8_continuation b)"

text \<open>The next chunk: whether it is a valid scalar value, and how many bytes it takes.  The byte
  that breaks a sequence is not part of the invalid chunk.\<close>

definition utf8_chunk :: "bytes \<Rightarrow> bool \<times> nat" where
  "utf8_chunk bs =
     (let get = (\<lambda>i. if i < length bs then bs ! i else 0); w = utf8_width (get 0) in
      if w = 1 then (True, 1)
      else if w = 0 \<or> \<not> utf8_second (get 0) (get 1) then (False, 1)
      else if w = 2 then (True, 2)
      else if \<not> utf8_continuation (get 2) then (False, 2)
      else if w = 3 then (True, 3)
      else if \<not> utf8_continuation (get 3) then (False, 3)
      else (True, 4))"

lemma utf8_chunk_pos: "0 < snd (utf8_chunk bs)"
  by (simp add: utf8_chunk_def Let_def)

function utf8_lossy :: "bytes \<Rightarrow> bytes" where
  "utf8_lossy bs =
     (if bs = [] then []
      else let (ok, n) = utf8_chunk bs in
        (if ok then take n bs else [0xef, 0xbf, 0xbd]) @ utf8_lossy (drop n bs))"
  by pat_completeness auto
termination
proof (relation "measure length")
  fix bs :: bytes and z ok n
  assume "bs \<noteq> []" "z = utf8_chunk bs" "(ok, n) = z"
  then show "(drop n bs, bs) \<in> measure length" using utf8_chunk_pos[of bs] by (auto dest: sym)
qed simp

declare utf8_lossy.simps [simp del]

definition from_utf8_lossy :: "bytes \<Rightarrow> string" where
  "from_utf8_lossy bs = text_of (utf8_lossy bs)"

end
