(* ===== verification/Elf_Parser.thy ===== *)
theory Elf_Parser
  imports Elf_Types Rust_Text
begin

text \<open>
  The ELF parser of \<^verbatim>\<open>src/src/elf_parser/mod.rs\<close>.  A borrowed byte slice is its host address with
  its contents, since the parser checks the alignment of the pointers it casts; a borrowed table is
  the list of its entries.  Offsets and sizes of the file are \<open>u64\<close> values cast to \<open>usize\<close>, which
  loses nothing on a 64-bit host.  A function returns \<open>None\<close> where an \<open>unsafe\<close> cast would be
  undefined or an index panic; the theorems show that this never happens and what a parsed file
  satisfies.
\<close>

unbundle bit_operations_syntax

section \<open>Errors and arithmetic\<close>

datatype ElfParserError =
    InvalidFileHeader
  | InvalidProgramHeader
  | InvalidSectionHeader
  | InvalidString
  | StringTooLong string usize
  | OutOfBounds
  | InvalidSize
  | Overlap
  | SectionNotInOrder
  | NoSectionNameStringTable
  | InvalidDynamicSectionTable
  | InvalidRelocationTable
  | InvalidAlignment
  | NoStringTable
  | NoDynamicStringTable

definition SECTION_NAME_LENGTH_MAXIMUM :: usize where
  "SECTION_NAME_LENGTH_MAXIMUM = 16"

definition SYMBOL_NAME_LENGTH_MAXIMUM :: usize where
  "SYMBOL_NAME_LENGTH_MAXIMUM = 64"

text \<open>An \<open>ArithmeticOverflow\<close> becomes \<open>OutOfBounds\<close> at the \<open>?\<close> that follows the operation.\<close>

definition err_checked_add :: "usize \<Rightarrow> usize \<Rightarrow> ElfParserError + usize" where
  "err_checked_add a b = (if a + b \<le> usize_max then Inr (a + b) else Inl OutOfBounds)"

definition err_checked_sub :: "usize \<Rightarrow> usize \<Rightarrow> ElfParserError + usize" where
  "err_checked_sub a b = (if b \<le> a then Inr (a - b) else Inl OutOfBounds)"

definition err_checked_mul :: "usize \<Rightarrow> usize \<Rightarrow> ElfParserError + usize" where
  "err_checked_mul a b = (if a * b \<le> usize_max then Inr (a * b) else Inl OutOfBounds)"

section \<open>Ranges and slices\<close>

type_synonym range = "usize \<times> usize"

definition range_len :: "range \<Rightarrow> usize" where
  "range_len r = snd r - fst r"

definition range_in :: "usize \<Rightarrow> range \<Rightarrow> bool" where
  "range_in x r \<longleftrightarrow> fst r \<le> x \<and> x < snd r"

text \<open>\<open>bytes.get(range)\<close> keeps track of the address of the sub-slice.\<close>

definition buffer_get :: "u64 \<times> bytes \<Rightarrow> range \<Rightarrow> (u64 \<times> bytes) option" where
  "buffer_get b r =
     (if fst r \<le> snd r \<and> snd r \<le> length (snd b)
      then Some (fst b + of_nat (fst r), take (range_len r) (drop (fst r) (snd b))) else None)"

definition ok_or :: "'e \<Rightarrow> 'a option \<Rightarrow> 'e + 'a" where
  "ok_or e x = (case x of None \<Rightarrow> Inl e | Some v \<Rightarrow> Inr v)"

definition checked_rem :: "usize \<Rightarrow> usize \<Rightarrow> usize option" where
  "checked_rem a b = (if b = 0 then None else Some (a mod b))"

definition not_multiple :: "usize \<Rightarrow> usize \<Rightarrow> bool" where
  "not_multiple a b = (case checked_rem a b of None \<Rightarrow> True | Some r \<Rightarrow> r \<noteq> 0)"

section \<open>Methods of the structures\<close>

definition phdr_file_range :: "Elf64Phdr \<Rightarrow> range option" where
  "phdr_file_range ph =
     (if p_type ph = PT_LOAD
      then Some (unat (p_offset ph), usize_saturating_add (unat (p_offset ph)) (unat (p_filesz ph)))
      else None)"

definition phdr_vm_range :: "Elf64Phdr \<Rightarrow> range" where
  "phdr_vm_range ph = (unat (p_vaddr ph), unat (saturating_add (p_vaddr ph) (p_memsz ph)))"

definition is_writable :: "Elf64Shdr \<Rightarrow> bool" where
  "is_writable sh \<longleftrightarrow> sh_flags sh AND (SHF_ALLOC OR SHF_WRITE) = SHF_ALLOC OR SHF_WRITE"

definition shdr_file_range :: "Elf64Shdr \<Rightarrow> range option" where
  "shdr_file_range sh =
     (if sh_type sh \<noteq> SHT_NOBITS
      then Some (unat (sh_offset sh), usize_saturating_add (unat (sh_offset sh)) (unat (sh_size sh)))
      else None)"

definition shdr_vm_range :: "Elf64Shdr \<Rightarrow> range" where
  "shdr_vm_range sh = (unat (sh_addr sh), unat (saturating_add (sh_addr sh) (sh_size sh)))"

definition is_function :: "Elf64Sym \<Rightarrow> bool" where
  "is_function sy \<longleftrightarrow> st_info sy AND 0xf = STT_FUNC"

definition r_type :: "Elf64Rel \<Rightarrow> Elf64Word" where
  "r_type r = ucast (r_info r AND 0xffffffff)"

definition r_sym :: "Elf64Rel \<Rightarrow> Elf64Word" where
  "r_sym r = (case checked_shr (r_info r) 32 of None \<Rightarrow> 0 | Some x \<Rightarrow> ucast x)"

definition check_that_there_is_no_overlap :: "range \<Rightarrow> range \<Rightarrow> ElfParserError + unit" where
  "check_that_there_is_no_overlap a b =
     (if snd a \<le> fst b \<or> snd b \<le> fst a then Inr () else Inl Overlap)"

section \<open>Casts\<close>

definition slice_from_bytes ::
  "'t repr_c \<Rightarrow> u64 \<times> bytes \<Rightarrow> range \<Rightarrow> (ElfParserError + 't list) option" where
  "slice_from_bytes T b r =
     (if not_multiple (range_len r) (size_of T) then Some (Inl InvalidSize)
      else case buffer_get b r of
        None \<Rightarrow> Some (Inl OutOfBounds)
      | Some s \<Rightarrow>
          if not_multiple (unat (fst s)) (align_of T) then Some (Inl InvalidAlignment)
          else map_option Inr (slice_from_raw_parts T s (range_len r div size_of T)))"

definition slice_from_program_header ::
  "'t repr_c \<Rightarrow> u64 \<times> bytes \<Rightarrow> Elf64Phdr \<Rightarrow> (ElfParserError + 't list) option" where
  "slice_from_program_header T b ph =
     try_bind (Some (err_checked_add (unat (p_offset ph)) (unat (p_filesz ph))))
       (\<lambda>end. slice_from_bytes T b (unat (p_offset ph), end))"

definition slice_from_section_header ::
  "'t repr_c \<Rightarrow> u64 \<times> bytes \<Rightarrow> Elf64Shdr \<Rightarrow> (ElfParserError + 't list) option" where
  "slice_from_section_header T b sh =
     try_bind (Some (err_checked_add (unat (sh_offset sh)) (unat (sh_size sh))))
       (\<lambda>end. slice_from_bytes T b (unat (sh_offset sh), end))"

definition parse_file_header ::
  "u64 \<times> bytes \<Rightarrow> (ElfParserError + range \<times> Elf64Ehdr) option" where
  "parse_file_header b =
     (let r = (0, size_of Elf64Ehdr_repr) in
      case buffer_get b r of
        None \<Rightarrow> Some (Inl OutOfBounds)
      | Some s \<Rightarrow>
          if not_multiple (unat (fst s)) (align_of Elf64Ehdr_repr) then Some (Inl InvalidAlignment)
          else do {
            headers \<leftarrow> slice_from_raw_parts Elf64Ehdr_repr s 1;
            header \<leftarrow> slice_get headers 0;
            Some (Inr (r, header))
          })"

definition parse_program_header_table ::
  "u64 \<times> bytes \<Rightarrow> range \<Rightarrow> Elf64Ehdr \<Rightarrow> (ElfParserError + range \<times> Elf64Phdr list) option" where
  "parse_program_header_table b file_header_range header =
     try_bind (Some (err_checked_mul (size_of Elf64Phdr_repr) (unat (e_phnum header)))) (\<lambda>n.
     try_bind (Some (err_checked_add n (unat (e_phoff header)))) (\<lambda>end.
     let r = (unat (e_phoff header), end) in
     try_bind (Some (check_that_there_is_no_overlap file_header_range r)) (\<lambda>_.
     try_bind (slice_from_bytes Elf64Phdr_repr b r) (\<lambda>table. Some (Inr (r, table))))))"

definition parse_section_header_table ::
  "u64 \<times> bytes \<Rightarrow> range \<Rightarrow> Elf64Ehdr \<Rightarrow> range \<Rightarrow>
   (ElfParserError + range \<times> Elf64Shdr list) option" where
  "parse_section_header_table b file_header_range header program_header_table_range =
     try_bind (Some (err_checked_mul (size_of Elf64Shdr_repr) (unat (e_shnum header)))) (\<lambda>n.
     try_bind (Some (err_checked_add n (unat (e_shoff header)))) (\<lambda>end.
     let r = (unat (e_shoff header), end) in
     try_bind (Some (check_that_there_is_no_overlap file_header_range r)) (\<lambda>_.
     try_bind (Some (check_that_there_is_no_overlap program_header_table_range r)) (\<lambda>_.
     try_bind (slice_from_bytes Elf64Shdr_repr b r) (\<lambda>table. Some (Inr (r, table)))))))"

section \<open>Strings\<close>

text \<open>The position of the first zero byte.\<close>

fun zero_position :: "bytes \<Rightarrow> usize option" where
  "zero_position [] = None"
| "zero_position (b # bs) = (if b = 0 then Some 0 else map_option Suc (zero_position bs))"

definition get_string_in_section ::
  "u64 \<times> bytes \<Rightarrow> Elf64Shdr \<Rightarrow> Elf64Word \<Rightarrow> usize \<Rightarrow> ElfParserError + bytes" where
  "get_string_in_section b sh offset_in_section maximum_length =
     (if sh_type sh \<noteq> SHT_STRTAB then Inl InvalidSectionHeader
      else
        try_op (err_checked_add (unat (sh_offset sh)) (unat offset_in_section)) (\<lambda>offset_in_file.
        try_op (err_checked_add (unat (sh_offset sh)) (unat (sh_size sh))) (\<lambda>section_end.
        try_op (err_checked_add offset_in_file maximum_length) (\<lambda>string_end.
        try_op (ok_or OutOfBounds (slice_range (snd b) offset_in_file (min section_end string_end)))
          (\<lambda>unterminated.
        ok_or (StringTooLong (from_utf8_lossy unterminated) maximum_length)
          (zero_position unterminated \<bind> slice_range unterminated 0))))))"

section \<open>The parsed file\<close>

record Elf64 =
  elf64_bytes :: "u64 \<times> bytes"
  file_header :: Elf64Ehdr
  program_header_table :: "Elf64Phdr list"
  section_header_table :: "Elf64Shdr list"
  section_names_section_header :: "Elf64Shdr option"
  symbol_section_header :: "Elf64Shdr option"
  symbol_names_section_header :: "Elf64Shdr option"
  dynamic_table :: "Elf64Xword list"
  dynamic_relocations_table :: "Elf64Rel list option"
  dynamic_symbol_table :: "Elf64Sym list option"
  dynamic_symbol_names_section_header :: "Elf64Shdr option"

definition section_name :: "Elf64 \<Rightarrow> Elf64Word \<Rightarrow> ElfParserError + bytes" where
  "section_name e name =
     try_op (ok_or NoSectionNameStringTable (section_names_section_header e))
       (\<lambda>sh. get_string_in_section (elf64_bytes e) sh name SECTION_NAME_LENGTH_MAXIMUM)"

definition symbol_name :: "Elf64 \<Rightarrow> Elf64Word \<Rightarrow> ElfParserError + bytes" where
  "symbol_name e name =
     try_op (ok_or NoStringTable (symbol_names_section_header e))
       (\<lambda>sh. get_string_in_section (elf64_bytes e) sh name SYMBOL_NAME_LENGTH_MAXIMUM)"

definition dynamic_symbol_name :: "Elf64 \<Rightarrow> Elf64Word \<Rightarrow> ElfParserError + bytes" where
  "dynamic_symbol_name e name =
     try_op (ok_or NoDynamicStringTable (dynamic_symbol_names_section_header e))
       (\<lambda>sh. get_string_in_section (elf64_bytes e) sh name SYMBOL_NAME_LENGTH_MAXIMUM)"

definition get_symbol_table_of_section ::
  "Elf64 \<Rightarrow> Elf64Shdr \<Rightarrow> (ElfParserError + Elf64Sym list) option" where
  "get_symbol_table_of_section e sh =
     (if sh_type sh \<noteq> SHT_SYMTAB \<and> sh_type sh \<noteq> SHT_DYNSYM then Some (Inl InvalidSectionHeader)
      else slice_from_section_header Elf64Sym_repr (elf64_bytes e) sh)"

definition symbol_table :: "Elf64 \<Rightarrow> (ElfParserError + Elf64Sym list option) option" where
  "symbol_table e =
     (case symbol_section_header e of
        None \<Rightarrow> Some (Inr None)
      | Some sh \<Rightarrow> map_option (map_sum id Some) (get_symbol_table_of_section e sh))"

section \<open>Sections and the dynamic table\<close>

text \<open>The macro \<open>section_header_by_name\<close> expands to one arm per name; a second section of the same
  name is an error.\<close>

definition record_section :: "Elf64 \<Rightarrow> Elf64Shdr \<Rightarrow> bytes \<Rightarrow> ElfParserError + Elf64" where
  "record_section e sh name =
     (if name = ascii ''.symtab'' then
        if symbol_section_header e \<noteq> None then Inl InvalidSectionHeader
        else Inr (e\<lparr>symbol_section_header := Some sh\<rparr>)
      else if name = ascii ''.strtab'' then
        if symbol_names_section_header e \<noteq> None then Inl InvalidSectionHeader
        else Inr (e\<lparr>symbol_names_section_header := Some sh\<rparr>)
      else if name = ascii ''.dynstr'' then
        if dynamic_symbol_names_section_header e \<noteq> None then Inl InvalidSectionHeader
        else Inr (e\<lparr>dynamic_symbol_names_section_header := Some sh\<rparr>)
      else Inr e)"

fun parse_sections_loop :: "Elf64Shdr \<Rightarrow> Elf64 \<Rightarrow> Elf64Shdr list \<Rightarrow> ElfParserError + Elf64" where
  "parse_sections_loop names e [] = Inr e"
| "parse_sections_loop names e (sh # shs) =
     try_op (get_string_in_section (elf64_bytes e) names (sh_name sh) SECTION_NAME_LENGTH_MAXIMUM)
       (\<lambda>name. try_op (record_section e sh name) (\<lambda>e. parse_sections_loop names e shs))"

definition parse_sections :: "Elf64 \<Rightarrow> ElfParserError + Elf64" where
  "parse_sections e =
     try_op (ok_or NoSectionNameStringTable (section_names_section_header e))
       (\<lambda>names. parse_sections_loop names e (section_header_table e))"

fun program_header_for_vaddr_loop ::
  "Elf64Addr \<Rightarrow> Elf64Phdr list \<Rightarrow> ElfParserError + Elf64Phdr option" where
  "program_header_for_vaddr_loop vaddr [] = Inr None"
| "program_header_for_vaddr_loop vaddr (ph # phs) =
     try_op (err_checked_add (unat (p_vaddr ph)) (unat (p_memsz ph)))
       (\<lambda>end. if range_in (unat vaddr) (unat (p_vaddr ph), end) then Inr (Some ph)
              else program_header_for_vaddr_loop vaddr phs)"

definition program_header_for_vaddr :: "Elf64 \<Rightarrow> Elf64Addr \<Rightarrow> ElfParserError + Elf64Phdr option" where
  "program_header_for_vaddr e vaddr = program_header_for_vaddr_loop vaddr (program_header_table e)"

definition section_at :: "Elf64 \<Rightarrow> Elf64Addr \<Rightarrow> ElfParserError + Elf64Shdr" where
  "section_at e vaddr =
     ok_or InvalidDynamicSectionTable (find (\<lambda>sh. sh_addr sh = vaddr) (section_header_table e))"

definition parse_dynamic_relocations :: "Elf64 \<Rightarrow> (ElfParserError + Elf64Rel list option) option" where
  "parse_dynamic_relocations e =
     do {
       vaddr \<leftarrow> slice_get (dynamic_table e) (unat DT_REL);
       if vaddr = 0 then Some (Inr None)
       else do {
         relent \<leftarrow> slice_get (dynamic_table e) (unat DT_RELENT);
         if unat relent \<noteq> size_of Elf64Rel_repr then Some (Inl InvalidDynamicSectionTable)
         else do {
           size \<leftarrow> slice_get (dynamic_table e) (unat DT_RELSZ);
           if size = 0 then Some (Inl InvalidDynamicSectionTable)
           else
             try_bind (Some (try_op (program_header_for_vaddr e vaddr) (\<lambda>found.
                 case found of
                   Some ph \<Rightarrow> try_op (err_checked_sub (unat vaddr) (unat (p_vaddr ph)))
                                 (\<lambda>d. err_checked_add d (unat (p_offset ph)))
                 | None \<Rightarrow> try_op (section_at e vaddr) (\<lambda>sh. Inr (unat (sh_offset sh))))))
               (\<lambda>offset.
             try_bind (Some (err_checked_add offset (unat size))) (\<lambda>end.
             map_option (map_sum (\<lambda>_. InvalidDynamicSectionTable) Some)
               (slice_from_bytes Elf64Rel_repr (elf64_bytes e) (offset, end))))
         }
       }
     }"

definition parse_dynamic_symbol_table :: "Elf64 \<Rightarrow> (ElfParserError + Elf64Sym list option) option" where
  "parse_dynamic_symbol_table e =
     do {
       vaddr \<leftarrow> slice_get (dynamic_table e) (unat DT_SYMTAB);
       if vaddr = 0 then Some (Inr None)
       else try_bind (Some (section_at e vaddr))
         (\<lambda>sh. map_option (map_sum id Some) (get_symbol_table_of_section e sh))
     }"

text \<open>The expansion of the dynamic entries stops at the first \<open>DT_NULL\<close> and skips reserved tags.\<close>

fun expand_dynamic :: "Elf64Xword list \<Rightarrow> Elf64Dyn list \<Rightarrow> Elf64Xword list option" where
  "expand_dynamic tab [] = Some tab"
| "expand_dynamic tab (d # ds) =
     (if d_tag d = DT_NULL then Some tab
      else if unat (d_tag d) \<ge> DT_NUM then expand_dynamic tab ds
      else do { tab \<leftarrow> slice_set tab (unat (d_tag d)) (d_val d); expand_dynamic tab ds })"

text \<open>\<open>PT_DYNAMIC\<close> is tried first and its errors are dropped; \<open>SHT_DYNAMIC\<close> is the fallback.\<close>

definition find_dynamic_table :: "Elf64 \<Rightarrow> (ElfParserError + Elf64Dyn list option) option" where
  "find_dynamic_table e =
     do {
       from_program \<leftarrow>
         (case find (\<lambda>ph. p_type ph = PT_DYNAMIC) (program_header_table e) of
            None \<Rightarrow> Some None
          | Some ph \<Rightarrow> map_option (case_sum (\<lambda>_. None) Some)
              (slice_from_program_header Elf64Dyn_repr (elf64_bytes e) ph));
       case from_program of
         Some t \<Rightarrow> Some (Inr (Some t))
       | None \<Rightarrow>
           (case find (\<lambda>sh. sh_type sh = SHT_DYNAMIC) (section_header_table e) of
              None \<Rightarrow> Some (Inr None)
            | Some sh \<Rightarrow> map_option (map_sum (\<lambda>_. InvalidDynamicSectionTable) Some)
                (slice_from_section_header Elf64Dyn_repr (elf64_bytes e) sh))
     }"

definition parse_dynamic :: "Elf64 \<Rightarrow> (ElfParserError + Elf64) option" where
  "parse_dynamic e =
     try_bind (find_dynamic_table e) (\<lambda>found.
       case found of
         None \<Rightarrow> Some (Inr e)
       | Some ds \<Rightarrow> do {
           tab \<leftarrow> expand_dynamic (dynamic_table e) ds;
           let e = e\<lparr>dynamic_table := tab\<rparr>;
           try_bind (parse_dynamic_relocations e) (\<lambda>rels.
             let e = e\<lparr>dynamic_relocations_table := rels\<rparr> in
             try_bind (parse_dynamic_symbol_table e) (\<lambda>syms.
               Some (Inr (e\<lparr>dynamic_symbol_table := syms\<rparr>))))
         })"

section \<open>The whole file\<close>

fun check_program_headers :: "usize \<Rightarrow> Elf64Addr \<Rightarrow> Elf64Phdr list \<Rightarrow> ElfParserError + unit" where
  "check_program_headers n vaddr [] = Inr ()"
| "check_program_headers n vaddr (ph # phs) =
     (if p_type ph \<noteq> PT_LOAD then check_program_headers n vaddr phs
      else if p_vaddr ph < vaddr then Inl InvalidProgramHeader
      else try_op (err_checked_add (unat (p_offset ph)) (unat (p_filesz ph))) (\<lambda>end.
        if end > n then Inl OutOfBounds else check_program_headers n (p_vaddr ph) phs))"

fun check_section_headers ::
  "usize \<Rightarrow> range list \<Rightarrow> usize \<Rightarrow> Elf64Shdr list \<Rightarrow> ElfParserError + unit" where
  "check_section_headers n headers offset [] = Inr ()"
| "check_section_headers n headers offset (sh # shs) =
     (if sh_type sh = SHT_NOBITS then check_section_headers n headers offset shs
      else try_op (err_checked_add (unat (sh_offset sh)) (unat (sh_size sh))) (\<lambda>end.
        let r = (unat (sh_offset sh), end) in
        try_op (foldl (\<lambda>acc h. try_op acc (\<lambda>_. check_that_there_is_no_overlap r h)) (Inr ()) headers) (\<lambda>_.
        if unat (sh_offset sh) < offset then Inl SectionNotInOrder
        else if end > n then Inl OutOfBounds
        else check_section_headers n headers end shs)))"

definition file_header_supported :: "Elf64Ehdr \<Rightarrow> bool" where
  "file_header_supported h \<longleftrightarrow>
     ei_mag (e_ident h) = ELFMAG \<and> ei_class (e_ident h) = ELFCLASS64 \<and>
     ei_data (e_ident h) = ELFDATA2LSB \<and> ei_version (e_ident h) = ucast EV_CURRENT \<and>
     e_version h = EV_CURRENT \<and> e_ehsize h = of_nat (size_of Elf64Ehdr_repr) \<and>
     e_phentsize h = of_nat (size_of Elf64Phdr_repr) \<and>
     e_shentsize h = of_nat (size_of Elf64Shdr_repr) \<and> e_shstrndx h < e_shnum h"

text \<open>The checks of the tables and the construction of the result, once the three headers are
  located.\<close>

definition parse_tables ::
  "u64 \<times> bytes \<Rightarrow> Elf64Ehdr \<Rightarrow> range list \<Rightarrow> Elf64Phdr list \<Rightarrow> Elf64Shdr list \<Rightarrow>
   (ElfParserError + Elf64) option" where
  "parse_tables b header ranges program_headers section_headers =
     (if \<not> (section_headers \<noteq> [] \<and> sh_type (hd section_headers) = SHT_NULL)
      then Some (Inl InvalidSectionHeader)
      else
      try_bind (Some (check_program_headers (length (snd b)) 0 program_headers)) (\<lambda>_.
      try_bind (Some (check_section_headers (length (snd b)) ranges 0 section_headers)) (\<lambda>_.
      try_bind (Some (if e_shstrndx header \<noteq> SHN_UNDEF
          then map_sum id Some (ok_or OutOfBounds (slice_get section_headers (unat (e_shstrndx header))))
          else Inr None)) (\<lambda>names.
      let e =
        \<lparr>elf64_bytes = b, file_header = header, program_header_table = program_headers,
         section_header_table = section_headers, section_names_section_header = names,
         symbol_section_header = None, symbol_names_section_header = None,
         dynamic_table = replicate DT_NUM 0, dynamic_relocations_table = None,
         dynamic_symbol_table = None, dynamic_symbol_names_section_header = None\<rparr> in
      try_bind (Some (parse_sections e)) (\<lambda>e. parse_dynamic e)))))"

definition elf_parse :: "u64 \<times> bytes \<Rightarrow> (ElfParserError + Elf64) option" where
  "elf_parse b =
     try_bind (parse_file_header b) (\<lambda>(file_header_range, header).
     if \<not> file_header_supported header then Some (Inl InvalidFileHeader)
     else
     try_bind (parse_program_header_table b file_header_range header)
       (\<lambda>(program_header_table_range, program_headers).
     try_bind (parse_section_header_table b file_header_range header program_header_table_range)
       (\<lambda>(section_header_table_range, section_headers).
     parse_tables b header [file_header_range, program_header_table_range, section_header_table_range]
       program_headers section_headers)))"

section \<open>Casts stay inside the file\<close>

text \<open>The table \<open>ts\<close> is what the bytes of the range \<open>r\<close> stand for.\<close>

definition table_at :: "('t \<Rightarrow> bytes) \<Rightarrow> bytes \<Rightarrow> range \<Rightarrow> 't list \<Rightarrow> bool" where
  "table_at img bs r ts \<longleftrightarrow>
     fst r \<le> snd r \<and> snd r \<le> length bs \<and> concat (map img ts) = take (range_len r) (drop (fst r) bs)"

lemma not_multiple_iff [simp]: "0 < b \<Longrightarrow> not_multiple a b \<longleftrightarrow> a mod b \<noteq> 0"
  by (simp add: not_multiple_def checked_rem_def)

lemma buffer_get_length: "buffer_get b r = Some s \<Longrightarrow> length (snd s) = range_len r"
  by (auto simp: buffer_get_def range_len_def split: if_splits)

lemma err_checked_add_Inr [simp]: "err_checked_add a b = Inr c \<longleftrightarrow> c = a + b \<and> a + b \<le> usize_max"
  by (auto simp: err_checked_add_def)

lemma err_checked_mul_Inr [simp]: "err_checked_mul a b = Inr c \<longleftrightarrow> c = a * b \<and> a * b \<le> usize_max"
  by (auto simp: err_checked_mul_def)

lemma ok_or_Inr [simp]: "ok_or e x = Inr v \<longleftrightarrow> x = Some v"
  by (cases x) (simp_all add: ok_or_def)

lemma try_bind_defined:
  "\<exists>r. m = Some r \<Longrightarrow> (\<And>v. m = Some (Inr v) \<Longrightarrow> \<exists>r. f v = Some r) \<Longrightarrow> \<exists>r. try_bind m f = Some r"
  by (auto simp: try_bind_def split: sum.split)

context plain_data
begin

lemma slice_from_bytes_defined: "\<exists>r. slice_from_bytes T b rg = Some r"
proof (cases "buffer_get b rg")
  case (Some s)
  then have l: "length (snd s) = range_len rg" by (rule buffer_get_length)
  show ?thesis
    using raw_parts_defined[of s] Some l
    by (auto simp: slice_from_bytes_def size_pos align_pos split: option.split)
qed (simp add: slice_from_bytes_def)

lemma slice_from_bytes_table:
  assumes "slice_from_bytes T b rg = Some (Inr ts)"
  shows "table_at img (snd b) rg ts" and "length ts * size_of T = range_len rg"
    and "list_all valid ts"
proof -
  obtain s where s: "buffer_get b rg = Some s" "range_len rg mod size_of T = 0"
    "slice_from_raw_parts T s (range_len rg div size_of T) = Some ts"
    using assms by (auto simp: slice_from_bytes_def size_pos align_pos split: if_splits option.splits)
  note ri = raw_parts_image[OF s(3)]
  have "snd s = take (range_len rg) (drop (fst rg) (snd b))" "fst rg \<le> snd rg" "snd rg \<le> length (snd b)"
    using s(1) by (auto simp: buffer_get_def split: if_splits)
  then show "table_at img (snd b) rg ts"
    using ri(1) s(2) by (auto simp: table_at_def)
  show "length ts * size_of T = range_len rg" "list_all valid ts" using ri s(2) by auto
qed

lemma slice_from_bytes_of_table:
  assumes "table_at img (snd b) rg ts" and "list_all valid ts"
    and "unat (fst b + of_nat (fst rg)) mod align_of T = 0"
  shows "slice_from_bytes T b rg = Some (Inr ts)"
proof -
  have c: "concat (map img ts) = take (range_len rg) (drop (fst rg) (snd b))"
    and r: "fst rg \<le> snd rg" "snd rg \<le> length (snd b)"
    using assms(1) by (simp_all add: table_at_def)
  then have "length ts * size_of T = range_len rg"
    using length_concat_image[OF assms(2)] by (simp add: range_len_def)
  then have l: "range_len rg mod size_of T = 0" "range_len rg div size_of T = length ts"
    using size_pos by (metis mod_mult_self2_is_0, metis div_mult_self_is_m)
  show ?thesis
    using raw_parts_of_image[OF assms(2,3)] c r l
    by (simp add: slice_from_bytes_def buffer_get_def size_pos align_pos assms(3))
qed

lemma slice_from_program_header_defined: "\<exists>r. slice_from_program_header T b ph = Some r"
  unfolding slice_from_program_header_def
  by (intro try_bind_defined slice_from_bytes_defined exI) (rule refl)

lemma slice_from_section_header_defined: "\<exists>r. slice_from_section_header T b sh = Some r"
  unfolding slice_from_section_header_def
  by (intro try_bind_defined slice_from_bytes_defined exI) (rule refl)

lemma slice_from_section_header_table:
  assumes "slice_from_section_header T b sh = Some (Inr ts)"
  shows "table_at img (snd b) (unat (sh_offset sh), unat (sh_offset sh) + unat (sh_size sh)) ts"
  using assms by (auto simp: slice_from_section_header_def try_bind_Inr dest: slice_from_bytes_table)

end

section \<open>The parser always returns\<close>

lemma parse_file_header_defined: "\<exists>r. parse_file_header b = Some r"
proof (cases "buffer_get b (0, 64)")
  case (Some s)
  then have l: "length (snd s) = 64" by (auto dest: buffer_get_length simp: range_len_def)
  then show ?thesis
    using Some by (simp add: parse_file_header_def Let_def slice_from_raw_parts_def slice_get_def)
qed (simp add: parse_file_header_def Let_def)

lemma parse_program_header_table_defined: "\<exists>r. parse_program_header_table b fr h = Some r"
  unfolding parse_program_header_table_def Let_def
  by (intro try_bind_defined phdr.slice_from_bytes_defined) simp_all

lemma parse_section_header_table_defined: "\<exists>r. parse_section_header_table b fr h pr = Some r"
  unfolding parse_section_header_table_def Let_def
  by (intro try_bind_defined shdr.slice_from_bytes_defined) simp_all

lemma get_symbol_table_defined: "\<exists>r. get_symbol_table_of_section e sh = Some r"
  using sym.slice_from_section_header_defined by (simp add: get_symbol_table_of_section_def)

lemma symbol_table_defined: "\<exists>r. symbol_table e = Some r"
  using get_symbol_table_defined by (auto simp: symbol_table_def split: option.split)

lemma expand_dynamic_defined:
  "length tab = DT_NUM \<Longrightarrow> \<exists>tab'. expand_dynamic tab ds = Some tab' \<and> length tab' = DT_NUM"
  by (induction ds arbitrary: tab) (simp_all add: slice_set_def)

lemma parse_dynamic_relocations_defined:
  assumes "length (dynamic_table e) = DT_NUM"
  shows "\<exists>r. parse_dynamic_relocations e = Some r"
proof -
  have "unat DT_REL < length (dynamic_table e)" "unat DT_RELENT < length (dynamic_table e)"
    "unat DT_RELSZ < length (dynamic_table e)" using assms by (simp_all add: elf_const)
  then show ?thesis
    unfolding parse_dynamic_relocations_def
    by (simp add: slice_get_Some)
      (intro impI try_bind_defined exI[of _ "_ :: ElfParserError + usize"] |
       simp add: rel.slice_from_bytes_defined)+
qed

lemma parse_dynamic_symbol_table_defined:
  assumes "length (dynamic_table e) = DT_NUM"
  shows "\<exists>r. parse_dynamic_symbol_table e = Some r"
proof -
  have "unat DT_SYMTAB < length (dynamic_table e)" using assms by (simp add: elf_const)
  then show ?thesis
    unfolding parse_dynamic_symbol_table_def
    by (simp add: slice_get_Some) (intro impI try_bind_defined; simp add: get_symbol_table_defined)
qed

lemma find_dynamic_table_defined: "\<exists>r. find_dynamic_table e = Some r"
proof -
  obtain f where f: "\<And>ph. slice_from_program_header Elf64Dyn_repr (elf64_bytes e) ph = Some (f ph)"
    using dyn.slice_from_program_header_defined by metis
  obtain g where g: "\<And>sh. slice_from_section_header Elf64Dyn_repr (elf64_bytes e) sh = Some (g sh)"
    using dyn.slice_from_section_header_defined by metis
  show ?thesis by (simp add: find_dynamic_table_def f g split: option.split)
qed

lemma parse_dynamic_defined:
  assumes "length (dynamic_table e) = DT_NUM"
  shows "\<exists>r. parse_dynamic e = Some r"
  unfolding parse_dynamic_def
proof (rule try_bind_defined[OF find_dynamic_table_defined])
  fix found
  show "\<exists>r. (case found of None \<Rightarrow> Some (Inr e) | Some ds \<Rightarrow> do {
      tab \<leftarrow> expand_dynamic (dynamic_table e) ds;
      let e = e\<lparr>dynamic_table := tab\<rparr>;
      try_bind (parse_dynamic_relocations e) (\<lambda>rels.
        let e = e\<lparr>dynamic_relocations_table := rels\<rparr> in
        try_bind (parse_dynamic_symbol_table e) (\<lambda>syms. Some (Inr (e\<lparr>dynamic_symbol_table := syms\<rparr>))))
      }) = Some r"
  proof (cases found)
    case (Some ds)
    obtain tab where "expand_dynamic (dynamic_table e) ds = Some tab" "length tab = DT_NUM"
      using expand_dynamic_defined[OF assms] by blast
    then show ?thesis
      using Some by (simp add: Let_def)
        (intro try_bind_defined parse_dynamic_relocations_defined parse_dynamic_symbol_table_defined; simp)
  qed simp
qed

text \<open>Recording the named sections changes nothing else.\<close>

definition same_tables :: "Elf64 \<Rightarrow> Elf64 \<Rightarrow> bool" where
  "same_tables e e' \<longleftrightarrow>
     elf64_bytes e' = elf64_bytes e \<and> file_header e' = file_header e \<and>
     program_header_table e' = program_header_table e \<and>
     section_header_table e' = section_header_table e \<and>
     section_names_section_header e' = section_names_section_header e \<and>
     dynamic_table e' = dynamic_table e \<and>
     dynamic_relocations_table e' = dynamic_relocations_table e \<and>
     dynamic_symbol_table e' = dynamic_symbol_table e"

definition named_sections :: "Elf64 \<Rightarrow> Elf64Shdr set" where
  "named_sections e = set_option (symbol_section_header e) \<union>
     set_option (symbol_names_section_header e) \<union> set_option (dynamic_symbol_names_section_header e)"

lemma record_section_frame:
  "record_section e sh name = Inr e' \<Longrightarrow>
     same_tables e e' \<and> named_sections e' \<subseteq> insert sh (named_sections e)"
  by (auto simp: record_section_def same_tables_def named_sections_def split: if_splits)

lemma parse_sections_loop_frame:
  "parse_sections_loop names e shs = Inr e' \<Longrightarrow>
     same_tables e e' \<and> named_sections e' \<subseteq> set shs \<union> named_sections e"
proof (induction shs arbitrary: e)
  case (Cons sh shs)
  from Cons.prems obtain name e1 where e1: "record_section e sh name = Inr e1"
    "parse_sections_loop names e1 shs = Inr e'" by (auto simp: try_op_eq_Inr)
  from record_section_frame[OF e1(1)] Cons.IH[OF e1(2)] show ?case by (auto simp: same_tables_def)
qed (auto simp: same_tables_def)

lemma parse_sections_frame:
  "parse_sections e = Inr e' \<Longrightarrow>
     same_tables e e' \<and> named_sections e' \<subseteq> set (section_header_table e) \<union> named_sections e"
  by (auto simp: parse_sections_def try_op_eq_Inr dest: parse_sections_loop_frame)

lemma parse_tables_defined: "\<exists>r. parse_tables b h rs phs shs = Some r"
proof -
  have "\<exists>r. parse_dynamic e' = Some r"
    if "parse_sections e = Inr e'" "length (dynamic_table e) = DT_NUM" for e e'
    using parse_sections_frame[OF that(1)] that(2) by (auto intro: parse_dynamic_defined simp: same_tables_def)
  then show ?thesis
    by (cases "shs \<noteq> [] \<and> sh_type (hd shs) = SHT_NULL")
      (auto simp: parse_tables_def Let_def intro!: try_bind_defined)
qed

lemma elf_parse_defined: "\<exists>r. elf_parse b = Some r"
proof -
  have "parse_file_header b \<noteq> None" "\<And>fr h. parse_program_header_table b fr h \<noteq> None"
    "\<And>fr h pr. parse_section_header_table b fr h pr \<noteq> None" "\<And>h rs phs shs. parse_tables b h rs phs shs \<noteq> None"
    using parse_file_header_defined[of b] parse_program_header_table_defined[of b]
      parse_section_header_table_defined[of b] parse_tables_defined[of b] by simp_all
  then have "elf_parse b \<noteq> None"
    by (auto simp: elf_parse_def try_bind_None simp del: not_None_eq split: if_splits)
  then show ?thesis by simp
qed

section \<open>What a parsed file satisfies\<close>

definition disjoint_ranges :: "range \<Rightarrow> range \<Rightarrow> bool" where
  "disjoint_ranges a b \<longleftrightarrow> snd a \<le> fst b \<or> snd b \<le> fst a"

definition file_sections :: "Elf64 \<Rightarrow> range list" where
  "file_sections e =
     map (\<lambda>sh. (unat (sh_offset sh), unat (sh_offset sh) + unat (sh_size sh)))
       (filter (\<lambda>sh. sh_type sh \<noteq> SHT_NOBITS) (section_header_table e))"

definition load_segments :: "Elf64 \<Rightarrow> Elf64Phdr list" where
  "load_segments e = filter (\<lambda>ph. p_type ph = PT_LOAD) (program_header_table e)"

text \<open>The three header ranges.\<close>

definition header_ranges :: "Elf64Ehdr \<Rightarrow> range list" where
  "header_ranges h =
     [(0, 64), (unat (e_phoff h), unat (e_phoff h) + 56 * unat (e_phnum h)),
      (unat (e_shoff h), unat (e_shoff h) + 64 * unat (e_shnum h))]"

definition headers_ok :: "bytes \<Rightarrow> Elf64 \<Rightarrow> bool" where
  "headers_ok bs e \<longleftrightarrow>
     file_header_supported (file_header e) \<and>
     table_at Elf64Ehdr_bytes bs (header_ranges (file_header e) ! 0) [file_header e] \<and>
     table_at Elf64Phdr_bytes bs (header_ranges (file_header e) ! 1) (program_header_table e) \<and>
     table_at Elf64Shdr_bytes bs (header_ranges (file_header e) ! 2) (section_header_table e) \<and>
     length (program_header_table e) = unat (e_phnum (file_header e)) \<and>
     length (section_header_table e) = unat (e_shnum (file_header e)) \<and>
     sorted_wrt disjoint_ranges (header_ranges (file_header e))"

definition sections_ok :: "bytes \<Rightarrow> Elf64 \<Rightarrow> bool" where
  "sections_ok bs e \<longleftrightarrow>
     sorted_wrt (\<lambda>r s. snd r \<le> fst s) (file_sections e) \<and>
     list_all (\<lambda>r. fst r \<le> snd r \<and> snd r \<le> length bs \<and>
        list_all (disjoint_ranges r) (header_ranges (file_header e))) (file_sections e)"

definition segments_ok :: "bytes \<Rightarrow> Elf64 \<Rightarrow> bool" where
  "segments_ok bs e \<longleftrightarrow>
     sorted_wrt (\<lambda>p q. p_vaddr p \<le> p_vaddr q) (load_segments e) \<and>
     list_all (\<lambda>ph. unat (p_offset ph) + unat (p_filesz ph) \<le> length bs) (load_segments e)"

definition dynamic_ok :: "bytes \<Rightarrow> Elf64 \<Rightarrow> bool" where
  "dynamic_ok bs e \<longleftrightarrow>
     length (dynamic_table e) = DT_NUM \<and>
     pred_option (\<lambda>rels. \<exists>r. table_at Elf64Rel_bytes bs r rels) (dynamic_relocations_table e) \<and>
     pred_option (\<lambda>syms. \<exists>sh \<in> set (section_header_table e).
       table_at Elf64Sym_bytes bs (unat (sh_offset sh), unat (sh_offset sh) + unat (sh_size sh)) syms)
       (dynamic_symbol_table e)"

definition elf_ok :: "bytes \<Rightarrow> Elf64 \<Rightarrow> bool" where
  "elf_ok bs e \<longleftrightarrow> headers_ok bs e \<and> sections_ok bs e \<and> segments_ok bs e \<and> dynamic_ok bs e \<and>
     set_option (section_names_section_header e) \<union> named_sections e \<subseteq> set (section_header_table e)"

lemma no_overlap_Inr [simp]:
  "check_that_there_is_no_overlap a b = Inr u \<longleftrightarrow> disjoint_ranges a b"
  by (simp add: check_that_there_is_no_overlap_def disjoint_ranges_def)

lemma parse_file_header_sound:
  assumes "parse_file_header b = Some (Inr (r, h))"
  shows "r = (0, 64)" and "table_at Elf64Ehdr_bytes (snd b) (0, 64) [h]"
proof -
  obtain s hs where s: "buffer_get b (0, 64) = Some s" "slice_from_raw_parts Elf64Ehdr_repr s 1 = Some hs"
    and h: "hs ! 0 = h" and r: "r = (0, 64)"
    using assms by (auto simp: parse_file_header_def Let_def slice_get_def bind_eq_Some_conv
        split: option.splits if_splits)
  note ri = ehdr.raw_parts_image[OF s(2)]
  from ri(2) h have hs: "hs = [h]" by (cases hs) auto
  show "r = (0, 64)" by (rule r)
  show "table_at Elf64Ehdr_bytes (snd b) (0, 64) [h]"
    using ri(1) s(1) by (auto simp: hs table_at_def buffer_get_def range_len_def split: if_splits)
qed

lemma parse_program_header_table_sound:
  assumes "parse_program_header_table b fr h = Some (Inr (r, t))"
  shows "r = header_ranges h ! 1" and "disjoint_ranges fr r"
    and "table_at Elf64Phdr_bytes (snd b) r t" and "length t = unat (e_phnum h)"
  using assms phdr.slice_from_bytes_table[of b r t]
  by (auto simp: parse_program_header_table_def try_bind_Inr Let_def header_ranges_def range_len_def add.commute)

lemma parse_section_header_table_sound:
  assumes "parse_section_header_table b fr h pr = Some (Inr (r, t))"
  shows "r = header_ranges h ! 2" and "disjoint_ranges fr r" and "disjoint_ranges pr r"
    and "table_at Elf64Shdr_bytes (snd b) r t" and "length t = unat (e_shnum h)"
  using assms shdr.slice_from_bytes_table[of b r t]
  by (auto simp: parse_section_header_table_def try_bind_Inr Let_def header_ranges_def range_len_def add.commute)

lemma check_program_headers_sound:
  assumes "check_program_headers n vaddr phs = Inr ()"
  shows "sorted_wrt (\<lambda>p q. p_vaddr p \<le> p_vaddr q) (filter (\<lambda>ph. p_type ph = PT_LOAD) phs) \<and>
    list_all (\<lambda>ph. vaddr \<le> p_vaddr ph \<and> unat (p_offset ph) + unat (p_filesz ph) \<le> n)
      (filter (\<lambda>ph. p_type ph = PT_LOAD) phs)"
  using assms
proof (induction phs arbitrary: vaddr)
  case (Cons ph phs)
  show ?case
  proof (cases "p_type ph = PT_LOAD")
    case True
    with Cons.prems have p: "check_program_headers n (p_vaddr ph) phs = Inr ()" "vaddr \<le> p_vaddr ph"
      "unat (p_offset ph) + unat (p_filesz ph) \<le> n"
      by (auto simp: try_op_eq_Inr split: if_splits)
    from Cons.IH[OF p(1)] p(2,3) True show ?thesis
      by (auto simp: list_all_iff)
  qed (use Cons in simp)
qed simp

lemma overlap_fold:
  "foldl (\<lambda>acc h. try_op acc (\<lambda>_. check_that_there_is_no_overlap r h)) a hs = Inr u \<longleftrightarrow>
     a = Inr u \<and> list_all (disjoint_ranges r) hs"
  by (induction hs arbitrary: a) (auto simp: try_op_eq_Inr)

lemma check_section_headers_sound:
  assumes "check_section_headers n hs offset shs = Inr ()"
  shows "let rs = map (\<lambda>sh. (unat (sh_offset sh), unat (sh_offset sh) + unat (sh_size sh)))
      (filter (\<lambda>sh. sh_type sh \<noteq> SHT_NOBITS) shs)
    in sorted_wrt (\<lambda>r s. snd r \<le> fst s) rs \<and>
       list_all (\<lambda>r. offset \<le> fst r \<and> fst r \<le> snd r \<and> snd r \<le> n \<and> list_all (disjoint_ranges r) hs) rs"
  using assms
proof (induction shs arbitrary: offset)
  case (Cons sh shs)
  show ?case
  proof (cases "sh_type sh = SHT_NOBITS")
    case False
    let ?e = "unat (sh_offset sh) + unat (sh_size sh)"
    from False Cons.prems have p: "check_section_headers n hs ?e shs = Inr ()"
      "\<not> unat (sh_offset sh) < offset" "?e \<le> n"
      "list_all (disjoint_ranges (unat (sh_offset sh), ?e)) hs"
      by (auto simp: try_op_eq_Inr Let_def overlap_fold split: if_splits)
    from Cons.IH[OF p(1)] p(2-) False show ?thesis
      by (auto simp: Let_def list_all_iff)
  qed (use Cons in simp)
qed simp

lemma section_at_Inr: "section_at e vaddr = Inr sh \<Longrightarrow> sh \<in> set (section_header_table e)"
  by (auto simp: section_at_def find_Some_iff)

lemma parse_dynamic_relocations_sound:
  assumes "parse_dynamic_relocations e = Some (Inr (Some rels))"
  shows "\<exists>r. table_at Elf64Rel_bytes (snd (elf64_bytes e)) r rels"
proof -
  have "\<exists>r. slice_from_bytes Elf64Rel_repr (elf64_bytes e) r = Some (Inr rels)"
    using assms unfolding parse_dynamic_relocations_def
    by (auto simp: bind_eq_Some_conv try_bind_Inr map_sum_eq_Inr split: if_splits)
  then show ?thesis using rel.slice_from_bytes_table(1) by blast
qed

lemma get_symbol_table_sound:
  assumes "get_symbol_table_of_section e sh = Some (Inr syms)"
  shows "table_at Elf64Sym_bytes (snd (elf64_bytes e))
    (unat (sh_offset sh), unat (sh_offset sh) + unat (sh_size sh)) syms"
  using assms sym.slice_from_section_header_table
  by (auto simp: get_symbol_table_of_section_def split: if_splits)

lemma parse_dynamic_symbol_table_sound:
  assumes "parse_dynamic_symbol_table e = Some (Inr (Some syms))"
  shows "\<exists>sh \<in> set (section_header_table e). table_at Elf64Sym_bytes (snd (elf64_bytes e))
    (unat (sh_offset sh), unat (sh_offset sh) + unat (sh_size sh)) syms"
proof -
  obtain sh vaddr where "section_at e vaddr = Inr sh" "get_symbol_table_of_section e sh = Some (Inr syms)"
    using assms unfolding parse_dynamic_symbol_table_def
    by (auto simp: bind_eq_Some_conv try_bind_Inr map_sum_eq_Inr split: if_splits)
  then show ?thesis using section_at_Inr get_symbol_table_sound by blast
qed

lemma parse_dynamic_sound:
  assumes "parse_dynamic e = Some (Inr e')" and "length (dynamic_table e) = DT_NUM"
    and "dynamic_relocations_table e = None" and "dynamic_symbol_table e = None"
  shows "dynamic_ok (snd (elf64_bytes e)) e'"
    and "elf64_bytes e' = elf64_bytes e" "file_header e' = file_header e"
    "program_header_table e' = program_header_table e" "section_header_table e' = section_header_table e"
    "section_names_section_header e' = section_names_section_header e" "named_sections e' = named_sections e"
proof -
  have "e' = e \<or> (\<exists>ds tab rels syms. expand_dynamic (dynamic_table e) ds = Some tab \<and>
      parse_dynamic_relocations (e\<lparr>dynamic_table := tab\<rparr>) = Some (Inr rels) \<and>
      parse_dynamic_symbol_table (e\<lparr>dynamic_table := tab, dynamic_relocations_table := rels\<rparr>) = Some (Inr syms) \<and>
      e' = e\<lparr>dynamic_table := tab, dynamic_relocations_table := rels, dynamic_symbol_table := syms\<rparr>)"
    using assms(1)
    by (auto simp: parse_dynamic_def try_bind_Inr bind_eq_Some_conv Let_def split: option.splits) metis
  then consider "e' = e" | ds tab rels syms where "expand_dynamic (dynamic_table e) ds = Some tab"
      "parse_dynamic_relocations (e\<lparr>dynamic_table := tab\<rparr>) = Some (Inr rels)"
      "parse_dynamic_symbol_table (e\<lparr>dynamic_table := tab, dynamic_relocations_table := rels\<rparr>) = Some (Inr syms)"
      "e' = e\<lparr>dynamic_table := tab, dynamic_relocations_table := rels, dynamic_symbol_table := syms\<rparr>"
    by blast
  then show "dynamic_ok (snd (elf64_bytes e)) e'"
  proof cases
    case 1
    then show ?thesis using assms by (simp add: dynamic_ok_def)
  next
    case 2
    have "length tab = DT_NUM" using expand_dynamic_defined[OF assms(2), of ds] 2(1) by auto
    then show ?thesis
      using parse_dynamic_relocations_sound[of "e\<lparr>dynamic_table := tab\<rparr>"]
        parse_dynamic_symbol_table_sound[of "e\<lparr>dynamic_table := tab, dynamic_relocations_table := rels\<rparr>"] 2
      by (cases rels; cases syms) (simp_all add: dynamic_ok_def)
  qed
  show "elf64_bytes e' = elf64_bytes e" "file_header e' = file_header e"
    "program_header_table e' = program_header_table e" "section_header_table e' = section_header_table e"
    "section_names_section_header e' = section_names_section_header e" "named_sections e' = named_sections e"
    using \<open>e' = e \<or> _\<close> by (auto simp: named_sections_def)
qed

lemma parse_tables_InrE:
  assumes "parse_tables b h rs phs shs = Some (Inr e)"
  obtains names e1 where
    "check_program_headers (length (snd b)) 0 phs = Inr ()"
    "check_section_headers (length (snd b)) rs 0 shs = Inr ()" "set_option names \<subseteq> set shs"
    "parse_sections \<lparr>elf64_bytes = b, file_header = h, program_header_table = phs,
        section_header_table = shs, section_names_section_header = names,
        symbol_section_header = None, symbol_names_section_header = None,
        dynamic_table = replicate DT_NUM 0, dynamic_relocations_table = None,
        dynamic_symbol_table = None, dynamic_symbol_names_section_header = None\<rparr> = Inr e1"
    "parse_dynamic e1 = Some (Inr e)"
  using assms that[of "Some (shs ! unat (e_shstrndx h))"] that[of None]
  by (auto simp: parse_tables_def try_bind_Inr Let_def map_sum_eq_Inr slice_get_def split: if_splits)

lemma elf_parse_ok:
  assumes "elf_parse b = Some (Inr e)"
  shows "elf_ok (snd b) e" and "elf64_bytes e = b"
proof -
  obtain fr h pr phs sr shs where p1: "parse_file_header b = Some (Inr (fr, h))"
    "file_header_supported h" and p2: "parse_program_header_table b fr h = Some (Inr (pr, phs))"
    and p3: "parse_section_header_table b fr h pr = Some (Inr (sr, shs))"
    and t: "parse_tables b h [fr, pr, sr] phs shs = Some (Inr e)"
    using assms by (auto simp: elf_parse_def try_bind_Inr split: if_splits)
  from t obtain names e1 where p:
    "check_program_headers (length (snd b)) 0 phs = Inr ()"
    "check_section_headers (length (snd b)) [fr, pr, sr] 0 shs = Inr ()" "set_option names \<subseteq> set shs"
    "parse_sections \<lparr>elf64_bytes = b, file_header = h, program_header_table = phs,
        section_header_table = shs, section_names_section_header = names,
        symbol_section_header = None, symbol_names_section_header = None,
        dynamic_table = replicate DT_NUM 0, dynamic_relocations_table = None,
        dynamic_symbol_table = None, dynamic_symbol_names_section_header = None\<rparr> = Inr e1"
    "parse_dynamic e1 = Some (Inr e)" by (rule parse_tables_InrE)
  note F = parse_sections_frame[OF p(4)]
  have D: "length (dynamic_table e1) = DT_NUM" "dynamic_relocations_table e1 = None"
    "dynamic_symbol_table e1 = None" using F by (simp_all add: same_tables_def)
  note S = parse_dynamic_sound[OF p(5) D]
  have e: "elf64_bytes e = b" "file_header e = h" "program_header_table e = phs"
    "section_header_table e = shs" "section_names_section_header e = names"
    "named_sections e \<subseteq> set shs" "elf64_bytes e1 = b"
    using S(2-7) F by (auto simp: same_tables_def named_sections_def)
  note H = parse_file_header_sound[OF p1(1)] parse_program_header_table_sound[OF p2]
    parse_section_header_table_sound[OF p3]
  have hr: "header_ranges h = [fr, pr, sr]" using H by (simp add: header_ranges_def)
  have "headers_ok (snd b) e" unfolding headers_ok_def e hr using H(2,4-6,8-11) p1(2) by (simp add: H(1))
  moreover have "sections_ok (snd b) e"
    using check_section_headers_sound[OF p(2)] by (auto simp: sections_ok_def file_sections_def e hr Let_def list_all_iff)
  moreover have "segments_ok (snd b) e"
    using check_program_headers_sound[OF p(1)] by (auto simp: segments_ok_def load_segments_def e list_all_iff)
  ultimately show "elf_ok (snd b) e"
    using S(1) e p(3) by (simp add: elf_ok_def)
  show "elf64_bytes e = b" by (rule e)
qed

section \<open>Strings are terminated inside their section\<close>

lemma zero_position_Some:
  "zero_position bs = Some k \<longleftrightarrow> k < length bs \<and> bs ! k = 0 \<and> 0 \<notin> set (take k bs)"
proof (induction bs arbitrary: k)
  case (Cons b bs)
  then show ?case by (cases k) auto
qed simp

lemma string_Some:
  "(zero_position bs \<bind> slice_range bs 0) = Some s \<longleftrightarrow>
     length s < length bs \<and> take (length s + 1) bs = s @ [0] \<and> 0 \<notin> set s"
proof -
  have "take (k + 1) bs = take k bs @ [bs ! k]" if "k < length bs" for k
    using that by (simp add: take_Suc_conv_app_nth)
  then show ?thesis
    by (auto simp: bind_eq_Some_conv zero_position_Some slice_range_def min_def)
qed

lemma ok_or_Inl [simp]: "ok_or e x = Inl e' \<longleftrightarrow> x = None \<and> e' = e"
  by (cases x) (auto simp: ok_or_def)

section \<open>An example\<close>

text \<open>A file with a text section of one \<open>exit\<close> instruction and the section of names.  The section
  headers follow the sections.\<close>

definition example_shdrs :: "Elf64Shdr list" where
  "example_shdrs =
     [\<lparr>sh_name = 0, sh_type = SHT_NULL, sh_flags = 0, sh_addr = 0, sh_offset = 0, sh_size = 0,
       sh_link = 0, sh_info = 0, sh_addralign = 0, sh_entsize = 0\<rparr>,
      \<lparr>sh_name = 1, sh_type = SHT_PROGBITS, sh_flags = 6, sh_addr = 64, sh_offset = 64, sh_size = 8,
       sh_link = 0, sh_info = 0, sh_addralign = 8, sh_entsize = 0\<rparr>,
      \<lparr>sh_name = 0, sh_type = SHT_STRTAB, sh_flags = 0, sh_addr = 0, sh_offset = 72, sh_size = 7,
       sh_link = 0, sh_info = 0, sh_addralign = 1, sh_entsize = 0\<rparr>]"

definition example_ehdr :: Elf64Ehdr where
  "example_ehdr =
     \<lparr>e_ident = \<lparr>ei_mag = ELFMAG, ei_class = ELFCLASS64, ei_data = ELFDATA2LSB, ei_version = 1,
        ei_osabi = 0, ei_abiversion = 0, ei_pad = replicate 7 0\<rparr>,
      e_type = ET_DYN, e_machine = EM_BPF, e_version = EV_CURRENT, e_entry = 64, e_phoff = 64,
      e_shoff = 80, e_flags = 0, e_ehsize = 64, e_phentsize = 56, e_phnum = 0, e_shentsize = 64,
      e_shnum = 3, e_shstrndx = 2\<rparr>"

definition example_sections :: bytes where
  "example_sections = [0x95, 0, 0, 0, 0, 0, 0, 0] @ [0] @ ascii ''.text'' @ [0, 0]"

definition example_elf :: "u64 \<times> bytes" where
  "example_elf = (0x1000,
     Elf64Ehdr_bytes example_ehdr @ example_sections @ concat (map Elf64Shdr_bytes example_shdrs))"

lemma example_ehdr_simps [simp]:
  "e_phoff example_ehdr = 64" "e_shoff example_ehdr = 80" "e_phnum example_ehdr = 0"
  "e_shnum example_ehdr = 3" "e_shstrndx example_ehdr = 2" "e_entry example_ehdr = 64"
  by (simp_all add: example_ehdr_def)

lemma example_ehdr_bytes [simp]:
  "length (Elf64Ehdr_bytes example_ehdr) = 64"
  "from_bytes Elf64Ehdr_repr (Elf64Ehdr_bytes example_ehdr) = example_ehdr"
proof -
  have "ident_valid (e_ident example_ehdr)" by (simp add: example_ehdr_def ident_valid_def elf_const)
  then show "length (Elf64Ehdr_bytes example_ehdr) = 64"
    "from_bytes Elf64Ehdr_repr (Elf64Ehdr_bytes example_ehdr) = example_ehdr"
    using ehdr.length_image ehdr.from_bytes_image by auto
qed

lemma example_lengths [simp]:
  "length example_sections = 16" "length (concat (map Elf64Shdr_bytes example_shdrs)) = 192"
  using shdr.length_concat_image[of example_shdrs]
  by (simp_all add: example_sections_def ascii_def example_shdrs_def)

lemma example_parse_headers:
  "parse_file_header example_elf = Some (Inr ((0, 64), example_ehdr))"
  "parse_program_header_table example_elf (0, 64) example_ehdr = Some (Inr ((64, 64), []))"
  "parse_section_header_table example_elf (0, 64) example_ehdr (64, 64) = Some (Inr ((80, 272), example_shdrs))"
proof -
  show "parse_file_header example_elf = Some (Inr ((0, 64), example_ehdr))"
    by (simp add: parse_file_header_def example_elf_def buffer_get_def range_len_def
        slice_from_raw_parts_def slice_get_def)
  have "slice_from_bytes Elf64Phdr_repr example_elf (64, 64) = Some (Inr [])"
    by (rule phdr.slice_from_bytes_of_table) (simp_all add: table_at_def range_len_def example_elf_def)
  then show "parse_program_header_table example_elf (0, 64) example_ehdr = Some (Inr ((64, 64), []))"
    by (simp add: parse_program_header_table_def err_checked_mul_def err_checked_add_def usize_max_def
        check_that_there_is_no_overlap_def)
  have "slice_from_bytes Elf64Shdr_repr example_elf (80, 272) = Some (Inr example_shdrs)"
    by (rule shdr.slice_from_bytes_of_table)
      (simp_all add: table_at_def range_len_def example_elf_def list_all_iff)
  then show "parse_section_header_table example_elf (0, 64) example_ehdr (64, 64) = Some (Inr ((80, 272), example_shdrs))"
    by (simp add: parse_section_header_table_def err_checked_mul_def err_checked_add_def usize_max_def
        check_that_there_is_no_overlap_def)
qed

text \<open>The parsed example.\<close>

definition example_parsed :: Elf64 where
  "example_parsed =
     \<lparr>elf64_bytes = example_elf, file_header = example_ehdr, program_header_table = [],
      section_header_table = example_shdrs, section_names_section_header = Some (example_shdrs ! 2),
      symbol_section_header = None, symbol_names_section_header = None,
      dynamic_table = replicate DT_NUM 0, dynamic_relocations_table = None,
      dynamic_symbol_table = None, dynamic_symbol_names_section_header = None\<rparr>"

lemma example_names:
  "get_string_in_section example_elf (example_shdrs ! 2) 0 16 = Inr []"
  "get_string_in_section example_elf (example_shdrs ! 2) 1 16 = Inr (ascii ''.text'')"
  by (simp_all add: get_string_in_section_def example_shdrs_def example_elf_def example_sections_def
      err_checked_add_def usize_max_def slice_range_def ascii_def ok_or_def)

lemma example_parse: "elf_parse example_elf = Some (Inr example_parsed)"
proof -
  have names: "parse_sections example_parsed = Inr example_parsed"
    using example_names
    by (simp add: parse_sections_def ok_or_def example_parsed_def record_section_def ascii_def
        SECTION_NAME_LENGTH_MAXIMUM_def example_shdrs_def)
  have dyn: "parse_dynamic example_parsed = Some (Inr example_parsed)"
    by (simp add: parse_dynamic_def find_dynamic_table_def example_parsed_def example_shdrs_def elf_const)
  have "parse_tables example_elf example_ehdr [(0, 64), (64, 64), (80, 272)] [] example_shdrs =
      Some (Inr example_parsed)"
    using names dyn
    by (simp add: parse_tables_def example_shdrs_def elf_const err_checked_add_def usize_max_def
        check_that_there_is_no_overlap_def example_elf_def slice_get_def ok_or_def example_parsed_def)
  moreover have "file_header_supported example_ehdr"
    by (simp add: file_header_supported_def example_ehdr_def elf_const)
  ultimately show ?thesis by (simp add: elf_parse_def example_parse_headers)
qed

section \<open>Properties\<close>

text \<open>C6: the parser is memory safe on every input and sound.  It returns for every byte slice at every
  address: no cast is undefined, no index out of range.  When it accepts, the three headers are the
  bytes of the file at the places the file header states and do not overlap; the sections with
  contents lie inside the file in ascending order, without overlapping each other or a header; the
  loadable segments lie inside the file with ascending addresses; and the relocation table, the
  dynamic symbol table and the sections found by name are parts of the file.\<close>

theorem elf_parse_sound:
  "(\<exists>r. elf_parse b = Some r) \<and> (\<forall>e. elf_parse b = Some (Inr e) \<longrightarrow> elf_ok (snd b) e)"
  using elf_parse_defined elf_parse_ok(1) by blast

theorem elf_parse_sound_witness:
  "elf_parse example_elf = Some (Inr example_parsed) \<and> elf_ok (snd example_elf) example_parsed"
  using elf_parse_sound[of example_elf] example_parse by blast

text \<open>C20: the string lookup returns exactly the zero-terminated strings that end before the end of
  their section and before the maximal length: the result has no zero byte, is followed by one in
  the file, and the terminator lies inside the section.  No string is cut off or runs over.\<close>

theorem string_in_section_iff:
  "get_string_in_section b sh off n = Inr s \<longleftrightarrow>
     (let start = unat (sh_offset sh) + unat off; fin = unat (sh_offset sh) + unat (sh_size sh) in
      sh_type sh = SHT_STRTAB \<and> start + n \<le> usize_max \<and> fin \<le> usize_max \<and>
      min fin (start + n) \<le> length (snd b) \<and> length s < n \<and> start + length s < fin \<and>
      0 \<notin> set s \<and> take (length s + 1) (drop start (snd b)) = s @ [0])"
proof -
  let ?s = "unat (sh_offset sh) + unat off" and ?f = "unat (sh_offset sh) + unat (sh_size sh)"
  let ?r = "take (min ?f (?s + n) - ?s) (drop ?s (snd b))"
  have "get_string_in_section b sh off n = Inr s \<longleftrightarrow>
      sh_type sh = SHT_STRTAB \<and> ?s + n \<le> usize_max \<and> ?f \<le> usize_max \<and>
      ?s \<le> min ?f (?s + n) \<and> min ?f (?s + n) \<le> length (snd b) \<and>
      (zero_position ?r \<bind> slice_range ?r 0) = Some s"
    by (auto simp: get_string_in_section_def try_op_eq_Inr slice_range_def[of "snd b"])
  also have "\<dots> \<longleftrightarrow> sh_type sh = SHT_STRTAB \<and> ?s + n \<le> usize_max \<and> ?f \<le> usize_max \<and>
      min ?f (?s + n) \<le> length (snd b) \<and> length s < n \<and> ?s + length s < ?f \<and>
      0 \<notin> set s \<and> take (length s + 1) (drop ?s (snd b)) = s @ [0]"
    unfolding string_Some by (auto simp: min_def split: if_splits)
  finally show ?thesis by (simp add: Let_def)
qed

end
