(* ===== verification/Ebpf.thy ===== *)
theory Ebpf
  imports Opcodes
begin

text \<open>
  The instruction format of \<^verbatim>\<open>src/src/ebpf.rs\<close>: the record \<open>Insn\<close>, its encoding into eight bytes
  (\<open>to_array\<close>, \<open>to_vec\<close>), decoding at a program counter (\<open>get_insn\<close>, \<open>get_insn_unchecked\<close>), and
  the merge of the two slots of an \<open>lddw\<close> (\<open>augment_lddw_unchecked\<close>).  The lemmas give the exact
  condition under which decoding does not panic and the two round trips between instructions and
  program bytes.
\<close>

unbundle bit_operations_syntax

section \<open>Instructions\<close>

record Insn =
  ptr :: usize
  opc :: u8
  dst :: u8
  src :: u8
  off :: i16
  imm :: i64

definition to_array :: "Insn \<Rightarrow> bytes" where
  "to_array insn =
     [opc insn,
      wrapping_shl (src insn) 4 OR dst insn,
      ucast (off insn AND 0xff),
      ucast (wrapping_sar (off insn) 8),
      ucast (imm insn AND 0xff),
      ucast (wrapping_sar (imm insn AND 0xff00) 8),
      ucast (wrapping_shr (ucast (imm insn) AND 0xff0000 :: u32) 16),
      ucast (wrapping_shr (ucast (imm insn) AND 0xff000000 :: u32) 24)]"

definition to_vec :: "Insn \<Rightarrow> bytes" where
  "to_vec insn = to_array insn"

definition is_pc_in_program :: "bytes \<Rightarrow> usize \<Rightarrow> bool" where
  "is_pc_in_program prog pc \<longleftrightarrow>
     usize_saturating_mul (usize_saturating_add pc 1) INSN_SIZE \<le> length prog"

definition get_insn_unchecked :: "bytes \<Rightarrow> usize \<Rightarrow> Insn option" where
  "get_insn_unchecked prog pc = do {
     op \<leftarrow> slice_get prog (INSN_SIZE * pc);
     regs \<leftarrow> slice_get prog (INSN_SIZE * pc + 1);
     tl2 \<leftarrow> slice_from prog (INSN_SIZE * pc + 2);
     o16 \<leftarrow> read_i16 tl2;
     tl4 \<leftarrow> slice_from prog (INSN_SIZE * pc + 4);
     i32 \<leftarrow> read_i32 tl4;
     Some \<lparr>ptr = pc, opc = op, dst = regs AND 0x0f, src = drop_bit 4 (regs AND 0xf0),
           off = o16, imm = scast i32\<rparr>
   }"

definition get_insn :: "bytes \<Rightarrow> usize \<Rightarrow> Insn option" where
  "get_insn prog pc = (if is_pc_in_program prog pc then get_insn_unchecked prog pc else None)"

definition augment_lddw_unchecked :: "bytes \<Rightarrow> Insn \<Rightarrow> Insn option" where
  "augment_lddw_unchecked prog insn = do {
     tl4 \<leftarrow> slice_from prog ((ptr insn + 1) * INSN_SIZE + 4);
     more_significant_half \<leftarrow> read_i32 tl4;
     Some (insn\<lparr>imm := (imm insn AND 0xffffffff) OR push_bit 32 (scast more_significant_half)\<rparr>)
   }"

section \<open>Decoding\<close>

text \<open>A Rust slice never holds more than \<open>isize::MAX\<close> bytes, so the saturation of the bounds check
  never hides a large program counter.\<close>

definition slice_fits :: "'a list \<Rightarrow> bool" where
  "slice_fits xs \<longleftrightarrow> length xs < 2 ^ 63"

lemma is_pc_in_program_iff:
  assumes "slice_fits prog"
  shows "is_pc_in_program prog pc \<longleftrightarrow> (pc + 1) * 8 \<le> length prog"
  using assms
  by (auto simp: is_pc_in_program_def usize_saturating_mul_def usize_saturating_add_def
      usize_max_def slice_fits_def layout min_def split: if_splits)

definition insn_at :: "bytes \<Rightarrow> usize \<Rightarrow> Insn" where
  "insn_at prog pc =
     \<lparr>ptr = pc, opc = prog ! (8 * pc), dst = prog ! (8 * pc + 1) AND 0x0f,
      src = drop_bit 4 (prog ! (8 * pc + 1) AND 0xf0),
      off = le_word (take 2 (drop (8 * pc + 2) prog)),
      imm = scast (le_word (take 4 (drop (8 * pc + 4) prog)) :: i32)\<rparr>"

lemma get_insn_unchecked_eq:
  "get_insn_unchecked prog pc = (if (pc + 1) * 8 \<le> length prog then Some (insn_at prog pc) else None)"
  by (auto simp: get_insn_unchecked_def insn_at_def layout slice_get_def slice_from_def
      read_i16_def read_i32_def)

lemma get_insn_eq:
  assumes "slice_fits prog"
  shows "get_insn prog pc = (if (pc + 1) * 8 \<le> length prog then Some (insn_at prog pc) else None)"
  using is_pc_in_program_iff[OF assms, of pc] by (auto simp: get_insn_def get_insn_unchecked_eq)

lemma insn_at_simps [simp]:
  "ptr (insn_at prog pc) = pc"
  "opc (insn_at prog pc) = prog ! (8 * pc)"
  by (simp_all add: insn_at_def)

lemma and_mask_lt: "x AND 0x0f < (0x10 :: u8)"
proof -
  have "x AND 0x0f \<le> (0x0f :: u8)" by (rule word_and_le1)
  also have "\<dots> < 0x10" by simp
  finally show ?thesis .
qed

lemma insn_at_registers:
  "dst (insn_at prog pc) < 16" "src (insn_at prog pc) < 16"
proof -
  show "dst (insn_at prog pc) < 16" by (simp add: insn_at_def and_mask_lt)
  have "drop_bit 4 (x AND 0xf0) = (drop_bit 4 x AND 0x0f :: u8)" for x
    by (rule bit_word_eqI) (auto simp: bit_simps)
  then show "src (insn_at prog pc) < 16" by (simp add: insn_at_def and_mask_lt)
qed

lemma ucast_scast_32_64 [simp]: "(ucast (scast (x :: i32) :: i64) :: i32) = x"
  by (rule bit_word_eqI) (auto simp: bit_simps)

lemma insn_at_imm: "imm (insn_at prog pc) = scast (ucast (imm (insn_at prog pc)) :: i32)"
  by (simp add: insn_at_def)

section \<open>Round trips\<close>

text \<open>The encoding is the opcode, the two register nibbles, and the little-endian bytes of the
  offset and of the low half of the immediate.\<close>

lemma bit_byte_masks:
  "bit (0xff :: i16) n \<longleftrightarrow> n < 8" "bit (0xff :: u32) n \<longleftrightarrow> n < 8" "bit (0xff :: i64) n \<longleftrightarrow> n < 8"
  "bit (0xff00 :: i64) n \<longleftrightarrow> 8 \<le> n \<and> n < 16" "bit (0xff0000 :: u32) n \<longleftrightarrow> 16 \<le> n \<and> n < 24"
  "bit (0xff000000 :: u32) n \<longleftrightarrow> 24 \<le> n \<and> n < 32" "bit (0xffffffff :: i64) n \<longleftrightarrow> n < 32"
proof -
  have "(0xff :: i16) = mask 8" "(0xff :: u32) = mask 8" "(0xff :: i64) = mask 8" "(0xff00 :: i64) = push_bit 8 (mask 8)"
    "(0xff0000 :: u32) = push_bit 16 (mask 8)" "(0xff000000 :: u32) = push_bit 24 (mask 8)"
    "(0xffffffff :: i64) = mask 32"
    by (simp_all add: mask_eq_exp_minus_1)
  then show "bit (0xff :: i16) n \<longleftrightarrow> n < 8" "bit (0xff :: u32) n \<longleftrightarrow> n < 8" "bit (0xff :: i64) n \<longleftrightarrow> n < 8"
    "bit (0xff00 :: i64) n \<longleftrightarrow> 8 \<le> n \<and> n < 16" "bit (0xff0000 :: u32) n \<longleftrightarrow> 16 \<le> n \<and> n < 24"
    "bit (0xff000000 :: u32) n \<longleftrightarrow> 24 \<le> n \<and> n < 32" "bit (0xffffffff :: i64) n \<longleftrightarrow> n < 32"
    by (simp_all only: bit_push_bit_iff bit_mask_iff) (auto simp: bit_simps)
qed

lemma to_array_eq:
  "to_array insn =
     [opc insn, push_bit 4 (src insn) OR dst insn] @ le_bytes 2 (off insn) @ le_bytes 4 (imm insn)"
proof -
  have "(ucast (x AND 0xff) :: u8) = ucast x" for x :: i16
    by (rule bit_word_eqI) (auto simp: bit_simps bit_byte_masks simp del: bit_numeral_word_iff)
  moreover have "(ucast (signed_drop_bit 8 x) :: u8) = ucast (drop_bit 8 x)" for x :: i16
    by (rule bit_word_eqI) (auto simp: bit_simps bit_byte_masks simp del: bit_numeral_word_iff)
  moreover have "(ucast (x AND 0xff) :: u8) = ucast x" for x :: i64
    by (rule bit_word_eqI) (auto simp: bit_simps bit_byte_masks simp del: bit_numeral_word_iff)
  moreover have "(ucast (signed_drop_bit 8 (x AND 0xff00)) :: u8) = ucast (drop_bit 8 x)" for x :: i64
    by (rule bit_word_eqI) (auto simp: bit_simps bit_byte_masks simp del: bit_numeral_word_iff)
  moreover have "(ucast (drop_bit 16 (ucast x AND 0xff0000 :: u32)) :: u8) = ucast (drop_bit 16 x)"
    for x :: i64
    by (rule bit_word_eqI) (auto simp: bit_simps bit_byte_masks simp del: bit_numeral_word_iff)
  moreover have "(ucast (drop_bit 24 (ucast x AND 0xff000000 :: u32)) :: u8) = ucast (drop_bit 24 x)"
    for x :: i64
    by (rule bit_word_eqI) (auto simp: bit_simps bit_byte_masks simp del: bit_numeral_word_iff)
  ultimately show ?thesis
    by (simp add: to_array_def wrapping_shl_def wrapping_sar_def wrapping_shr_def le_bytes_2 le_bytes_4)
qed

lemma length_to_array [simp]: "length (to_array insn) = 8"
  by (simp add: to_array_def)

lemma bit_nibble_masks:
  "bit (0x0f :: u8) n \<longleftrightarrow> n < 4" "bit (0xf0 :: u8) n \<longleftrightarrow> 4 \<le> n \<and> n < 8"
proof -
  have "(0x0f :: u8) = mask 4" "(0xf0 :: u8) = push_bit 4 (mask 4)"
    by (simp_all add: mask_eq_exp_minus_1)
  then show "bit (0x0f :: u8) n \<longleftrightarrow> n < 4" "bit (0xf0 :: u8) n \<longleftrightarrow> 4 \<le> n \<and> n < 8"
    by (simp_all only: bit_push_bit_iff bit_mask_iff) (auto simp: bit_simps)
qed

lemma list_of_8:
  assumes "8 \<le> length xs"
  shows "\<exists>a b c d e f g h rest. xs = a # b # c # d # e # f # g # h # rest"
  using assms by (auto simp: numeral_eq_Suc Suc_le_length_iff)

lemma nibbles:
  fixes d s :: u8
  assumes "d < 16" "s < 16"
  shows "(push_bit 4 s OR d) AND 0x0f = d" "drop_bit 4 ((push_bit 4 s OR d) AND 0xf0) = s"
proof -
  have high: "bit d n \<Longrightarrow> n < 4" "bit s n \<Longrightarrow> n < 4" for n
  proof -
    have "take_bit 4 d = d" "take_bit 4 s = s"
      using assms by (simp_all add: word_unat_eq_iff unsigned_take_bit_eq take_bit_nat_eq_self_iff
          word_less_nat_alt)
    then show "bit d n \<Longrightarrow> n < 4" "bit s n \<Longrightarrow> n < 4"
      by (metis bit_take_bit_iff)+
  qed
  show "(push_bit 4 s OR d) AND 0x0f = d"
    by (rule bit_word_eqI) (use high in \<open>auto simp: bit_simps bit_nibble_masks simp del: bit_numeral_word_iff\<close>)
  show "drop_bit 4 ((push_bit 4 s OR d) AND 0xf0) = s"
    by (rule bit_word_eqI) (use high in \<open>auto simp: bit_simps bit_nibble_masks simp del: bit_numeral_word_iff\<close>)
qed

definition insn_encodable :: "Insn \<Rightarrow> bool" where
  "insn_encodable insn \<longleftrightarrow>
     dst insn < 16 \<and> src insn < 16 \<and> imm insn = scast (ucast (imm insn) :: i32)"

lemma le_word_le_bytes_low:
  "(le_word (le_bytes 4 (x :: i64)) :: i32) = ucast x"
proof -
  have "le_bytes 4 x = le_bytes 4 (ucast x :: i32)"
    by (rule nth_equalityI) (auto simp: nth_le_bytes intro!: bit_word_eqI simp: bit_simps)
  then show ?thesis by (simp add: le_word_le_bytes)
qed

lemma insn_at_encoded:
  assumes "insn_encodable insn" and "length pre = 8 * k"
  shows "insn_at (pre @ to_array insn @ post) k = insn\<lparr>ptr := k\<rparr>"
proof -
  have "(pre @ to_array insn @ post) ! (8 * k + j) = (to_array insn @ post) ! j" for j
    using assms(2) by (simp add: nth_append)
  from this[of 0] this[of 1]
  have ops: "(pre @ to_array insn @ post) ! (8 * k) = opc insn"
    "(pre @ to_array insn @ post) ! (8 * k + 1) = push_bit 4 (src insn) OR dst insn"
    by (simp_all add: to_array_eq)
  have dr: "drop (8 * k + j) (pre @ to_array insn @ post) = drop j (to_array insn @ post)" for j
    using assms(2) by simp
  have tl: "take 2 (drop (8 * k + 2) (pre @ to_array insn @ post)) = le_bytes 2 (off insn)"
    "take 4 (drop (8 * k + 4) (pre @ to_array insn @ post)) = le_bytes 4 (imm insn)"
    unfolding dr by (simp_all add: to_array_eq)
  have "dst insn < 16" "src insn < 16" and i: "scast (ucast (imm insn) :: i32) = imm insn"
    using assms(1) by (simp_all add: insn_encodable_def)
  note n = nibbles[OF this(1,2)]
  show ?thesis
    unfolding insn_at_def tl ops n le_word_le_bytes_low i by (simp add: le_word_le_bytes)
qed

lemma length_encoded_program [simp]: "length (concat (map to_vec insns)) = 8 * length insns"
  by (induction insns) (simp_all add: to_vec_def)

lemma insn_at_program:
  assumes "\<forall>insn \<in> set insns. insn_encodable insn" and "k < length insns"
  shows "insn_at (concat (map to_vec insns)) k = (insns ! k)\<lparr>ptr := k\<rparr>"
proof -
  have "concat (map to_vec insns) = concat (map to_vec (take k insns)) @ to_array (insns ! k) @
      concat (map to_vec (drop (Suc k) insns))"
    using assms(2) by (metis (no_types) concat.simps(2) concat_append id_take_nth_drop list.simps(9)
        map_append to_vec_def)
  moreover have "length (concat (map to_vec (take k insns))) = 8 * k"
    using assms(2) by simp
  moreover have "insn_encodable (insns ! k)" using assms(1,2) by simp
  ultimately show ?thesis by (metis insn_at_encoded)
qed

text \<open>C24: encoding a list of instructions with \<open>to_vec\<close> and decoding the bytes at the \<open>k\<close>-th slot
  gives back the \<open>k\<close>-th instruction, with its slot number as \<open>ptr\<close>, provided its registers fit a
  nibble and its immediate is a sign-extended 32-bit value.\<close>

theorem get_insn_encoded_program:
  assumes "\<forall>insn \<in> set insns. insn_encodable insn" and "k < length insns"
    and "slice_fits (concat (map to_vec insns))"
  shows "get_insn (concat (map to_vec insns)) k = Some ((insns ! k)\<lparr>ptr := k\<rparr>)"
  using insn_at_program[OF assms(1,2)] assms(2,3) by (simp add: get_insn_eq)

theorem get_insn_encoded_program_witness:
  "get_insn (concat (map to_vec
       [\<lparr>ptr = 0, opc = 0xb7, dst = 2, src = 1, off = 0x3456, imm = 0x789abcde\<rparr>,
        \<lparr>ptr = 0, opc = 0x95, dst = 0, src = 0, off = 0, imm = 0\<rparr>])) 1 =
     Some \<lparr>ptr = 1, opc = 0x95, dst = 0, src = 0, off = 0, imm = 0\<rparr>"
proof -
  let ?is = "[\<lparr>ptr = 0, opc = 0xb7, dst = 2, src = 1, off = 0x3456, imm = 0x789abcde\<rparr>,
        \<lparr>ptr = 0, opc = 0x95, dst = 0, src = 0, off = 0, imm = 0 :: i64\<rparr>]"
  have "\<forall>insn \<in> set ?is. insn_encodable insn" by (simp add: insn_encodable_def)
  moreover have "slice_fits (concat (map to_vec ?is))" by (simp add: slice_fits_def to_vec_def)
  ultimately show ?thesis using get_insn_encoded_program[of ?is 1] by simp
qed

lemma nibbles_back: "push_bit 4 (drop_bit 4 (x AND 0xf0)) OR (x AND 0x0f) = (x :: u8)"
proof -
  show ?thesis
    by (rule bit_word_eqI) (auto simp: bit_simps bit_nibble_masks simp del: bit_numeral_word_iff)
qed

lemma le_bytes_low_scast: "le_bytes 4 (scast (x :: i32) :: i64) = le_bytes 4 x"
  by (rule nth_equalityI) (auto simp: nth_le_bytes intro!: bit_word_eqI simp: bit_simps)

text \<open>C25: decoding an instruction of a program and encoding it again with \<open>to_array\<close> gives exactly
  the eight bytes of its slot: no bit of the encoding is lost.\<close>

theorem to_array_get_insn:
  assumes "get_insn_unchecked prog pc = Some insn"
  shows "to_array insn = take 8 (drop (8 * pc) prog)"
proof -
  have len: "(pc + 1) * 8 \<le> length prog" and insn: "insn = insn_at prog pc"
    using assms by (auto simp: get_insn_unchecked_eq split: if_splits)
  obtain a b c d e f g h rest where d8: "drop (8 * pc) prog = a # b # c # d # e # f # g # h # rest"
  proof -
    have "8 \<le> length (drop (8 * pc) prog)" using len by simp
    then show ?thesis by (metis that list_of_8)
  qed
  have "drop (8 * pc + j) prog = drop j (a # b # c # d # e # f # g # h # rest)" for j
    unfolding d8[symmetric] by (simp add: add.commute)
  then have "drop (8 * pc + 2) prog = c # d # e # f # g # h # rest"
    "drop (8 * pc + 4) prog = e # f # g # h # rest"
    by (simp_all del: add_2_eq_Suc' add_2_eq_Suc)
  moreover have "prog ! (8 * pc) = a" "prog ! (8 * pc + 1) = b"
  proof -
    have "drop (8 * pc) prog ! 0 = a" "drop (8 * pc) prog ! 1 = b" using d8 by simp_all
    then show "prog ! (8 * pc) = a" "prog ! (8 * pc + 1) = b" using len by simp_all
  qed
  moreover have "le_bytes 2 (le_word [c, d] :: i16) = [c, d]"
    by (rule le_bytes_le_word_numeral) simp_all
  moreover have "le_bytes 4 (le_word [e, f, g, h] :: i32) = [e, f, g, h]"
    by (rule le_bytes_le_word_numeral) simp_all
  ultimately show ?thesis
    using nibbles_back[of b]
    by (simp add: insn d8 to_array_eq insn_at_def le_bytes_low_scast del: le_word.simps)
qed

theorem to_array_get_insn_witness:
  "get_insn_unchecked [0xb7, 0x12, 0x56, 0x34, 0xde, 0xbc, 0x9a, 0x78] 0 =
     Some \<lparr>ptr = 0, opc = 0xb7, dst = 2, src = 1, off = 0x3456, imm = 0x789abcde\<rparr> \<and>
   to_array \<lparr>ptr = 0, opc = 0xb7, dst = 2, src = 1, off = 0x3456, imm = 0x789abcde\<rparr> =
     [0xb7, 0x12, 0x56, 0x34, 0xde, 0xbc, 0x9a, 0x78]"
proof -
  have h: "get_insn_unchecked [0xb7, 0x12, 0x56, 0x34, 0xde, 0xbc, 0x9a, 0x78] 0 =
     Some \<lparr>ptr = 0, opc = 0xb7, dst = 2, src = 1, off = 0x3456, imm = 0x789abcde\<rparr>"
    by (simp add: get_insn_unchecked_eq insn_at_def)
  then show ?thesis using to_array_get_insn[OF h] by simp
qed

lemma merge_halves:
  fixes v :: i64
  shows "(scast (ucast v :: i32) AND 0xffffffff) OR
     push_bit 32 (scast (ucast (signed_drop_bit 32 v) :: i32)) = v"
proof (rule bit_word_eqI)
  fix n assume n: "n < LENGTH(64)"
  show "bit ((scast (ucast v :: i32) AND 0xffffffff) OR
     push_bit 32 (scast (ucast (signed_drop_bit 32 v) :: i32)) :: i64) n = bit v n"
  proof (cases "n < 32")
    case True
    then have "min 31 n = n" by simp
    with True show ?thesis by (simp add: bit_simps bit_byte_masks del: bit_numeral_word_iff)
  next
    case False
    then obtain m where m: "n = 32 + m" by (metis le_add_diff_inverse not_less)
    then have "m < 32" using n by simp
    then have "min 31 m = m" by simp
    with \<open>m < 32\<close> show ?thesis
      by (auto simp: m bit_simps bit_byte_masks simp del: bit_numeral_word_iff)
  qed
qed



end
