(* ===== verification/Config.thy ===== *)
theory Config
  imports Ebpf Errors
begin

text \<open>
  The bytecode versions (\<open>SBPFVersion\<close> of \<^verbatim>\<open>src/src/program.rs\<close>) with the feature switches each
  of them selects, and the VM configuration (\<open>Config\<close> of \<^verbatim>\<open>src/src/vm.rs\<close>).
\<close>

section \<open>Versions\<close>

datatype SBPFVersion = V0 | V1 | V2 | V3 | V4 | Reserved

text \<open>The derived \<open>PartialOrd\<close> compares the constructors' positions.\<close>

fun version_rank :: "SBPFVersion \<Rightarrow> nat" where
  "version_rank V0 = 0"
| "version_rank V1 = 1"
| "version_rank V2 = 2"
| "version_rank V3 = 3"
| "version_rank V4 = 4"
| "version_rank Reserved = 5"

lemma version_rank_inj [simp]: "version_rank v = version_rank w \<longleftrightarrow> v = w"
  by (cases v; cases w) simp_all

instantiation SBPFVersion :: linorder
begin

definition less_eq_SBPFVersion :: "SBPFVersion \<Rightarrow> SBPFVersion \<Rightarrow> bool" where
  "less_eq_SBPFVersion v w \<longleftrightarrow> version_rank v \<le> version_rank w"

definition less_SBPFVersion :: "SBPFVersion \<Rightarrow> SBPFVersion \<Rightarrow> bool" where
  "less_SBPFVersion v w \<longleftrightarrow> version_rank v < version_rank w"

instance
  by standard (auto simp: less_eq_SBPFVersion_def less_SBPFVersion_def antisym)

end

definition manual_stack_frame_bump :: "SBPFVersion \<Rightarrow> bool" where
  "manual_stack_frame_bump v \<longleftrightarrow> v = V1 \<or> v = V2"

definition stack_frame_gaps :: "SBPFVersion \<Rightarrow> bool" where
  "stack_frame_gaps v \<longleftrightarrow> v = V0"

definition enable_pqr :: "SBPFVersion \<Rightarrow> bool" where
  "enable_pqr v \<longleftrightarrow> v = V2"

definition explicit_sign_extension_of_results :: "SBPFVersion \<Rightarrow> bool" where
  "explicit_sign_extension_of_results v \<longleftrightarrow> v = V2"

definition swap_sub_reg_imm_operands :: "SBPFVersion \<Rightarrow> bool" where
  "swap_sub_reg_imm_operands v \<longleftrightarrow> v = V2"

definition disable_neg :: "SBPFVersion \<Rightarrow> bool" where
  "disable_neg v \<longleftrightarrow> v = V2"

definition callx_uses_src_reg :: "SBPFVersion \<Rightarrow> bool" where
  "callx_uses_src_reg v \<longleftrightarrow> v = V2"

definition disable_lddw :: "SBPFVersion \<Rightarrow> bool" where
  "disable_lddw v \<longleftrightarrow> v = V2"

definition disable_le :: "SBPFVersion \<Rightarrow> bool" where
  "disable_le v \<longleftrightarrow> v = V2"

definition move_memory_instruction_classes :: "SBPFVersion \<Rightarrow> bool" where
  "move_memory_instruction_classes v \<longleftrightarrow> v = V2"

definition static_syscalls :: "SBPFVersion \<Rightarrow> bool" where
  "static_syscalls v \<longleftrightarrow> v \<ge> V3"

definition enable_stricter_elf_headers :: "SBPFVersion \<Rightarrow> bool" where
  "enable_stricter_elf_headers v \<longleftrightarrow> v \<ge> V3"

definition enable_lower_rodata_vaddr :: "SBPFVersion \<Rightarrow> bool" where
  "enable_lower_rodata_vaddr v \<longleftrightarrow> v \<ge> V3"

definition enable_jmp32 :: "SBPFVersion \<Rightarrow> bool" where
  "enable_jmp32 v \<longleftrightarrow> v \<ge> V3"

definition callx_uses_dst_reg :: "SBPFVersion \<Rightarrow> bool" where
  "callx_uses_dst_reg v \<longleftrightarrow> v \<ge> V3"

named_theorems features "the feature switches of the versions"

lemmas [features] = manual_stack_frame_bump_def stack_frame_gaps_def enable_pqr_def
  explicit_sign_extension_of_results_def swap_sub_reg_imm_operands_def disable_neg_def
  callx_uses_src_reg_def disable_lddw_def disable_le_def move_memory_instruction_classes_def
  static_syscalls_def enable_stricter_elf_headers_def enable_lower_rodata_vaddr_def
  enable_jmp32_def callx_uses_dst_reg_def less_eq_SBPFVersion_def

text \<open>The target program counter of a \<open>call imm\<close>.  Before static syscalls the immediate is a
  registry key; from V3 on it is relative to the next instruction.  \<open>pc as i64\<close> reinterprets the
  64-bit \<open>usize\<close>.\<close>

definition calculate_call_imm_target_pc :: "SBPFVersion \<Rightarrow> usize \<Rightarrow> i64 \<Rightarrow> u32" where
  "calculate_call_imm_target_pc v pc im =
     (if static_syscalls v
      then ucast (i64_saturating_add (i64_saturating_add (of_nat pc) im) 1)
      else ucast im)"

section \<open>Configuration\<close>

record Config =
  max_call_depth :: usize
  stack_frame_size :: usize
  enable_address_translation :: bool
  enable_stack_frame_gaps :: bool
  instruction_meter_checkpoint_distance :: usize
  enable_instruction_meter :: bool
  enable_register_tracing :: bool
  enable_symbol_and_section_labels :: bool
  reject_broken_elfs :: bool
  noop_instruction_rate :: u32
  sanitize_user_provided_values :: bool
  optimize_rodata :: bool
  allow_memory_region_zero :: bool
  aligned_memory_mapping :: bool
  enabled_sbpf_versions :: "SBPFVersion \<times> SBPFVersion"

definition stack_size :: "Config \<Rightarrow> usize option" where
  "stack_size c = usize_mul_ovf (stack_frame_size c) (max_call_depth c)"

definition Config_default :: Config where
  "Config_default =
     \<lparr>max_call_depth = 64,
      stack_frame_size = 4096,
      enable_address_translation = True,
      enable_stack_frame_gaps = True,
      instruction_meter_checkpoint_distance = 10000,
      enable_instruction_meter = True,
      enable_register_tracing = False,
      enable_symbol_and_section_labels = False,
      reject_broken_elfs = False,
      noop_instruction_rate = 256,
      sanitize_user_provided_values = True,
      optimize_rodata = True,
      allow_memory_region_zero = True,
      aligned_memory_mapping = False,
      enabled_sbpf_versions = (V0, V4)\<rparr>"

end
