(* ===== verification/BTree_Map.thy ===== *)
theory BTree_Map
  imports Main
begin

text \<open>
  The part of \<open>std::collections::BTreeMap\<close> the crate uses: lookup, insertion, removal and
  iteration in ascending key order.  The interface is the locale \<open>ordered_map\<close>; its model is the
  list of entries in ascending key order, the sequence the iterators of the Rust type yield.
\<close>

section \<open>Interface\<close>

locale ordered_map =
  fixes empty :: "'m"
    and get :: "'m \<Rightarrow> 'k::linorder \<Rightarrow> 'v option"
    and insert :: "'k \<Rightarrow> 'v \<Rightarrow> 'm \<Rightarrow> 'm"
    and remove :: "'k \<Rightarrow> 'm \<Rightarrow> 'm"
    and entries :: "'m \<Rightarrow> ('k \<times> 'v) list"
    and invar :: "'m \<Rightarrow> bool"
  assumes invar_empty: "invar empty"
    and invar_insert: "invar m \<Longrightarrow> invar (insert k v m)"
    and invar_remove: "invar m \<Longrightarrow> invar (remove k m)"
    and get_empty: "get empty k = None"
    and get_insert: "invar m \<Longrightarrow> get (insert k v m) j = (if j = k then Some v else get m j)"
    and get_remove: "invar m \<Longrightarrow> get (remove k m) j = (if j = k then None else get m j)"
    and entries_ascending: "invar m \<Longrightarrow> sorted_wrt (<) (map fst (entries m))"
    and entries_get: "invar m \<Longrightarrow> (k, v) \<in> set (entries m) \<longleftrightarrow> get m k = Some v"
begin

text \<open>Searching the entries in order finds the match with the least key.\<close>

lemma find_entries_least:
  assumes "invar m" and "find (\<lambda>(k, v). P k v) (entries m) = Some (k, v)"
  shows "get m k = Some v \<and> P k v \<and> (\<forall>j w. get m j = Some w \<and> P j w \<longrightarrow> k \<le> j)"
proof -
  obtain i where i: "i < length (entries m)" and hit: "entries m ! i = (k, v)" "P k v"
    and before: "\<forall>j < i. \<not> (case entries m ! j of (k, v) \<Rightarrow> P k v)"
    using assms(2) by (auto simp: find_Some_iff)
  have "(k, v) \<in> set (entries m)" using nth_mem[OF i] hit(1) by simp
  then have "get m k = Some v" by (simp add: entries_get[OF assms(1)])
  moreover have "k \<le> j" if "get m j = Some w" "P j w" for j w
  proof -
    have "(j, w) \<in> set (entries m)" using that(1) by (simp add: entries_get[OF assms(1)])
    then obtain n where n: "n < length (entries m)" "entries m ! n = (j, w)"
      by (auto simp: in_set_conv_nth)
    have "\<not> n < i" using before that(2) n(2) by auto
    then have "i \<le> n" by simp
    show ?thesis
    proof (cases "i = n")
      case True
      then show ?thesis using n(2) hit(1) by simp
    next
      case False
      then have "map fst (entries m) ! i < map fst (entries m) ! n"
        using \<open>i \<le> n\<close> n(1) sorted_wrt_nth_less[OF entries_ascending[OF assms(1)], of i n] by simp
      then show ?thesis using n hit(1) i by simp
    qed
  qed
  ultimately show ?thesis using hit(2) by blast
qed

lemma find_entries_None:
  assumes "invar m" and "find (\<lambda>(k, v). P k v) (entries m) = None" and "get m k = Some v"
  shows "\<not> P k v"
  using assms entries_get[of m k v] by (auto simp: find_None_iff)

end

section \<open>Model\<close>

type_synonym ('k, 'v) btree = "('k \<times> 'v) list"

definition bt_empty :: "('k, 'v) btree" where
  "bt_empty = []"

definition bt_get :: "('k, 'v) btree \<Rightarrow> 'k \<Rightarrow> 'v option" where
  "bt_get m k = map_of m k"

primrec bt_insert :: "'k::linorder \<Rightarrow> 'v \<Rightarrow> ('k, 'v) btree \<Rightarrow> ('k, 'v) btree" where
  "bt_insert k v [] = [(k, v)]"
| "bt_insert k v (e # m) =
     (if fst e < k then e # bt_insert k v m
      else (k, v) # (if fst e = k then m else e # m))"

definition bt_remove :: "'k \<Rightarrow> ('k, 'v) btree \<Rightarrow> ('k, 'v) btree" where
  "bt_remove k m = filter (\<lambda>e. fst e \<noteq> k) m"

definition bt_wf :: "('k::linorder, 'v) btree \<Rightarrow> bool" where
  "bt_wf m \<longleftrightarrow> sorted_wrt (<) (map fst m)"

lemma bt_wf_Cons [simp]: "bt_wf (e # m) \<longleftrightarrow> (\<forall>x \<in> set m. fst e < fst x) \<and> bt_wf m"
  by (auto simp: bt_wf_def)

lemma set_bt_insert: "set (bt_insert k v m) \<subseteq> Set.insert (k, v) (set m)"
  by (induction m) auto

lemma bt_wf_insert: "bt_wf m \<Longrightarrow> bt_wf (bt_insert k v m)"
proof (induction m)
  case Nil
  then show ?case by (simp add: bt_wf_def)
next
  case (Cons e m)
  show ?case
  proof (cases "fst e < k")
    case True
    then show ?thesis using Cons set_bt_insert[of k v m] by auto
  next
    case False
    then show ?thesis using Cons.prems by fastforce
  qed
qed

lemma bt_get_insert:
  "bt_wf m \<Longrightarrow> bt_get (bt_insert k v m) j = (if j = k then Some v else bt_get m j)"
  by (induction m) (auto simp: bt_get_def)

lemma bt_get_remove: "bt_get (bt_remove k m) j = (if j = k then None else bt_get m j)"
  by (induction m) (auto simp: bt_get_def bt_remove_def)

lemma bt_distinct: "bt_wf m \<Longrightarrow> distinct (map fst m)"
  by (auto simp: bt_wf_def strict_sorted_iff)

lemma bt_wf_remove: "bt_wf m \<Longrightarrow> bt_wf (bt_remove k m)"
  by (induction m) (auto simp: bt_remove_def bt_wf_def)

interpretation btm: ordered_map bt_empty bt_get bt_insert bt_remove "\<lambda>m. m" bt_wf
proof (unfold_locales, goal_cases)
  case 1
  show ?case by (simp add: bt_wf_def bt_empty_def)
next
  case (2 m k v)
  then show ?case by (rule bt_wf_insert)
next
  case (3 m k)
  then show ?case by (rule bt_wf_remove)
next
  case (4 k)
  show ?case by (simp add: bt_get_def bt_empty_def)
next
  case (5 m k v j)
  then show ?case by (rule bt_get_insert)
next
  case (6 m k j)
  show ?case by (rule bt_get_remove)
next
  case (7 m)
  then show ?case by (simp add: bt_wf_def)
next
  case (8 m k v)
  then show ?case by (simp add: bt_get_def bt_distinct)
qed

end
