(* ===== verification/Program.thy ===== *)
theory Program
  imports Config BTree_Map
begin

text \<open>
  The function registries of \<^verbatim>\<open>src/src/program.rs\<close>: \<open>FunctionRegistry\<close> maps 32-bit keys to a
  name and a value, and \<open>BuiltinProgram\<close> is a loader with its configuration and the registry of
  syscalls.  Function pointers are compared but not inspected here, so the value type is a
  parameter.  The symbol hash (Murmur3 of the \<^verbatim>\<open>hash32\<close> crate) is a parameter \<open>hash\<close> of the
  operations that use it.
\<close>

section \<open>FunctionRegistry\<close>

record 't FunctionRegistry =
  fr_map :: "(u32, bytes \<times> 't) btree"

definition FunctionRegistry_default :: "'t FunctionRegistry" where
  "FunctionRegistry_default = \<lparr>fr_map = bt_empty\<rparr>"

definition register_function ::
  "'t FunctionRegistry \<Rightarrow> u32 \<Rightarrow> bytes \<Rightarrow> 't \<Rightarrow> ElfError + 't FunctionRegistry" where
  "register_function r key name v =
     (case bt_get (fr_map r) key of
        None \<Rightarrow> Inr (r\<lparr>fr_map := bt_insert key (name, v) (fr_map r)\<rparr>)
      | Some (_, w) \<Rightarrow> if w \<noteq> v then Inl (SymbolHashCollision key) else Inr r)"

definition unregister_function :: "'t FunctionRegistry \<Rightarrow> u32 \<Rightarrow> 't FunctionRegistry" where
  "unregister_function r key = r\<lparr>fr_map := bt_remove key (fr_map r)\<rparr>"

definition keys :: "'t FunctionRegistry \<Rightarrow> u32 list" where
  "keys r = map fst (fr_map r)"

definition iter :: "'t FunctionRegistry \<Rightarrow> (u32 \<times> bytes \<times> 't) list" where
  "iter r = map (\<lambda>(key, name, v). (key, name, v)) (fr_map r)"

definition lookup_by_key :: "'t FunctionRegistry \<Rightarrow> u32 \<Rightarrow> (bytes \<times> 't) option" where
  "lookup_by_key r key = bt_get (fr_map r) key"

definition lookup_by_name :: "'t FunctionRegistry \<Rightarrow> bytes \<Rightarrow> (bytes \<times> 't) option" where
  "lookup_by_name r name = find (\<lambda>(function_name, _). function_name = name) (map snd (fr_map r))"

section \<open>BuiltinProgram\<close>

record 'f BuiltinProgram =
  bp_config :: "Config option"
  sparse_registry :: "'f FunctionRegistry"

definition new_loader :: "Config \<Rightarrow> 'f BuiltinProgram" where
  "new_loader c = \<lparr>bp_config = Some c, sparse_registry = FunctionRegistry_default\<rparr>"

definition new_builtin :: "'f BuiltinProgram" where
  "new_builtin = \<lparr>bp_config = None, sparse_registry = FunctionRegistry_default\<rparr>"

definition new_mock :: "'f BuiltinProgram" where
  "new_mock = \<lparr>bp_config = Some Config_default, sparse_registry = FunctionRegistry_default\<rparr>"

definition get_config :: "'f BuiltinProgram \<Rightarrow> Config option" where
  "get_config b = bp_config b"

definition get_function_registry :: "'f BuiltinProgram \<Rightarrow> 'f FunctionRegistry" where
  "get_function_registry b = sparse_registry b"

definition builtin_register_function ::
  "(bytes \<Rightarrow> u32) \<Rightarrow> 'f BuiltinProgram \<Rightarrow> bytes \<Rightarrow> 'f \<Rightarrow> ElfError + 'f BuiltinProgram" where
  "builtin_register_function hash b name v =
     (let key = hash name in
      try_op (register_function (sparse_registry b) key name v)
        (\<lambda>r. Inr (b\<lparr>sparse_registry := r\<rparr>)))"

text \<open>The bytes of the name \<open>entrypoint\<close>.\<close>

definition entrypoint_name :: bytes where
  "entrypoint_name = [0x65, 0x6e, 0x74, 0x72, 0x79, 0x70, 0x6f, 0x69, 0x6e, 0x74]"

text \<open>The key of a user function: before V3 the hash of the little-endian bytes of its program
  counter (of the name for the entrypoint), checked against the syscalls of the loader; from V3
  on the program counter itself.\<close>

definition register_function_hashed_legacy ::
  "(bytes \<Rightarrow> u32) \<Rightarrow> usize FunctionRegistry \<Rightarrow> 'f BuiltinProgram \<Rightarrow> bool \<Rightarrow> bytes \<Rightarrow> usize
   \<Rightarrow> (ElfError + u32 \<times> usize FunctionRegistry) option" where
  "register_function_hashed_legacy hash r loader hash_symbol_name name v = do {
     config \<leftarrow> get_config loader;
     Some (try_op
       (if hash_symbol_name then
          let h = (if name = entrypoint_name then hash entrypoint_name
                   else hash (le_bytes 8 (of_nat v :: u64)))
          in if lookup_by_key (get_function_registry loader) h \<noteq> None
             then Inl (SymbolHashCollision h) else Inr h
        else Inr (of_nat v))
       (\<lambda>key. try_op
         (register_function r key
            (if enable_symbol_and_section_labels config \<or> name = entrypoint_name then name else []) v)
         (\<lambda>r'. Inr (key, r'))))
   }"

section \<open>Invariant\<close>

definition registry_wf :: "'t FunctionRegistry \<Rightarrow> bool" where
  "registry_wf r \<longleftrightarrow> bt_wf (fr_map r)"

lemma registry_wf_default [simp]: "registry_wf FunctionRegistry_default"
  by (simp add: registry_wf_def FunctionRegistry_default_def btm.invar_empty)

lemma registry_wf_register:
  "registry_wf r \<Longrightarrow> register_function r key name v = Inr r' \<Longrightarrow> registry_wf r'"
  by (auto simp: registry_wf_def register_function_def btm.invar_insert
      split: option.splits if_splits)

lemma registry_wf_unregister: "registry_wf r \<Longrightarrow> registry_wf (unregister_function r key)"
  by (simp add: registry_wf_def unregister_function_def btm.invar_remove)

lemma lookup_after_register:
  assumes "registry_wf r" and "register_function r key name v = Inr r'"
  shows "lookup_by_key r' k =
     (if k = key \<and> lookup_by_key r key = None then Some (name, v) else lookup_by_key r k)"
  using assms
  by (auto simp: registry_wf_def register_function_def lookup_by_key_def btm.get_insert
      split: option.splits if_splits)

lemma lookup_after_unregister:
  "registry_wf r \<Longrightarrow>
     lookup_by_key (unregister_function r key) k = (if k = key then None else lookup_by_key r k)"
  by (simp add: registry_wf_def unregister_function_def lookup_by_key_def btm.get_remove)

lemma find_map_snd:
  "find (\<lambda>(n, _). n = name) (map snd m) = map_option snd (find (\<lambda>(k, nv). fst nv = name) m)"
  by (induction m) auto

section \<open>Properties\<close>

text \<open>C29: registering a function succeeds exactly when the key is free or already bound to the same
  value, and fails with a hash collision otherwise.  On success the registry stays ordered, the key
  is bound to the value, the name of an earlier registration wins, and every other key keeps its
  binding.\<close>

theorem register_function_spec:
  assumes "registry_wf r"
  shows "case register_function r key name v of
      Inl e \<Rightarrow> e = SymbolHashCollision key \<and> (\<exists>n w. lookup_by_key r key = Some (n, w) \<and> w \<noteq> v)
    | Inr r' \<Rightarrow> registry_wf r' \<and>
        (\<exists>n. lookup_by_key r' key = Some (n, v) \<and>
             (case lookup_by_key r key of None \<Rightarrow> n = name | Some (m, w) \<Rightarrow> n = m \<and> w = v)) \<and>
        (\<forall>k. k \<noteq> key \<longrightarrow> lookup_by_key r' k = lookup_by_key r k)"
proof (cases "register_function r key name v")
  case (Inl e)
  then show ?thesis
    by (auto simp: register_function_def lookup_by_key_def split: option.splits if_splits)
next
  case (Inr r')
  have look: "lookup_by_key r' k =
      (if k = key \<and> lookup_by_key r key = None then Some (name, v) else lookup_by_key r k)" for k
    by (rule lookup_after_register[OF assms Inr])
  have "lookup_by_key r key = None \<or> (\<exists>n. lookup_by_key r key = Some (n, v))"
    using Inr by (auto simp: register_function_def lookup_by_key_def split: option.splits if_splits)
  then show ?thesis
    using registry_wf_register[OF assms Inr] by (auto simp: Inr look)
qed

theorem register_function_spec_witness:
  "registry_wf (FunctionRegistry_default :: nat FunctionRegistry) \<and>
   register_function FunctionRegistry_default 7 [1] (3 :: nat) =
     Inr \<lparr>fr_map = [(7, [1], 3)]\<rparr> \<and>
   lookup_by_key \<lparr>fr_map = [(7, [1], 3 :: nat)]\<rparr> 7 = Some ([1], 3)"
proof -
  have e: "register_function FunctionRegistry_default 7 [1] (3 :: nat) = Inr \<lparr>fr_map = [(7, [1], 3)]\<rparr>"
    by (simp add: register_function_def FunctionRegistry_default_def bt_empty_def bt_get_def)
  have "registry_wf (FunctionRegistry_default :: nat FunctionRegistry)" by simp
  from register_function_spec[OF this, where key = 7 and name = "[1]" and v = 3] show ?thesis
    by (simp add: e) (auto simp: lookup_by_key_def FunctionRegistry_default_def bt_empty_def bt_get_def)
qed

text \<open>C30: a lookup by name finds a registered function of that name whenever there is one, and
  among several the one with the least key; it finds nothing only if no function has the name.\<close>

theorem lookup_by_name_spec:
  assumes "registry_wf r"
  shows "case lookup_by_name r name of
      None \<Rightarrow> (\<forall>k n v. lookup_by_key r k = Some (n, v) \<longrightarrow> n \<noteq> name)
    | Some (n, v) \<Rightarrow> n = name \<and> (\<exists>k. lookup_by_key r k = Some (name, v) \<and>
        (\<forall>j w. lookup_by_key r j = Some (name, w) \<longrightarrow> k \<le> j))"
proof -
  let ?P = "\<lambda>(k :: u32) (nv :: bytes \<times> 'a). fst nv = name"
  have wf: "bt_wf (fr_map r)" using assms by (simp add: registry_wf_def)
  have eq: "lookup_by_name r name = map_option snd (find (\<lambda>(k, nv). ?P k nv) (fr_map r))"
    unfolding lookup_by_name_def by (rule find_map_snd)
  show ?thesis
  proof (cases "find (\<lambda>(k, nv). ?P k nv) (fr_map r)")
    case None
    then show ?thesis
      using btm.find_entries_None[OF wf, of ?P] by (fastforce simp: eq lookup_by_key_def)
  next
    case (Some e)
    obtain k n v where e: "e = (k, n, v)" by (cases e)
    from btm.find_entries_least[OF wf, of ?P k "(n, v)"] Some e
    show ?thesis by (auto simp: eq lookup_by_key_def)
  qed
qed

theorem lookup_by_name_spec_witness:
  "registry_wf \<lparr>fr_map = [(3, [1], 30 :: nat), (7, [1], 70)]\<rparr> \<and>
   lookup_by_name \<lparr>fr_map = [(3, [1], 30 :: nat), (7, [1], 70)]\<rparr> [1] = Some ([1], 30) \<and>
   (\<exists>k. lookup_by_key \<lparr>fr_map = [(3, [1], 30 :: nat), (7, [1], 70)]\<rparr> k = Some ([1], 30))"
proof -
  have w: "registry_wf \<lparr>fr_map = [(3, [1], 30 :: nat), (7, [1], 70)]\<rparr>"
    by (simp add: registry_wf_def bt_wf_def)
  have l: "lookup_by_name \<lparr>fr_map = [(3, [1], 30 :: nat), (7, [1], 70)]\<rparr> [1] = Some ([1], 30)"
    by (simp add: lookup_by_name_def)
  show ?thesis using lookup_by_name_spec[OF w, of "[1]"] w l by auto
qed

end
