(* ===== verification/Verifier.thy ===== *)
theory Verifier
  imports Program
begin

text \<open>
  The static verifier (\<^verbatim>\<open>src/src/verifier.rs\<close>).  The \<open>match\<close> on the opcode is kept as the list
  of its arms in source order, each with its guard and the check its body makes; the first arm
  whose opcode and guard apply decides.  The verifier is shown to be total and to accept exactly
  the programs all of whose instructions, read from the start in steps of one or two slots,
  satisfy the declarative condition \<open>insn_ok\<close>.
\<close>

unbundle bit_operations_syntax

section \<open>Checks\<close>

definition check_prog_len :: "bytes \<Rightarrow> VerifierError + unit" where
  "check_prog_len prog =
     (if length prog mod INSN_SIZE \<noteq> 0 then Inl ProgramLengthNotMultiple
      else if prog = [] then Inl NoProgram
      else Inr ())"

definition check_imm_nonzero :: "Insn \<Rightarrow> usize \<Rightarrow> VerifierError + unit" where
  "check_imm_nonzero insn insn_ptr = (if imm insn = 0 then Inl (DivisionByZero insn_ptr) else Inr ())"

definition check_imm_endian :: "Insn \<Rightarrow> usize \<Rightarrow> VerifierError + unit" where
  "check_imm_endian insn insn_ptr =
     (if imm insn = 16 \<or> imm insn = 32 \<or> imm insn = 64 then Inr ()
      else Inl (UnsupportedLEBEArgument insn_ptr))"

definition check_imm_aligned :: "Insn \<Rightarrow> usize \<Rightarrow> i64 \<Rightarrow> VerifierError + unit" where
  "check_imm_aligned insn insn_ptr alignment =
     (if imm insn AND (alignment - 1) = 0 then Inr () else Inl (UnalignedImmediate insn_ptr))"

definition check_load_dw :: "bytes \<Rightarrow> usize \<Rightarrow> (VerifierError + unit) option" where
  "check_load_dw prog insn_ptr =
     (if (insn_ptr + 1) * INSN_SIZE \<ge> length prog then Some (Inl LDDWCannotBeLast)
      else do {
        next_insn \<leftarrow> get_insn prog (insn_ptr + 1);
        Some (if opc next_insn \<noteq> 0 then Inl (IncompleteLDDW insn_ptr) else Inr ())
      })"

text \<open>A negative target is reported as its conversion to \<open>usize\<close>.\<close>

definition as_usize :: "int \<Rightarrow> usize" where
  "as_usize i = unat (word_of_int i :: u64)"

definition check_jmp_offset :: "bytes \<Rightarrow> usize \<Rightarrow> usize \<Rightarrow> (VerifierError + unit) option" where
  "check_jmp_offset prog insn_ptr program_end =
     do {
       insn \<leftarrow> get_insn prog insn_ptr;
       let dst_insn_ptr = int insn_ptr + 1 + sint (off insn);
       if dst_insn_ptr < 0 \<or> \<not> as_usize dst_insn_ptr < program_end
       then Some (Inl (JumpOutOfCode (as_usize dst_insn_ptr) insn_ptr))
       else do {
         dst_insn \<leftarrow> get_insn prog (as_usize dst_insn_ptr);
         Some (if opc dst_insn = 0 then Inl (JumpToMiddleOfLDDW (as_usize dst_insn_ptr) insn_ptr) else Inr ())
       }
     }"

definition check_registers :: "Insn \<Rightarrow> bool \<Rightarrow> usize \<Rightarrow> SBPFVersion \<Rightarrow> VerifierError + unit" where
  "check_registers insn store insn_ptr v =
     (if src insn > 10 then Inl (InvalidSourceRegister insn_ptr)
      else if dst insn \<le> 9 \<or> dst insn = 10 \<and> store then Inr ()
      else if dst insn = 10 \<and> manual_stack_frame_bump v \<and> opc insn = ADD64_IMM then Inr ()
      else if dst insn = 10 then Inl (CannotWriteR10 insn_ptr)
      else Inl (InvalidDestinationRegister insn_ptr))"

definition check_imm_shift :: "Insn \<Rightarrow> usize \<Rightarrow> u64 \<Rightarrow> VerifierError + unit" where
  "check_imm_shift insn insn_ptr imm_bits =
     (let shift_by = imm insn in
      if sint (imm insn) < 0 \<or> shift_by \<ge> imm_bits
      then Inl (ShiftWithOverflow shift_by imm_bits insn_ptr) else Inr ())"

definition callx_register :: "SBPFVersion \<Rightarrow> Insn \<Rightarrow> i64" where
  "callx_register v insn =
     (if callx_uses_src_reg v then ucast (src insn)
      else if callx_uses_dst_reg v then ucast (dst insn)
      else imm insn)"

definition check_callx_register :: "Insn \<Rightarrow> usize \<Rightarrow> SBPFVersion \<Rightarrow> VerifierError + unit" where
  "check_callx_register insn insn_ptr v =
     (let reg = callx_register v insn in
      if 0 \<le> sint reg \<and> sint reg < 10 then Inr () else Inl (InvalidRegister insn_ptr))"

section \<open>The arms of the match\<close>

datatype arm_check =
    NoCheck
  | SetStore
  | LoadDw
  | ImmNonzero
  | ImmShift u64
  | ImmEndian
  | ImmAligned i64
  | JmpOffset
  | CallxRegister

type_synonym arm = "u8 \<times> bool \<times> arm_check"

text \<open>The first arm with the opcode and a true guard.\<close>

definition select_arm :: "(u8 \<times> bool \<times> 'a) list \<Rightarrow> u8 \<Rightarrow> 'a option" where
  "select_arm arms opcode =
     map_option (\<lambda>(_, _, c). c) (find (\<lambda>(op, guard, _). op = opcode \<and> guard) arms)"

definition arms_ld :: "SBPFVersion \<Rightarrow> Insn \<Rightarrow> arm list" where
  "arms_ld v insn =
     [(LD_DW_IMM, \<not> disable_lddw v, LoadDw)]"

definition arms_ldx :: "SBPFVersion \<Rightarrow> Insn \<Rightarrow> arm list" where
  "arms_ldx v insn =
     [(LD_B_REG, \<not> move_memory_instruction_classes v, NoCheck),
      (LD_H_REG, \<not> move_memory_instruction_classes v, NoCheck),
      (LD_W_REG, \<not> move_memory_instruction_classes v, NoCheck),
      (LD_DW_REG, \<not> move_memory_instruction_classes v, NoCheck)]"

definition arms_st :: "SBPFVersion \<Rightarrow> Insn \<Rightarrow> arm list" where
  "arms_st v insn =
     [(ST_B_IMM, \<not> move_memory_instruction_classes v, SetStore),
      (ST_H_IMM, \<not> move_memory_instruction_classes v, SetStore),
      (ST_W_IMM, \<not> move_memory_instruction_classes v, SetStore),
      (ST_DW_IMM, \<not> move_memory_instruction_classes v, SetStore)]"

definition arms_stx :: "SBPFVersion \<Rightarrow> Insn \<Rightarrow> arm list" where
  "arms_stx v insn =
     [(ST_B_REG, \<not> move_memory_instruction_classes v, SetStore),
      (ST_H_REG, \<not> move_memory_instruction_classes v, SetStore),
      (ST_W_REG, \<not> move_memory_instruction_classes v, SetStore),
      (ST_DW_REG, \<not> move_memory_instruction_classes v, SetStore)]"

definition arms_alu32_load :: "SBPFVersion \<Rightarrow> Insn \<Rightarrow> arm list" where
  "arms_alu32_load v insn =
     [(ADD32_IMM, True, NoCheck),
      (ADD32_REG, True, NoCheck),
      (SUB32_IMM, True, NoCheck),
      (SUB32_REG, True, NoCheck),
      (MUL32_IMM, \<not> enable_pqr v, NoCheck),
      (MUL32_REG, \<not> enable_pqr v, NoCheck),
      (LD_1B_REG, move_memory_instruction_classes v, NoCheck),
      (DIV32_IMM, \<not> enable_pqr v, ImmNonzero),
      (DIV32_REG, \<not> enable_pqr v, NoCheck),
      (LD_2B_REG, move_memory_instruction_classes v, NoCheck),
      (OR32_IMM, True, NoCheck),
      (OR32_REG, True, NoCheck),
      (AND32_IMM, True, NoCheck),
      (AND32_REG, True, NoCheck),
      (LSH32_IMM, True, ImmShift 32),
      (LSH32_REG, True, NoCheck),
      (RSH32_IMM, True, ImmShift 32),
      (RSH32_REG, True, NoCheck),
      (NEG32, \<not> disable_neg v, NoCheck),
      (LD_4B_REG, move_memory_instruction_classes v, NoCheck),
      (MOD32_IMM, \<not> enable_pqr v, ImmNonzero),
      (MOD32_REG, \<not> enable_pqr v, NoCheck),
      (LD_8B_REG, move_memory_instruction_classes v, NoCheck),
      (XOR32_IMM, True, NoCheck),
      (XOR32_REG, True, NoCheck),
      (MOV32_IMM, True, NoCheck),
      (MOV32_REG, True, NoCheck),
      (ARSH32_IMM, True, ImmShift 32),
      (ARSH32_REG, True, NoCheck),
      (LE, \<not> disable_le v, ImmEndian),
      (BE, True, ImmEndian)]"

definition arms_alu64_store :: "SBPFVersion \<Rightarrow> Insn \<Rightarrow> arm list" where
  "arms_alu64_store v insn =
     [(ADD64_IMM, dst insn = of_nat FRAME_PTR_REG \<and> manual_stack_frame_bump v, ImmAligned 64),
      (ADD64_IMM, True, NoCheck),
      (ADD64_REG, True, NoCheck),
      (SUB64_IMM, True, NoCheck),
      (SUB64_REG, True, NoCheck),
      (MUL64_IMM, \<not> enable_pqr v, NoCheck),
      (ST_1B_IMM, move_memory_instruction_classes v, SetStore),
      (MUL64_REG, \<not> enable_pqr v, NoCheck),
      (ST_1B_REG, move_memory_instruction_classes v, SetStore),
      (DIV64_IMM, \<not> enable_pqr v, ImmNonzero),
      (ST_2B_IMM, move_memory_instruction_classes v, SetStore),
      (DIV64_REG, \<not> enable_pqr v, NoCheck),
      (ST_2B_REG, move_memory_instruction_classes v, SetStore),
      (OR64_IMM, True, NoCheck),
      (OR64_REG, True, NoCheck),
      (AND64_IMM, True, NoCheck),
      (AND64_REG, True, NoCheck),
      (LSH64_IMM, True, ImmShift 64),
      (LSH64_REG, True, NoCheck),
      (RSH64_IMM, True, ImmShift 64),
      (RSH64_REG, True, NoCheck),
      (ST_4B_IMM, move_memory_instruction_classes v, SetStore),
      (NEG64, \<not> disable_neg v, NoCheck),
      (ST_4B_REG, move_memory_instruction_classes v, SetStore),
      (MOD64_IMM, \<not> enable_pqr v, ImmNonzero),
      (ST_8B_IMM, move_memory_instruction_classes v, SetStore),
      (MOD64_REG, \<not> enable_pqr v, NoCheck),
      (ST_8B_REG, move_memory_instruction_classes v, SetStore),
      (XOR64_IMM, True, NoCheck),
      (XOR64_REG, True, NoCheck),
      (MOV64_IMM, True, NoCheck),
      (MOV64_REG, True, NoCheck),
      (ARSH64_IMM, True, ImmShift 64),
      (ARSH64_REG, True, NoCheck),
      (HOR64_IMM, disable_lddw v, NoCheck)]"

definition arms_pqr :: "SBPFVersion \<Rightarrow> Insn \<Rightarrow> arm list" where
  "arms_pqr v insn =
     [(LMUL32_IMM, enable_pqr v, NoCheck),
      (LMUL32_REG, enable_pqr v, NoCheck),
      (LMUL64_IMM, enable_pqr v, NoCheck),
      (LMUL64_REG, enable_pqr v, NoCheck),
      (UHMUL64_IMM, enable_pqr v, NoCheck),
      (UHMUL64_REG, enable_pqr v, NoCheck),
      (SHMUL64_IMM, enable_pqr v, NoCheck),
      (SHMUL64_REG, enable_pqr v, NoCheck),
      (UDIV32_IMM, enable_pqr v, ImmNonzero),
      (UDIV32_REG, enable_pqr v, NoCheck),
      (UDIV64_IMM, enable_pqr v, ImmNonzero),
      (UDIV64_REG, enable_pqr v, NoCheck),
      (UREM32_IMM, enable_pqr v, ImmNonzero),
      (UREM32_REG, enable_pqr v, NoCheck),
      (UREM64_IMM, enable_pqr v, ImmNonzero),
      (UREM64_REG, enable_pqr v, NoCheck),
      (SDIV32_IMM, enable_pqr v, ImmNonzero),
      (SDIV32_REG, enable_pqr v, NoCheck),
      (SDIV64_IMM, enable_pqr v, ImmNonzero),
      (SDIV64_REG, enable_pqr v, NoCheck),
      (SREM32_IMM, enable_pqr v, ImmNonzero),
      (SREM32_REG, enable_pqr v, NoCheck),
      (SREM64_IMM, enable_pqr v, ImmNonzero),
      (SREM64_REG, enable_pqr v, NoCheck)]"

definition arms_jmp32 :: "SBPFVersion \<Rightarrow> Insn \<Rightarrow> arm list" where
  "arms_jmp32 v insn =
     [(JEQ32_IMM, enable_jmp32 v, JmpOffset),
      (JEQ32_REG, enable_jmp32 v, JmpOffset),
      (JGT32_IMM, enable_jmp32 v, JmpOffset),
      (JGT32_REG, enable_jmp32 v, JmpOffset),
      (JGE32_IMM, enable_jmp32 v, JmpOffset),
      (JGE32_REG, enable_jmp32 v, JmpOffset),
      (JLT32_IMM, enable_jmp32 v, JmpOffset),
      (JLT32_REG, enable_jmp32 v, JmpOffset),
      (JLE32_IMM, enable_jmp32 v, JmpOffset),
      (JLE32_REG, enable_jmp32 v, JmpOffset),
      (JSET32_IMM, enable_jmp32 v, JmpOffset),
      (JSET32_REG, enable_jmp32 v, JmpOffset),
      (JNE32_IMM, enable_jmp32 v, JmpOffset),
      (JNE32_REG, enable_jmp32 v, JmpOffset),
      (JSGT32_IMM, enable_jmp32 v, JmpOffset),
      (JSGT32_REG, enable_jmp32 v, JmpOffset),
      (JSGE32_IMM, enable_jmp32 v, JmpOffset),
      (JSGE32_REG, enable_jmp32 v, JmpOffset),
      (JSLT32_IMM, enable_jmp32 v, JmpOffset),
      (JSLT32_REG, enable_jmp32 v, JmpOffset),
      (JSLE32_IMM, enable_jmp32 v, JmpOffset),
      (JSLE32_REG, enable_jmp32 v, JmpOffset)]"

definition arms_jmp64 :: "SBPFVersion \<Rightarrow> Insn \<Rightarrow> arm list" where
  "arms_jmp64 v insn =
     [(JA, True, JmpOffset),
      (JEQ64_IMM, True, JmpOffset),
      (JEQ64_REG, True, JmpOffset),
      (JGT64_IMM, True, JmpOffset),
      (JGT64_REG, True, JmpOffset),
      (JGE64_IMM, True, JmpOffset),
      (JGE64_REG, True, JmpOffset),
      (JLT64_IMM, True, JmpOffset),
      (JLT64_REG, True, JmpOffset),
      (JLE64_IMM, True, JmpOffset),
      (JLE64_REG, True, JmpOffset),
      (JSET64_IMM, True, JmpOffset),
      (JSET64_REG, True, JmpOffset),
      (JNE64_IMM, True, JmpOffset),
      (JNE64_REG, True, JmpOffset),
      (JSGT64_IMM, True, JmpOffset),
      (JSGT64_REG, True, JmpOffset),
      (JSGE64_IMM, True, JmpOffset),
      (JSGE64_REG, True, JmpOffset),
      (JSLT64_IMM, True, JmpOffset),
      (JSLT64_REG, True, JmpOffset),
      (JSLE64_IMM, True, JmpOffset),
      (JSLE64_REG, True, JmpOffset),
      (CALL_IMM, True, NoCheck),
      (CALL_REG, True, CallxRegister),
      (EXIT, True, NoCheck)]"

definition verifier_arms :: "SBPFVersion \<Rightarrow> Insn \<Rightarrow> arm list" where
  "verifier_arms v insn =
     arms_ld v insn @ arms_ldx v insn @ arms_st v insn @ arms_stx v insn @ arms_alu32_load v insn @
     arms_alu64_store v insn @ arms_pqr v insn @ arms_jmp32 v insn @ arms_jmp64 v insn"

text \<open>The body of an arm: it yields the \<open>store\<close> flag and the instruction pointer after it.\<close>

fun run_arm_check ::
  "bytes \<Rightarrow> SBPFVersion \<Rightarrow> Insn \<Rightarrow> usize \<Rightarrow> arm_check \<Rightarrow> (VerifierError + bool \<times> usize) option" where
  "run_arm_check prog v insn insn_ptr NoCheck = Some (Inr (False, insn_ptr))"
| "run_arm_check prog v insn insn_ptr SetStore = Some (Inr (True, insn_ptr))"
| "run_arm_check prog v insn insn_ptr LoadDw =
     try_bind (check_load_dw prog insn_ptr) (\<lambda>_. Some (Inr (False, insn_ptr + 1)))"
| "run_arm_check prog v insn insn_ptr ImmNonzero =
     Some (try_op (check_imm_nonzero insn insn_ptr) (\<lambda>_. Inr (False, insn_ptr)))"
| "run_arm_check prog v insn insn_ptr (ImmShift bits) =
     Some (try_op (check_imm_shift insn insn_ptr bits) (\<lambda>_. Inr (False, insn_ptr)))"
| "run_arm_check prog v insn insn_ptr ImmEndian =
     Some (try_op (check_imm_endian insn insn_ptr) (\<lambda>_. Inr (False, insn_ptr)))"
| "run_arm_check prog v insn insn_ptr (ImmAligned alignment) =
     Some (try_op (check_imm_aligned insn insn_ptr alignment) (\<lambda>_. Inr (False, insn_ptr)))"
| "run_arm_check prog v insn insn_ptr JmpOffset =
     try_bind (check_jmp_offset prog insn_ptr (length prog div INSN_SIZE)) (\<lambda>_. Some (Inr (False, insn_ptr)))"
| "run_arm_check prog v insn insn_ptr CallxRegister =
     Some (try_op (check_callx_register insn insn_ptr v) (\<lambda>_. Inr (False, insn_ptr)))"

text \<open>One round of the loop: the new instruction pointer.\<close>

definition verify_insn :: "bytes \<Rightarrow> SBPFVersion \<Rightarrow> usize \<Rightarrow> (VerifierError + usize) option" where
  "verify_insn prog v insn_ptr =
     do {
       insn \<leftarrow> get_insn prog insn_ptr;
       try_bind
         (case select_arm (verifier_arms v insn) (opc insn) of
            None \<Rightarrow> Some (Inl (UnknownOpCode (opc insn) insn_ptr))
          | Some c \<Rightarrow> run_arm_check prog v insn insn_ptr c)
         (\<lambda>(store, insn_ptr).
            Some (try_op (check_registers insn store insn_ptr v) (\<lambda>_. Inr (insn_ptr + 1))))
     }"

lemma run_arm_check_pointer:
  "run_arm_check prog v insn i c = Some (Inr (s, j)) \<Longrightarrow> j = (if c = LoadDw then i + 1 else i)"
  by (cases c) (auto simp: try_bind_Inr try_op_eq_Inr)

lemma verify_insn_Inr:
  "verify_insn prog v insn_ptr = Some (Inr n) \<longleftrightarrow>
     (\<exists>insn c store i. get_insn prog insn_ptr = Some insn \<and>
        select_arm (verifier_arms v insn) (opc insn) = Some c \<and>
        run_arm_check prog v insn insn_ptr c = Some (Inr (store, i)) \<and>
        check_registers insn store i v = Inr () \<and> n = i + 1)"
proof (cases "get_insn prog insn_ptr")
  case (Some insn)
  then show ?thesis
    by (cases "select_arm (verifier_arms v insn) (opc insn)")
       (auto simp: verify_insn_def try_bind_Inr try_op_eq_Inr)
qed (simp add: verify_insn_def)

lemma verify_insn_advances:
  "verify_insn prog v insn_ptr = Some (Inr n) \<Longrightarrow> n = insn_ptr + 1 \<or> n = insn_ptr + 2"
  by (auto simp: verify_insn_Inr dest!: run_arm_check_pointer split: if_splits)

function verify_loop :: "bytes \<Rightarrow> SBPFVersion \<Rightarrow> usize \<Rightarrow> (VerifierError + usize) option" where
  "verify_loop prog v insn_ptr =
     (if (insn_ptr + 1) * INSN_SIZE \<le> length prog
      then try_bind (verify_insn prog v insn_ptr) (\<lambda>n. verify_loop prog v n)
      else Some (Inr insn_ptr))"
  by pat_completeness auto
termination
  by (relation "measure (\<lambda>(prog, v, i). length prog - i)")
     (auto simp: layout dest!: verify_insn_advances)

declare verify_loop.simps [simp del]

definition verify ::
  "bytes \<Rightarrow> Config \<Rightarrow> SBPFVersion \<Rightarrow> usize FunctionRegistry \<Rightarrow> 'f FunctionRegistry \<Rightarrow>
   (VerifierError + unit) option" where
  "verify prog config v function_registry syscall_registry =
     try_bind (Some (check_prog_len prog)) (\<lambda>_.
     try_bind (verify_loop prog v 0) (\<lambda>insn_ptr.
       Some (if insn_ptr \<noteq> length prog div INSN_SIZE then Inl (JumpOutOfCode insn_ptr insn_ptr) else Inr ())))"

section \<open>What the verifier promises\<close>

definition num_insns :: "bytes \<Rightarrow> usize" where
  "num_insns prog = length prog div 8"

definition jump_target :: "bytes \<Rightarrow> usize \<Rightarrow> int" where
  "jump_target prog pc = int pc + 1 + sint (off (insn_at prog pc))"

fun check_holds :: "bytes \<Rightarrow> SBPFVersion \<Rightarrow> usize \<Rightarrow> arm_check \<Rightarrow> bool" where
  "check_holds prog v pc NoCheck = True"
| "check_holds prog v pc SetStore = True"
| "check_holds prog v pc LoadDw = (pc + 1 < num_insns prog \<and> opc (insn_at prog (pc + 1)) = 0)"
| "check_holds prog v pc ImmNonzero = (imm (insn_at prog pc) \<noteq> 0)"
| "check_holds prog v pc (ImmShift bits) =
     (0 \<le> sint (imm (insn_at prog pc)) \<and> imm (insn_at prog pc) < bits)"
| "check_holds prog v pc ImmEndian = (imm (insn_at prog pc) \<in> {16, 32, 64})"
| "check_holds prog v pc (ImmAligned alignment) = (imm (insn_at prog pc) AND (alignment - 1) = 0)"
| "check_holds prog v pc JmpOffset =
     (0 \<le> jump_target prog pc \<and> nat (jump_target prog pc) < num_insns prog \<and>
      opc (insn_at prog (nat (jump_target prog pc))) \<noteq> 0)"
| "check_holds prog v pc CallxRegister =
     (0 \<le> sint (callx_register v (insn_at prog pc)) \<and> sint (callx_register v (insn_at prog pc)) < 10)"

definition registers_ok :: "Insn \<Rightarrow> bool \<Rightarrow> SBPFVersion \<Rightarrow> bool" where
  "registers_ok insn store v \<longleftrightarrow>
     src insn \<le> 10 \<and>
     (dst insn \<le> 9 \<or> dst insn = 10 \<and> (store \<or> manual_stack_frame_bump v \<and> opc insn = ADD64_IMM))"

definition arm_of :: "bytes \<Rightarrow> SBPFVersion \<Rightarrow> usize \<Rightarrow> arm_check option" where
  "arm_of prog v pc = select_arm (verifier_arms v (insn_at prog pc)) (opc (insn_at prog pc))"

definition insn_ok :: "bytes \<Rightarrow> SBPFVersion \<Rightarrow> usize \<Rightarrow> bool" where
  "insn_ok prog v pc \<longleftrightarrow>
     (case arm_of prog v pc of
        None \<Rightarrow> False
      | Some c \<Rightarrow> check_holds prog v pc c \<and> registers_ok (insn_at prog pc) (c = SetStore) v)"

definition insn_width :: "bytes \<Rightarrow> SBPFVersion \<Rightarrow> usize \<Rightarrow> usize" where
  "insn_width prog v pc = (if arm_of prog v pc = Some LoadDw then 2 else 1)"

text \<open>Reading the program from \<open>a\<close> on reaches \<open>pc\<close>.\<close>

inductive reads_to :: "bytes \<Rightarrow> SBPFVersion \<Rightarrow> usize \<Rightarrow> usize \<Rightarrow> bool" for prog v where
  here: "reads_to prog v a a"
| there: "a < num_insns prog \<Longrightarrow> reads_to prog v (a + insn_width prog v a) pc \<Longrightarrow> reads_to prog v a pc"

lemma reads_to_unfold:
  "reads_to prog v a pc \<longleftrightarrow>
     pc = a \<or> a < num_insns prog \<and> reads_to prog v (a + insn_width prog v a) pc"
  by (subst reads_to.simps) blast

definition insn_start :: "bytes \<Rightarrow> SBPFVersion \<Rightarrow> usize \<Rightarrow> bool" where
  "insn_start prog v pc \<longleftrightarrow> reads_to prog v 0 pc"

lemma less_num_insns: "pc < num_insns prog \<longleftrightarrow> (pc + 1) * 8 \<le> length prog"
  unfolding num_insns_def using less_eq_div_iff_mult_less_eq[of 8 "pc + 1" "length prog"]
  by (simp add: Suc_le_eq)

lemma insn_width_pos: "0 < insn_width prog v pc"
  by (simp add: insn_width_def)

lemma as_usize_nat:
  assumes "0 \<le> i" "i < 2 ^ 64"
  shows "as_usize i = nat i"
  using assms by (simp add: as_usize_def unsigned_of_int take_bit_int_eq_self)

lemma get_insn_pc:
  "slice_fits prog \<Longrightarrow> pc < num_insns prog \<Longrightarrow> get_insn prog pc = Some (insn_at prog pc)"
  by (simp add: get_insn_eq less_num_insns)

lemma check_load_dw_eq:
  assumes "slice_fits prog" "pc < num_insns prog" "length prog mod 8 = 0"
  shows "\<exists>r. check_load_dw prog pc = Some r \<and> (r = Inr () \<longleftrightarrow> check_holds prog v pc LoadDw)"
proof -
  have "(pc + 1) * 8 \<ge> length prog \<longleftrightarrow> \<not> pc + 1 < num_insns prog"
    using assms(3) by (auto simp: num_insns_def dvd_eq_mod_eq_0[symmetric] elim!: dvdE)
  then show ?thesis
    using get_insn_pc[OF assms(1), of "pc + 1"]
    by (cases "pc + 1 < num_insns prog") (simp_all add: check_load_dw_def layout)
qed

lemma jump_target_bound:
  assumes "slice_fits prog" "pc < num_insns prog"
  shows "jump_target prog pc < 2 ^ 64"
proof -
  have "pc < 2 ^ 63" using assms by (simp add: less_num_insns slice_fits_def)
  moreover have "sint (off (insn_at prog pc)) < 2 ^ 15"
    using sint_lt[of "off (insn_at prog pc)"] by simp
  ultimately show ?thesis unfolding jump_target_def by simp
qed

lemma check_jmp_offset_eq:
  assumes "slice_fits prog" "pc < num_insns prog"
  shows "\<exists>r. check_jmp_offset prog pc (length prog div 8) = Some r \<and> (r = Inr () \<longleftrightarrow> check_holds prog v pc JmpOffset)"
proof (cases "0 \<le> jump_target prog pc")
  case True
  then have "as_usize (jump_target prog pc) = nat (jump_target prog pc)"
    using jump_target_bound[OF assms] by (rule as_usize_nat)
  then show ?thesis
    using True get_insn_pc[OF assms] get_insn_pc[OF assms(1), of "nat (jump_target prog pc)"]
    by (auto simp: check_jmp_offset_def jump_target_def[symmetric] num_insns_def[symmetric] Let_def)
next
  case False
  then show ?thesis
    using get_insn_pc[OF assms] by (simp add: check_jmp_offset_def jump_target_def[symmetric] Let_def)
qed

lemma run_arm_check_eq:
  assumes "slice_fits prog" "pc < num_insns prog" "length prog mod 8 = 0"
  shows "\<exists>r. run_arm_check prog v (insn_at prog pc) pc c = Some r \<and>
    (\<forall>x. r = Inr x \<longleftrightarrow> check_holds prog v pc c \<and> x = (c = SetStore, if c = LoadDw then pc + 1 else pc))"
proof (cases c)
  case LoadDw
  obtain r where r: "check_load_dw prog pc = Some r" "r = Inr () \<longleftrightarrow> check_holds prog v pc LoadDw"
    using check_load_dw_eq[OF assms, where v = v] by blast
  then show ?thesis using LoadDw by (cases r) (auto simp: try_bind_def)
next
  case JmpOffset
  obtain r where r: "check_jmp_offset prog pc (length prog div 8) = Some r"
    "r = Inr () \<longleftrightarrow> check_holds prog v pc JmpOffset"
    using check_jmp_offset_eq[OF assms(1,2), where v = v] by blast
  then show ?thesis using JmpOffset by (cases r) (auto simp: try_bind_def layout)
qed (auto simp: check_imm_nonzero_def check_imm_shift_def check_imm_endian_def check_imm_aligned_def
      check_callx_register_def Let_def)

lemma check_registers_eq: "check_registers insn store i v = Inr () \<longleftrightarrow> registers_ok insn store v"
  by (auto simp: check_registers_def registers_ok_def not_less)

text \<open>One round of the loop on an instruction inside the program.\<close>

lemma verify_insn_eq:
  assumes "slice_fits prog" "pc < num_insns prog" "length prog mod 8 = 0"
  shows "\<exists>r. verify_insn prog v pc = Some r \<and>
    (\<forall>n. r = Inr n \<longleftrightarrow> insn_ok prog v pc \<and> n = pc + insn_width prog v pc)"
proof (cases "arm_of prog v pc")
  case None
  then show ?thesis
    using get_insn_pc[OF assms(1,2)] by (auto simp: verify_insn_def insn_ok_def arm_of_def)
next
  case (Some c)
  obtain r where r: "run_arm_check prog v (insn_at prog pc) pc c = Some r"
    "\<And>x. r = Inr x \<longleftrightarrow> check_holds prog v pc c \<and> x = (c = SetStore, if c = LoadDw then pc + 1 else pc)"
    using run_arm_check_eq[OF assms, of v c] by blast
  have v: "verify_insn prog v pc = try_bind (Some r) (\<lambda>(store, i).
      Some (try_op (check_registers (insn_at prog pc) store i v) (\<lambda>_. Inr (i + 1))))"
    using Some r(1) get_insn_pc[OF assms(1,2)] by (simp add: verify_insn_def arm_of_def)
  show ?thesis
  proof (cases r)
    case (Inl e)
    then show ?thesis using r(2) Some v by (auto simp: insn_ok_def)
  next
    case (Inr x)
    then have x: "x = (c = SetStore, if c = LoadDw then pc + 1 else pc)" "check_holds prog v pc c"
      using r(2)[of x] by simp_all
    show ?thesis
      using Some Inr x check_registers_eq[of "insn_at prog pc" "c = SetStore" "if c = LoadDw then pc + 1 else pc" v]
      by (cases "check_registers (insn_at prog pc) (c = SetStore) (if c = LoadDw then pc + 1 else pc) v")
         (auto simp: v insn_ok_def insn_width_def)
  qed
qed

lemma insn_ok_width:
  assumes "insn_ok prog v pc" "pc < num_insns prog"
  shows "pc + insn_width prog v pc \<le> num_insns prog"
  using assms by (auto simp: insn_ok_def insn_width_def split: option.splits)

lemma verify_loop_eq:
  assumes "slice_fits prog" "length prog mod 8 = 0" "a \<le> num_insns prog"
  shows "\<exists>r. verify_loop prog v a = Some r \<and>
    (\<forall>n. r = Inr n \<longleftrightarrow>
       (\<forall>pc. reads_to prog v a pc \<and> pc < num_insns prog \<longrightarrow> insn_ok prog v pc) \<and> n = num_insns prog)"
  using assms(3)
proof (induction "num_insns prog - a" arbitrary: a rule: less_induct)
  case less
  show ?case
  proof (cases "a < num_insns prog")
    case False
    then have "verify_loop prog v a = Some (Inr a)"
      by (simp add: verify_loop.simps[of prog v a] layout less_num_insns)
    moreover have "reads_to prog v a pc \<longleftrightarrow> pc = a" for pc
      using False by (subst reads_to_unfold) simp
    ultimately show ?thesis using False less.prems by auto
  next
    case True
    obtain r where r: "verify_insn prog v a = Some r"
      "\<And>n. r = Inr n \<longleftrightarrow> insn_ok prog v a \<and> n = a + insn_width prog v a"
      using verify_insn_eq[OF assms(1) True assms(2)] by blast
    have loop: "verify_loop prog v a = try_bind (Some r) (verify_loop prog v)"
      using True r(1) by (simp add: verify_loop.simps[of prog v a] layout less_num_insns)
    show ?thesis
    proof (cases r)
      case (Inl e)
      then have "\<not> insn_ok prog v a" using r(2)[of "a + insn_width prog v a"] by simp
      then show ?thesis using loop Inl True reads_to.here[of prog v a] by auto
    next
      case (Inr n)
      then have n: "insn_ok prog v a" "n = a + insn_width prog v a" using r(2)[of n] by simp_all
      have reads: "reads_to prog v a pc \<longleftrightarrow> pc = a \<or> reads_to prog v n pc" for pc
        using True by (subst reads_to_unfold) (simp add: n(2))
      have "n \<le> num_insns prog" "num_insns prog - n < num_insns prog - a"
        using insn_ok_width[OF n(1) True] insn_width_pos[of prog v a] True by (simp_all add: n(2))
      from less.hyps[OF this(2,1)] obtain q where q: "verify_loop prog v n = Some q" "\<forall>m. q = Inr m \<longleftrightarrow>
          (\<forall>pc. reads_to prog v n pc \<and> pc < num_insns prog \<longrightarrow> insn_ok prog v pc) \<and> m = num_insns prog"
        by blast
      have "(\<forall>pc. reads_to prog v a pc \<and> pc < num_insns prog \<longrightarrow> insn_ok prog v pc) \<longleftrightarrow>
          (\<forall>pc. reads_to prog v n pc \<and> pc < num_insns prog \<longrightarrow> insn_ok prog v pc)"
        unfolding reads using n(1) by blast
      moreover have "verify_loop prog v a = Some q" by (simp add: loop Inr q(1))
      ultimately show ?thesis using q(2) by (simp only:) blast
    qed
  qed
qed

text \<open>Every slot is the start of an instruction or the second slot of an \<open>lddw\<close>.\<close>

lemma slots_of_verified:
  assumes "\<forall>pc. reads_to prog v a pc \<and> pc < num_insns prog \<longrightarrow> insn_ok prog v pc"
    and "a \<le> pc" "pc < num_insns prog"
  shows "reads_to prog v a pc \<or> opc (insn_at prog pc) = 0"
  using assms
proof (induction "num_insns prog - a" arbitrary: a rule: less_induct)
  case less
  show ?case
  proof (cases "pc = a")
    case False
    let ?n = "a + insn_width prog v a"
    have a: "a < num_insns prog" using less.prems by simp
    then have ok: "insn_ok prog v a" using less.prems(1) reads_to.here by blast
    have "reads_to prog v ?n q \<Longrightarrow> reads_to prog v a q" for q by (rule reads_to.there[OF a])
    moreover have "pc = a + 1 \<and> insn_width prog v a = 2 \<or> ?n \<le> pc"
      using False less.prems(2) by (auto simp: insn_width_def)
    moreover have "opc (insn_at prog (a + 1)) = 0" if "insn_width prog v a = 2"
      using ok that by (auto simp: insn_ok_def insn_width_def split: option.splits if_splits)
    moreover have "num_insns prog - ?n < num_insns prog - a"
      using a insn_width_pos[of prog v a] by simp
    ultimately show ?thesis using less.hyps[of ?n] less.prems(1,3) by metis
  qed (simp add: reads_to.here)
qed

lemma verify_eq:
  assumes "slice_fits prog"
  shows "\<exists>r. verify prog config v fr sr = Some r \<and>
    (r = Inr () \<longleftrightarrow> length prog mod 8 = 0 \<and> prog \<noteq> [] \<and>
       (\<forall>pc. insn_start prog v pc \<and> pc < num_insns prog \<longrightarrow> insn_ok prog v pc))"
proof (cases "length prog mod 8 = 0 \<and> prog \<noteq> []")
  case False
  then show ?thesis by (auto simp: verify_def check_prog_len_def layout)
next
  case True
  obtain r where r: "verify_loop prog v 0 = Some r" "\<And>n. r = Inr n \<longleftrightarrow>
      (\<forall>pc. insn_start prog v pc \<and> pc < num_insns prog \<longrightarrow> insn_ok prog v pc) \<and> n = num_insns prog"
    using verify_loop_eq[OF assms, of 0 v] True by (auto simp: insn_start_def)
  show ?thesis
  proof (cases r)
    case (Inl e)
    then show ?thesis
      using True r(1) r(2)[of "num_insns prog"] by (simp add: verify_def check_prog_len_def layout)
  next
    case (Inr n)
    then show ?thesis
      using True r(1) r(2)[of n] by (auto simp: verify_def check_prog_len_def layout num_insns_def)
  qed
qed

lemma verified_slot:
  assumes "slice_fits prog" "verify prog config v fr sr = Some (Inr ())" "pc < num_insns prog"
  shows "insn_start prog v pc \<and> insn_ok prog v pc \<or> opc (insn_at prog pc) = 0"
proof -
  have "\<forall>pc. insn_start prog v pc \<and> pc < num_insns prog \<longrightarrow> insn_ok prog v pc"
    using verify_eq[OF assms(1), of config v fr sr] assms(2) by auto
  then show ?thesis
    using slots_of_verified[of prog v 0 pc] assms(3) by (auto simp: insn_start_def)
qed

section \<open>Properties\<close>

text \<open>\<open>ja +1; add64 r0, 0; exit\<close>\<close>

definition example_insns :: "Insn list" where
  "example_insns =
     [\<lparr>ptr = 0, opc = JA, dst = 0, src = 0, off = 1, imm = 0\<rparr>,
      \<lparr>ptr = 1, opc = ADD64_IMM, dst = 0, src = 0, off = 0, imm = 0\<rparr>,
      \<lparr>ptr = 2, opc = EXIT, dst = 0, src = 0, off = 0, imm = 0\<rparr>]"

definition example_program :: bytes where
  "example_program = concat (map to_vec example_insns)"

lemma length_example_program [simp]: "length example_program = 24"
proof -
  have "length example_insns = 3" by (simp add: example_insns_def)
  then show ?thesis by (simp add: example_program_def)
qed

lemma example_program_fits: "slice_fits example_program" "num_insns example_program = 3"
  by (simp_all add: slice_fits_def num_insns_def)

lemma insn_at_example_program:
  "insn_at example_program 0 = \<lparr>ptr = 0, opc = JA, dst = 0, src = 0, off = 1, imm = 0\<rparr>"
  "insn_at example_program (Suc 0) = \<lparr>ptr = 1, opc = ADD64_IMM, dst = 0, src = 0, off = 0, imm = 0\<rparr>"
  "insn_at example_program 2 = \<lparr>ptr = 2, opc = EXIT, dst = 0, src = 0, off = 0, imm = 0\<rparr>"
proof -
  have e: "\<forall>insn \<in> set example_insns. insn_encodable insn" and l: "length example_insns = 3"
    by (simp_all add: example_insns_def insn_encodable_def)
  have "insn_at example_program k = (example_insns ! k)\<lparr>ptr := k\<rparr>" if "k < 3" for k
    unfolding example_program_def using insn_at_program[OF e] that l by simp
  from this[of 0] this[of 1] this[of 2] show
    "insn_at example_program 0 = \<lparr>ptr = 0, opc = JA, dst = 0, src = 0, off = 1, imm = 0\<rparr>"
    "insn_at example_program (Suc 0) = \<lparr>ptr = 1, opc = ADD64_IMM, dst = 0, src = 0, off = 0, imm = 0\<rparr>"
    "insn_at example_program 2 = \<lparr>ptr = 2, opc = EXIT, dst = 0, src = 0, off = 0, imm = 0\<rparr>"
    by (simp_all add: example_insns_def)
qed

lemmas arms_defs = verifier_arms_def arms_ld_def arms_ldx_def arms_st_def arms_stx_def
  arms_alu32_load_def arms_alu64_store_def arms_pqr_def arms_jmp32_def arms_jmp64_def

lemma select_examples:
  "select_arm (verifier_arms V3 insn) JA = Some JmpOffset"
  "select_arm (verifier_arms V3 insn) ADD64_IMM = Some NoCheck"
  "select_arm (verifier_arms V3 insn) EXIT = Some NoCheck"
  by (simp_all add: select_arm_def arms_defs opcode features)

lemma example_program_arms:
  "arm_of example_program V3 0 = Some JmpOffset" "arm_of example_program V3 (Suc 0) = Some NoCheck"
  "arm_of example_program V3 2 = Some NoCheck" "jump_target example_program 0 = 2"
  by (simp_all add: arm_of_def insn_at_example_program select_examples jump_target_def
      del: insn_at_simps)

lemma example_program_verified:
  "verify example_program Config_default V3 FunctionRegistry_default
     (FunctionRegistry_default :: unit FunctionRegistry) = Some (Inr ())"
proof -
  have "insn_ok example_program V3 pc" if "pc < 3" for pc
  proof -
    have "pc = 0 \<or> pc = 1 \<or> pc = 2" using that by auto
    then show ?thesis
      by (elim disjE; simp add: insn_ok_def example_program_arms registers_ok_def opcode
          insn_at_example_program example_program_fits del: insn_at_simps)
  qed
  then show ?thesis
    using verify_eq[OF example_program_fits(1), of Config_default V3 FunctionRegistry_default
        "FunctionRegistry_default :: unit FunctionRegistry"]
    by (auto simp: example_program_fits simp flip: length_0_conv)
qed

text \<open>C7: the verifier is total and accepts exactly the well-formed programs.  For every byte
  sequence it returns without going wrong; it accepts if and only if the length is a positive
  multiple of eight and every instruction, reading the slots from the start and skipping the second
  slot of each \<open>lddw\<close>, satisfies \<open>insn_ok\<close>: a known opcode of the version, valid registers and the
  condition of its opcode on immediate, offset or next slot.\<close>

theorem verify_accepts_iff:
  assumes "slice_fits prog"
  shows "\<exists>r. verify prog config v fr sr = Some r \<and>
    (r = Inr () \<longleftrightarrow> length prog mod 8 = 0 \<and> prog \<noteq> [] \<and>
       (\<forall>pc. insn_start prog v pc \<and> pc < num_insns prog \<longrightarrow> insn_ok prog v pc))"
  by (rule verify_eq[OF assms])

theorem verify_accepts_iff_witness:
  "verify example_program Config_default V3 FunctionRegistry_default
     (FunctionRegistry_default :: unit FunctionRegistry) = Some (Inr ()) \<and>
   insn_ok example_program V3 0"
  using verify_accepts_iff[OF example_program_fits(1), of Config_default V3 FunctionRegistry_default
      "FunctionRegistry_default :: unit FunctionRegistry"] example_program_verified
  by (auto simp: example_program_fits insn_start_def reads_to.here)



end
