(* ===== verification/Memory_Region.thy ===== *)
theory Memory_Region
  imports Config
begin

text \<open>
  \<open>MemoryRegion\<close> of \<^verbatim>\<open>src/src/memory_region.rs\<close>: a slice of host memory mapped at a virtual
  address, with optional gaps between stack frames, and the bounds-checked translation
  \<open>vm_to_host\<close>.  A Rust slice argument is its host address and its length.  The bit-level
  translation is shown equal to its arithmetic description, from which bounds, permission checks
  and injectivity follow.
\<close>

unbundle bit_operations_syntax

section \<open>Regions\<close>

record MemoryRegion =
  host_addr :: u64
  vm_addr :: u64
  len :: u64
  vm_gap_shift :: u8
  writable :: bool
  access_violation_handler_payload :: "u16 option"

text \<open>The number of binary digits of a number, which gives \<open>leading_zeros\<close>.\<close>

fun bit_length :: "nat \<Rightarrow> nat" where
  "bit_length n = (if n = 0 then 0 else Suc (bit_length (n div 2)))"

declare bit_length.simps [simp del]

definition leading_zeros :: "u64 \<Rightarrow> nat" where
  "leading_zeros x = 64 - bit_length (unat x)"

definition MemoryRegion_new :: "u64 \<Rightarrow> u64 \<Rightarrow> u64 \<Rightarrow> u64 \<Rightarrow> bool \<Rightarrow> MemoryRegion option" where
  "MemoryRegion_new slice_ptr slice_len vaddr vm_gap_size w =
     (let shift0 = saturating_sub (saturating_mul 8 8) 1 :: u8;
          shift = (if vm_gap_size > 0 then saturating_sub shift0 (of_nat (leading_zeros vm_gap_size))
                   else shift0)
      in if vm_gap_size > 0 \<and> checked_shl 1 (unat shift) \<noteq> Some vm_gap_size then None
         else Some \<lparr>host_addr = slice_ptr, vm_addr = vaddr, len = slice_len, vm_gap_shift = shift,
                    writable = w, access_violation_handler_payload = None\<rparr>)"

definition new_for_testing :: "u64 \<Rightarrow> u64 \<Rightarrow> u64 \<Rightarrow> u64 \<Rightarrow> bool \<Rightarrow> MemoryRegion option" where
  "new_for_testing slice_ptr slice_len vaddr vm_gap_size w =
     MemoryRegion_new slice_ptr slice_len vaddr vm_gap_size w"

definition new_readonly :: "u64 \<Rightarrow> u64 \<Rightarrow> u64 \<Rightarrow> MemoryRegion option" where
  "new_readonly slice_ptr slice_len vaddr = MemoryRegion_new slice_ptr slice_len vaddr 0 False"

definition new_writable :: "u64 \<Rightarrow> u64 \<Rightarrow> u64 \<Rightarrow> MemoryRegion option" where
  "new_writable slice_ptr slice_len vaddr = MemoryRegion_new slice_ptr slice_len vaddr 0 True"

definition new_writable_gapped :: "u64 \<Rightarrow> u64 \<Rightarrow> u64 \<Rightarrow> u64 \<Rightarrow> MemoryRegion option" where
  "new_writable_gapped slice_ptr slice_len vaddr vm_gap_size =
     MemoryRegion_new slice_ptr slice_len vaddr vm_gap_size True"

definition vm_addr_range :: "MemoryRegion \<Rightarrow> u64 \<times> u64" where
  "vm_addr_range r =
     (if vm_gap_shift r = 63 then (vm_addr r, saturating_add (vm_addr r) (len r))
      else (vm_addr r, saturating_add (vm_addr r) (saturating_mul (len r) 2)))"

definition unwrap_or :: "'a option \<Rightarrow> 'a \<Rightarrow> 'a" where
  "unwrap_or x d = (case x of None \<Rightarrow> d | Some v \<Rightarrow> v)"

definition vm_to_host :: "MemoryRegion \<Rightarrow> AccessType \<Rightarrow> u64 \<Rightarrow> u64 \<Rightarrow> u64 option" where
  "vm_to_host r access_type vaddr n =
     (if access_type = Store \<and> \<not> writable r then None
      else if vaddr < vm_addr r then None
      else
        let begin_offset = saturating_sub vaddr (vm_addr r);
            is_in_gap = (unwrap_or (checked_shr begin_offset (unat (vm_gap_shift r))) 0 AND 1 = 1);
            gap_mask = unwrap_or (checked_shl (- 1) (unat (vm_gap_shift r))) 0;
            gapped_offset =
              unwrap_or (checked_shr (begin_offset AND gap_mask) 1) 0 OR (begin_offset AND NOT gap_mask)
        in case checked_add gapped_offset n of
             Some end_offset \<Rightarrow>
               if end_offset \<le> len r \<and> \<not> is_in_gap then Some (saturating_add (host_addr r) gapped_offset)
               else None
           | None \<Rightarrow> None)"

text \<open>The order of regions compares their virtual addresses only.\<close>

definition region_le :: "MemoryRegion \<Rightarrow> MemoryRegion \<Rightarrow> bool" where
  "region_le a b \<longleftrightarrow> vm_addr a \<le> vm_addr b"

lemma unwrap_or_Some [simp]: "unwrap_or (Some v) d = v"
  by (simp add: unwrap_or_def)

section \<open>Arithmetic description of the translation\<close>

text \<open>\<open>host_offset s i\<close> is where the byte at offset \<open>i\<close> of the virtual range lies in the slice:
  frames of \<open>2 ^ s\<close> bytes at the even positions, packed.\<close>

definition in_gap :: "nat \<Rightarrow> nat \<Rightarrow> bool" where
  "in_gap s i \<longleftrightarrow> odd (i div 2 ^ s)"

definition host_offset :: "nat \<Rightarrow> nat \<Rightarrow> nat" where
  "host_offset s i = i div 2 ^ Suc s * 2 ^ s + i mod 2 ^ s"

lemma gapped_offset_word:
  fixes x :: u64
  assumes "s < 64" and "\<not> bit x s"
  shows "drop_bit 1 (x AND push_bit s (- 1)) OR (x AND NOT (push_bit s (- 1))) =
    push_bit s (drop_bit (Suc s) x) + take_bit s x"
proof -
  have "drop_bit 1 (x AND push_bit s (- 1)) OR (x AND NOT (push_bit s (- 1))) =
      push_bit s (drop_bit (Suc s) x) OR take_bit s x"
  proof (rule bit_word_eqI)
    fix k assume k: "k < LENGTH(64)"
    have "Suc s + (k - s) = Suc k" if "s \<le> k" using that by simp
    moreover have "k = s - 1" if "s \<le> Suc k" "\<not> s \<le> k" using that by simp
    moreover have "Suc k < 64" if "bit x (Suc k)" using bit_imp_le_length[OF that] by simp
    ultimately show "bit (drop_bit 1 (x AND push_bit s (- 1)) OR (x AND NOT (push_bit s (- 1)))) k =
        bit (push_bit s (drop_bit (Suc s) x) OR take_bit s x) k"
      using k assms by (cases "s \<le> k"; cases "Suc k = s") (auto simp: bit_simps)
  qed
  also have "\<dots> = push_bit s (drop_bit (Suc s) x) + take_bit s x"
    by (rule disjunctive_add[symmetric]) (auto simp: bit_simps)
  finally show ?thesis .
qed

lemma unat_gapped_offset:
  fixes x :: u64
  assumes "s < 64"
  shows "unat (push_bit s (drop_bit (Suc s) x) + take_bit s x) = host_offset s (unat x)"
proof -
  have lt: "host_offset s (unat x) < 2 ^ 64"
  proof -
    have "host_offset s (unat x) \<le> unat x div 2 ^ s * 2 ^ s + unat x mod 2 ^ s"
      unfolding host_offset_def power_Suc2 div_mult2_eq
      by (intro add_right_mono mult_right_mono) simp_all
    also have "\<dots> = unat x" by (rule div_mult_mod_eq)
    finally show ?thesis by (rule le_less_trans) simp
  qed
  have p: "unat (push_bit s (drop_bit (Suc s) x)) = unat x div 2 ^ Suc s * 2 ^ s"
  proof -
    have "unat x div 2 ^ Suc s * 2 ^ s < 2 ^ 64" using lt by (simp add: host_offset_def)
    then show ?thesis
      by (simp only: unsigned_push_bit_eq unsigned_drop_bit_eq)
        (simp add: push_bit_eq_mult drop_bit_eq_div take_bit_eq_mod)
  qed
  have t: "unat (take_bit s x) = unat x mod 2 ^ s"
    unfolding unsigned_take_bit_eq by (rule take_bit_eq_mod)
  show ?thesis
    using lt p t by (simp add: unat_word_ariths host_offset_def)
qed

lemma and_1_eq_1_iff: "(x AND 1 = 1) \<longleftrightarrow> bit (x :: u64) 0"
  by (simp add: and_one_eq bit_0 odd_iff_mod_2_eq_one)

lemma bit_unat_odd: "bit (x :: u64) s \<longleftrightarrow> odd (unat x div 2 ^ s)"
  unfolding bit_iff_odd[of "unat x", symmetric] bit_unsigned_iff by simp

lemma checked_shift_simps:
  "s < 64 \<Longrightarrow> checked_shr (x :: u64) s = Some (drop_bit s x)"
  "s < 64 \<Longrightarrow> checked_shl (x :: u64) s = Some (push_bit s x)"
  by (simp_all add: checked_shr_def checked_shl_def)

lemma vm_to_host_eq:
  assumes "unat (vm_gap_shift r) < 64" and "unat (host_addr r) + unat (len r) < 2 ^ 64"
  shows "vm_to_host r access_type vaddr n =
    (let s = unat (vm_gap_shift r); i = unat vaddr - unat (vm_addr r) in
     if (access_type = Store \<longrightarrow> writable r) \<and> vm_addr r \<le> vaddr \<and> \<not> in_gap s i \<and>
        host_offset s i + unat n \<le> unat (len r)
     then Some (host_addr r + of_nat (host_offset s i)) else None)"
proof (cases "(access_type = Store \<longrightarrow> writable r) \<and> vm_addr r \<le> vaddr")
  case False
  then show ?thesis by (auto simp: vm_to_host_def Let_def not_le)
next
  case True
  define s where "s = unat (vm_gap_shift r)"
  define x where "x = vaddr - vm_addr r"
  define g where "g = drop_bit 1 (x AND push_bit s (- 1)) OR (x AND NOT (push_bit s (- 1)))"
  have s: "s < 64" using assms(1) by (simp add: s_def)
  have x: "unat x = unat vaddr - unat (vm_addr r)"
    using True by (simp add: x_def unat_sub)
  have gap: "(drop_bit s x AND 1 = 1) \<longleftrightarrow> in_gap s (unat x)"
    unfolding and_1_eq_1_iff by (simp add: bit_drop_bit_eq in_gap_def bit_unat_odd)
  have main: "vm_to_host r access_type vaddr n =
    (case checked_add g n of None \<Rightarrow> None
     | Some e \<Rightarrow> if e \<le> len r \<and> \<not> in_gap s (unat x) then Some (saturating_add (host_addr r) g) else None)"
  proof -
    have "saturating_sub vaddr (vm_addr r) = x" using True by (simp add: saturating_sub_def x_def)
    moreover have "unwrap_or (checked_shr x s) 0 = drop_bit s x"
      "unwrap_or (checked_shl (- 1) s) 0 = (push_bit s (- 1) :: u64)"
      "unwrap_or (checked_shr y 1) 0 = drop_bit 1 y" for y :: u64
      using s by (simp_all add: checked_shr_def checked_shl_def)
    moreover have "\<not> (access_type = Store \<and> \<not> writable r)" "\<not> vaddr < vm_addr r"
      using True by auto
    ultimately show ?thesis
      unfolding vm_to_host_def Let_def s_def[symmetric] g_def gap[symmetric] by (simp only: if_False)
  qed
  show ?thesis
  proof (cases "in_gap s (unat x)")
    case True
    then show ?thesis by (auto simp: main Let_def x[symmetric] s_def split: option.splits)
  next
    case False
    then have "\<not> bit x s" by (simp add: in_gap_def bit_unat_odd)
    then have g: "unat g = host_offset s (unat x)"
      unfolding g_def using gapped_offset_word[OF s] unat_gapped_offset[OF s] by simp
    have e: "unat (g + n) = unat g + unat n" if "unat g + unat n < 2 ^ 64"
      using that by (simp add: unat_word_ariths)
    have ok: "saturating_add (host_addr r) g = host_addr r + of_nat (host_offset s (unat x))"
      if "unat g + unat n \<le> unat (len r)"
      using that assms(2) by (simp add: saturating_add_def flip: g)
    have fit: "unat g + unat n < 2 ^ 64" if "unat g + unat n \<le> unat (len r)"
      using le_less_trans[OF that] by simp
    show ?thesis
      using False True ok e fit
      by (auto simp: main checked_add_def word_le_nat_alt Let_def x[symmetric] s_def[symmetric]
          g[symmetric])
  qed
qed

text \<open>A successful translation: the permission holds and the accessed bytes lie in the slice.\<close>

lemma vm_to_host_SomeD:
  assumes "vm_to_host r access_type vaddr n = Some h"
    and "unat (vm_gap_shift r) < 64" and "unat (host_addr r) + unat (len r) < 2 ^ 64"
  shows "access_type = Store \<Longrightarrow> writable r" and "vm_addr r \<le> vaddr"
    and "\<not> in_gap (unat (vm_gap_shift r)) (unat vaddr - unat (vm_addr r))"
    and "unat h = unat (host_addr r) +
      host_offset (unat (vm_gap_shift r)) (unat vaddr - unat (vm_addr r))"
    and "unat h + unat n \<le> unat (host_addr r) + unat (len r)"
proof -
  let ?o = "host_offset (unat (vm_gap_shift r)) (unat vaddr - unat (vm_addr r))"
  have all: "(access_type = Store \<longrightarrow> writable r) \<and> vm_addr r \<le> vaddr \<and>
      \<not> in_gap (unat (vm_gap_shift r)) (unat vaddr - unat (vm_addr r)) \<and>
      ?o + unat n \<le> unat (len r) \<and> h = host_addr r + of_nat ?o"
    using assms(1) by (simp add: vm_to_host_eq[OF assms(2,3)] Let_def split: if_splits)
  then show "access_type = Store \<Longrightarrow> writable r" "vm_addr r \<le> vaddr"
    "\<not> in_gap (unat (vm_gap_shift r)) (unat vaddr - unat (vm_addr r))" by simp_all
  have "?o < 2 ^ 64" using all le_less_trans[of ?o "unat (len r)" "2 ^ 64"] by simp
  then have "unat (of_nat ?o :: u64) = ?o" by (simp add: unat_of_nat)
  then show h: "unat h = unat (host_addr r) + ?o"
    using all assms(3) by (simp add: unat_word_ariths)
  show "unat h + unat n \<le> unat (host_addr r) + unat (len r)"
    using h all by simp
qed

lemma host_offset_inj:
  assumes "\<not> in_gap s i" "\<not> in_gap s j" "host_offset s i = host_offset s j"
  shows "i = j"
proof -
  have m: "i mod 2 ^ s = j mod 2 ^ s" "i div 2 ^ Suc s = j div 2 ^ Suc s"
  proof -
    have "host_offset s k mod 2 ^ s = k mod 2 ^ s" "host_offset s k div 2 ^ s = k div 2 ^ Suc s" for k
      by (simp_all add: host_offset_def)
    then show "i mod 2 ^ s = j mod 2 ^ s" "i div 2 ^ Suc s = j div 2 ^ Suc s"
      using assms(3) by metis+
  qed
  have "k div 2 ^ s = 2 * (k div 2 ^ Suc s)" if "\<not> in_gap s k" for k
  proof -
    have "k div 2 ^ Suc s = k div 2 ^ s div 2" by (simp only: power_Suc2 div_mult2_eq)
    then show ?thesis using that by (simp add: in_gap_def)
  qed
  then have "i div 2 ^ s = j div 2 ^ s" using assms(1,2) m(2) by simp
  then show ?thesis using m(1) by (metis div_mult_mod_eq)
qed

text \<open>Regions as the constructors build them: the shift is below 64, and a slice ends below the
  top of the address space.\<close>

definition region_wf :: "MemoryRegion \<Rightarrow> bool" where
  "region_wf r \<longleftrightarrow>
     unat (vm_gap_shift r) < 64 \<and> unat (host_addr r) + unat (len r) < 2 ^ 64 \<and> unat (len r) < 2 ^ 63"

lemma bit_length_le: "n < 2 ^ k \<Longrightarrow> bit_length n \<le> k"
proof (induction n arbitrary: k rule: bit_length.induct)
  case (1 n)
  show ?case
  proof (cases "n = 0")
    case True
    then show ?thesis by (simp add: bit_length.simps)
  next
    case False
    with "1.prems" obtain j where k: "k = Suc j" by (cases k) auto
    have "bit_length (n div 2) \<le> j" using False "1.prems" by (intro "1.IH") (auto simp: k)
    then show ?thesis using False by (simp add: bit_length.simps[of n] k)
  qed
qed

lemma bit_length_power: "bit_length (2 ^ k) = Suc k"
  by (induction k) (simp_all add: bit_length.simps)

lemma region_wf_new:
  assumes "MemoryRegion_new p n va g w = Some r" and "unat p + unat n < 2 ^ 64" "unat n < 2 ^ 63"
  shows "region_wf r"
proof -
  have m: "saturating_sub (saturating_mul 8 8) 1 = (63 :: u8)"
    by (simp add: saturating_sub_def saturating_mul_def)
  have "saturating_sub 63 x \<le> (63 :: u8)" for x
    by (auto simp: saturating_sub_def word_le_nat_alt unat_sub)
  then have "unat (saturating_sub 63 x :: u8) < 64" for x
    using word_le_nat_alt[of "saturating_sub 63 x" "63 :: u8"] by (simp add: order_le_less_trans)
  then show ?thesis
    using assms by (auto simp: MemoryRegion_new_def region_wf_def Let_def m split: if_splits)
qed

text \<open>A stack of two frames of 4096 bytes with gaps between them, for the witnesses.\<close>

definition example_stack :: MemoryRegion where
  "example_stack = \<lparr>host_addr = 0x1000, vm_addr = 0x200000000, len = 0x2000, vm_gap_shift = 12,
     writable = True, access_violation_handler_payload = None\<rparr>"

lemma example_stack_wf [simp]: "region_wf example_stack"
  by (simp add: region_wf_def example_stack_def)

lemma example_stack_fields:
  "host_addr example_stack = 0x1000" "vm_addr example_stack = 0x200000000"
  "len example_stack = 0x2000" "vm_gap_shift example_stack = 12" "writable example_stack"
  by (simp_all add: example_stack_def)

lemma example_stack_access:
  "vm_to_host example_stack Store 0x200002008 8 = Some 0x2008"
  "vm_to_host example_stack Store 0x200001008 8 = None"
  by (simp_all add: vm_to_host_eq in_gap_def host_offset_def example_stack_fields Let_def)

section \<open>Properties\<close>

text \<open>C14: for every gap size the bit manipulation of \<open>vm_to_host\<close> computes the documented layout.
  An access of \<open>n\<close> bytes at offset \<open>i\<close> of the region is translated exactly when the access type is
  permitted, the address is not below the region, it does not start in a gap, and the packed
  offset plus \<open>n\<close> stays within the slice; the result is the host address plus the packed offset.\<close>

theorem vm_to_host_arith:
  assumes "region_wf r"
  shows "vm_to_host r access_type vaddr n =
    (let s = unat (vm_gap_shift r); i = unat vaddr - unat (vm_addr r) in
     if (access_type = Store \<longrightarrow> writable r) \<and> vm_addr r \<le> vaddr \<and> \<not> in_gap s i \<and>
        host_offset s i + unat n \<le> unat (len r)
     then Some (host_addr r + of_nat (host_offset s i)) else None)"
  using assms by (intro vm_to_host_eq) (simp_all add: region_wf_def)

theorem vm_to_host_arith_witness:
  "region_wf example_stack \<and>
   vm_to_host example_stack Store 0x200002008 8 = Some 0x2008 \<and>
   vm_to_host example_stack Store 0x200001008 8 = None"
  by (simp add: vm_to_host_arith in_gap_def host_offset_def example_stack_fields Let_def)

text \<open>C13: no translation leaves the slice behind the region or breaks its permission.  Whenever an
  access is translated, a store is only translated in a writable region, and all \<open>n\<close> bytes from the
  returned host address on belong to the region's slice.\<close>

theorem vm_to_host_within_slice:
  assumes "region_wf r" and "vm_to_host r access_type vaddr n = Some h"
  shows "(access_type = Store \<longrightarrow> writable r) \<and>
    unat (host_addr r) \<le> unat h \<and> unat h + unat n \<le> unat (host_addr r) + unat (len r)"
  using vm_to_host_SomeD[OF assms(2)] assms(1) by (simp add: region_wf_def)

theorem vm_to_host_within_slice_witness:
  "vm_to_host example_stack Store 0x200002008 8 = Some 0x2008 \<and>
   unat (0x2008 :: u64) + 8 \<le> unat (host_addr example_stack) + unat (len example_stack)"
  using vm_to_host_within_slice[OF example_stack_wf example_stack_access(1)] example_stack_access(1)
  by simp

text \<open>C21: translation never aliases.  Two addresses of one region that translate to the same host
  address are equal, whatever the access types and lengths, with and without gaps.\<close>

theorem vm_to_host_injective:
  assumes "region_wf r" and "vm_to_host r a x n = Some h" and "vm_to_host r b y m = Some h"
  shows "x = y"
proof -
  have wf: "unat (vm_gap_shift r) < 64" "unat (host_addr r) + unat (len r) < 2 ^ 64"
    using assms(1) by (simp_all add: region_wf_def)
  note X = vm_to_host_SomeD[OF assms(2) wf] and Y = vm_to_host_SomeD[OF assms(3) wf]
  have "unat x - unat (vm_addr r) = unat y - unat (vm_addr r)"
    using host_offset_inj[OF X(3) Y(3)] X(4) Y(4) by simp
  then show ?thesis
    using X(2) Y(2) by (simp add: word_le_nat_alt word_unat_eq_iff)
qed

theorem vm_to_host_injective_witness:
  "vm_to_host example_stack Store 0x200002008 8 = Some 0x2008 \<and> (0x200002008 :: u64) = 0x200002008"
  using vm_to_host_injective[OF example_stack_wf example_stack_access(1) example_stack_access(1)]
    example_stack_access(1) by simp

text \<open>C32: only the first byte of an access is checked against the gaps.  An access that starts in a
  frame, touches a gap after \<open>k\<close> bytes and ends inside the host slice is translated, although the
  byte in the gap is refused when it is accessed on its own.\<close>

theorem gap_straddling_access:
  assumes "region_wf r" and "vm_addr r \<le> vaddr" and "unat vaddr + k < 2 ^ 64" and "k < unat n"
    and "\<not> in_gap (unat (vm_gap_shift r)) (unat vaddr - unat (vm_addr r))"
    and "in_gap (unat (vm_gap_shift r)) (unat vaddr - unat (vm_addr r) + k)"
    and "host_offset (unat (vm_gap_shift r)) (unat vaddr - unat (vm_addr r)) + unat n \<le> unat (len r)"
  shows "vm_to_host r Load vaddr n \<noteq> None \<and> vm_to_host r Load (vaddr + of_nat k) 1 = None"
proof -
  have u: "unat (vaddr + of_nat k) = unat vaddr + k"
    using assms(3) by (simp add: unat_word_ariths unat_of_nat)
  have wf: "unat (vm_gap_shift r) < 64" "unat (host_addr r) + unat (len r) < 2 ^ 64"
    using assms(1) by (simp_all add: region_wf_def)
  have "unat vaddr + k - unat (vm_addr r) = unat vaddr - unat (vm_addr r) + k"
    using assms(2) by (simp add: word_le_nat_alt)
  then show ?thesis
    using assms by (simp add: vm_to_host_eq[OF wf] u Let_def)
qed

theorem gap_straddling_access_witness:
  "vm_to_host example_stack Load 0x200000FFC 8 \<noteq> None \<and>
   vm_to_host example_stack Load (0x200000FFC + of_nat 4) 1 = None"
  by (rule gap_straddling_access[OF example_stack_wf])
     (simp_all add: in_gap_def host_offset_def example_stack_fields)

end
