(* ===== verification/Executable.thy ===== *)
theory Executable
  imports Verifier Memory_Region
begin

text \<open>
  \<open>Executable\<close> of \<^verbatim>\<open>src/src/elf.rs\<close> as the virtual machine sees it: the program bytes, the
  read-only section, the entry point and the registries, with the accessors, the construction from
  raw text bytes and the call of the verifier.  The theory \<open>Elf_Loader\<close> holds the ELF loader.

  A heap buffer (\<open>Vec<u8>\<close> or \<open>AlignedMemory\<close>) is its host address with its contents.
\<close>

section \<open>Executables\<close>

type_synonym buffer = "u64 \<times> bytes"

datatype Section =
    Owned usize buffer
  | Borrowed usize "usize \<times> usize"

record 'f Executable =
  elf_bytes :: buffer
  exe_sbpf_version :: SBPFVersion
  ro_section :: Section
  text_section_vaddr :: u64
  text_section_range :: "usize \<times> usize"
  entry_pc :: usize
  exe_function_registry :: "usize FunctionRegistry"
  exe_loader :: "'f BuiltinProgram"

definition exe_get_config :: "'f Executable \<Rightarrow> Config option" where
  "exe_get_config e = get_config (exe_loader e)"

definition get_sbpf_version :: "'f Executable \<Rightarrow> SBPFVersion" where
  "get_sbpf_version e = exe_sbpf_version e"

definition get_text_bytes :: "'f Executable \<Rightarrow> (u64 \<times> bytes) option" where
  "get_text_bytes e =
     do {
       bs \<leftarrow> slice_range (snd (elf_bytes e)) (fst (text_section_range e)) (snd (text_section_range e));
       Some (text_section_vaddr e, bs)
     }"

definition get_ro_section :: "'f Executable \<Rightarrow> bytes option" where
  "get_ro_section e =
     (case ro_section e of
        Owned _ data \<Rightarrow> Some (snd data)
      | Borrowed _ byte_range \<Rightarrow> slice_range (snd (elf_bytes e)) (fst byte_range) (snd byte_range))"

text \<open>The free function \<open>get_ro_region\<close>, and the method that calls it.\<close>

definition get_ro_region :: "Section \<Rightarrow> buffer \<Rightarrow> MemoryRegion option" where
  "get_ro_region section elf =
     do {
       (offset, data_ptr, data) \<leftarrow>
         (case section of
            Owned offset data \<Rightarrow> Some (offset, data)
          | Borrowed offset byte_range \<Rightarrow>
              do {
                bs \<leftarrow> slice_range (snd elf) (fst byte_range) (snd byte_range);
                Some (offset, fst elf + of_nat (fst byte_range), bs)
              });
       new_readonly data_ptr (of_nat (length data)) (of_nat offset)
     }"

definition exe_get_ro_region :: "'f Executable \<Rightarrow> MemoryRegion option" where
  "exe_get_ro_region e = get_ro_region (ro_section e) (elf_bytes e)"

definition get_entrypoint_instruction_offset :: "'f Executable \<Rightarrow> usize" where
  "get_entrypoint_instruction_offset e = entry_pc e"

definition get_text_section_offset :: "'f Executable \<Rightarrow> u64" where
  "get_text_section_offset e = of_nat (fst (text_section_range e))"

definition get_loader :: "'f Executable \<Rightarrow> 'f BuiltinProgram" where
  "get_loader e = exe_loader e"

definition exe_get_function_registry :: "'f Executable \<Rightarrow> usize FunctionRegistry" where
  "exe_get_function_registry e = exe_function_registry e"

definition exe_verify :: "'f Executable \<Rightarrow> (EbpfError + unit) option" where
  "exe_verify e =
     do {
       (_, prog) \<leftarrow> get_text_bytes e;
       config \<leftarrow> exe_get_config e;
       map_option (map_sum VerifierError id)
         (verify prog config (get_sbpf_version e) (exe_get_function_registry e)
            (get_function_registry (exe_loader e)))
     }"

text \<open>\<open>elf_addr\<close> is the address of the buffer \<open>AlignedMemory::from_slice\<close> allocates.\<close>

definition new_from_text_bytes ::
  "(bytes \<Rightarrow> u32) \<Rightarrow> u64 \<Rightarrow> bytes \<Rightarrow> 'f BuiltinProgram \<Rightarrow> SBPFVersion \<Rightarrow> usize FunctionRegistry \<Rightarrow>
   (ElfError + 'f Executable) option" where
  "new_from_text_bytes hash elf_addr text_bytes loader version registry =
     try_bind
       (case lookup_by_name registry entrypoint_name of
          Some (_, pc) \<Rightarrow> Some (Inr (pc, registry))
        | None \<Rightarrow>
            map_option (map_sum id (\<lambda>(_, r). (0, r)))
              (register_function_hashed_legacy hash registry loader (\<not> static_syscalls version)
                 entrypoint_name 0))
       (\<lambda>(pc, r). Some (Inr
          \<lparr>elf_bytes = (elf_addr, text_bytes),
           exe_sbpf_version = version,
           ro_section = Borrowed
             (unat (if enable_lower_rodata_vaddr version then MM_RODATA_START else MM_BYTECODE_START))
             (0, length text_bytes),
           text_section_vaddr = MM_BYTECODE_START,
           text_section_range = (0, length text_bytes),
           entry_pc = pc,
           exe_function_registry = r,
           exe_loader = loader\<rparr>))"

definition from_text_bytes ::
  "(bytes \<Rightarrow> u32) \<Rightarrow> u64 \<Rightarrow> bytes \<Rightarrow> 'f BuiltinProgram \<Rightarrow> SBPFVersion \<Rightarrow> usize FunctionRegistry \<Rightarrow>
   (EbpfError + 'f Executable) option" where
  "from_text_bytes hash elf_addr text_bytes loader version registry =
     map_option (map_sum EbpfError.ElfError id)
       (new_from_text_bytes hash elf_addr text_bytes loader version registry)"

section \<open>Verified executables\<close>

definition verified :: "'f Executable \<Rightarrow> bool" where
  "verified e \<longleftrightarrow> exe_verify e = Some (Inr ())"

lemma verified_text:
  assumes "verified e"
  obtains va prog config where "get_text_bytes e = Some (va, prog)" "exe_get_config e = Some config"
    "verify prog config (get_sbpf_version e) (exe_get_function_registry e)
       (get_function_registry (exe_loader e)) = Some (Inr ())"
proof -
  have "map_sum VerifierError id z = Inr () \<Longrightarrow> z = Inr ()" for z by (cases z) simp_all
  then show ?thesis
    using assms that by (auto simp: verified_def exe_verify_def bind_eq_Some_conv)
qed

lemma new_from_text_bytes_text:
  assumes "new_from_text_bytes hash addr text loader version registry = Some (Inr e)"
  shows "get_text_bytes e = Some (MM_BYTECODE_START, text)" "exe_loader e = loader"
    "get_sbpf_version e = version"
  using assms
  by (auto simp: new_from_text_bytes_def try_bind_Inr get_text_bytes_def slice_range_def get_sbpf_version_def)

end
