(* ===== verification/Elf_Loader.thy ===== *)
theory Elf_Loader
  imports Elf_Parser Executable
begin

text \<open>
  The ELF loader of \<^verbatim>\<open>src/src/elf.rs\<close>: \<open>Executable::load\<close> with the strict parser of V3 and later
  and the lenient parser of the earlier versions, the validation of the sections, the extraction of
  the read-only data and the relocation.  The relocations rewrite the file in place, so the bytes
  and the function registry are passed from step to step.  The addresses the allocator returns for
  the copies of the file and for the read-only data are the record \<open>Allocations\<close>.
\<close>

unbundle bit_operations_syntax

section \<open>Errors\<close>

fun parser_error_text :: "ElfParserError \<Rightarrow> string" where
  "parser_error_text InvalidFileHeader = ''invalid file header''"
| "parser_error_text InvalidProgramHeader = ''invalid program header''"
| "parser_error_text InvalidSectionHeader = ''invalid section header''"
| "parser_error_text InvalidString = ''invalid string''"
| "parser_error_text (StringTooLong s n) =
     ''Section or symbol name `'' @ s @ ''` is longer than `'' @ show_nat n @ ''` bytes''"
| "parser_error_text OutOfBounds = ''value out of bounds''"
| "parser_error_text InvalidSize = ''invalid size''"
| "parser_error_text Overlap = ''values overlap''"
| "parser_error_text SectionNotInOrder = ''sections not in ascending order''"
| "parser_error_text NoSectionNameStringTable = ''no section name string table found''"
| "parser_error_text InvalidDynamicSectionTable = ''invalid dynamic section table''"
| "parser_error_text InvalidRelocationTable = ''invalid relocation table''"
| "parser_error_text InvalidAlignment = ''invalid alignment''"
| "parser_error_text NoStringTable = ''no string table''"
| "parser_error_text NoDynamicStringTable = ''no dynamic string table''"

definition elf_error_from :: "ElfParserError \<Rightarrow> ElfError" where
  "elf_error_from err =
     (case err of
        InvalidProgramHeader \<Rightarrow> ElfError.InvalidProgramHeader
      | OutOfBounds \<Rightarrow> ValueOutOfBounds
      | _ \<Rightarrow> FailedToParse (parser_error_text err))"

section \<open>Access to the file\<close>

text \<open>\<open>get\<close> and \<open>get_mut\<close> of four or eight bytes, with the little-endian read or write that follows.
  The read or write itself panics on a slice that is too short.\<close>

definition read_u32_at :: "bytes \<Rightarrow> usize \<Rightarrow> (ElfError + u32) option" where
  "read_u32_at bs i =
     try_bind (Some (ok_or ValueOutOfBounds (slice_range bs i (usize_saturating_add i 4))))
       (\<lambda>s. map_option Inr (read_i32 s))"

definition write_at :: "bytes \<Rightarrow> usize \<Rightarrow> bytes \<Rightarrow> (ElfError + bytes) option" where
  "write_at bs i v =
     try_bind (Some (ok_or ValueOutOfBounds (slice_range bs i (usize_saturating_add i (length v)))))
       (\<lambda>s. if length v \<le> length s then Some (Inr (take i bs @ v @ drop (i + length v) bs)) else None)"

fun get_section_loop :: "Elf64 \<Rightarrow> bytes \<Rightarrow> Elf64Shdr list \<Rightarrow> ElfError + Elf64Shdr" where
  "get_section_loop e name [] =
     Inl (SectionNotFound (if utf8_lossy name = name then text_of name else ''UTF-8 error''))"
| "get_section_loop e name (sh # shs) =
     try_op (map_sum elf_error_from id (section_name e (sh_name sh)))
       (\<lambda>n. if n = name then Inr sh else get_section_loop e name shs)"

definition get_section :: "Elf64 \<Rightarrow> bytes \<Rightarrow> ElfError + Elf64Shdr" where
  "get_section e name = get_section_loop e name (section_header_table e)"

definition BYTE_OFFSET_IMMEDIATE :: usize where
  "BYTE_OFFSET_IMMEDIATE = 4"

definition BYTE_LENGTH_IMMEDIATE :: usize where
  "BYTE_LENGTH_IMMEDIATE = 4"

datatype BpfRelocationType = R_Bpf_None | R_Bpf_64_64 | R_Bpf_64_Relative | R_Bpf_64_32

definition from_x86_relocation_type :: "u32 \<Rightarrow> BpfRelocationType option" where
  "from_x86_relocation_type t =
     (if t = R_X86_64_NONE then Some R_Bpf_None
      else if t = R_X86_64_64 then Some R_Bpf_64_64
      else if t = R_X86_64_RELATIVE then Some R_Bpf_64_Relative
      else if t = R_X86_64_32 then Some R_Bpf_64_32
      else None)"

section \<open>Validation\<close>

definition starts_with :: "bytes \<Rightarrow> bytes \<Rightarrow> bool" where
  "starts_with name p \<longleftrightarrow> take (length p) name = p"

text \<open>\<open>if let Ok(name) = elf.section_name(..)\<close>: a section without a readable name is skipped.\<close>

definition name_of :: "Elf64 \<Rightarrow> Elf64Shdr \<Rightarrow> bytes option" where
  "name_of e sh = (case section_name e (sh_name sh) of Inr n \<Rightarrow> Some n | Inl _ \<Rightarrow> None)"

definition count_text_sections :: "Elf64 \<Rightarrow> usize" where
  "count_text_sections e =
     foldl (\<lambda>n sh. if name_of e sh = Some (ascii ''.text'') then usize_saturating_add n 1 else n) 0
       (section_header_table e)"

fun check_writable :: "Elf64 \<Rightarrow> Elf64Shdr list \<Rightarrow> ElfError + unit" where
  "check_writable e [] = Inr ()"
| "check_writable e (sh # shs) =
     (case name_of e sh of
        None \<Rightarrow> check_writable e shs
      | Some name \<Rightarrow>
          if starts_with name (ascii ''.bss'') \<or>
             is_writable sh \<and> starts_with name (ascii ''.data'') \<and> \<not> starts_with name (ascii ''.data.rel'')
          then Inl (WritableSectionNotSupported (from_utf8_lossy name))
          else check_writable e shs)"

fun check_bounds :: "usize \<Rightarrow> Elf64Shdr list \<Rightarrow> ElfError + unit" where
  "check_bounds n [] = Inr ()"
| "check_bounds n (sh # shs) =
     try_op (ok_or ValueOutOfBounds (checked_add (sh_offset sh) (sh_size sh))) (\<lambda>end.
       if unat (sh_offset sh) \<le> unat end \<and> unat end \<le> n then check_bounds n shs
       else Inl ValueOutOfBounds)"

definition validate :: "Elf64 \<Rightarrow> bytes \<Rightarrow> ElfError + unit" where
  "validate e bs =
     (let header = file_header e in
      if ei_class (e_ident header) \<noteq> ELFCLASS64 then Inl WrongClass
      else if ei_data (e_ident header) \<noteq> ELFDATA2LSB then Inl WrongEndianess
      else if ei_osabi (e_ident header) \<noteq> ELFOSABI_NONE then Inl WrongAbi
      else if e_machine header \<noteq> EM_BPF \<and> e_machine header \<noteq> EM_SBPF then Inl WrongMachine
      else if e_type header \<noteq> ET_DYN then Inl WrongType
      else if count_text_sections e \<noteq> 1 then Inl NotOneTextSection
      else try_op (check_writable e (section_header_table e)) (\<lambda>_.
        try_op (check_bounds (length bs) (section_header_table e)) (\<lambda>_.
        try_op (get_section e (ascii ''.text'')) (\<lambda>text_section.
          if range_in (unat (e_entry header)) (shdr_vm_range text_section) then Inr ()
          else Inl EntrypointOutOfBounds))))"

section \<open>Read-only sections\<close>

record ro_state =
  lowest_addr :: usize
  highest_addr :: usize
  ro_fill_length :: usize
  invalid_offsets :: bool
  first_ro_section :: usize
  last_ro_section :: usize
  n_ro_sections :: usize
  ro_slices :: "(usize \<times> bytes) list"

definition ro_start :: ro_state where
  "ro_start =
     \<lparr>lowest_addr = usize_max, highest_addr = 0, ro_fill_length = 0, invalid_offsets = False,
      first_ro_section = 0, last_ro_section = 0, n_ro_sections = 0, ro_slices = []\<rparr>"

definition is_ro_name :: "bytes option \<Rightarrow> bool" where
  "is_ro_name name \<longleftrightarrow>
     name \<in> {Some (ascii ''.text''), Some (ascii ''.rodata''), Some (ascii ''.data.rel.ro''),
             Some (ascii ''.eh_frame'')}"

definition ro_section_step ::
  "Config \<Rightarrow> bytes \<Rightarrow> usize \<Rightarrow> Elf64Shdr \<Rightarrow> ro_state \<Rightarrow> ElfError + ro_state" where
  "ro_section_step config bs i sh st =
     (let bad = invalid_offsets st \<or> sh_addr sh \<noteq> sh_offset sh;
          vaddr_end = saturating_add (sh_addr sh) MM_REGION_SIZE in
      if reject_broken_elfs config \<and> bad \<or> vaddr_end > MM_STACK_START then Inl ValueOutOfBounds
      else
        let r = (case shdr_file_range sh of None \<Rightarrow> (0, 0) | Some r \<Rightarrow> r) in
        try_op (ok_or ValueOutOfBounds (slice_range bs (fst r) (snd r))) (\<lambda>data.
        let addr = unat (sh_addr sh) in
        Inr \<lparr>lowest_addr = min (lowest_addr st) addr,
             highest_addr = max (highest_addr st) (usize_saturating_add addr (length data)),
             ro_fill_length = usize_saturating_add (ro_fill_length st) (length data),
             invalid_offsets = bad,
             first_ro_section = (if n_ro_sections st = 0 then i else first_ro_section st),
             last_ro_section = i,
             n_ro_sections = usize_saturating_add (n_ro_sections st) 1,
             ro_slices = ro_slices st @ [(addr, data)]\<rparr>))"

fun ro_sections_loop ::
  "Config \<Rightarrow> bytes \<Rightarrow> usize \<Rightarrow> (bytes option \<times> Elf64Shdr) list \<Rightarrow> ro_state \<Rightarrow> ElfError + ro_state" where
  "ro_sections_loop config bs i [] st = Inr st"
| "ro_sections_loop config bs i ((name, sh) # ss) st =
     (if is_ro_name name
      then try_op (ro_section_step config bs i sh st) (\<lambda>st. ro_sections_loop config bs (i + 1) ss st)
      else ro_sections_loop config bs (i + 1) ss st)"

text \<open>\<open>ro_section[start..end].copy_from_slice(slice)\<close> for each collected slice.\<close>

fun copy_slices :: "usize \<Rightarrow> (usize \<times> bytes) list \<Rightarrow> bytes \<Rightarrow> bytes option" where
  "copy_slices lowest [] buf = Some buf"
| "copy_slices lowest ((addr, data) # rest) buf =
     (let start = addr - lowest; end = usize_saturating_add start (length data) in
      if start \<le> end \<and> end \<le> length buf \<and> end - start = length data
      then copy_slices lowest rest (take start buf @ data @ drop end buf) else None)"

definition rodata_offset :: "usize \<Rightarrow> usize" where
  "rodata_offset lowest =
     (if lowest \<ge> unat MM_REGION_SIZE then lowest
      else usize_saturating_add lowest (unat MM_REGION_SIZE))"

definition parse_ro_sections ::
  "u64 \<Rightarrow> Config \<Rightarrow> (bytes option \<times> Elf64Shdr) list \<Rightarrow> bytes \<Rightarrow> (ElfError + Section) option" where
  "parse_ro_sections ro_addr config sections bs =
     try_bind (Some (ro_sections_loop config bs 0 sections ro_start)) (\<lambda>st.
     if reject_broken_elfs config \<and>
        usize_saturating_add (lowest_addr st) (ro_fill_length st) > highest_addr st
     then Some (Inl ValueOutOfBounds)
     else
       let can_borrow = \<not> invalid_offsets st \<and>
         usize_saturating_add (last_ro_section st) 1 - first_ro_section st = n_ro_sections st in
       if optimize_rodata config \<and> can_borrow
       then Some (Inr (Borrowed (rodata_offset (lowest_addr st)) (lowest_addr st, highest_addr st)))
       else
         let (lowest, buf_len) =
           (if optimize_rodata config then (lowest_addr st, highest_addr st - lowest_addr st)
            else (0, highest_addr st)) in
         if buf_len > length bs then Some (Inl ValueOutOfBounds)
         else do {
           buf \<leftarrow> copy_slices lowest (ro_slices st) (replicate buf_len 0);
           Some (Inr (Owned (rodata_offset lowest) (ro_addr, buf)))
         })"

section \<open>Relocation\<close>

text \<open>The fixup of the calls relative to the program counter, over the bytes of the text section.\<close>

definition isize_saturate :: "int \<Rightarrow> int" where
  "isize_saturate x = clamp_int (sint_min TYPE(64)) (sint_max TYPE(64)) x"

definition relocate_call ::
  "(bytes \<Rightarrow> u32) \<Rightarrow> 'f BuiltinProgram \<Rightarrow> Config \<Rightarrow> usize \<Rightarrow> usize \<Rightarrow> usize FunctionRegistry \<times> bytes \<Rightarrow>
   (ElfError + usize FunctionRegistry \<times> bytes) option" where
  "relocate_call hash loader config instruction_count i s =
     do {
       insn \<leftarrow> get_insn (snd s) i;
       if opc insn = CALL_IMM \<and> imm insn \<noteq> - 1 then
         let target_pc = isize_saturate (isize_saturate (int i + 1) + sint (imm insn)) in
         if target_pc < 0 \<or> target_pc \<ge> int instruction_count
         then Some (Inl (RelativeJumpOutOfBounds i))
         else
           let name = (if enable_symbol_and_section_labels config
                       then ascii (''function_'' @ show_nat (nat target_pc)) else []) in
           try_bind (register_function_hashed_legacy hash (fst s) loader True name (nat target_pc))
             (\<lambda>(key, registry).
           try_bind (write_at (snd s) (usize_saturating_add (usize_saturating_mul i INSN_SIZE) 4)
               (le_bytes 4 key))
             (\<lambda>text. Some (Inr (registry, text))))
       else Some (Inr s)
     }"

fun relocate_calls ::
  "(bytes \<Rightarrow> u32) \<Rightarrow> 'f BuiltinProgram \<Rightarrow> Config \<Rightarrow> usize \<Rightarrow> usize list \<Rightarrow> usize FunctionRegistry \<times> bytes \<Rightarrow>
   (ElfError + usize FunctionRegistry \<times> bytes) option" where
  "relocate_calls hash loader config n [] s = Some (Inr s)"
| "relocate_calls hash loader config n (i # is) s =
     try_bind (relocate_call hash loader config n i s) (\<lambda>s. relocate_calls hash loader config n is s)"

text \<open>The state of the relocation loop: the registry, the file, and the cache of syscall hashes.\<close>

record relocation_state =
  rs_registry :: "usize FunctionRegistry"
  rs_bytes :: bytes
  syscall_cache :: "(Elf64Word, u32) btree"

definition relocation_symbol :: "Elf64 \<Rightarrow> Elf64Rel \<Rightarrow> ElfError + Elf64Sym" where
  "relocation_symbol e r =
     ok_or (UnknownSymbol (unat (r_sym r)))
       (dynamic_symbol_table e \<bind> (\<lambda>table. slice_get table (unat (r_sym r))))"

definition set_bytes :: "relocation_state \<Rightarrow> (ElfError + bytes) option \<Rightarrow>
   (ElfError + relocation_state) option" where
  "set_bytes s r = try_bind r (\<lambda>bs. Some (Inr (s\<lparr>rs_bytes := bs\<rparr>)))"

definition write_halves :: "relocation_state \<Rightarrow> usize \<Rightarrow> usize \<Rightarrow> u64 \<Rightarrow>
   (ElfError + relocation_state) option" where
  "write_halves s low high addr =
     try_bind (set_bytes s (write_at (rs_bytes s) low (le_bytes 4 (ucast (addr AND 0xffffffff) :: u32)))) (\<lambda>s.
     set_bytes s (write_at (rs_bytes s) high
       (le_bytes 4 (ucast (case checked_shr addr 32 of None \<Rightarrow> 0 | Some x \<Rightarrow> x) :: u32))))"

definition in_region_one :: "u64 \<Rightarrow> u64" where
  "in_region_one addr = (if addr < MM_REGION_SIZE then saturating_add MM_REGION_SIZE addr else addr)"

definition relocate_64_64 ::
  "Elf64 \<Rightarrow> Elf64Rel \<Rightarrow> relocation_state \<Rightarrow> (ElfError + relocation_state) option" where
  "relocate_64_64 e r s =
     (let imm_offset = usize_saturating_add (unat (r_offset r)) BYTE_OFFSET_IMMEDIATE in
      try_bind (read_u32_at (rs_bytes s) imm_offset) (\<lambda>refd.
      try_bind (Some (relocation_symbol e r)) (\<lambda>symbol.
      let addr = in_region_one (saturating_add (st_value symbol) (ucast refd)) in
      write_halves s imm_offset (usize_saturating_add imm_offset INSN_SIZE) addr)))"

definition text_file_range :: "Elf64Shdr \<Rightarrow> range" where
  "text_file_range sh = (case shdr_file_range sh of None \<Rightarrow> (0, 0) | Some r \<Rightarrow> r)"

definition relocate_relative ::
  "Elf64Shdr \<Rightarrow> Elf64Rel \<Rightarrow> relocation_state \<Rightarrow> (ElfError + relocation_state) option" where
  "relocate_relative text_section r s =
     (let offset = unat (r_offset r);
          imm_offset = usize_saturating_add offset BYTE_OFFSET_IMMEDIATE in
      if range_in offset (text_file_range text_section) then
        let imm_low_offset = imm_offset;
            imm_high_offset = usize_saturating_add (usize_saturating_add offset INSN_SIZE) BYTE_OFFSET_IMMEDIATE in
        try_bind (read_u32_at (rs_bytes s) imm_low_offset) (\<lambda>va_low.
        try_bind (read_u32_at (rs_bytes s) imm_high_offset) (\<lambda>va_high.
        let refd_addr =
          (case checked_shl (ucast va_high :: u64) 32 of None \<Rightarrow> 0 | Some x \<Rightarrow> x) OR ucast va_low in
        if refd_addr = 0 then Some (Inl (InvalidVirtualAddress refd_addr))
        else write_halves s imm_low_offset imm_high_offset (in_region_one refd_addr)))
      else
        try_bind (read_u32_at (rs_bytes s) imm_offset) (\<lambda>refd.
        set_bytes s (write_at (rs_bytes s) offset
          (le_bytes 8 (saturating_add MM_REGION_SIZE (ucast refd :: u64))))))"

definition hash_cached ::
  "(bytes \<Rightarrow> u32) \<Rightarrow> Elf64Word \<Rightarrow> bytes \<Rightarrow> relocation_state \<Rightarrow> u32 \<times> relocation_state" where
  "hash_cached hash key name s =
     (case bt_get (syscall_cache s) key of
        Some h \<Rightarrow> (h, s)
      | None \<Rightarrow> (hash name, s\<lparr>syscall_cache := bt_insert key (hash name) (syscall_cache s)\<rparr>))"

text \<open>The key a relocated call gets: a defined function symbol is registered as a function of the
  program, any other symbol names a syscall.\<close>

definition relocate_32_key ::
  "(bytes \<Rightarrow> u32) \<Rightarrow> 'f BuiltinProgram \<Rightarrow> Config \<Rightarrow> Elf64Shdr \<Rightarrow> Elf64Rel \<Rightarrow> Elf64Sym \<Rightarrow> bytes \<Rightarrow>
   relocation_state \<Rightarrow> (ElfError + u32 \<times> relocation_state) option" where
  "relocate_32_key hash loader config text_section r symbol name s =
     (if is_function symbol \<and> st_value symbol \<noteq> 0 then
        if \<not> range_in (unat (st_value symbol)) (shdr_vm_range text_section) then Some (Inl ValueOutOfBounds)
        else
          let target_pc = unat (saturating_sub (st_value symbol) (sh_addr text_section)) div INSN_SIZE in
          try_bind (register_function_hashed_legacy hash (rs_registry s) loader True name target_pc)
            (\<lambda>(key, registry). Some (Inr (key, s\<lparr>rs_registry := registry\<rparr>)))
      else
        let (h, s) = hash_cached hash (st_name symbol) name s in
        if reject_broken_elfs config \<and> lookup_by_key (get_function_registry loader) h = None
        then Some (Inl (UnresolvedSymbol (from_utf8_lossy name) (unat (r_offset r) div INSN_SIZE) (unat (r_offset r))))
        else Some (Inr (h, s)))"

definition relocate_64_32 ::
  "(bytes \<Rightarrow> u32) \<Rightarrow> 'f BuiltinProgram \<Rightarrow> Config \<Rightarrow> Elf64 \<Rightarrow> Elf64Shdr \<Rightarrow> Elf64Rel \<Rightarrow> relocation_state \<Rightarrow>
   (ElfError + relocation_state) option" where
  "relocate_64_32 hash loader config e text_section r s =
     (let imm_offset = usize_saturating_add (unat (r_offset r)) BYTE_OFFSET_IMMEDIATE in
      try_bind (Some (relocation_symbol e r)) (\<lambda>symbol.
      try_bind (Some (map_sum (\<lambda>_. UnknownSymbol (unat (st_name symbol))) id
          (dynamic_symbol_name e (st_name symbol)))) (\<lambda>name.
      try_bind (relocate_32_key hash loader config text_section r symbol name s) (\<lambda>(key, s).
      set_bytes s (write_at (rs_bytes s) imm_offset (le_bytes 4 key))))))"

definition apply_relocation ::
  "(bytes \<Rightarrow> u32) \<Rightarrow> 'f BuiltinProgram \<Rightarrow> Config \<Rightarrow> Elf64 \<Rightarrow> Elf64Shdr \<Rightarrow> Elf64Rel \<Rightarrow> relocation_state \<Rightarrow>
   (ElfError + relocation_state) option" where
  "apply_relocation hash loader config e text_section r s =
     (case from_x86_relocation_type (r_type r) of
        Some R_Bpf_64_64 \<Rightarrow> relocate_64_64 e r s
      | Some R_Bpf_64_Relative \<Rightarrow> relocate_relative text_section r s
      | Some R_Bpf_64_32 \<Rightarrow> relocate_64_32 hash loader config e text_section r s
      | _ \<Rightarrow> Some (Inl (UnknownRelocation (r_type r))))"

fun apply_relocations ::
  "(bytes \<Rightarrow> u32) \<Rightarrow> 'f BuiltinProgram \<Rightarrow> Config \<Rightarrow> Elf64 \<Rightarrow> Elf64Shdr \<Rightarrow> Elf64Rel list \<Rightarrow> relocation_state \<Rightarrow>
   (ElfError + relocation_state) option" where
  "apply_relocations hash loader config e text_section [] s = Some (Inr s)"
| "apply_relocations hash loader config e text_section (r # rs) s =
     try_bind (apply_relocation hash loader config e text_section r s)
       (\<lambda>s. apply_relocations hash loader config e text_section rs s)"

text \<open>The names of the symbol table, registered when labels are enabled.\<close>

fun register_symbols ::
  "(bytes \<Rightarrow> u32) \<Rightarrow> 'f BuiltinProgram \<Rightarrow> Elf64 \<Rightarrow> Elf64Shdr \<Rightarrow> Elf64Sym list \<Rightarrow> usize FunctionRegistry \<Rightarrow>
   (ElfError + usize FunctionRegistry) option" where
  "register_symbols hash loader e text_section [] registry = Some (Inr registry)"
| "register_symbols hash loader e text_section (symbol # syms) registry =
     (if st_info symbol AND 0xef \<noteq> 0x02 then register_symbols hash loader e text_section syms registry
      else if \<not> range_in (unat (st_value symbol)) (shdr_vm_range text_section)
      then Some (Inl ValueOutOfBounds)
      else
        let target_pc = unat (saturating_sub (st_value symbol) (sh_addr text_section)) div INSN_SIZE in
        try_bind (Some (map_sum (\<lambda>_. UnknownSymbol (unat (st_name symbol))) id
            (symbol_name e (st_name symbol)))) (\<lambda>name.
        try_bind (register_function_hashed_legacy hash registry loader True name target_pc)
          (\<lambda>(_, registry). register_symbols hash loader e text_section syms registry)))"

definition relocate ::
  "(bytes \<Rightarrow> u32) \<Rightarrow> usize FunctionRegistry \<Rightarrow> 'f BuiltinProgram \<Rightarrow> Elf64 \<Rightarrow> bytes \<Rightarrow>
   (ElfError + usize FunctionRegistry \<times> bytes) option" where
  "relocate hash registry loader e bs =
     try_bind (Some (get_section e (ascii ''.text''))) (\<lambda>text_section. do {
       config \<leftarrow> get_config loader;
       let r = text_file_range text_section;
       try_bind (Some (ok_or ValueOutOfBounds (slice_range bs (fst r) (snd r)))) (\<lambda>text.
       let n = length text div INSN_SIZE in
       try_bind (relocate_calls hash loader config n [0..<n] (registry, text)) (\<lambda>(registry, text).
       let bs = take (fst r) bs @ text @ drop (snd r) bs in
       try_bind (apply_relocations hash loader config e text_section
           (case dynamic_relocations_table e of None \<Rightarrow> [] | Some rels \<Rightarrow> rels)
           \<lparr>rs_registry = registry, rs_bytes = bs, syscall_cache = bt_empty\<rparr>) (\<lambda>s.
       if enable_symbol_and_section_labels config then do {
         table \<leftarrow> symbol_table e;
         try_bind (register_symbols hash loader e text_section
             (case table of Inr (Some syms) \<Rightarrow> syms | _ \<Rightarrow> []) (rs_registry s))
           (\<lambda>registry. Some (Inr (registry, rs_bytes s)))
       }
       else Some (Inr (rs_registry s, rs_bytes s)))))
     })"

section \<open>The lenient parser\<close>

record Allocations =
  copy_addr :: u64
  clone_addr :: u64
  ro_vec_addr :: u64

definition lenient_vaddr_ok :: "Config \<Rightarrow> Elf64Shdr \<Rightarrow> bool" where
  "lenient_vaddr_ok config text_section \<longleftrightarrow>
     \<not> (reject_broken_elfs config \<and> sh_addr text_section \<noteq> sh_offset text_section \<or>
        saturating_add (sh_addr text_section) MM_REGION_SIZE > MM_STACK_START)"

definition section_vaddr :: "Section \<Rightarrow> usize" where
  "section_vaddr s = (case s of Owned offset _ \<Rightarrow> offset | Borrowed offset _ \<Rightarrow> offset)"

definition is_memory_aligned :: "usize \<Rightarrow> usize \<Rightarrow> bool" where
  "is_memory_aligned p align =
     (case checked_rem p align of None \<Rightarrow> False | Some r \<Rightarrow> r = 0)"

text \<open>The part after the relocation: the entry point, the read-only data and the result.\<close>

definition lenient_finish ::
  "(bytes \<Rightarrow> u32) \<Rightarrow> Allocations \<Rightarrow> 'f BuiltinProgram \<Rightarrow> Config \<Rightarrow> u64 \<Rightarrow> Elf64 \<Rightarrow> Elf64Shdr \<Rightarrow>
   usize FunctionRegistry \<Rightarrow> bytes \<Rightarrow> (ElfError + 'f Executable) option" where
  "lenient_finish hash al loader config elf_addr e text_section registry bs =
     (let offset = saturating_sub (e_entry (file_header e)) (sh_addr text_section) in
      if checked_rem (unat offset) INSN_SIZE \<noteq> Some 0 then Some (Inl InvalidEntrypoint)
      else
      let pc = unat offset div INSN_SIZE in
      try_bind (register_function_hashed_legacy hash
          (unregister_function registry (hash entrypoint_name)) loader True entrypoint_name pc)
        (\<lambda>(_, registry).
      try_bind (parse_ro_sections (ro_vec_addr al) config
          (map (\<lambda>sh. (name_of e sh, sh)) (section_header_table e)) bs) (\<lambda>ro.
      if optimize_rodata config \<and> drop_bit VIRTUAL_ADDRESS_BITS (of_nat (section_vaddr ro) :: u64) \<noteq> 1
      then Some (Inl ValueOutOfBounds)
      else if \<not> optimize_rodata config \<and> section_vaddr ro \<noteq> unat MM_REGION_SIZE then None
      else Some (Inr
        \<lparr>elf_bytes = (elf_addr, bs),
         exe_sbpf_version = Reserved,
         ro_section = ro,
         text_section_vaddr = saturating_add (sh_addr text_section) MM_REGION_SIZE,
         text_section_range = text_file_range text_section,
         entry_pc = pc,
         exe_function_registry = registry,
         exe_loader = loader\<rparr>))))"

definition load_with_lenient_parser ::
  "(bytes \<Rightarrow> u32) \<Rightarrow> Allocations \<Rightarrow> buffer \<Rightarrow> 'f BuiltinProgram \<Rightarrow> (ElfError + 'f Executable) option" where
  "load_with_lenient_parser hash al b loader =
     (let (elf_addr, unrelocated) =
        (if is_memory_aligned (unat (fst b)) HOST_ALIGN then (copy_addr al, b)
         else (clone_addr al, (copy_addr al, snd b))) in
      try_bind (map_option (map_sum elf_error_from id) (elf_parse unrelocated)) (\<lambda>e. do {
      config \<leftarrow> get_config loader;
      try_bind (Some (validate e (snd b))) (\<lambda>_.
      try_bind (Some (get_section e (ascii ''.text''))) (\<lambda>text_section.
      if \<not> lenient_vaddr_ok config text_section then Some (Inl ValueOutOfBounds)
      else
      try_bind (relocate hash FunctionRegistry_default loader e (snd b)) (\<lambda>(registry, bs).
      lenient_finish hash al loader config elf_addr e text_section registry bs)))}))"

section \<open>The strict parser\<close>

definition EXPECTED_PROGRAM_HEADERS :: "(u32 \<times> u64) list" where
  "EXPECTED_PROGRAM_HEADERS = [(PF_R, MM_RODATA_START), (PF_X, MM_BYTECODE_START)]"

definition strict_header_ok :: "Elf64Ehdr \<Rightarrow> usize \<Rightarrow> usize \<Rightarrow> bool" where
  "strict_header_ok h table_end n \<longleftrightarrow>
     ei_mag (e_ident h) = ELFMAG \<and> ei_class (e_ident h) = ELFCLASS64 \<and>
     ei_data (e_ident h) = ELFDATA2LSB \<and> ei_version (e_ident h) = ucast EV_CURRENT \<and>
     ei_osabi (e_ident h) = ELFOSABI_NONE \<and> ei_abiversion (e_ident h) = 0 \<and>
     ei_pad (e_ident h) = replicate 7 0 \<and> e_machine h = EM_BPF \<and> e_version h = EV_CURRENT \<and>
     e_phoff h = of_nat (size_of Elf64Ehdr_repr) \<and> e_ehsize h = of_nat (size_of Elf64Ehdr_repr) \<and>
     e_phentsize h = of_nat (size_of Elf64Phdr_repr) \<and> e_phnum h \<noteq> 0 \<and> table_end \<le> n"

definition strict_phdr_ok :: "usize \<Rightarrow> u64 \<Rightarrow> Elf64Phdr \<Rightarrow> u32 \<times> u64 \<Rightarrow> bool" where
  "strict_phdr_ok n expected_offset ph expected \<longleftrightarrow>
     p_type ph = PT_LOAD \<and> p_flags ph = fst expected \<and> p_offset ph = expected_offset \<and>
     \<not> p_offset ph \<ge> of_nat n \<and> checked_rem (unat (p_offset ph)) INSN_SIZE = Some 0 \<and>
     p_vaddr ph = snd expected \<and> p_paddr ph = snd expected \<and> p_filesz ph = p_memsz ph \<and>
     \<not> p_filesz ph > saturating_sub (of_nat n) (p_offset ph) \<and>
     checked_rem (unat (p_filesz ph)) INSN_SIZE = Some 0 \<and> \<not> p_memsz ph \<ge> MM_REGION_SIZE"

fun check_strict_phdrs ::
  "usize \<Rightarrow> u64 \<Rightarrow> (Elf64Phdr \<times> u32 \<times> u64) list \<Rightarrow> ElfParserError + unit" where
  "check_strict_phdrs n expected_offset [] = Inr ()"
| "check_strict_phdrs n expected_offset ((ph, expected) # rest) =
     (if \<not> strict_phdr_ok n expected_offset ph expected then Inl InvalidProgramHeader
      else check_strict_phdrs n (saturating_add expected_offset (p_filesz ph)) rest)"

text \<open>The labels are read only when the configuration asks for them.  A missing or malformed table
  is unwrapped there, so it panics.\<close>

definition unwrap_result :: "'e + 'a \<Rightarrow> 'a option" where
  "unwrap_result r = (case r of Inl _ \<Rightarrow> None | Inr v \<Rightarrow> Some v)"

fun find_label_sections ::
  "u64 \<times> bytes \<Rightarrow> Elf64Shdr \<Rightarrow> Elf64Shdr list \<Rightarrow> Elf64Shdr option \<times> Elf64Shdr option \<Rightarrow>
   (Elf64Shdr option \<times> Elf64Shdr option) option" where
  "find_label_sections b names [] found = Some found"
| "find_label_sections b names (sh # shs) found =
     do {
       name \<leftarrow> unwrap_result (get_string_in_section b names (sh_name sh) 64);
       let strtab = (if name = ascii ''.strtab'' then Some sh else fst found);
       let symtab = (if name = ascii ''.symtab'' then Some sh else snd found);
       find_label_sections b names shs (strtab, symtab)
     }"

fun register_labels ::
  "u64 \<times> bytes \<Rightarrow> Elf64Phdr \<Rightarrow> Elf64Shdr \<Rightarrow> Elf64Sym list \<Rightarrow> usize FunctionRegistry \<Rightarrow>
   usize FunctionRegistry option" where
  "register_labels b bytecode strtab [] registry = Some registry"
| "register_labels b bytecode strtab (symbol # syms) registry =
     (if st_info symbol AND STT_FUNC = 0 then register_labels b bytecode strtab syms registry
      else
        let target_pc = unat (saturating_sub (st_value symbol) (p_vaddr bytecode)) div INSN_SIZE in
        do {
          name \<leftarrow> unwrap_result (get_string_in_section b strtab (st_name symbol) 255);
          registry \<leftarrow> unwrap_result (register_function registry (of_nat target_pc) name target_pc);
          register_labels b bytecode strtab syms registry
        })"

definition strict_labels ::
  "u64 \<times> bytes \<Rightarrow> range \<Rightarrow> Elf64Ehdr \<Rightarrow> range \<Rightarrow> Elf64Phdr \<Rightarrow>
   (ElfParserError + usize FunctionRegistry) option" where
  "strict_labels b file_header_range header program_header_table_range bytecode =
     do {
       parsed \<leftarrow> parse_section_header_table b file_header_range header program_header_table_range;
       (_, table) \<leftarrow> unwrap_result parsed;
       if e_shstrndx header = SHN_UNDEF then None
       else case slice_get table (unat (e_shstrndx header)) of
         None \<Rightarrow> Some (Inl OutOfBounds)
       | Some names \<Rightarrow> do {
           (strtab, symtab) \<leftarrow> find_label_sections b names table (None, None);
           strtab \<leftarrow> strtab;
           symtab \<leftarrow> symtab;
           parsed \<leftarrow> slice_from_section_header Elf64Sym_repr b symtab;
           syms \<leftarrow> unwrap_result parsed;
           registry \<leftarrow> register_labels b bytecode strtab syms FunctionRegistry_default;
           Some (Inr registry)
         }
     }"

definition unwrap_range :: "range option \<Rightarrow> range" where
  "unwrap_range r = (case r of None \<Rightarrow> (0, 0) | Some r \<Rightarrow> r)"

text \<open>The part after the program headers are checked: the ranges, the entry point and the result.\<close>

definition strict_finish ::
  "u64 \<times> bytes \<Rightarrow> 'f BuiltinProgram \<Rightarrow> range \<Rightarrow> Elf64Ehdr \<Rightarrow> range \<Rightarrow> range \<Rightarrow> Elf64Phdr \<Rightarrow>
   (ElfParserError + 'f Executable) option" where
  "strict_finish b loader file_header_range header table_range ro_range bytecode =
     (if \<not> range_in (unat (saturating_sub (saturating_add (e_entry header) (of_nat INSN_SIZE)) 1))
            (phdr_vm_range bytecode) \<or>
         checked_rem (unat (e_entry header)) INSN_SIZE \<noteq> Some 0
      then Some (Inl InvalidFileHeader)
      else do {
        config \<leftarrow> get_config loader;
        try_bind (if enable_symbol_and_section_labels config
            then strict_labels b file_header_range header table_range bytecode
            else Some (Inr FunctionRegistry_default)) (\<lambda>registry.
        Some (Inr
          \<lparr>elf_bytes = b,
           exe_sbpf_version = Reserved,
           ro_section = Borrowed (unat MM_RODATA_START) ro_range,
           text_section_vaddr = p_vaddr bytecode,
           text_section_range = unwrap_range (phdr_file_range bytecode),
           entry_pc = unat (saturating_sub (e_entry header) (p_vaddr bytecode)) div INSN_SIZE,
           exe_function_registry = registry,
           exe_loader = loader\<rparr>))})"

definition load_with_strict_parser ::
  "u64 \<Rightarrow> bytes \<Rightarrow> 'f BuiltinProgram \<Rightarrow> (ElfParserError + 'f Executable) option" where
  "load_with_strict_parser elf_addr bytes loader =
     (let b = (elf_addr, bytes) in
      try_bind (parse_file_header b) (\<lambda>(file_header_range, header).
      let table_end = usize_saturating_add
            (usize_saturating_mul (size_of Elf64Phdr_repr) (unat (e_phnum header))) (size_of Elf64Ehdr_repr);
          table_range = (size_of Elf64Ehdr_repr, table_end) in
      if \<not> strict_header_ok header table_end (length bytes) then Some (Inl InvalidFileHeader)
      else
      try_bind (slice_from_bytes Elf64Phdr_repr b table_range) (\<lambda>table. do {
      first \<leftarrow> slice_get table 0;
      let skip = (p_flags first \<noteq> fst (EXPECTED_PROGRAM_HEADERS ! 0));
      if \<not> skip \<and> e_phnum header < 2 then Some (Inl InvalidFileHeader)
      else
      try_bind (Some (check_strict_phdrs (length bytes) (of_nat table_end)
          (zip table (if skip then tl EXPECTED_PROGRAM_HEADERS else EXPECTED_PROGRAM_HEADERS)))) (\<lambda>_. do {
      bytecode \<leftarrow> (if skip then Some first else slice_get table 1);
      strict_finish b loader file_header_range header table_range
        (if skip then (table_end, table_end) else unwrap_range (phdr_file_range first)) bytecode})})))"

section \<open>Loading\<close>

definition E_FLAGS_OFFSET :: usize where
  "E_FLAGS_OFFSET = 48"

definition version_of_flags :: "u32 \<Rightarrow> SBPFVersion" where
  "version_of_flags flags =
     (if flags = 0 then V0 else if flags = 1 then V1 else if flags = 2 then V2
      else if flags = 3 then V3 else if flags = 4 then V4 else Reserved)"

definition elf_load ::
  "(bytes \<Rightarrow> u32) \<Rightarrow> Allocations \<Rightarrow> buffer \<Rightarrow> 'f BuiltinProgram \<Rightarrow> (ElfError + 'f Executable) option" where
  "elf_load hash al b loader =
     (case slice_range (snd b) E_FLAGS_OFFSET (usize_saturating_add E_FLAGS_OFFSET 4) of
        None \<Rightarrow> Some (Inl (elf_error_from OutOfBounds))
      | Some s \<Rightarrow> do {
          flags \<leftarrow> read_i32 s;
          config \<leftarrow> get_config loader;
          let version = version_of_flags flags;
          if \<not> (fst (enabled_sbpf_versions config) \<le> version \<and> version \<le> snd (enabled_sbpf_versions config))
          then Some (Inl UnsupportedSBPFVersion)
          else
            try_bind (if enable_stricter_elf_headers version
                then map_option (map_sum elf_error_from id)
                  (load_with_strict_parser (copy_addr al) (snd b) loader)
                else load_with_lenient_parser hash al b loader)
              (\<lambda>exe. Some (Inr (exe\<lparr>exe_sbpf_version := version\<rparr>)))
        })"

definition from_elf :: "(bytes \<Rightarrow> u32) \<Rightarrow> Allocations \<Rightarrow> buffer \<Rightarrow> 'f BuiltinProgram \<Rightarrow>
   (EbpfError + 'f Executable) option" where
  "from_elf hash al b loader = map_option (map_sum EbpfError.ElfError id) (elf_load hash al b loader)"

end
