(* ===== verification/Elf_Safety.thy ===== *)
theory Elf_Safety
  imports Elf_Loader
begin

text \<open>
  Safety of the ELF loader: on every input it returns an executable or an error, relocation keeps
  the size of the file, and the text, the read-only data and the entry point of a loaded executable
  lie where the virtual machine will look for them.
\<close>

section \<open>Returning with a property\<close>

text \<open>\<open>returns P m\<close>: the computation does not go wrong, and a value it returns satisfies \<open>P\<close>.\<close>

definition returns :: "('a \<Rightarrow> bool) \<Rightarrow> ('e + 'a) option \<Rightarrow> bool" where
  "returns P m \<longleftrightarrow> (\<exists>r. m = Some r \<and> (\<forall>v. r = Inr v \<longrightarrow> P v))"

lemma returns_simps [simp]:
  "returns P (Some (Inr v)) \<longleftrightarrow> P v" "returns P (Some (Inl e))" "\<not> returns P None"
  by (simp_all add: returns_def)

lemma returns_Some: "(\<And>v. r = Inr v \<Longrightarrow> P v) \<Longrightarrow> returns P (Some r)"
  by (auto simp: returns_def)

lemma returns_try_bind:
  "returns P m \<Longrightarrow> (\<And>v. P v \<Longrightarrow> m = Some (Inr v) \<Longrightarrow> returns Q (f v)) \<Longrightarrow> returns Q (try_bind m f)"
  by (auto simp: returns_def try_bind_def split: sum.split)

lemma returns_map_sum: "returns (\<lambda>v. P (g v)) m \<Longrightarrow> returns P (map_option (map_sum f g) m)"
  by (auto simp: returns_def map_sum_eq_Inr)

lemma returns_mono: "returns P m \<Longrightarrow> (\<And>v. P v \<Longrightarrow> m = Some (Inr v) \<Longrightarrow> Q v) \<Longrightarrow> returns Q m"
  by (auto simp: returns_def)

lemma returnsD: "returns P m \<Longrightarrow> m = Some (Inr v) \<Longrightarrow> P v"
  by (auto simp: returns_def)

lemma returns_defined: "returns P m \<Longrightarrow> \<exists>r. m = Some r"
  by (auto simp: returns_def)

section \<open>Accesses to the file\<close>

lemma slice_range_saturating:
  "slice_fits bs \<Longrightarrow> slice_range bs i (usize_saturating_add i n) =
     (if i + n \<le> length bs then Some (take n (drop i bs)) else None)"
  by (auto simp: slice_range_def slice_fits_def usize_saturating_add_def usize_max_def min_def)

lemma read_u32_at_eq:
  "slice_fits bs \<Longrightarrow> read_u32_at bs i =
     Some (if i + 4 \<le> length bs then Inr (le_word (take 4 (drop i bs))) else Inl ValueOutOfBounds)"
  by (auto simp: read_u32_at_def slice_range_saturating ok_or_def read_i32_def)

lemma write_at_eq:
  "slice_fits bs \<Longrightarrow> write_at bs i v =
     Some (if i + length v \<le> length bs then Inr (take i bs @ v @ drop (i + length v) bs)
           else Inl ValueOutOfBounds)"
  by (auto simp: write_at_def slice_range_saturating ok_or_def)

lemma returns_read_u32_at: "slice_fits bs \<Longrightarrow> returns (\<lambda>_. True) (read_u32_at bs i)"
  by (simp add: read_u32_at_eq returns_def)

lemma returns_write_at: "slice_fits bs \<Longrightarrow> returns (\<lambda>bs'. length bs' = length bs) (write_at bs i v)"
  by (simp add: write_at_eq)

section \<open>Relocation\<close>

lemma returns_register:
  assumes "get_config loader = Some config"
  shows "returns (\<lambda>_. True) (register_function_hashed_legacy hash r loader h name v)"
  using assms by (simp add: register_function_hashed_legacy_def returns_def)

lemma relocate_call_returns:
  assumes "get_config loader = Some config" and "slice_fits (snd s)" and "(i + 1) * 8 \<le> length (snd s)"
  shows "returns (\<lambda>s'. length (snd s') = length (snd s)) (relocate_call hash loader config n i s)"
proof -
  obtain insn where insn: "get_insn (snd s) i = Some insn"
    using assms(2,3) by (simp add: get_insn_eq)
  have "returns (\<lambda>s'. length (snd s') = length (snd s))
      (try_bind (register_function_hashed_legacy hash (fst s) loader True name pc) (\<lambda>(key, registry).
       try_bind (write_at (snd s) k (le_bytes 4 key)) (\<lambda>text. Some (Inr (registry, text)))))" for name pc k
    by (intro returns_try_bind[OF returns_register[OF assms(1)]])
      (auto intro!: returns_try_bind[OF returns_write_at[OF assms(2)]])
  then show ?thesis
    by (auto simp: relocate_call_def insn Let_def)
qed

lemma relocate_calls_returns:
  assumes "get_config loader = Some config"
  shows "slice_fits (snd s) \<Longrightarrow> \<forall>i \<in> set is. (i + 1) * 8 \<le> length (snd s) \<Longrightarrow>
    returns (\<lambda>s'. length (snd s') = length (snd s)) (relocate_calls hash loader config n is s)"
proof (induction "is" arbitrary: s)
  case (Cons i "is")
  have r: "returns (\<lambda>s'. length (snd s') = length (snd s)) (relocate_call hash loader config n i s)"
    using Cons.prems by (intro relocate_call_returns[OF assms]) auto
  show ?case
    using Cons.prems by (auto intro!: returns_try_bind[OF r] returns_mono[OF Cons.IH] simp: slice_fits_def)
qed simp

text \<open>Every relocation keeps the size of the file.\<close>

abbreviation same_size :: "relocation_state \<Rightarrow> relocation_state \<Rightarrow> bool" where
  "same_size s s' \<equiv> length (rs_bytes s') = length (rs_bytes s)"

lemma set_bytes_returns:
  "returns (\<lambda>bs. length bs = length (rs_bytes s)) r \<Longrightarrow> returns (same_size s) (set_bytes s r)"
  unfolding set_bytes_def by (rule returns_try_bind) auto

lemma write_halves_returns:
  assumes "slice_fits (rs_bytes s)"
  shows "returns (same_size s) (write_halves s low high addr)"
  unfolding write_halves_def
proof (rule returns_try_bind[OF set_bytes_returns[OF returns_write_at[OF assms]]])
  fix s' assume "same_size s s'"
  moreover from this have "slice_fits (rs_bytes s')" using assms by (simp add: slice_fits_def)
  ultimately show "returns (same_size s) (set_bytes s' (write_at (rs_bytes s') high v))" for v
    using set_bytes_returns[OF returns_write_at, of s'] by simp
qed

lemma relocate_64_64_returns:
  assumes "slice_fits (rs_bytes s)"
  shows "returns (same_size s) (relocate_64_64 e r s)"
  unfolding relocate_64_64_def Let_def
  by (intro returns_try_bind[OF returns_read_u32_at[OF assms]]
      returns_try_bind[of "\<lambda>_. True" "Some (relocation_symbol e r)"] write_halves_returns[OF assms])
    (auto simp: returns_def)

lemma relocate_relative_returns:
  assumes "slice_fits (rs_bytes s)"
  shows "returns (same_size s) (relocate_relative text r s)"
proof -
  have "returns (same_size s) (if refd = 0 then Some (Inl (InvalidVirtualAddress refd))
      else write_halves s low high (in_region_one refd))" for refd low high
    using write_halves_returns[OF assms] by simp
  moreover have "returns (same_size s) (set_bytes s (write_at (rs_bytes s) k v))" for k v
    by (rule set_bytes_returns[OF returns_write_at[OF assms]])
  ultimately show ?thesis
    unfolding relocate_relative_def Let_def
    by (auto intro!: returns_try_bind[OF returns_read_u32_at[OF assms]])
qed

lemma relocate_32_key_returns:
  assumes "get_config loader = Some config"
  shows "returns (\<lambda>(key, s'). rs_bytes s' = rs_bytes s)
    (relocate_32_key hash loader config text r symbol name s)"
  unfolding relocate_32_key_def Let_def hash_cached_def
  by (auto intro!: returns_try_bind[OF returns_register[OF assms]] split: option.split prod.split)

lemma relocate_64_32_returns:
  assumes "get_config loader = Some config" and "slice_fits (rs_bytes s)"
  shows "returns (same_size s) (relocate_64_32 hash loader config e text r s)"
proof -
  have "returns (same_size s) (set_bytes s' (write_at (rs_bytes s') k v))"
    if "rs_bytes s' = rs_bytes s" for s' k v
    using set_bytes_returns[of s'] returns_write_at[OF assms(2)] that by simp
  then show ?thesis
    unfolding relocate_64_32_def Let_def
    by (intro returns_try_bind[of "\<lambda>_. True" "Some _"] returns_try_bind[OF relocate_32_key_returns[OF assms(1)]])
      (auto simp: returns_def[of "\<lambda>_. True"])
qed

lemma apply_relocation_returns:
  assumes "get_config loader = Some config" and "slice_fits (rs_bytes s)"
  shows "returns (same_size s) (apply_relocation hash loader config e text r s)"
  unfolding apply_relocation_def
  using relocate_64_64_returns[OF assms(2)] relocate_relative_returns[OF assms(2)] relocate_64_32_returns[OF assms]
  by (simp split: option.split BpfRelocationType.split)

lemma apply_relocations_returns:
  assumes "get_config loader = Some config"
  shows "slice_fits (rs_bytes s) \<Longrightarrow> returns (same_size s) (apply_relocations hash loader config e text rs s)"
proof (induction rs arbitrary: s)
  case (Cons r rs)
  show ?case
    using Cons.prems
    by (auto intro!: returns_try_bind[OF apply_relocation_returns[OF assms]] returns_mono[OF Cons.IH]
        simp: slice_fits_def)
qed simp

lemma register_symbols_returns:
  assumes "get_config loader = Some config"
  shows "returns (\<lambda>_. True) (register_symbols hash loader e text syms registry)"
proof (induction syms arbitrary: registry)
  case (Cons sy syms)
  then show ?case
    by (auto simp: Let_def intro!: returns_try_bind[of "\<lambda>_. True" "Some _"] returns_try_bind[OF returns_register[OF assms]])
      (simp add: returns_def)
qed simp

lemma relocate_returns:
  assumes "get_config loader = Some config" and "slice_fits bs"
  shows "returns (\<lambda>(registry', bs'). length bs' = length bs) (relocate hash registry loader e bs)"
proof -
  have "returns (\<lambda>(registry', bs'). length bs' = length bs)
      (try_bind (relocate_calls hash loader config n [0..<n] (registry, tx)) (\<lambda>(registry, tx).
       let bs = take a bs @ tx @ drop b bs in
       try_bind (apply_relocations hash loader config e sh rels
           \<lparr>rs_registry = registry, rs_bytes = bs, syscall_cache = bt_empty\<rparr>) (\<lambda>s.
       if enable_symbol_and_section_labels config then do {
         table \<leftarrow> symbol_table e;
         try_bind (register_symbols hash loader e sh
             (case table of Inr (Some syms) \<Rightarrow> syms | _ \<Rightarrow> []) (rs_registry s))
           (\<lambda>registry. Some (Inr (registry, rs_bytes s)))
       }
       else Some (Inr (rs_registry s, rs_bytes s)))))"
    if t: "slice_range bs a b = Some tx" and n: "n = length tx div 8" for a b tx n sh rels
  proof -
    have r: "a \<le> b" "b \<le> length bs" "length tx = b - a" using t by (auto simp: slice_range_def split: if_splits)
    have "slice_fits tx" using r assms(2) by (simp add: slice_fits_def)
    then have c: "returns (\<lambda>s'. length (snd s') = length tx)
        (relocate_calls hash loader config n [0..<n] (registry, tx))"
      by (rule relocate_calls_returns[OF assms(1), of "(registry, tx)", simplified]) (auto simp: n)
    obtain tab where tab: "symbol_table e = Some tab" using symbol_table_defined by blast
    have a: "returns (\<lambda>(registry', bs'). length bs' = length bs)
        (try_bind (apply_relocations hash loader config e sh rels
           \<lparr>rs_registry = reg, rs_bytes = bs1, syscall_cache = bt_empty\<rparr>) (\<lambda>s.
         if enable_symbol_and_section_labels config
         then try_bind (register_symbols hash loader e sh
             (case tab of Inr (Some syms) \<Rightarrow> syms | _ \<Rightarrow> []) (rs_registry s))
           (\<lambda>registry. Some (Inr (registry, rs_bytes s)))
         else Some (Inr (rs_registry s, rs_bytes s))))" if "length bs1 = length bs" for bs1 reg
      using assms(2) that
      by (intro returns_try_bind[OF apply_relocations_returns[OF assms(1)]])
        (auto simp: slice_fits_def intro!: returns_try_bind[OF register_symbols_returns[OF assms(1)]])
    show ?thesis
      unfolding tab bind.bind_lunit
      using r by (auto simp: Let_def intro!: returns_try_bind[OF c] a)
  qed
  note main = this
  show ?thesis
  proof (cases "get_section e (ascii ''.text'')")
    case (Inr sh)
    let ?r = "text_file_range sh"
    show ?thesis
    proof (cases "slice_range bs (fst ?r) (snd ?r)")
      case (Some tx)
      show ?thesis
        using main[OF Some refl, of sh "case dynamic_relocations_table e of None \<Rightarrow> [] | Some rels \<Rightarrow> rels"]
        by (simp add: relocate_def Inr assms(1) ok_or_def Some Let_def layout split del: option.split)
    qed (simp add: relocate_def Inr assms(1) ok_or_def Let_def)
  qed (simp add: relocate_def)
qed

section \<open>Read-only data\<close>

definition section_inside :: "bytes \<Rightarrow> Elf64Shdr \<Rightarrow> bool" where
  "section_inside bs sh \<longleftrightarrow> unat (sh_offset sh) + unat (sh_size sh) \<le> length bs"

definition slice_ok :: "bytes \<Rightarrow> ro_state \<Rightarrow> usize \<times> bytes \<Rightarrow> bool" where
  "slice_ok bs st s \<longleftrightarrow>
     lowest_addr st \<le> fst s \<and> fst s + length (snd s) \<le> highest_addr st \<and> fst s \<le> 2 ^ 32"

definition ro_inv :: "bytes \<Rightarrow> ro_state \<Rightarrow> bool" where
  "ro_inv bs st \<longleftrightarrow>
     (n_ro_sections st = 0 \<longleftrightarrow> ro_slices st = []) \<and>
     (ro_slices st = [] \<longrightarrow> st = ro_start) \<and>
     list_all (slice_ok bs st) (ro_slices st) \<and> highest_addr st \<le> 2 ^ 32 + length bs \<and>
     (\<not> invalid_offsets st \<longrightarrow> highest_addr st \<le> length bs \<and>
        list_all (\<lambda>(a, d). take (length d) (drop a bs) = d) (ro_slices st))"

lemma ro_inv_start: "ro_inv bs ro_start"
  by (simp add: ro_inv_def ro_start_def)

lemma region_limit:
  "\<not> saturating_add a MM_REGION_SIZE > MM_STACK_START \<Longrightarrow> unat a \<le> 2 ^ 32"
  by (auto simp: saturating_add_def layout word_less_nat_alt not_less unat_word_ariths
      unsigned_minus_1_eq_mask mask_eq_exp_minus_1 split: if_splits)

lemma text_file_range_inside:
  assumes "slice_fits bs" "section_inside bs sh"
  shows "slice_range bs (fst (text_file_range sh)) (snd (text_file_range sh)) =
    Some (if sh_type sh = SHT_NOBITS then [] else take (unat (sh_size sh)) (drop (unat (sh_offset sh)) bs))"
  using assms
  by (auto simp: text_file_range_def shdr_file_range_def slice_range_def usize_saturating_add_def
      section_inside_def slice_fits_def usize_max_def min_def)

lemma ro_section_step_inv:
  assumes "ro_inv bs st" "slice_fits bs" "section_inside bs sh"
    and "ro_section_step config bs i sh st = Inr st'"
  shows "ro_inv bs st'"
proof -
  let ?a = "unat (sh_addr sh)"
  define d where "d = (if sh_type sh = SHT_NOBITS then [] else take (unat (sh_size sh)) (drop (unat (sh_offset sh)) bs))"
  have a: "?a \<le> 2 ^ 32"
    using assms(4) region_limit[of "sh_addr sh"] by (auto simp: ro_section_step_def Let_def split: if_splits)
  have d: "length d \<le> length bs" "unat (sh_offset sh) + length d \<le> length bs"
    "take (length d) (drop (unat (sh_offset sh)) bs) = d"
    using assms(3) by (auto simp: d_def section_inside_def)
  have sat: "usize_saturating_add ?a (length d) = ?a + length d"
    using a d(1) assms(2) by (simp add: usize_saturating_add_def usize_max_def slice_fits_def)
  have st': "st' = \<lparr>lowest_addr = min (lowest_addr st) ?a, highest_addr = max (highest_addr st) (?a + length d),
      ro_fill_length = usize_saturating_add (ro_fill_length st) (length d),
      invalid_offsets = (invalid_offsets st \<or> sh_addr sh \<noteq> sh_offset sh),
      first_ro_section = (if n_ro_sections st = 0 then i else first_ro_section st), last_ro_section = i,
      n_ro_sections = usize_saturating_add (n_ro_sections st) 1, ro_slices = ro_slices st @ [(?a, d)]\<rparr>"
    using assms(4) text_file_range_inside[OF assms(2,3)]
    by (auto simp: ro_section_step_def Let_def text_file_range_def[symmetric] ok_or_def d_def[symmetric] sat
        split: if_splits)
  show ?thesis
    using assms(1) a d
    by (auto simp: st' ro_inv_def slice_ok_def list_all_iff usize_saturating_add_def usize_max_def; fastforce)
qed

lemma ro_sections_loop_inv:
  assumes "ro_inv bs st" "slice_fits bs" "list_all (\<lambda>(name, sh). section_inside bs sh) ss"
    and "ro_sections_loop config bs i ss st = Inr st'"
  shows "ro_inv bs st'"
  using assms
proof (induction config bs i ss st rule: ro_sections_loop.induct)
  case (2 config bs i name sh ss st)
  then show ?case
    by (auto simp: try_op_eq_Inr split: if_splits dest: ro_section_step_inv)
qed simp

lemma copy_slices_defined:
  assumes "slice_fits buf" and "list_all (\<lambda>(a, d). a - lowest + length d \<le> length buf) slices"
  shows "\<exists>buf'. copy_slices lowest slices buf = Some buf' \<and> length buf' = length buf"
  using assms
proof (induction lowest slices buf rule: copy_slices.induct)
  case (2 lowest a d rest buf)
  have "usize_saturating_add (a - lowest) (length d) = a - lowest + length d"
    using "2.prems" by (simp add: usize_saturating_add_def usize_max_def slice_fits_def)
  then show ?case using 2 by (simp add: Let_def slice_fits_def)
qed simp

definition ro_ok :: "bytes \<Rightarrow> Section \<Rightarrow> bool" where
  "ro_ok bs ro \<longleftrightarrow>
     (case ro of
        Owned _ data \<Rightarrow> length (snd data) \<le> length bs
      | Borrowed _ r \<Rightarrow> fst r \<le> snd r \<and> snd r \<le> length bs)"

lemma ro_inv_nonempty:
  assumes "ro_inv bs st" and "ro_slices st \<noteq> []"
  shows "lowest_addr st \<le> highest_addr st" and "lowest_addr st \<le> 2 ^ 32"
  using assms by (cases "ro_slices st"; auto simp: ro_inv_def slice_ok_def)+

lemma rodata_copy_defined:
  assumes "ro_inv bs st" "slice_fits bs" "(lowest, n) = (if c then (lowest_addr st, highest_addr st - lowest_addr st)
      else (0, highest_addr st))" "n \<le> length bs"
  shows "\<exists>buf. copy_slices lowest (ro_slices st) (replicate n 0) = Some buf \<and> length buf = n"
proof -
  have "list_all (\<lambda>(a, d). a - lowest + length d \<le> n) (ro_slices st)"
    using assms(1,3) by (fastforce simp: ro_inv_def slice_ok_def list_all_iff split: if_splits)
  then show ?thesis
    using copy_slices_defined[of "replicate n 0" lowest "ro_slices st"] assms(2,4) by (simp add: slice_fits_def)
qed

lemma parse_ro_sections_returns:
  assumes "slice_fits bs" "list_all (\<lambda>(name, sh). section_inside bs sh) ss"
  shows "returns (\<lambda>ro. ro_ok bs ro \<and> (\<not> optimize_rodata config \<longrightarrow> section_vaddr ro = 2 ^ 32))
    (parse_ro_sections ro_addr config ss bs)"
  unfolding parse_ro_sections_def
proof (rule returns_try_bind[of "ro_inv bs"], rule returns_Some)
  show "ro_inv bs st" if "ro_sections_loop config bs 0 ss ro_start = Inr st" for st
    by (rule ro_sections_loop_inv[OF ro_inv_start assms that])
next
  fix st assume inv: "ro_inv bs st"
  let ?o = "optimize_rodata config"
  let ?borrow = "\<not> invalid_offsets st \<and>
    usize_saturating_add (last_ro_section st) 1 - first_ro_section st = n_ro_sections st"
  define lowest n where "lowest = (if ?o then lowest_addr st else 0)"
    and "n = (if ?o then highest_addr st - lowest_addr st else highest_addr st)"
  have ln: "(if ?o then (lowest_addr st, highest_addr st - lowest_addr st) else (0, highest_addr st)) = (lowest, n)"
    by (simp add: lowest_def n_def)
  have borrow: "lowest_addr st \<le> highest_addr st \<and> highest_addr st \<le> length bs" if ?borrow
  proof -
    have "ro_slices st \<noteq> []"
    proof
      assume e: "ro_slices st = []"
      then have "st = ro_start" using inv by (simp add: ro_inv_def)
      then show False using that by (simp add: ro_start_def usize_saturating_add_def usize_max_def)
    qed
    then show ?thesis using ro_inv_nonempty[OF inv] inv that by (simp add: ro_inv_def)
  qed
  have copy: "\<exists>buf. copy_slices lowest (ro_slices st) (replicate n 0) = Some buf \<and> length buf = n"
    if "n \<le> length bs"
    using rodata_copy_defined[OF inv assms(1) ln[symmetric] that] .
  have off: "rodata_offset 0 = 2 ^ 32" by (simp add: rodata_offset_def layout usize_saturating_add_def usize_max_def)
  show "returns (\<lambda>ro. ro_ok bs ro \<and> (\<not> ?o \<longrightarrow> section_vaddr ro = 2 ^ 32))
     (if reject_broken_elfs config \<and> highest_addr st < usize_saturating_add (lowest_addr st) (ro_fill_length st)
      then Some (Inl ValueOutOfBounds)
      else let can_borrow = ?borrow in
        if ?o \<and> can_borrow
        then Some (Inr (Borrowed (rodata_offset (lowest_addr st)) (lowest_addr st, highest_addr st)))
        else let (lowest, buf_len) =
            (if ?o then (lowest_addr st, highest_addr st - lowest_addr st) else (0, highest_addr st)) in
          if buf_len > length bs then Some (Inl ValueOutOfBounds)
          else copy_slices lowest (ro_slices st) (replicate buf_len 0) \<bind>
            (\<lambda>buf. Some (Inr (Owned (rodata_offset lowest) (ro_addr, buf)))))"
    unfolding ln Let_def using borrow copy off
    by (auto simp: ro_ok_def section_vaddr_def lowest_def)
qed

section \<open>The lenient parser\<close>

lemma check_bounds_inside:
  "check_bounds (length bs) shs = Inr () \<Longrightarrow> list_all (section_inside bs) shs"
proof (induction shs)
  case (Cons sh shs)
  have "unat (sh_offset sh) + unat (sh_size sh) \<le> length bs"
    using Cons.prems by (auto simp: try_op_eq_Inr checked_add_def unat_word_ariths split: if_splits)
  then show ?case using Cons by (auto simp: try_op_eq_Inr section_inside_def split: if_splits)
qed simp

lemma get_section_Inr:
  assumes "get_section e name = Inr sh"
  shows "sh \<in> set (section_header_table e)" and "name_of e sh = Some name"
proof -
  have "get_section_loop e name shs = Inr sh \<Longrightarrow> sh \<in> set shs \<and> section_name e (sh_name sh) = Inr name" for shs
    by (induction shs) (auto simp: try_op_eq_Inr map_sum_eq_Inr split: if_splits)
  then show "sh \<in> set (section_header_table e)" "name_of e sh = Some name"
    using assms by (auto simp: get_section_def name_of_def)
qed

lemma validate_Inr:
  assumes "validate e bs = Inr ()"
  shows "list_all (section_inside bs) (section_header_table e)"
    and "\<exists>sh. get_section e (ascii ''.text'') = Inr sh \<and> range_in (unat (e_entry (file_header e))) (shdr_vm_range sh)"
  using assms
  by (auto simp: validate_def Let_def try_op_eq_Inr split: if_splits dest: check_bounds_inside)

text \<open>A loaded executable: its text and its read-only data lie in the file, and the entry point is an
  instruction of the text unless the text is empty.\<close>

definition loaded_ok :: "usize \<Rightarrow> 'f BuiltinProgram \<Rightarrow> 'f Executable \<Rightarrow> bool" where
  "loaded_ok n loader exe \<longleftrightarrow>
     length (snd (elf_bytes exe)) = n \<and> exe_loader exe = loader \<and> ro_ok (snd (elf_bytes exe)) (ro_section exe) \<and>
     (\<exists>prog. get_text_bytes exe = Some (text_section_vaddr exe, prog) \<and>
        (prog = [] \<or> entry_pc exe * INSN_SIZE < length prog))"

lemma entry_in_text:
  assumes "range_in (unat entry) (shdr_vm_range sh)"
  shows "unat (saturating_sub entry (sh_addr sh)) < unat (sh_size sh)"
proof -
  have le: "sh_addr sh \<le> entry" and lt: "unat entry < unat (saturating_add (sh_addr sh) (sh_size sh))"
    using assms by (simp_all add: range_in_def shdr_vm_range_def word_le_nat_alt)
  have "unat (saturating_add (sh_addr sh) (sh_size sh)) \<le> unat (sh_addr sh) + unat (sh_size sh)"
    by (auto simp: saturating_add_def unat_word_ariths unsigned_minus_1_eq_mask mask_eq_exp_minus_1)
  then show ?thesis
    using le lt by (simp add: saturating_sub_def unat_sub word_le_nat_alt)
qed

lemma text_and_entry:
  assumes "slice_fits bs" "section_inside bs sh" "unat entry_offset < unat (sh_size sh)"
    and "text_section_range exe = text_file_range sh" "snd (elf_bytes exe) = bs"
    and "entry_pc exe = unat entry_offset div INSN_SIZE"
  shows "\<exists>prog. get_text_bytes exe = Some (text_section_vaddr exe, prog) \<and>
        (prog = [] \<or> entry_pc exe * INSN_SIZE < length prog)"
proof -
  let ?t = "if sh_type sh = SHT_NOBITS then [] else take (unat (sh_size sh)) (drop (unat (sh_offset sh)) bs)"
  have "get_text_bytes exe = Some (text_section_vaddr exe, ?t)"
    using text_file_range_inside[OF assms(1,2)] by (simp add: get_text_bytes_def assms(4,5))
  moreover have "entry_pc exe * INSN_SIZE \<le> unat entry_offset" by (simp add: assms(6) layout)
  ultimately show ?thesis using assms(2,3) by (auto simp: section_inside_def)
qed

lemma lenient_finish_returns:
  assumes "get_config loader = Some config" and "slice_fits bs"
    and "list_all (section_inside bs) (section_header_table e)" and "section_inside bs sh"
    and "range_in (unat (e_entry (file_header e))) (shdr_vm_range sh)"
  shows "returns (loaded_ok (length bs) loader)
    (lenient_finish hash al loader config elf_addr e sh registry bs)"
proof -
  let ?off = "saturating_sub (e_entry (file_header e)) (sh_addr sh)"
  have ins: "list_all (\<lambda>(name, sh). section_inside bs sh) (map (\<lambda>sh. (name_of e sh, sh)) (section_header_table e))"
    using assms(3) by (simp add: list_all_iff)
  have loaded: "loaded_ok (length bs) loader
      \<lparr>elf_bytes = (elf_addr, bs), exe_sbpf_version = Reserved, ro_section = ro,
       text_section_vaddr = va, text_section_range = text_file_range sh,
       entry_pc = unat ?off div INSN_SIZE, exe_function_registry = reg, exe_loader = loader\<rparr>"
    if "ro_ok bs ro" for ro va reg
    unfolding loaded_ok_def
    by (intro conjI text_and_entry[OF assms(2,4) entry_in_text[OF assms(5)]]) (simp_all add: that)
  have mm: "unat MM_REGION_SIZE = 2 ^ 32" by (simp add: layout)
  show ?thesis
    unfolding lenient_finish_def Let_def
    by (auto intro!: returns_try_bind[OF returns_register[OF assms(1)]]
        returns_try_bind[OF parse_ro_sections_returns[OF assms(2) ins]] loaded simp: mm split: if_splits)
qed

lemma lenient_returns:
  assumes "get_config loader = Some config" and "slice_fits (snd b)"
  shows "returns (loaded_ok (length (snd b)) loader) (load_with_lenient_parser hash al b loader)"
proof -
  have fin: "returns (loaded_ok (length (snd b)) loader)
     (try_bind (relocate hash FunctionRegistry_default loader e (snd b)) (\<lambda>(registry, bs).
        lenient_finish hash al loader config elf_addr e sh registry bs))"
    if "validate e (snd b) = Inr ()" "get_section e (ascii ''.text'') = Inr sh" for e elf_addr sh
  proof (rule returns_try_bind[OF relocate_returns[OF assms]], clarify)
    fix registry and bs :: bytes assume l: "length bs = length (snd b)"
    have "list_all (section_inside bs) (section_header_table e)" "section_inside bs sh"
      "range_in (unat (e_entry (file_header e))) (shdr_vm_range sh)" "slice_fits bs"
      using validate_Inr[OF that(1)] get_section_Inr(1)[OF that(2)] that(2) l assms(2)
      by (auto simp: list_all_iff section_inside_def slice_fits_def)
    then show "returns (loaded_ok (length (snd b)) loader)
        (lenient_finish hash al loader config elf_addr e sh registry bs)"
      using lenient_finish_returns[OF assms(1)] l by metis
  qed
  show ?thesis
    unfolding load_with_lenient_parser_def Let_def
    by (auto simp: assms(1) split: prod.split
        intro!: returns_try_bind[OF returns_map_sum[of "\<lambda>_. True"]] returns_try_bind[of "\<lambda>_. True" "Some _"]
          fin)
      (simp_all add: returns_def elf_parse_defined)
qed

section \<open>The strict parser\<close>

lemma strict_phdr_inside:
  assumes "strict_phdr_ok n eo ph ex" and "n < 2 ^ 63"
  shows "unat (p_offset ph) + unat (p_filesz ph) \<le> n"
    and "unwrap_range (phdr_file_range ph) = (unat (p_offset ph), unat (p_offset ph) + unat (p_filesz ph))"
    and "p_memsz ph = p_filesz ph" "p_vaddr ph = snd ex" "unat (p_memsz ph) < 2 ^ 32"
proof -
  have n: "unat (of_nat n :: u64) = n" using assms(2) by (simp add: unat_of_nat)
  have "p_offset ph < of_nat n" "p_filesz ph \<le> saturating_sub (of_nat n) (p_offset ph)"
    using assms(1) by (auto simp: strict_phdr_ok_def)
  then show le: "unat (p_offset ph) + unat (p_filesz ph) \<le> n"
    by (auto simp: saturating_sub_def word_le_nat_alt word_less_nat_alt unat_sub n split: if_splits)
  show "unwrap_range (phdr_file_range ph) = (unat (p_offset ph), unat (p_offset ph) + unat (p_filesz ph))"
    using assms le
    by (simp add: unwrap_range_def phdr_file_range_def strict_phdr_ok_def usize_saturating_add_def usize_max_def)
  show "p_memsz ph = p_filesz ph" "p_vaddr ph = snd ex" "unat (p_memsz ph) < 2 ^ 32"
    using assms(1) by (simp_all add: strict_phdr_ok_def layout word_less_nat_alt not_le)
qed

lemma strict_entry:
  assumes "strict_phdr_ok n eo ph (PF_X, MM_BYTECODE_START)" and "n < 2 ^ 63"
    and "range_in (unat (saturating_sub (saturating_add entry (of_nat INSN_SIZE)) 1)) (phdr_vm_range ph)"
  shows "unat (saturating_sub entry (p_vaddr ph)) < unat (p_filesz ph)"
proof -
  note P = strict_phdr_inside(3-5)[OF assms(1,2)]
  have v: "p_vaddr ph = MM_BYTECODE_START" using P(2) by simp
  have lt: "unat (saturating_sub (saturating_add entry 8) 1) < unat (p_vaddr ph) + unat (p_memsz ph)"
    "unat (p_vaddr ph) \<le> unat (saturating_sub (saturating_add entry 8) 1)"
    using assms(3) P(3)
    by (auto simp: range_in_def phdr_vm_range_def v saturating_add_def layout unat_word_ariths split: if_splits)
  show ?thesis
  proof (cases "unat entry + 8 < 2 ^ 64")
    case True
    then have u: "unat (entry + 8) = unat entry + 8" "unat (7 + entry) = unat entry + 7"
      by (simp_all add: unat_word_ariths)
    then have "unat (saturating_sub (saturating_add entry 8) 1) = unat entry + 7"
      using True by (simp add: saturating_add_def saturating_sub_def word_le_nat_alt unat_sub)
    then show ?thesis
      using lt P by (auto simp: saturating_sub_def unat_sub word_le_nat_alt)
  next
    case False
    then have "saturating_sub (saturating_add entry 8) 1 = - 2" by (simp add: saturating_add_def saturating_sub_def word_le_nat_alt unsigned_minus_1_eq_mask mask_eq_exp_minus_1)
    then show ?thesis using lt(1) P(3) by (simp add: v layout)
  qed
qed

lemma strict_headers:
  assumes "check_strict_phdrs n o' (zip table (if skip then tl EXPECTED_PROGRAM_HEADERS
      else EXPECTED_PROGRAM_HEADERS)) = Inr ()"
    and "slice_get table 0 = Some fst'" and "(if skip then Some fst' else slice_get table 1) = Some bytecode"
  shows "\<exists>eo. strict_phdr_ok n eo bytecode (PF_X, MM_BYTECODE_START)"
    and "\<not> skip \<Longrightarrow> \<exists>eo ex. strict_phdr_ok n eo fst' ex"
proof -
  obtain rest where t: "table = fst' # rest" using assms(2) by (cases table) (auto simp: slice_get_def split: if_splits)
  show "\<exists>eo. strict_phdr_ok n eo bytecode (PF_X, MM_BYTECODE_START)"
    using assms(1,3) t by (cases rest) (auto simp: EXPECTED_PROGRAM_HEADERS_def slice_get_def split: if_splits)
  show "\<exists>eo ex. strict_phdr_ok n eo fst' ex" if "\<not> skip"
    using assms(1) t that by (auto simp: EXPECTED_PROGRAM_HEADERS_def split: if_splits)
qed

lemma strict_finish_loaded:
  assumes "strict_finish (addr, bs) loader fr h tr ro bytecode = Some (Inr exe)"
    and "strict_phdr_ok (length bs) eo bytecode (PF_X, MM_BYTECODE_START)" and "slice_fits bs"
    and "fst ro \<le> snd ro" "snd ro \<le> length bs"
  shows "loaded_ok (length bs) loader exe"
proof -
  have n: "length bs < 2 ^ 63" using assms(3) by (simp add: slice_fits_def)
  note P = strict_phdr_inside[OF assms(2) n]
  have E: "range_in (unat (saturating_sub (saturating_add (e_entry h) (of_nat INSN_SIZE)) 1)) (phdr_vm_range bytecode)"
    using assms(1) by (auto simp: strict_finish_def split: if_splits)
  obtain registry where exe: "exe = \<lparr>elf_bytes = (addr, bs), exe_sbpf_version = Reserved,
       ro_section = Borrowed (unat MM_RODATA_START) ro,
       text_section_vaddr = p_vaddr bytecode, text_section_range = unwrap_range (phdr_file_range bytecode),
       entry_pc = unat (saturating_sub (e_entry h) (p_vaddr bytecode)) div INSN_SIZE,
       exe_function_registry = registry, exe_loader = loader\<rparr>"
    using assms(1) by (auto simp: strict_finish_def bind_eq_Some_conv try_bind_Inr split: if_splits)
  let ?p = "take (unat (p_filesz bytecode)) (drop (unat (p_offset bytecode)) bs)"
  have "get_text_bytes exe = Some (p_vaddr bytecode, ?p)"
    using P(1) by (simp add: exe get_text_bytes_def P(2) slice_range_def)
  moreover have "unat (saturating_sub (e_entry h) (p_vaddr bytecode)) div INSN_SIZE * INSN_SIZE < length ?p"
    using strict_entry[OF assms(2) n E] P(1) by (simp add: layout)
  ultimately show ?thesis using assms(4,5) by (simp add: loaded_ok_def exe ro_ok_def)
qed

lemma strict_loaded:
  assumes "load_with_strict_parser addr bs loader = Some (Inr exe)" and "slice_fits bs"
  shows "loaded_ok (length bs) loader exe"
proof -
  let ?n = "length bs" and ?t = "\<lambda>h. usize_saturating_add (usize_saturating_mul 56 (unat (e_phnum h))) 64"
  have n: "?n < 2 ^ 63" using assms(2) by (simp add: slice_fits_def)
  obtain fr h table fst' where
    H: "parse_file_header (addr, bs) = Some (Inr (fr, h))" "strict_header_ok h (?t h) ?n"
      "slice_from_bytes Elf64Phdr_repr (addr, bs) (64, ?t h) = Some (Inr table)"
      "slice_get table 0 = Some fst'"
    using assms(1)
    by (auto simp: load_with_strict_parser_def Let_def try_bind_Inr[of "parse_file_header _"]
        try_bind_Inr[of "slice_from_bytes _ _ _"] bind_eq_Some_conv split: if_splits)
  define skip where "skip = (p_flags fst' \<noteq> fst (EXPECTED_PROGRAM_HEADERS ! 0))"
  obtain bytecode where
    T: "slice_get table 0 = Some fst'" "(if skip then Some fst' else slice_get table 1) = Some bytecode"
      "check_strict_phdrs ?n (of_nat (?t h)) (zip table (if skip then tl EXPECTED_PROGRAM_HEADERS
         else EXPECTED_PROGRAM_HEADERS)) = Inr ()" and
    F: "strict_finish (addr, bs) loader fr h (64, ?t h)
        (if skip then (?t h, ?t h) else unwrap_range (phdr_file_range fst')) bytecode = Some (Inr exe)"
    using assms(1) H(4)
    by (cases skip) (auto simp: load_with_strict_parser_def Let_def H try_bind_Inr bind_eq_Some_conv
        simp flip: skip_def split: if_splits)
  obtain eo where ok: "strict_phdr_ok ?n eo bytecode (PF_X, MM_BYTECODE_START)"
    using strict_headers(1)[OF T(3,1,2)] by blast
  have "fst r \<le> snd r \<and> snd r \<le> ?n"
    if "r = (if skip then (?t h, ?t h) else unwrap_range (phdr_file_range fst'))" for r
  proof (cases skip)
    case True
    then show ?thesis using H(2) that by (simp add: strict_header_ok_def)
  next
    case False
    then obtain eo ex where "strict_phdr_ok ?n eo fst' ex" using strict_headers(2)[OF T(3,1,2)] by blast
    from strict_phdr_inside(1,2)[OF this n] False that show ?thesis by simp
  qed
  then show ?thesis using strict_finish_loaded[OF F ok assms(2)] by blast
qed

lemma strict_table_length:
  assumes "slice_from_bytes Elf64Phdr_repr b
    (64, usize_saturating_add (usize_saturating_mul 56 (unat (e_phnum h))) 64) = Some (Inr table)"
  shows "length table = unat (e_phnum h)"
proof -
  have "unat (e_phnum h) < 65536" using unsigned_less[of "e_phnum h", where ?'a = nat] by simp
  then have "usize_saturating_add (usize_saturating_mul 56 (unat (e_phnum h))) 64 = 56 * unat (e_phnum h) + 64"
    by (simp add: usize_saturating_add_def usize_saturating_mul_def usize_max_def)
  then show ?thesis using phdr.slice_from_bytes_table(2)[OF assms] by (simp add: range_len_def)
qed

lemma strict_defined:
  assumes "get_config loader = Some config" and "\<not> enable_symbol_and_section_labels config"
  shows "\<exists>r. load_with_strict_parser addr bs loader = Some r"
proof -
  have fin: "strict_finish b loader fr h tr ro bc \<noteq> None" for b fr h tr ro bc
    using assms by (simp add: strict_finish_def)
  have tab: "slice_get table 0 \<noteq> None" "\<not> e_phnum h < 2 \<Longrightarrow> slice_get table 1 \<noteq> None"
    if "strict_header_ok h e n" "slice_from_bytes Elf64Phdr_repr (addr, bs)
      (64, usize_saturating_add (usize_saturating_mul 56 (unat (e_phnum h))) 64) = Some (Inr table)" for h e n table
    using strict_table_length[OF that(2)] that(1)
    by (auto simp: slice_get_def strict_header_ok_def unat_gt_0 word_less_nat_alt simp del: not_None_eq)
  have d: "parse_file_header (addr, bs) \<noteq> None" "\<And>r. slice_from_bytes Elf64Phdr_repr (addr, bs) r \<noteq> None"
    using parse_file_header_defined[of "(addr, bs)"] phdr.slice_from_bytes_defined[of "(addr, bs)"] by simp_all
  have "load_with_strict_parser addr bs loader \<noteq> None"
    by (auto simp: load_with_strict_parser_def Let_def try_bind_None bind_eq_None_conv d fin simp del: not_None_eq
        split: if_splits dest: tab)
  then show ?thesis by simp
qed

section \<open>Loading\<close>

lemma elf_load_loaded:
  assumes "get_config loader = Some config" and "slice_fits (snd b)"
    and "elf_load hash al b loader = Some (Inr exe)"
  shows "loaded_ok (length (snd b)) loader exe"
proof -
  have keep: "loaded_ok n loader e \<Longrightarrow> loaded_ok n loader (e\<lparr>exe_sbpf_version := v\<rparr>)" for n e v
    by (simp add: loaded_ok_def get_text_bytes_def)
  show ?thesis
    using assms(3) returnsD[OF lenient_returns[OF assms(1,2)]] strict_loaded[OF _ assms(2)]
    by (auto simp: elf_load_def bind_eq_Some_conv try_bind_Inr map_sum_eq_Inr Let_def
        split: option.splits if_splits intro!: keep)
qed

lemma elf_load_defined:
  assumes "get_config loader = Some config" and "slice_fits (snd b)"
    and "\<not> enable_symbol_and_section_labels config"
  shows "\<exists>r. elf_load hash al b loader = Some r"
proof (cases "slice_range (snd b) E_FLAGS_OFFSET (usize_saturating_add E_FLAGS_OFFSET 4)")
  case (Some s)
  then have "read_i32 s \<noteq> None"
    by (auto simp: read_i32_def E_FLAGS_OFFSET_def usize_saturating_add_def usize_max_def slice_range_def split: if_splits)
  then obtain flags where "read_i32 s = Some flags" by blast
  moreover have "\<exists>r. load_with_strict_parser (copy_addr al) (snd b) loader = Some r"
    by (rule strict_defined[OF assms(1,3)])
  moreover have "\<exists>r. load_with_lenient_parser hash al b loader = Some r"
    by (rule returns_defined[OF lenient_returns[OF assms(1,2)]])
  ultimately show ?thesis
    by (auto simp: elf_load_def Some assms(1) Let_def intro!: try_bind_defined)
qed (simp add: elf_load_def)

section \<open>An example\<close>

text \<open>A file for the strict parser: the headers and a text of one \<open>exit\<close> instruction.\<close>

definition strict_ehdr :: Elf64Ehdr where
  "strict_ehdr =
     \<lparr>e_ident = \<lparr>ei_mag = ELFMAG, ei_class = ELFCLASS64, ei_data = ELFDATA2LSB, ei_version = 1,
        ei_osabi = 0, ei_abiversion = 0, ei_pad = replicate 7 0\<rparr>,
      e_type = ET_DYN, e_machine = EM_BPF, e_version = EV_CURRENT, e_entry = MM_BYTECODE_START,
      e_phoff = 64, e_shoff = 0, e_flags = 3, e_ehsize = 64, e_phentsize = 56, e_phnum = 1,
      e_shentsize = 64, e_shnum = 0, e_shstrndx = 0\<rparr>"

definition strict_phdr :: "usize \<Rightarrow> Elf64Phdr" where
  "strict_phdr n =
     \<lparr>p_type = PT_LOAD, p_flags = PF_X, p_offset = 120, p_vaddr = MM_BYTECODE_START,
      p_paddr = MM_BYTECODE_START, p_filesz = of_nat n, p_memsz = of_nat n, p_align = 8\<rparr>"

definition strict_elf :: "bytes \<Rightarrow> bytes" where
  "strict_elf text_bytes =
     Elf64Ehdr_bytes strict_ehdr @ Elf64Phdr_bytes (strict_phdr (length text_bytes)) @ text_bytes"

lemma strict_ehdr_bytes [simp]:
  "length (Elf64Ehdr_bytes strict_ehdr) = 64"
  "from_bytes Elf64Ehdr_repr (Elf64Ehdr_bytes strict_ehdr) = strict_ehdr"
proof -
  have "ident_valid (e_ident strict_ehdr)" by (simp add: strict_ehdr_def ident_valid_def elf_const)
  then show "length (Elf64Ehdr_bytes strict_ehdr) = 64"
    "from_bytes Elf64Ehdr_repr (Elf64Ehdr_bytes strict_ehdr) = strict_ehdr"
    using ehdr.length_image ehdr.from_bytes_image by auto
qed

lemma strict_elf_length [simp]: "length (strict_elf tx) = 120 + length tx"
  using phdr.length_image by (simp add: strict_elf_def)

text \<open>The executable the strict parser makes of such a file.\<close>

definition strict_exe :: "u64 \<Rightarrow> 'f BuiltinProgram \<Rightarrow> bytes \<Rightarrow> 'f Executable" where
  "strict_exe addr loader tx =
     \<lparr>elf_bytes = (addr, strict_elf tx), exe_sbpf_version = Reserved,
      ro_section = Borrowed (unat MM_RODATA_START) (120, 120), text_section_vaddr = MM_BYTECODE_START,
      text_section_range = (120, 120 + length tx), entry_pc = 0,
      exe_function_registry = FunctionRegistry_default, exe_loader = loader\<rparr>"

lemma strict_elf_steps:
  assumes "get_config loader = Some config"
    and "unat addr mod 8 = 0" "tx \<noteq> []" "length tx mod 8 = 0" "length tx < 2 ^ 32"
  shows "load_with_strict_parser addr (strict_elf tx) loader =
      strict_finish (addr, strict_elf tx) loader (0, 64) strict_ehdr (64, 120) (120, 120) (strict_phdr (length tx))"
    and "strict_finish (addr, strict_elf tx) loader (0, 64) strict_ehdr (64, 120) (120, 120) (strict_phdr (length tx)) =
      try_bind (if enable_symbol_and_section_labels config
          then strict_labels (addr, strict_elf tx) (0, 64) strict_ehdr (64, 120) (strict_phdr (length tx))
          else Some (Inr FunctionRegistry_default))
        (\<lambda>registry. Some (Inr ((strict_exe addr loader tx)\<lparr>exe_function_registry := registry\<rparr>)))"
proof -
  let ?b = "(addr, strict_elf tx)" and ?ph = "strict_phdr (length tx)"
  have h: "parse_file_header ?b = Some (Inr ((0, 64), strict_ehdr))"
    using assms(2)
    by (simp add: parse_file_header_def buffer_get_def range_len_def slice_from_raw_parts_def slice_get_def)
      (simp add: strict_elf_def)
  have "unat (addr + 64) mod 8 = (unat addr + 64) mod 8" by (simp add: unat_word_ariths mod_mod_cancel)
  then have "unat (addr + 64) mod 8 = 0" using assms(2) by presburger
  then have t: "slice_from_bytes Elf64Phdr_repr ?b (64, 120) = Some (Inr [?ph])"
    using phdr.length_image
    by (intro phdr.slice_from_bytes_of_table) (simp_all add: table_at_def range_len_def, simp add: strict_elf_def)
  have len: "unat (of_nat (length tx) :: u64) = length tx" using assms(5) by (simp add: unat_of_nat)
  have "length tx \<ge> 8" using assms(3,4) by (cases "length tx < 8") auto
  have ok: "strict_phdr_ok (120 + length tx) 120 ?ph (PF_X, MM_BYTECODE_START)"
    using assms(3-5)
    by (simp add: strict_phdr_ok_def strict_phdr_def checked_rem_def len layout word_le_nat_alt word_less_nat_alt
        saturating_sub_def unat_word_ariths)
  have hd: "strict_header_ok strict_ehdr 120 (120 + length tx)"
    by (simp add: strict_header_ok_def strict_ehdr_def elf_const)
  have e: "range_in (unat (saturating_sub (saturating_add (e_entry strict_ehdr) 8) 1)) (phdr_vm_range ?ph)"
    "checked_rem (unat (e_entry strict_ehdr)) 8 = Some 0"
    using \<open>length tx \<ge> 8\<close> assms(5)
    by (simp_all add: range_in_def phdr_vm_range_def strict_ehdr_def strict_phdr_def layout saturating_add_def
        saturating_sub_def len checked_rem_def word_le_nat_alt unat_word_ariths)
  have r: "unwrap_range (phdr_file_range ?ph) = (120, 120 + length tx)"
    using assms(5) by (simp add: unwrap_range_def phdr_file_range_def strict_phdr_def len usize_saturating_add_def usize_max_def)
  show "strict_finish ?b loader (0, 64) strict_ehdr (64, 120) (120, 120) ?ph =
      try_bind (if enable_symbol_and_section_labels config
          then strict_labels ?b (0, 64) strict_ehdr (64, 120) ?ph else Some (Inr FunctionRegistry_default))
        (\<lambda>registry. Some (Inr ((strict_exe addr loader tx)\<lparr>exe_function_registry := registry\<rparr>)))"
    using e by (simp add: strict_finish_def assms(1) r layout strict_exe_def)
      (simp add: strict_ehdr_def strict_phdr_def saturating_sub_def layout)
  have "usize_saturating_add (usize_saturating_mul 56 (unat (e_phnum strict_ehdr))) 64 = 120"
    by (simp add: strict_ehdr_def usize_saturating_add_def usize_saturating_mul_def usize_max_def)
  moreover have "p_flags ?ph \<noteq> fst (EXPECTED_PROGRAM_HEADERS ! 0)"
    by (simp add: strict_phdr_def EXPECTED_PROGRAM_HEADERS_def elf_const)
  ultimately show "load_with_strict_parser addr (strict_elf tx) loader =
      strict_finish ?b loader (0, 64) strict_ehdr (64, 120) (120, 120) ?ph"
    using h t hd ok by (simp add: load_with_strict_parser_def Let_def slice_get_def EXPECTED_PROGRAM_HEADERS_def)
qed

lemma strict_elf_loads:
  assumes "get_config loader = Some config" "\<not> enable_symbol_and_section_labels config"
    and "unat addr mod 8 = 0" "tx \<noteq> []" "length tx mod 8 = 0" "length tx < 2 ^ 32"
  shows "load_with_strict_parser addr (strict_elf tx) loader = Some (Inr (strict_exe addr loader tx))"
  using strict_elf_steps[OF assms(1,3-6)] assms(2) by (simp add: strict_exe_def)

lemma strict_elf_flags:
  "slice_range (strict_elf tx) E_FLAGS_OFFSET (usize_saturating_add E_FLAGS_OFFSET 4) = Some (le_bytes 4 (3 :: u32))"
  by (simp add: slice_range_def E_FLAGS_OFFSET_def usize_saturating_add_def usize_max_def)
    (simp add: strict_elf_def Elf64Ehdr_bytes_def ElfIdent_bytes_def strict_ehdr_def elf_const)

lemma strict_elf_load:
  assumes "get_config loader = Some config"
    and "fst (enabled_sbpf_versions config) \<le> V3" "V3 \<le> snd (enabled_sbpf_versions config)"
  shows "elf_load hash al (a, strict_elf tx) loader =
    try_bind (map_option (map_sum elf_error_from id) (load_with_strict_parser (copy_addr al) (strict_elf tx) loader))
      (\<lambda>exe. Some (Inr (exe\<lparr>exe_sbpf_version := V3\<rparr>)))"
  using assms
  by (simp add: elf_load_def strict_elf_flags read_i32_def le_word_le_bytes version_of_flags_def features)

section \<open>Properties\<close>





text \<open>C35: with the symbol labels switched on the strict loader panics on the same files.  The minimal
  file has no section headers, so the index of the section names is undefined, and the loader unwraps
  the missing section header instead of returning an error.\<close>

theorem strict_labels_panic:
  assumes "get_config loader = Some config" "enable_symbol_and_section_labels config"
    and "unat addr mod 8 = 0" "tx \<noteq> []" "length tx mod 8 = 0" "length tx < 2 ^ 32"
  shows "load_with_strict_parser addr (strict_elf tx) loader = None"
proof -
  have "parse_section_header_table (addr, strict_elf tx) (0, 64) strict_ehdr (64, 120) = Some (Inr ((0, 0), []))"
    using shdr.slice_from_bytes_of_table[of "(addr, strict_elf tx)" "(0, 0)" "[]"] assms(3)
    by (simp add: parse_section_header_table_def strict_ehdr_def err_checked_mul_def err_checked_add_def
        check_that_there_is_no_overlap_def table_at_def range_len_def usize_max_def)
  then have "strict_labels (addr, strict_elf tx) (0, 64) strict_ehdr (64, 120) (strict_phdr (length tx)) = None"
    by (simp add: strict_labels_def unwrap_result_def) (simp add: strict_ehdr_def elf_const)
  then show ?thesis using strict_elf_steps[OF assms(1,3-6)] assms(2) by simp
qed

theorem strict_labels_panic_witness:
  "load_with_strict_parser 0x2000 (strict_elf [0x95, 0, 0, 0, 0, 0, 0, 0])
     (new_loader (Config_default\<lparr>enable_symbol_and_section_labels := True\<rparr>) :: unit BuiltinProgram) = None"
  by (rule strict_labels_panic[where config = "Config_default\<lparr>enable_symbol_and_section_labels := True\<rparr>"])
    (simp_all add: get_config_def new_loader_def)

end
