(* ===== verification/Elf_Relocation.thy ===== *)
theory Elf_Relocation
  imports Elf_Safety
begin

text \<open>
  What relocation does to a program: the calls relative to the program counter are replaced by keys
  that the function registry resolves to the same targets, and nothing else of the text changes.
\<close>

section \<open>Registration\<close>

lemma register_legacy_lookup:
  assumes "registry_wf r"
    and "register_function_hashed_legacy hash r loader True name v = Some (Inr (key, r'))"
  shows "registry_wf r'" and "\<exists>nm. lookup_by_key r' key = Some (nm, v)"
    and "lookup_by_key r k = Some x \<Longrightarrow> lookup_by_key r' k = Some x"
    and "lookup_by_key (get_function_registry loader) key = None"
proof -
  obtain nm where reg: "register_function r key nm v = Inr r'"
    and new: "lookup_by_key (get_function_registry loader) key = None"
    using assms(2)
    by (auto simp: register_function_hashed_legacy_def bind_eq_Some_conv try_op_eq_Inr Let_def
        simp del: not_None_eq split: if_splits)
  show "registry_wf r'" by (rule registry_wf_register[OF assms(1) reg])
  have look: "lookup_by_key r' j = (if j = key \<and> lookup_by_key r key = None then Some (nm, v)
      else lookup_by_key r j)" for j
    by (rule lookup_after_register[OF assms(1) reg])
  show "\<exists>nm. lookup_by_key r' key = Some (nm, v)"
  proof (cases "lookup_by_key r key")
    case (Some y)
    then have "snd y = v" using reg by (auto simp: register_function_def lookup_by_key_def split: if_splits prod.splits)
    then show ?thesis using Some look by (cases y) simp
  qed (simp add: look)
  show "lookup_by_key r k = Some x \<Longrightarrow> lookup_by_key r' k = Some x" by (auto simp: look)
  show "lookup_by_key (get_function_registry loader) key = None" by (rule new)
qed

section \<open>One call\<close>

text \<open>The bytes after the immediate of instruction \<open>i\<close> is replaced.\<close>

definition patch_imm :: "bytes \<Rightarrow> usize \<Rightarrow> u32 \<Rightarrow> bytes" where
  "patch_imm bs i v = take (8 * i + 4) bs @ le_bytes 4 v @ drop (8 * i + 8) bs"

lemma length_patch_imm [simp]: "(i + 1) * 8 \<le> length bs \<Longrightarrow> length (patch_imm bs i v) = length bs"
  by (simp add: patch_imm_def)

lemma insn_at_patch_imm:
  assumes "(i + 1) * 8 \<le> length bs"
  shows "insn_at (patch_imm bs i v) i = (insn_at bs i)\<lparr>imm := scast v\<rparr>"
  using assms by (simp add: insn_at_def patch_imm_def nth_append le_word_le_bytes min_def drop_take)

lemma insn_at_patch_other:
  assumes "(i + 1) * 8 \<le> length bs" "(j + 1) * 8 \<le> length bs" "i \<noteq> j"
  shows "insn_at (patch_imm bs i v) j = insn_at bs j"
proof -
  have nth: "patch_imm bs i v ! k = bs ! k" if "k < 8 * i + 4 \<or> 8 * i + 8 \<le> k" "k < length bs" for k
    using that assms(1) by (auto simp: patch_imm_def nth_append min_def)
  have sub: "take m (drop k (patch_imm bs i v)) = take m (drop k bs)" if "k + m \<le> 8 * i \<or> 8 * i + 8 \<le> k" "k + m \<le> length bs" for k m
    using that assms(1) by (intro nth_equalityI) (auto simp: nth)
  have "j < i \<or> i < j" using assms(3) by auto
  then show ?thesis using assms(1,2) by (auto simp: insn_at_def nth sub)
qed

definition is_relative_call :: "Insn \<Rightarrow> bool" where
  "is_relative_call insn \<longleftrightarrow> opc insn = CALL_IMM \<and> imm insn \<noteq> - 1"

lemma sint_insn_imm: "- (2 ^ 31) \<le> sint (imm (insn_at bs i))" "sint (imm (insn_at bs i)) < 2 ^ 31"
proof -
  have "sint (scast x :: i64) = sint x" for x :: i32
    using sint_greater_eq[of x] sint_less[of x]
    by (simp add: signed_scast_eq signed_take_bit_int_eq_self_iff)
  then show "- (2 ^ 31) \<le> sint (imm (insn_at bs i))" "sint (imm (insn_at bs i)) < 2 ^ 31"
    using sint_greater_eq[where ?'a = 32] sint_less[where ?'a = 32] by (simp_all add: insn_at_def)
qed

lemma relocate_call_effect:
  assumes "registry_wf r" and "slice_fits tx" and "(i + 1) * 8 \<le> length tx"
    and "relocate_call hash loader config n i (r, tx) = Some (Inr (r', tx'))"
  shows "registry_wf r'" and "lookup_by_key r k = Some x \<Longrightarrow> lookup_by_key r' k = Some x"
    and "if is_relative_call (insn_at tx i)
      then let t = int i + 1 + sint (imm (insn_at tx i)) in 0 \<le> t \<and> t < int n \<and>
        (\<exists>key nm. tx' = patch_imm tx i key \<and> lookup_by_key r' key = Some (nm, nat t))
      else tx' = tx"
proof -
  let ?insn = "insn_at tx i" and ?t = "int i + 1 + sint (imm (insn_at tx i))"
  have insn: "get_insn tx i = Some ?insn" using assms(2,3) by (simp add: get_insn_eq)
  have sat: "isize_saturate (isize_saturate (int i + 1) + sint (imm ?insn)) = ?t"
    using assms(2,3) sint_insn_imm[of tx i]
    by (simp add: isize_saturate_def clamp_int_def sint_min_def sint_max_def slice_fits_def)
  have idx: "usize_saturating_add (usize_saturating_mul i INSN_SIZE) 4 = 8 * i + 4"
    using assms(2,3) by (simp add: usize_saturating_add_def usize_saturating_mul_def usize_max_def layout slice_fits_def)
  have wr: "write_at tx (8 * i + 4) (le_bytes 4 key) = Some (Inr (patch_imm tx i key))" for key :: u32
    using assms(3) by (simp add: write_at_eq[OF assms(2)] patch_imm_def add.commute)
  have "registry_wf r' \<and> (lookup_by_key r k = Some x \<longrightarrow> lookup_by_key r' k = Some x) \<and>
    (if is_relative_call ?insn then 0 \<le> ?t \<and> ?t < int n \<and>
        (\<exists>key nm. tx' = patch_imm tx i key \<and> lookup_by_key r' key = Some (nm, nat ?t))
     else tx' = tx)"
  proof (cases "is_relative_call ?insn")
    case True
    then obtain name key where t: "0 \<le> ?t" "?t < int n"
      and reg: "register_function_hashed_legacy hash r loader True name (nat ?t) = Some (Inr (key, r'))"
      and tx': "tx' = patch_imm tx i key"
      using assms(4) by (auto simp: relocate_call_def insn sat idx wr is_relative_call_def Let_def try_bind_Inr
          split: if_splits)
    from t tx' True register_legacy_lookup[OF assms(1) reg] show ?thesis by auto
  next
    case False
    then show ?thesis using assms(1,4) by (auto simp: relocate_call_def insn is_relative_call_def)
  qed
  then show "registry_wf r'" "lookup_by_key r k = Some x \<Longrightarrow> lookup_by_key r' k = Some x"
    "if is_relative_call (insn_at tx i)
      then let t = int i + 1 + sint (imm (insn_at tx i)) in 0 \<le> t \<and> t < int n \<and>
        (\<exists>key nm. tx' = patch_imm tx i key \<and> lookup_by_key r' key = Some (nm, nat t))
      else tx' = tx"
    by (auto simp: Let_def split: if_splits)
qed

section \<open>All calls\<close>

text \<open>What the fixup leaves of instruction \<open>i\<close>: a relative call gets a key the registry resolves to the
  target, any other instruction is kept.\<close>

definition call_resolved :: "usize FunctionRegistry \<Rightarrow> usize \<Rightarrow> bytes \<Rightarrow> bytes \<Rightarrow> usize \<Rightarrow> bool" where
  "call_resolved r n tx tx' i \<longleftrightarrow>
     (if is_relative_call (insn_at tx i)
      then let t = int i + 1 + sint (imm (insn_at tx i)) in 0 \<le> t \<and> t < int n \<and>
        (\<exists>key nm. insn_at tx' i = (insn_at tx i)\<lparr>imm := scast key\<rparr> \<and> lookup_by_key r key = Some (nm, nat t))
      else insn_at tx' i = insn_at tx i)"

lemma relocate_calls_effect:
  assumes "distinct is" "registry_wf r" "slice_fits tx" "\<forall>i \<in> set is. (i + 1) * 8 \<le> length tx"
    and "relocate_calls hash loader config n is (r, tx) = Some (Inr (r', tx'))"
  shows "registry_wf r' \<and> length tx' = length tx \<and> (\<forall>k x. lookup_by_key r k = Some x \<longrightarrow> lookup_by_key r' k = Some x) \<and>
    (\<forall>j. (j + 1) * 8 \<le> length tx \<longrightarrow>
       (if j \<in> set is then call_resolved r' n tx tx' j else insn_at tx' j = insn_at tx j))"
  using assms
proof (induction "is" arbitrary: r tx)
  case (Cons i "is")
  obtain r1 tx1 where s1: "relocate_call hash loader config n i (r, tx) = Some (Inr (r1, tx1))"
    and s2: "relocate_calls hash loader config n is (r1, tx1) = Some (Inr (r', tx'))"
    using Cons.prems(5) by (auto simp: try_bind_Inr)
  have i: "(i + 1) * 8 \<le> length tx" using Cons.prems(4) by simp
  note E = relocate_call_effect[OF Cons.prems(2,3) i s1]
  have len: "length tx1 = length tx" using E(3) i by (auto simp: Let_def split: if_splits)
  have fits: "slice_fits tx1" using Cons.prems(3) len by (simp add: slice_fits_def)
  have IH: "registry_wf r'" "length tx' = length tx1" "\<And>k x. lookup_by_key r1 k = Some x \<Longrightarrow> lookup_by_key r' k = Some x"
    "\<And>j. (j + 1) * 8 \<le> length tx1 \<Longrightarrow>
       (if j \<in> set is then call_resolved r' n tx1 tx' j else insn_at tx' j = insn_at tx1 j)"
    using Cons.IH[OF _ E(1) fits _ s2] Cons.prems(1,4) len by auto
  have other: "insn_at tx1 j = insn_at tx j" if "j \<noteq> i" "(j + 1) * 8 \<le> length tx" for j
    using E(3) that i insn_at_patch_other[of i tx j] by (auto simp: Let_def split: if_splits)
  have "call_resolved r' n tx tx' i"
    using E(3) IH(3) IH(4)[of i] Cons.prems(1) i len insn_at_patch_imm[OF i]
    by (auto simp: call_resolved_def Let_def split: if_splits; blast)
  then have "if j \<in> set (i # is) then call_resolved r' n tx tx' j else insn_at tx' j = insn_at tx j"
    if "(j + 1) * 8 \<le> length tx" for j
  proof (cases "j = i")
    case False
    then show ?thesis
      using IH(4)[of j] that len unfolding call_resolved_def other[OF False that] by simp
  qed simp
  then show ?case using IH(1,2,3) E(2) len by simp
qed simp

section \<open>Properties\<close>

text \<open>C12: relocation resolves the relative calls.  When the fixup of the text succeeds, every call
  relative to the program counter has its target inside the text, is replaced by a call of a key that
  the function registry maps to exactly that target, and every other instruction is unchanged.\<close>

theorem relocated_calls_resolve:
  assumes "registry_wf r" and "slice_fits tx" and "n = length tx div 8"
    and "relocate_calls hash loader config n [0..<n] (r, tx) = Some (Inr (r', tx'))"
  shows "length tx' = length tx \<and> (\<forall>i < n. call_resolved r' n tx tx' i)"
proof -
  have "(i + 1) * 8 \<le> length tx" if "i < n" for i using that assms(3) by simp
  then show ?thesis using relocate_calls_effect[OF _ assms(1,2) _ assms(4)] by auto
qed

text \<open>A call of the next instruction followed by \<open>exit\<close>.\<close>

theorem relocated_calls_resolve_witness:
  "\<exists>r' tx'. relocate_calls (\<lambda>_. 7) (new_mock :: unit BuiltinProgram) Config_default 2 [0..<2]
      (FunctionRegistry_default, [0x85, 0, 0, 0, 0, 0, 0, 0, 0x95, 0, 0, 0, 0, 0, 0, 0]) = Some (Inr (r', tx')) \<and>
    call_resolved r' 2 [0x85, 0, 0, 0, 0, 0, 0, 0, 0x95, 0, 0, 0, 0, 0, 0, 0] tx' 0"
proof -
  let ?p = "[0x85, 0, 0, 0, 0, 0, 0, 0, 0x95, 0, 0, 0, 0, 0, 0, 0] :: bytes"
  have run: "relocate_calls (\<lambda>_. 7) (new_mock :: unit BuiltinProgram) Config_default 2 [0..<2]
      (FunctionRegistry_default, ?p) =
      Some (Inr (\<lparr>fr_map = [(7, [], 1)]\<rparr>, [0x85, 0, 0, 0, 7, 0, 0, 0, 0x95, 0, 0, 0, 0, 0, 0, 0]))"
    by (simp add: upt_rec relocate_call_def get_insn_eq slice_fits_def insn_at_def opcode layout new_mock_def
        get_config_def get_function_registry_def Config_default_def FunctionRegistry_default_def
        register_function_hashed_legacy_def register_function_def lookup_by_key_def bt_get_def bt_empty_def
        isize_saturate_def clamp_int_def sint_min_def sint_max_def Let_def usize_saturating_add_def
        usize_saturating_mul_def usize_max_def write_at_eq le_bytes_4 entrypoint_name_def)
  have "slice_fits ?p" by (simp add: slice_fits_def)
  from relocated_calls_resolve[OF registry_wf_default this _ run] run show ?thesis by auto
qed

end
