(* ===== verification/Mapping_Cache.thy ===== *)
theory Mapping_Cache
  imports Memory_Region
begin

text \<open>
  \<open>MappingCache\<close> of \<^verbatim>\<open>src/src/memory_region.rs\<close>: a ring buffer of the last four
  address range to region index lookups, written backwards so that a search scans forward.  It is
  shown to refine the list of the most recent entries: inserting pushes in front and drops the
  oldest, searching returns the most recent entry whose range holds the address.
\<close>

section \<open>Operations\<close>

type_synonym cache_entry = "(u64 \<times> u64) \<times> usize"

record MappingCache =
  entries :: "cache_entry list"
  head :: int

definition SIZE :: int where
  "SIZE = 4"

definition cache_new :: MappingCache where
  "cache_new = \<lparr>entries = replicate (nat SIZE) ((0, 0), 0), head = 0\<rparr>"

definition range_contains :: "u64 \<times> u64 \<Rightarrow> u64 \<Rightarrow> bool" where
  "range_contains r a \<longleftrightarrow> fst r \<le> a \<and> a < snd r"

text \<open>\<open>get_unchecked\<close> with an \<open>isize\<close> index: undefined behaviour outside the array.\<close>

definition entry_at :: "MappingCache \<Rightarrow> int \<Rightarrow> cache_entry option" where
  "entry_at c i = (if 0 \<le> i then slice_get (entries c) (nat i) else None)"

fun cache_scan :: "MappingCache \<Rightarrow> u64 \<Rightarrow> int list \<Rightarrow> usize option option" where
  "cache_scan c a [] = Some None"
| "cache_scan c a (i # is) =
     do {
       (vm_range, region_index) \<leftarrow> entry_at c ((head c + i) smod SIZE);
       if range_contains vm_range a then Some (Some region_index) else cache_scan c a is
     }"

definition cache_find :: "MappingCache \<Rightarrow> u64 \<Rightarrow> usize option option" where
  "cache_find c a = cache_scan c a [0..SIZE - 1]"

definition cache_insert :: "MappingCache \<Rightarrow> u64 \<times> u64 \<Rightarrow> usize \<Rightarrow> MappingCache option" where
  "cache_insert c vm_range region_index =
     (let h = (head c - 1) mod SIZE in
      do {
        es \<leftarrow> slice_set (entries c) (nat h) (vm_range, region_index);
        Some (c\<lparr>head := h, entries := es\<rparr>)
      })"

definition cache_flush :: "MappingCache \<Rightarrow> MappingCache" where
  "cache_flush c = c\<lparr>entries := replicate (nat SIZE) ((0, 0), 0), head := 0\<rparr>"

section \<open>Invariant and abstraction\<close>

definition cache_wf :: "MappingCache \<Rightarrow> bool" where
  "cache_wf c \<longleftrightarrow> length (entries c) = 4 \<and> 0 \<le> head c \<and> head c < 4"

text \<open>The entries from the most recent to the oldest.\<close>

definition recent :: "MappingCache \<Rightarrow> cache_entry list" where
  "recent c = rotate (nat (head c)) (entries c)"

lemma length_recent [simp]: "cache_wf c \<Longrightarrow> length (recent c) = 4"
  by (simp add: recent_def cache_wf_def)

lemma cache_wf_cases:
  assumes "cache_wf c"
  obtains e0 e1 e2 e3 where "entries c = [e0, e1, e2, e3]"
    "head c = 0 \<or> head c = 1 \<or> head c = 2 \<or> head c = 3"
proof -
  obtain e0 e1 e2 e3 where "entries c = [e0, e1, e2, e3]"
    using assms by (auto simp: cache_wf_def length_Suc_conv numeral_eq_Suc)
  moreover have "head c = 0 \<or> head c = 1 \<or> head c = 2 \<or> head c = 3"
    using assms unfolding cache_wf_def by presburger
  ultimately show ?thesis using that by blast
qed

lemma cache_find_unfold: "cache_find c a = cache_scan c a [0, 1, 2, 3]"
  by (simp add: cache_find_def SIZE_def upto_rec1)

lemma cache_find_eq:
  assumes "cache_wf c"
  shows "cache_find c a = Some (map_option snd (find (\<lambda>e. range_contains (fst e) a) (recent c)))"
  using assms
proof (cases rule: cache_wf_cases)
  case (1 e0 e1 e2 e3)
  from 1(2) show ?thesis
    by (elim disjE; simp add: cache_find_unfold entry_at_def SIZE_def recent_def 1(1)
        slice_get_def rotate_def signed_modulo_int_def numeral_2_eq_2 numeral_3_eq_3 split_def signed_divide_int_def)
qed

lemma cache_insert_eq:
  assumes "cache_wf c"
  shows "\<exists>c'. cache_insert c r i = Some c' \<and> cache_wf c' \<and> recent c' = (r, i) # butlast (recent c)"
  using assms
proof (cases rule: cache_wf_cases)
  case (1 e0 e1 e2 e3)
  from 1(2) show ?thesis
    by (elim disjE; simp add: cache_insert_def SIZE_def recent_def 1(1) cache_wf_def Let_def
        slice_set_def rotate_def numeral_2_eq_2 numeral_3_eq_3)
qed

lemma cache_new_wf [simp]: "cache_wf cache_new" "cache_wf (cache_flush c)"
  by (simp_all add: cache_wf_def cache_new_def cache_flush_def SIZE_def)

lemma recent_new [simp]:
  "recent cache_new = [((0, 0), 0), ((0, 0), 0), ((0, 0), 0), ((0, 0), 0)]"
  "recent (cache_flush c) = [((0, 0), 0), ((0, 0), 0), ((0, 0), 0), ((0, 0), 0)]"
proof -
  have "replicate 4 x = [x, x, x, x]" for x :: cache_entry by (simp add: numeral_eq_Suc)
  then show "recent cache_new = [((0, 0), 0), ((0, 0), 0), ((0, 0), 0), ((0, 0), 0)]"
    "recent (cache_flush c) = [((0, 0), 0), ((0, 0), 0), ((0, 0), 0), ((0, 0), 0)]"
    by (simp_all add: recent_def cache_new_def cache_flush_def SIZE_def)
qed

lemma not_range_contains_empty [simp]: "\<not> range_contains (0, 0) a"
  by (simp add: range_contains_def)

section \<open>Properties\<close>

text \<open>C31: the cache is a list of the four most recent lookups.  On a well-formed cache a search
  never reads outside the array and returns the region index of the most recent entry whose range
  holds the address; an insertion never writes outside the array, keeps the cache well-formed and
  makes the new entry the most recent one, dropping only the oldest.\<close>

theorem mapping_cache_refines_list:
  assumes "cache_wf c"
  shows "cache_find c a = Some (map_option snd (find (\<lambda>e. range_contains (fst e) a) (recent c))) \<and>
    (\<exists>c'. cache_insert c r i = Some c' \<and> cache_wf c' \<and> recent c' = (r, i) # butlast (recent c))"
  using cache_find_eq[OF assms] cache_insert_eq[OF assms] by simp

theorem mapping_cache_refines_list_witness:
  "cache_wf cache_new \<and> cache_find cache_new 5 = Some None \<and>
   cache_find (the (cache_insert cache_new (4, 9) 7)) 5 = Some (Some 7)"
proof -
  obtain c' where c': "cache_insert cache_new (4, 9) 7 = Some c'" "cache_wf c'"
    "recent c' = ((4, 9), 7) # butlast (recent cache_new)"
    using mapping_cache_refines_list[OF cache_new_wf(1), where r = "(4, 9)" and i = 7] by blast
  show ?thesis
    using mapping_cache_refines_list[OF cache_new_wf(1), where a = 5]
      mapping_cache_refines_list[OF c'(2), where a = 5] c'
    by (simp add: range_contains_def)
qed

end
