(* ===== verification/Mapping_Common.thy ===== *)
theory Mapping_Common
  imports Mapping_Cache
begin

text \<open>
  The parts the memory mappings of \<^verbatim>\<open>src/src/memory_region.rs\<close> share
  (\<open>CommonMemoryMapping\<close>, the access violation handler and the generated errors), and the
  interface \<open>region_finder\<close> of a mapping that finds the region of an address.

  Host memory is a partial map from addresses to bytes; its domain are the bytes the process
  owns.  An \<open>AccessViolationHandler\<close> is a function of the host memory and its arguments that
  returns the region it updates in place and the host memory it leaves (a handler may allocate).
\<close>

section \<open>Common parts\<close>

type_synonym host_memory = "u64 \<rightharpoonup> u8"

type_synonym AccessViolationHandler =
  "host_memory \<Rightarrow> MemoryRegion \<Rightarrow> u64 \<Rightarrow> AccessType \<Rightarrow> u64 \<Rightarrow> u64 \<Rightarrow> MemoryRegion \<times> host_memory"

definition default_access_violation_handler :: AccessViolationHandler where
  "default_access_violation_handler h region _ _ _ _ = (region, h)"

record CommonMemoryMapping =
  regions :: "MemoryRegion list"
  access_violation_handler :: AccessViolationHandler
  common_allow_memory_region_zero :: bool
  common_max_call_depth :: i64
  common_stack_frame_size :: i64
  common_sbpf_version :: SBPFVersion

definition region_name_of :: "u64 \<Rightarrow> string" where
  "region_name_of a =
     (if a = MM_BYTECODE_START then ''program''
      else if a = MM_STACK_START then ''stack''
      else if a = MM_HEAP_START then ''heap''
      else if a = MM_INPUT_START then ''input''
      else ''unknown'')"

definition generate_access_violation ::
  "CommonMemoryMapping \<Rightarrow> AccessType \<Rightarrow> u64 \<Rightarrow> u64 \<Rightarrow> ProgramResult" where
  "generate_access_violation c access_type vaddr n =
     (let stack_frame =
            unwrap_or (signed_div (i64_saturating_sub vaddr MM_STACK_START) (common_stack_frame_size c)) 0
      in if \<not> manual_stack_frame_bump (common_sbpf_version c) \<and>
            - 1 \<le> sint stack_frame \<and> sint stack_frame < sint (i64_saturating_add (common_max_call_depth c) 1)
         then Err (StackAccessViolation access_type vaddr n stack_frame)
         else Err (AccessViolation access_type vaddr n
                (region_name_of (vaddr AND NOT (saturating_sub MM_BYTECODE_START 1)))))"

section \<open>Ordered, disjoint regions\<close>

text \<open>\<open>last_region_le rs a\<close> is the index of the last region that starts at or below \<open>a\<close>: what the
  search structures compute.\<close>

definition last_region_le :: "MemoryRegion list \<Rightarrow> u64 \<Rightarrow> usize option" where
  "last_region_le rs a = find (\<lambda>i. vm_addr (rs ! i) \<le> a) (rev [0..<length rs])"

definition regions_disjoint :: "MemoryRegion list \<Rightarrow> bool" where
  "regions_disjoint rs \<longleftrightarrow>
     (\<forall>i. Suc i < length rs \<longrightarrow> snd (vm_addr_range (rs ! i)) \<le> vm_addr (rs ! Suc i))"

lemma fst_vm_addr_range [simp]: "fst (vm_addr_range r) = vm_addr r"
  by (simp add: vm_addr_range_def)

lemma saturating_add_ge: "a \<le> saturating_add a (b :: u64)"
proof (cases "unat a + unat b < 2 ^ 64")
  case True
  then show ?thesis by (simp add: saturating_add_def word_le_nat_alt unat_word_ariths)
qed (simp add: saturating_add_def)

lemma vm_addr_range_ordered: "vm_addr r \<le> snd (vm_addr_range r)"
  by (simp add: vm_addr_range_def saturating_add_ge)

lemma regions_disjoint_sorted:
  assumes "regions_disjoint rs" "i < j" "j < length rs"
  shows "snd (vm_addr_range (rs ! i)) \<le> vm_addr (rs ! j)"
  using assms(2,3)
proof (induction j)
  case (Suc j)
  have step: "snd (vm_addr_range (rs ! j)) \<le> vm_addr (rs ! Suc j)"
    using assms(1) Suc.prems by (simp add: regions_disjoint_def)
  show ?case
  proof (cases "i = j")
    case False
    then have "snd (vm_addr_range (rs ! i)) \<le> vm_addr (rs ! j)" using Suc by simp
    also have "\<dots> \<le> snd (vm_addr_range (rs ! j))" by (rule vm_addr_range_ordered)
    finally show ?thesis using step by (rule order_trans)
  qed (simp add: step)
qed simp

lemma regions_disjoint_sorted_addr:
  "regions_disjoint rs \<Longrightarrow> sorted (map vm_addr rs)"
  unfolding sorted_iff_nth_mono_less
  by (auto intro: order_trans[OF vm_addr_range_ordered regions_disjoint_sorted])

lemma last_region_le_None: "last_region_le rs a = None \<longleftrightarrow> (\<forall>i < length rs. a < vm_addr (rs ! i))"
  by (auto simp: last_region_le_def find_None_iff not_le)

lemma find_rev_upt_Some:
  "find P (rev [0..<n]) = Some i \<longleftrightarrow> i < n \<and> P i \<and> (\<forall>j. i < j \<and> j < n \<longrightarrow> \<not> P j)"
  by (induction n) (auto simp: less_Suc_eq)

lemma last_region_le_Some:
  "last_region_le rs a = Some i \<longleftrightarrow>
     i < length rs \<and> vm_addr (rs ! i) \<le> a \<and> (\<forall>j. i < j \<and> j < length rs \<longrightarrow> a < vm_addr (rs ! j))"
  by (auto simp: last_region_le_def find_rev_upt_Some not_le)

text \<open>In disjoint regions the region whose range holds an address is the last one that starts at or
  below it.\<close>

lemma last_region_le_range:
  assumes "regions_disjoint rs" "i < length rs" "range_contains (vm_addr_range (rs ! i)) a"
  shows "last_region_le rs a = Some i"
  using assms regions_disjoint_sorted[OF assms(1), of i]
  by (force simp: last_region_le_Some range_contains_def)

section \<open>The interface of a mapping\<close>

text \<open>A mapping finds regions by address: a lookup may update the mapping (its cache), but its
  answer is a function of the regions alone, and neither the regions nor the invariant change.\<close>

locale region_finder =
  fixes find_region :: "'m \<Rightarrow> u64 \<Rightarrow> ('m \<times> (usize \<times> MemoryRegion) option) option"
    and common_of :: "'m \<Rightarrow> CommonMemoryMapping"
    and spec :: "'m \<Rightarrow> u64 \<Rightarrow> usize option"
    and wf :: "'m \<Rightarrow> bool"
  assumes find_region_spec: "wf m \<Longrightarrow> \<exists>m'. find_region m a =
      Some (m', map_option (\<lambda>i. (i, regions (common_of m) ! i)) (spec m a)) \<and>
      wf m' \<and> common_of m' = common_of m \<and> spec m' = spec m"
    and spec_in_range: "wf m \<Longrightarrow> spec m a = Some i \<Longrightarrow> i < length (regions (common_of m))"
begin

text \<open>A sequence of lookups, threading the mapping.\<close>

primrec find_all :: "'m \<Rightarrow> u64 list \<Rightarrow> ('m \<times> (usize \<times> MemoryRegion) option list) option" where
  "find_all m [] = Some (m, [])"
| "find_all m (a # as) =
     do { (m1, r) \<leftarrow> find_region m a; (m2, rs) \<leftarrow> find_all m1 as; Some (m2, r # rs) }"

lemma find_all_spec:
  "wf m \<Longrightarrow> \<exists>m'. find_all m as =
     Some (m', map (\<lambda>a. map_option (\<lambda>i. (i, regions (common_of m) ! i)) (spec m a)) as) \<and>
     wf m' \<and> common_of m' = common_of m \<and> spec m' = spec m"
proof (induction as arbitrary: m)
  case (Cons a as)
  obtain m1 where m1: "find_region m a =
      Some (m1, map_option (\<lambda>i. (i, regions (common_of m) ! i)) (spec m a))"
    "wf m1" "common_of m1 = common_of m" "spec m1 = spec m"
    using find_region_spec[OF Cons.prems] by blast
  show ?case using Cons.IH[OF m1(2)] m1 by auto
qed simp

lemma find_region_in_regions:
  assumes "wf m" "find_region m a = Some (m', Some (i, r))"
  shows "i < length (regions (common_of m))" "r = regions (common_of m) ! i" "wf m'"
    "common_of m' = common_of m" "spec m a = Some i" "spec m' = spec m"
  using find_region_spec[OF assms(1), of a] spec_in_range[OF assms(1), of a] assms(2)
  by (auto simp: map_option_case split: option.splits)

end

end
