(* ===== verification/Unaligned_Mapping.thy ===== *)
theory Unaligned_Mapping
  imports Mapping_Common
begin

text \<open>
  \<open>UnalignedMemoryMapping\<close> of \<^verbatim>\<open>src/src/memory_region.rs\<close>: regions at arbitrary addresses,
  found by a branch-free search in Eytzinger order behind the mapping cache.  The search is shown
  to return the last region that starts at or below the address, the cache to be transparent, and
  the constructor and \<open>replace_region\<close> to establish and keep the invariant.
\<close>

section \<open>Operations\<close>

record UnalignedMemoryMapping =
  um_common :: CommonMemoryMapping
  region_addresses :: "u64 list"
  region_index_lookup :: "usize list"
  cache :: MappingCache

text \<open>The recursion fills the two search arrays in place; it returns them with the next input
  index.  No Rust slice has \<open>2 ^ 63\<close> or more elements, so the saturation is never reached.\<close>

function construct_eytzinger_order ::
  "MemoryRegion list \<Rightarrow> u64 list \<Rightarrow> usize list \<Rightarrow> usize \<Rightarrow> usize \<Rightarrow>
   (u64 list \<times> usize list \<times> usize) option" where
  "construct_eytzinger_order rs A L in_index out_index =
     (if \<not> slice_fits rs then None
      else if out_index \<ge> length rs then Some (A, L, in_index)
      else do {
        (A1, L1, in1) \<leftarrow> construct_eytzinger_order rs A L in_index
          (usize_saturating_add (usize_saturating_mul out_index 2) 1);
        r \<leftarrow> slice_get rs in1;
        A2 \<leftarrow> slice_set A1 out_index (vm_addr r);
        L2 \<leftarrow> slice_set L1 out_index in1;
        construct_eytzinger_order rs A2 L2 (usize_saturating_add in1 1)
          (usize_saturating_add (usize_saturating_mul out_index 2) 2)
      })"
  by pat_completeness auto
termination
  by (relation "measure (\<lambda>(rs, A, L, i, out). length rs - out)")
     (auto simp: usize_saturating_add_def usize_saturating_mul_def usize_max_def slice_fits_def)

declare construct_eytzinger_order.simps [simp del]

text \<open>The first index at which neighbouring regions overlap.\<close>

definition find_overlap :: "MemoryRegion list \<Rightarrow> usize option" where
  "find_overlap rs =
     find (\<lambda>index. snd (vm_addr_range (rs ! (index - 1))) > vm_addr (rs ! index)) [1..<length rs]"

definition unaligned_new ::
  "MemoryRegion list \<Rightarrow> Config \<Rightarrow> SBPFVersion \<Rightarrow> AccessViolationHandler \<Rightarrow>
   (EbpfError + UnalignedMemoryMapping) option" where
  "unaligned_new rs0 config version handler =
     (if \<not> version \<le> V3 then None
      else
        let rs = sort_key vm_addr rs0; number_of_regions = length rs
        in case find_overlap rs of
             Some index \<Rightarrow> Some (Inl (InvalidMemoryRegion index))
           | None \<Rightarrow>
               do {
                 (A, L, _) \<leftarrow> construct_eytzinger_order rs
                   (replicate number_of_regions 0) (replicate number_of_regions 0) 0 0;
                 Some (Inr \<lparr>um_common =
                     \<lparr>regions = rs, access_violation_handler = handler,
                      common_allow_memory_region_zero = allow_memory_region_zero config,
                      common_max_call_depth = of_nat (max_call_depth config),
                      common_stack_frame_size = of_nat (stack_frame_size config),
                      common_sbpf_version = version\<rparr>,
                   region_addresses = A, region_index_lookup = L, cache = cache_new\<rparr>)
               })"

text \<open>The search loop.  At index 0 the subtraction \<open>index - 1\<close> would overflow.\<close>

function eytzinger_search :: "u64 list \<Rightarrow> u64 \<Rightarrow> usize \<Rightarrow> usize option" where
  "eytzinger_search A a index =
     (if index = 0 then None
      else if index \<le> length A then
        do {
          x \<leftarrow> slice_get A (index - 1);
          eytzinger_search A a (index * 2 + (if x \<le> a then 1 else 0))
        }
      else Some index)"
  by pat_completeness auto
termination
  by (relation "measure (\<lambda>(A, a, index). Suc (length A) - index)") auto

declare eytzinger_search.simps [simp del]

fun trailing_zeros :: "usize \<Rightarrow> nat" where
  "trailing_zeros n = (if n = 0 then 64 else if even n then Suc (trailing_zeros (n div 2)) else 0)"

declare trailing_zeros.simps [simp del]

definition unaligned_find_region ::
  "UnalignedMemoryMapping \<Rightarrow> u64 \<Rightarrow>
   (UnalignedMemoryMapping \<times> (usize \<times> MemoryRegion) option) option" where
  "unaligned_find_region m a =
     do {
       hit \<leftarrow> cache_find (cache m) a;
       case hit of
         Some index \<Rightarrow>
           do { r \<leftarrow> slice_get (regions (um_common m)) index; Some (m, Some (index, r)) }
       | None \<Rightarrow>
           do {
             index \<leftarrow> eytzinger_search (region_addresses m) a 1;
             index \<leftarrow> (let s = trailing_zeros index + 1 in if s < 64 then Some (index div 2 ^ s) else None);
             if index = 0 then Some (m, None)
             else do {
               index \<leftarrow> slice_get (region_index_lookup m) (index - 1);
               region \<leftarrow> slice_get (regions (um_common m)) index;
               c \<leftarrow> cache_insert (cache m) (vm_addr_range region) index;
               Some (m\<lparr>cache := c\<rparr>, Some (index, region))
             }
           }
     }"

definition unaligned_replace_region ::
  "UnalignedMemoryMapping \<Rightarrow> usize \<Rightarrow> MemoryRegion \<Rightarrow> (EbpfError + UnalignedMemoryMapping) option" where
  "unaligned_replace_region m index region =
     do {
       rs \<leftarrow> slice_set (regions (um_common m)) index region;
       Some (Inr (m\<lparr>um_common := (um_common m)\<lparr>regions := rs\<rparr>, cache := cache_flush (cache m)\<rparr>))
     }"

section \<open>The implicit tree\<close>

text \<open>Positions of the implicit binary tree with \<open>n\<close> nodes in in-order.\<close>

function inorder :: "nat \<Rightarrow> nat \<Rightarrow> nat list" where
  "inorder n i = (if i < n then inorder n (2 * i + 1) @ [i] @ inorder n (2 * i + 2) else [])"
  by pat_completeness auto
termination
  by (relation "measure (\<lambda>(n, i). n - i)") auto

declare inorder.simps [simp del]

text \<open>\<open>i\<close> is an ancestor of \<open>p\<close> (or \<open>p\<close> itself): dividing the one-based position by two goes to
  the parent.\<close>

definition ancestor :: "nat \<Rightarrow> nat \<Rightarrow> bool" where
  "ancestor i p \<longleftrightarrow> (\<exists>d. Suc p div 2 ^ d = Suc i)"


lemma ancestor_refl [simp]: "ancestor i i"
  unfolding ancestor_def by (rule exI[of _ 0]) simp

lemma ancestor_le: "ancestor i p \<Longrightarrow> i \<le> p"
proof -
  assume "ancestor i p"
  then obtain d where "Suc p div 2 ^ d = Suc i" by (auto simp: ancestor_def)
  then have "Suc i \<le> Suc p" using div_le_dividend[of "Suc p" "2 ^ d"] by simp
  then show ?thesis by simp
qed

lemma ancestor_child:
  assumes "ancestor c p" "c = 2 * i + 1 \<or> c = 2 * i + 2"
  shows "ancestor i p"
proof -
  obtain d where d: "Suc p div 2 ^ d = Suc c" using assms(1) by (auto simp: ancestor_def)
  have "Suc p div 2 ^ Suc d = Suc c div 2" by (simp only: power_Suc2 div_mult2_eq d)
  then show ?thesis using assms(2) unfolding ancestor_def by (intro exI[of _ "Suc d"]) auto
qed

lemma ancestor_cases:
  assumes "ancestor i p"
  shows "p = i \<or> ancestor (2 * i + 1) p \<or> ancestor (2 * i + 2) p"
proof -
  obtain d where d: "Suc p div 2 ^ d = Suc i" using assms by (auto simp: ancestor_def)
  show ?thesis
  proof (cases d)
    case (Suc e)
    then have "Suc p div 2 ^ e div 2 = Suc i" using d by (simp only: power_Suc2 div_mult2_eq)
    then have "Suc p div 2 ^ e = Suc (2 * i + 1) \<or> Suc p div 2 ^ e = Suc (2 * i + 2)" by linarith
    then show ?thesis unfolding ancestor_def by blast
  qed (use d in simp)
qed

lemma ancestor_chain:
  assumes "ancestor i p" "ancestor j p"
  shows "ancestor i j \<or> ancestor j i"
proof -
  obtain d e where "Suc p div 2 ^ d = Suc i" "Suc p div 2 ^ e = Suc j"
    using assms by (auto simp: ancestor_def)
  moreover have "Suc p div 2 ^ (d + k) = Suc p div 2 ^ d div 2 ^ k" for d k
    by (simp only: power_add div_mult2_eq)
  moreover obtain k where "e = d + k \<or> d = e + k"
    by (metis le_Suc_ex nat_le_linear)
  ultimately show ?thesis unfolding ancestor_def by metis
qed

lemma siblings_no_common:
  assumes "ancestor (2 * i + 1) p" "ancestor (2 * i + 2) p"
  shows False
proof -
  have "ancestor (2 * i + 1) (2 * i + 2)"
    using ancestor_chain[OF assms] ancestor_le[of "2 * i + 2" "2 * i + 1"] by auto
  from ancestor_cases[OF this] show False
    by (auto dest: ancestor_le)
qed

lemma ancestor_root: "ancestor 0 p"
proof (induction p rule: less_induct)
  case (less p)
  show ?case
  proof (cases "p = 0")
    case False
    define c where "c = (p - 1) div 2"
    have "p = 2 * c + 1 \<or> p = 2 * c + 2" using False unfolding c_def by presburger
    then have "Suc p div 2 = Suc c" "c < p" by auto
    moreover obtain d where "Suc c div 2 ^ d = 1" using less[OF \<open>c < p\<close>] by (auto simp: ancestor_def)
    ultimately have "Suc p div 2 ^ Suc d = 1" by (simp add: div_mult2_eq)
    then show ?thesis unfolding ancestor_def by (intro exI[of _ "Suc d"]) simp
  qed simp
qed

lemma set_inorder: "set (inorder n i) = {p. p < n \<and> ancestor i p}"
proof (induction n i rule: inorder.induct)
  case (1 n i)
  show ?case
  proof (cases "i < n")
    case True
    have "{p. p < n \<and> ancestor i p} =
        {p. p < n \<and> ancestor (2 * i + 1) p} \<union> {i} \<union> {p. p < n \<and> ancestor (2 * i + 2) p}"
      using True ancestor_cases[of i] ancestor_child[of _ _ i] by auto
    then show ?thesis unfolding inorder.simps[of n i] using True 1[OF True] by auto
  qed (auto simp: inorder.simps[of n i] dest: ancestor_le)
qed

lemma distinct_inorder: "distinct (inorder n i)"
proof (induction n i rule: inorder.induct)
  case (1 n i)
  have "i \<notin> set (inorder n (2 * i + 1))" "i \<notin> set (inorder n (2 * i + 2))"
    by (auto simp: set_inorder dest: ancestor_le)
  moreover have "set (inorder n (2 * i + 1)) \<inter> set (inorder n (2 * i + 2)) = {}"
    using siblings_no_common by (auto simp: set_inorder)
  ultimately show ?case using 1 by (auto simp: inorder.simps[of n i])
qed

lemma set_inorder_root: "set (inorder n 0) = {..<n}"
  using ancestor_root by (auto simp: set_inorder)

lemma length_inorder_root [simp]: "length (inorder n 0) = n"
  using distinct_card[OF distinct_inorder[of n 0]] by (simp add: set_inorder_root)

section \<open>Construction\<close>

text \<open>\<open>scatter xs ps vs\<close> writes the values \<open>vs\<close> at the positions \<open>ps\<close>.\<close>

fun scatter :: "'a list \<Rightarrow> nat list \<Rightarrow> 'a list \<Rightarrow> 'a list" where
  "scatter xs (p # ps) (v # vs) = scatter (xs[p := v]) ps vs"
| "scatter xs _ _ = xs"

lemma length_scatter [simp]: "length (scatter xs ps vs) = length xs"
  by (induction xs ps vs rule: scatter.induct) auto

lemma scatter_append:
  "length ps = length vs \<Longrightarrow> scatter xs (ps @ qs) (vs @ ws) = scatter (scatter xs ps vs) qs ws"
  by (induction xs ps vs rule: scatter.induct) auto

lemma scatter_other: "p \<notin> set ps \<Longrightarrow> scatter xs ps vs ! p = xs ! p"
  by (induction xs ps vs rule: scatter.induct) auto

lemma scatter_nth:
  assumes "distinct ps" "set ps \<subseteq> {..<length xs}" "length vs = length ps" "k < length ps"
  shows "scatter xs ps vs ! (ps ! k) = vs ! k"
  using assms
proof (induction xs ps vs arbitrary: k rule: scatter.induct)
  case (1 xs p ps v vs)
  then show ?case by (cases k) (auto simp: scatter_other)
qed auto

lemma take_Suc_add:
  "j < length xs \<Longrightarrow> take (Suc (j + k)) xs = take j xs @ xs ! j # take k (drop (Suc j) xs)"
proof (induction xs arbitrary: j)
  case (Cons x xs)
  then show ?case by (cases j) auto
qed simp

lemma construct_eytzinger_order_eq:
  assumes "slice_fits rs" "length A = length rs" "length L = length rs"
    and "i + length (inorder (length rs) out) \<le> length rs"
  shows "construct_eytzinger_order rs A L i out =
    (let ps = inorder (length rs) out; m = length ps in
     Some (scatter A ps (map vm_addr (take m (drop i rs))), scatter L ps [i..<i + m], i + m))"
  using assms
proof (induction "length rs" out arbitrary: A L i rule: inorder.induct)
  case (1 out)
  let ?n = "length rs"
  show ?case
  proof (cases "out < ?n")
    case True
    define l r where "l = inorder ?n (2 * out + 1)" and "r = inorder ?n (2 * out + 2)"
    define j where "j = i + length l"
    have n: "?n < 2 ^ 63" using "1.prems"(1) by (simp add: slice_fits_def)
    have ps: "inorder ?n out = l @ out # r"
      using True by (simp add: inorder.simps[of ?n out] l_def r_def)
    have i: "j < ?n" "Suc j + length r \<le> ?n" "i + length l \<le> ?n"
      using "1.prems"(4) by (simp_all add: ps j_def)
    have sat: "usize_saturating_add (usize_saturating_mul out 2) 1 = 2 * out + 1"
      "usize_saturating_add (usize_saturating_mul out 2) 2 = 2 * out + 2"
      "usize_saturating_add j 1 = Suc j"
      using n True i by (simp_all add: usize_saturating_add_def usize_saturating_mul_def usize_max_def)
    have v: "take (Suc (length l + length r)) (drop i rs) =
        take (length l) (drop i rs) @ rs ! j # take (length r) (drop (Suc j) rs)"
      using i by (subst take_Suc_add) (simp_all add: add.commute j_def)
    have u: "[i..<Suc (j + length r)] = [i..<j] @ j # [Suc j..<Suc (j + length r)]"
      using upt_add_eq_append[of i j "Suc (length r)"] upt_rec[of j "Suc (j + length r)"]
      by (simp add: j_def del: upt_Suc)
    have lr: "construct_eytzinger_order rs A L i (2 * out + 1) =
          Some (scatter A l (map vm_addr (take (length l) (drop i rs))), scatter L l [i..<j], j)"
        "length A' = ?n \<Longrightarrow> length L' = ?n \<Longrightarrow> construct_eytzinger_order rs A' L' (Suc j) (Suc (Suc (2 * out))) =
          Some (scatter A' r (map vm_addr (take (length r) (drop (Suc j) rs))),
                scatter L' r [Suc j..<Suc (j + length r)], Suc (j + length r))" for A' L'
      using "1.hyps"[OF True] "1.prems" i by (simp_all add: l_def r_def j_def Let_def del: upt_Suc)
    have e: "length (l @ out # r) = Suc (length l + length r)"
      "i + Suc (length l + length r) = Suc (j + length r)" "j - i = length l"
      "min (length rs - i) (length l) = length l"
      using i by (simp_all add: j_def)
    show ?thesis
      unfolding construct_eytzinger_order.simps[of rs A L i out] sat lr(1) ps Let_def e(1,2) v u
      using True "1.prems" i
      by (simp add: sat[simplified] lr(2) slice_get_Some slice_set_Some scatter_append e(3,4)
          del: upt_Suc)
  qed (use "1.prems" in \<open>simp_all add: construct_eytzinger_order.simps[of rs A L i out]
        inorder.simps[of "length rs" out]\<close>)
qed

section \<open>Search\<close>

text \<open>\<open>strip_ones k\<close> is what the shift after the loop computes: the position at which the search
  last went right, or 0.\<close>

definition strip_ones :: "nat \<Rightarrow> nat" where
  "strip_ones k = k div 2 ^ (trailing_zeros k + 1)"

lemma strip_ones_odd: "strip_ones (2 * k + 1) = k"
  by (simp add: strip_ones_def trailing_zeros.simps[of "Suc (2 * k)"])

lemma strip_ones_even: "0 < k \<Longrightarrow> strip_ones (2 * k) = strip_ones k"
  by (simp add: strip_ones_def trailing_zeros.simps[of "2 * k"])

lemma power_trailing_zeros_le: "0 < k \<Longrightarrow> 2 ^ trailing_zeros k \<le> k"
proof (induction k rule: trailing_zeros.induct)
  case (1 k)
  show ?case
  proof (cases "even k")
    case True
    then have h: "0 < k div 2" "k = 2 * (k div 2)" using "1.prems" by auto
    have "2 ^ trailing_zeros (k div 2) \<le> k div 2"
      using "1.IH"[OF _ True h(1)] "1.prems" by blast
    then have "2 * 2 ^ trailing_zeros (k div 2) \<le> k" using h(2) by linarith
    then show ?thesis using True "1.prems" by (simp add: trailing_zeros.simps[of k])
  qed (use "1.prems" in \<open>simp add: trailing_zeros.simps[of k]\<close>)
qed

lemma trailing_zeros_less: "0 < k \<Longrightarrow> k < 2 ^ n \<Longrightarrow> trailing_zeros k < n"
  using power_trailing_zeros_le[of k] power_less_imp_less_exp[of "2 :: nat" "trailing_zeros k" n]
  by linarith

text \<open>The search from position \<open>k\<close> ends at a leaf whose stripped position is the last node in
  in-order of the subtree at \<open>k\<close> with an address at or below \<open>a\<close>.\<close>

lemma eytzinger_search_subtree:
  assumes "sorted (map ((!) A) (inorder (length A) i))"
  shows "\<exists>f. eytzinger_search A a (Suc i) = Some f \<and> 0 < f \<and> f \<le> max (Suc i) (2 * length A + 1) \<and>
    strip_ones f = (case find (\<lambda>p. A ! p \<le> a) (rev (inorder (length A) i)) of
      None \<Rightarrow> strip_ones (Suc i) | Some p \<Rightarrow> Suc p)"
  using assms
proof (induction "length A" i rule: inorder.induct)
  case (1 i)
  show ?case
  proof (cases "i < length A")
    case True
    let ?l = "inorder (length A) (2 * i + 1)" and ?r = "inorder (length A) (2 * i + 2)"
    have ps: "inorder (length A) i = ?l @ [i] @ ?r" using True by (simp add: inorder.simps[of _ i])
    have srt: "sorted (map ((!) A) ?l)" "sorted (map ((!) A) ?r)" "\<forall>p\<in>set ?r. A ! i \<le> A ! p"
      using "1.prems" by (simp_all add: ps sorted_append)
    have find_app: "find P (xs @ ys) = (case find P xs of None \<Rightarrow> find P ys | Some x \<Rightarrow> Some x)"
      for P and xs ys :: "nat list" by (induction xs) auto
    have sr: "eytzinger_search A a (Suc i) =
        eytzinger_search A a (if A ! i \<le> a then Suc (2 * i + 2) else Suc (2 * i + 1))"
      using True by (subst eytzinger_search.simps) (simp add: slice_get_Some mult.commute)
    show ?thesis
    proof (cases "A ! i \<le> a")
      case le: True
      have "strip_ones (Suc (2 * i + 2)) = Suc i" using strip_ones_odd[of "Suc i"] by simp
      then show ?thesis
        using "1.hyps"(2)[OF True srt(2)] True le
        by (auto simp: sr ps find_app split: option.splits)
    next
      case False
      have "strip_ones (Suc (2 * i + 1)) = strip_ones (Suc i)" using strip_ones_even[of "Suc i"] by simp
      moreover have "find (\<lambda>p. A ! p \<le> a) (rev ?r) = None"
        using False srt(3) order_trans by (fastforce simp: find_None_iff)
      ultimately show ?thesis
        using "1.hyps"(1)[OF True srt(1)] True False
        by (auto simp: sr ps find_app split: option.splits)
    qed
  qed (use "1.prems" in \<open>auto simp: inorder.simps[of _ i] eytzinger_search.simps[of A a "Suc i"]\<close>)
qed

lemma find_map_option: "find P (map f xs) = map_option f (find (\<lambda>x. P (f x)) xs)"
  by (induction xs) auto

section \<open>Invariant\<close>

definition cache_consistent :: "MemoryRegion list \<Rightarrow> MappingCache \<Rightarrow> bool" where
  "cache_consistent rs c \<longleftrightarrow>
     cache_wf c \<and>
     (\<forall>(r, i) \<in> set (recent c). r = (0, 0) \<or> i < length rs \<and> r = vm_addr_range (rs ! i))"

definition eytzinger_ordered :: "MemoryRegion list \<Rightarrow> u64 list \<Rightarrow> usize list \<Rightarrow> bool" where
  "eytzinger_ordered rs A L \<longleftrightarrow>
     length A = length rs \<and> length L = length rs \<and>
     (\<forall>k < length rs. A ! (inorder (length rs) 0 ! k) = vm_addr (rs ! k) \<and>
                      L ! (inorder (length rs) 0 ! k) = k)"

text \<open>A region takes more than 32 bytes, so a vector holds fewer than \<open>2 ^ 58\<close> of them.\<close>

definition unaligned_wf :: "UnalignedMemoryMapping \<Rightarrow> bool" where
  "unaligned_wf m \<longleftrightarrow>
     length (regions (um_common m)) < 2 ^ 58 \<and>
     regions_disjoint (regions (um_common m)) \<and>
     eytzinger_ordered (regions (um_common m)) (region_addresses m) (region_index_lookup m) \<and>
     cache_consistent (regions (um_common m)) (cache m)"

lemma search_last_region_le:
  assumes "eytzinger_ordered rs A L" "regions_disjoint rs"
  shows "\<exists>f. eytzinger_search A a 1 = Some f \<and> 0 < f \<and> f \<le> 2 * length rs + 1 \<and>
    (case last_region_le rs a of
       None \<Rightarrow> strip_ones f = 0
     | Some k \<Rightarrow> 0 < strip_ones f \<and> strip_ones f \<le> length rs \<and> L ! (strip_ones f - 1) = k)"
proof -
  let ?n = "length rs" and ?ps = "inorder (length rs) 0"
  have ey: "length A = ?n" "length L = ?n" "\<And>k. k < ?n \<Longrightarrow> A ! (?ps ! k) = vm_addr (rs ! k)"
    "\<And>k. k < ?n \<Longrightarrow> L ! (?ps ! k) = k"
    using assms(1) by (auto simp: eytzinger_ordered_def)
  have A: "map ((!) A) ?ps = map vm_addr rs" by (rule nth_equalityI) (simp_all add: ey)
  have ps: "?ps = map ((!) ?ps) [0..<?n]" by (rule nth_equalityI) simp_all
  have "find (\<lambda>p. A ! p \<le> a) (rev (map ((!) ?ps) [0..<?n])) =
      map_option ((!) ?ps) (find (\<lambda>k. A ! (?ps ! k) \<le> a) (rev [0..<?n]))"
    by (simp only: rev_map find_map_option)
  also have "find (\<lambda>k. A ! (?ps ! k) \<le> a) (rev [0..<?n]) = last_region_le rs a"
    unfolding last_region_le_def by (rule find_cong) (simp_all add: ey)
  finally have f: "find (\<lambda>p. A ! p \<le> a) (rev ?ps) = map_option ((!) ?ps) (last_region_le rs a)"
    using ps by simp
  have lt: "?ps ! k < ?n" if "k < ?n" for k
    using set_inorder_root[of ?n] that nth_mem[of k ?ps] by auto
  obtain g where g: "eytzinger_search A a 1 = Some g" "0 < g" "g \<le> 2 * ?n + 1"
    "strip_ones g = (case map_option ((!) ?ps) (last_region_le rs a) of
       None \<Rightarrow> strip_ones (Suc 0) | Some p \<Rightarrow> Suc p)"
    using eytzinger_search_subtree[of A 0 a] f A regions_disjoint_sorted_addr[OF assms(2)]
    by (auto simp: ey)
  show ?thesis
  proof (cases "last_region_le rs a")
    case None
    then show ?thesis using g strip_ones_odd[of 0] by simp
  next
    case (Some k)
    then have "k < ?n" by (simp add: last_region_le_Some)
    then show ?thesis using g lt[of k] ey(4)[of k] Some by (simp add: Suc_le_eq)
  qed
qed

section \<open>Lookup\<close>

lemma cache_consistent_hit:
  assumes "cache_consistent rs c" "regions_disjoint rs" "cache_find c a = Some (Some i)"
  shows "last_region_le rs a = Some i" "i < length rs"
proof -
  obtain e where f: "find (\<lambda>e. range_contains (fst e) a) (recent c) = Some e" "snd e = i"
    using assms(1,3) by (auto simp: cache_consistent_def cache_find_eq)
  then have e: "e \<in> set (recent c)" "range_contains (fst e) a"
    by (auto simp: find_Some_iff)
  then have i: "i < length rs" "fst e = vm_addr_range (rs ! i)"
    using assms(1) f(2) by (auto simp: cache_consistent_def)
  then show "last_region_le rs a = Some i" "i < length rs"
    using last_region_le_range[OF assms(2) i(1)] e(2) by simp_all
qed

lemma cache_consistent_insert:
  assumes "cache_consistent rs c" "i < length rs"
  shows "\<exists>c'. cache_insert c (vm_addr_range (rs ! i)) i = Some c' \<and> cache_consistent rs c'"
proof -
  have wf: "cache_wf c" using assms(1) by (simp add: cache_consistent_def)
  obtain c' where c': "cache_insert c (vm_addr_range (rs ! i)) i = Some c'" "cache_wf c'"
    "recent c' = (vm_addr_range (rs ! i), i) # butlast (recent c)"
    using cache_insert_eq[OF wf] by blast
  then show ?thesis
    using assms by (fastforce simp: cache_consistent_def dest: in_set_butlastD)
qed

lemma unaligned_find_region_eq:
  assumes "unaligned_wf m"
  shows "\<exists>m'. unaligned_find_region m a =
      Some (m', map_option (\<lambda>i. (i, regions (um_common m) ! i)) (last_region_le (regions (um_common m)) a)) \<and>
      unaligned_wf m' \<and> um_common m' = um_common m"
proof -
  let ?rs = "regions (um_common m)"
  have wf: "length ?rs < 2 ^ 58" "regions_disjoint ?rs" "cache_consistent ?rs (cache m)"
    "eytzinger_ordered ?rs (region_addresses m) (region_index_lookup m)"
    using assms by (simp_all add: unaligned_wf_def)
  obtain hit where hit: "cache_find (cache m) a = Some hit"
    using wf(3) by (simp add: cache_consistent_def cache_find_eq)
  show ?thesis
  proof (cases hit)
    case (Some i)
    then show ?thesis
      using cache_consistent_hit[OF wf(3,2)] hit assms
      by (simp add: unaligned_find_region_def slice_get_Some)
  next
    case None
    obtain f where f: "eytzinger_search (region_addresses m) a 1 = Some f" "0 < f"
      "f \<le> 2 * length ?rs + 1" "case last_region_le ?rs a of
         None \<Rightarrow> strip_ones f = 0
       | Some k \<Rightarrow> 0 < strip_ones f \<and> strip_ones f \<le> length ?rs \<and>
           region_index_lookup m ! (strip_ones f - 1) = k"
      using search_last_region_le[OF wf(4,2)] by blast
    have sh: "trailing_zeros f < 63" "f div (2 * 2 ^ trailing_zeros f) = strip_ones f"
      using f(2,3) wf(1) trailing_zeros_less[of f 63] by (simp_all add: strip_ones_def)
    show ?thesis
    proof (cases "last_region_le ?rs a")
      case None
      then show ?thesis
        using f hit assms \<open>hit = None\<close> by (simp add: unaligned_find_region_def sh)
    next
      case (Some k)
      have k: "k < length ?rs" using Some by (simp add: last_region_le_Some)
      obtain c' where c': "cache_insert (cache m) (vm_addr_range (?rs ! k)) k = Some c'"
        "cache_consistent ?rs c'" using cache_consistent_insert[OF wf(3) k] by blast
      have "length (region_index_lookup m) = length ?rs"
        using wf(4) by (simp add: eytzinger_ordered_def)
      then show ?thesis
        using f(1,4) hit \<open>hit = None\<close> Some k c' wf
        by (auto simp: unaligned_find_region_def sh slice_get_Some unaligned_wf_def)
    qed
  qed
qed

interpretation unaligned: region_finder unaligned_find_region um_common
  "\<lambda>m. last_region_le (regions (um_common m))" unaligned_wf
proof (unfold_locales, goal_cases)
  case (1 m a)
  then show ?case using unaligned_find_region_eq[of m a] by auto
qed (simp add: last_region_le_Some)

section \<open>Construction and replacement\<close>

lemma find_overlap_None: "find_overlap rs = None \<longleftrightarrow> regions_disjoint rs"
proof -
  have "find_overlap rs = None \<longleftrightarrow>
      (\<forall>i. 1 \<le> i \<and> i < length rs \<longrightarrow> snd (vm_addr_range (rs ! (i - 1))) \<le> vm_addr (rs ! i))"
    by (auto simp: find_overlap_def find_None_iff)
  also have "\<dots> \<longleftrightarrow> regions_disjoint rs"
    unfolding regions_disjoint_def by (metis One_nat_def Suc_le_mono diff_Suc_1 le0 not_one_le_zero old.nat.exhaust)
  finally show ?thesis .
qed

lemma construct_eytzinger_ordered:
  assumes "length rs < 2 ^ 58"
  shows "\<exists>A L. construct_eytzinger_order rs (replicate (length rs) 0) (replicate (length rs) 0) 0 0 =
      Some (A, L, length rs) \<and> eytzinger_ordered rs A L"
proof -
  have "slice_fits rs" using assms by (simp add: slice_fits_def)
  from construct_eytzinger_order_eq[OF this, of "replicate (length rs) 0" "replicate (length rs) 0" 0 0]
  show ?thesis
    using distinct_inorder[of "length rs" 0]
    by (auto simp: Let_def eytzinger_ordered_def scatter_nth set_inorder_root)
qed

lemma cache_consistent_new [simp]:
  "cache_consistent rs cache_new" "cache_consistent rs (cache_flush c)"
  by (simp_all add: cache_consistent_def)

lemma unaligned_new_cases:
  assumes "length rs < 2 ^ 58" "version \<le> V3"
  shows "if regions_disjoint (sort_key vm_addr rs)
    then \<exists>m. unaligned_new rs config version handler = Some (Inr m) \<and> unaligned_wf m \<and>
           regions (um_common m) = sort_key vm_addr rs \<and> access_violation_handler (um_common m) = handler
    else \<exists>i. unaligned_new rs config version handler = Some (Inl (InvalidMemoryRegion i))"
proof (cases "regions_disjoint (sort_key vm_addr rs)")
  case True
  then have "find_overlap (sort_key vm_addr rs) = None" by (simp add: find_overlap_None)
  with True show ?thesis
    using construct_eytzinger_ordered[of "sort_key vm_addr rs"] assms
    by (auto simp: unaligned_new_def unaligned_wf_def Let_def)
next
  case False
  then obtain i where "find_overlap (sort_key vm_addr rs) = Some i"
    by (auto simp: find_overlap_None[symmetric])
  with False assms(2) show ?thesis by (simp add: unaligned_new_def Let_def)
qed

text \<open>Replacing a region by one at the same address that stays below the next region.\<close>

lemma unaligned_replace_region_wf:
  assumes "unaligned_wf m" "i < length (regions (um_common m))"
    and "vm_addr r = vm_addr (regions (um_common m) ! i)"
    and "Suc i < length (regions (um_common m)) \<Longrightarrow>
      snd (vm_addr_range r) \<le> vm_addr (regions (um_common m) ! Suc i)"
  shows "\<exists>m'. unaligned_replace_region m i r = Some (Inr m') \<and> unaligned_wf m' \<and>
    um_common m' = (um_common m)\<lparr>regions := (regions (um_common m))[i := r]\<rparr>"
proof -
  have "regions_disjoint ((regions (um_common m))[i := r])"
    using assms by (auto simp: unaligned_wf_def regions_disjoint_def nth_list_update)
  moreover have "vm_addr ((regions (um_common m))[i := r] ! k) = vm_addr (regions (um_common m) ! k)"
    if "k < length (regions (um_common m))" for k
    using that assms(3) by (cases "k = i") simp_all
  ultimately show ?thesis
    using assms(1,2) by (simp add: unaligned_replace_region_def slice_set_Some unaligned_wf_def
        eytzinger_ordered_def)
qed

text \<open>A heap beside the example stack, for the witnesses.\<close>

definition example_heap :: MemoryRegion where
  "example_heap = \<lparr>host_addr = 0x8000, vm_addr = 0x300000000, len = 0x1000, vm_gap_shift = 63,
     writable = True, access_violation_handler_payload = None\<rparr>"

lemma example_regions:
  "sort_key vm_addr [example_heap, example_stack] = [example_stack, example_heap]"
  "regions_disjoint [example_stack, example_heap]"
  by (simp_all add: example_heap_def example_stack_def regions_disjoint_def vm_addr_range_def rust_int
      less_Suc_eq)

lemma last_region_le_examples:
  "last_region_le [example_stack, example_heap] 0x300000010 = Some 1"
  "last_region_le [example_stack, example_heap] 0x200000000 = Some 0"
  "last_region_le [example_stack, example_heap] 5 = None"
  by (simp_all add: last_region_le_def example_heap_def example_stack_def)

section \<open>Properties\<close>

text \<open>C10: the Eytzinger search behind the cache is transparent.  On a well-formed mapping any
  sequence of lookups returns, for every address, the last region that starts at or below it (and
  nothing if there is none), independently of the cache contents and of earlier lookups; no array
  access of the search is out of bounds, and the mapping stays well-formed with the same regions.\<close>

theorem unaligned_lookups_transparent:
  assumes "unaligned_wf m"
  shows "\<exists>m'. unaligned.find_all m as = Some (m', map (\<lambda>a. map_option
      (\<lambda>i. (i, regions (um_common m) ! i)) (last_region_le (regions (um_common m)) a)) as) \<and>
      unaligned_wf m' \<and> um_common m' = um_common m"
  using unaligned.find_all_spec[OF assms, of as] by blast

theorem unaligned_lookups_transparent_witness:
  "\<exists>m m'. unaligned_wf m \<and> regions (um_common m) = [example_stack, example_heap] \<and>
     unaligned.find_all m [0x300000010, 0x200000000, 5] =
       Some (m', [Some (1, example_heap), Some (0, example_stack), None])"
proof -
  obtain m where m: "unaligned_wf m" "regions (um_common m) = [example_stack, example_heap]"
    using unaligned_new_cases[of "[example_heap, example_stack]" V0, unfolded example_regions(1)]
    by (auto simp: example_regions features)
  from unaligned_lookups_transparent[OF m(1), of "[0x300000010, 0x200000000, 5]"] m show ?thesis
    by (fastforce simp: last_region_le_examples)
qed

text \<open>C22: the constructor succeeds exactly when the regions, sorted by address, do not overlap;
  then it establishes the invariant of the mapping on the sorted regions, and otherwise it reports
  an invalid region.  It never goes wrong for a supported version.\<close>

theorem unaligned_new_spec:
  assumes "length rs < 2 ^ 58" and "version \<le> V3"
  shows "if regions_disjoint (sort_key vm_addr rs)
    then \<exists>m. unaligned_new rs config version handler = Some (Inr m) \<and> unaligned_wf m \<and>
           regions (um_common m) = sort_key vm_addr rs \<and> access_violation_handler (um_common m) = handler
    else \<exists>i. unaligned_new rs config version handler = Some (Inl (InvalidMemoryRegion i))"
  by (rule unaligned_new_cases[OF assms])

theorem unaligned_new_spec_witness:
  "\<exists>m. unaligned_new [example_heap, example_stack] Config_default V0 default_access_violation_handler =
     Some (Inr m) \<and> unaligned_wf m \<and> regions (um_common m) = [example_stack, example_heap]"
  using unaligned_new_spec[of "[example_heap, example_stack]" V0 Config_default
      default_access_violation_handler, unfolded example_regions(1)]
  by (auto simp: example_regions features)

end
