(* ===== verification/Aligned_Mapping.thy ===== *)
theory Aligned_Mapping
  imports Mapping_Common
begin

text \<open>
  \<open>AlignedMemoryMapping\<close> of \<^verbatim>\<open>src/src/memory_region.rs\<close>: one region per 4 GiB slot of the
  virtual address space, found by the upper half of the address.  The constructor fills missing
  slots with empty read-only regions; it is shown to terminate and to succeed exactly when no two
  regions share a slot.
\<close>

section \<open>Operations\<close>

record AlignedMemoryMapping =
  am_common :: CommonMemoryMapping

text \<open>The slot of an address, \<open>checked_shr\<close> by \<open>VIRTUAL_ADDRESS_BITS\<close>.\<close>

definition slot_of :: "u64 \<Rightarrow> usize" where
  "slot_of a = unat (unwrap_or (checked_shr a VIRTUAL_ADDRESS_BITS) 0)"

text \<open>The address of the empty slice \<open>&[]\<close>: a dangling pointer, aligned for bytes.\<close>

definition empty_slice_ptr :: u64 where
  "empty_slice_ptr = 1"

definition vec_insert :: "'a list \<Rightarrow> usize \<Rightarrow> 'a \<Rightarrow> 'a list option" where
  "vec_insert xs i x = (if i \<le> length xs then Some (take i xs @ x # drop i xs) else None)"

text \<open>The filling loop of the constructor.\<close>

function fill_slots :: "MemoryRegion list \<Rightarrow> usize \<Rightarrow> (EbpfError + MemoryRegion list) option" where
  "fill_slots rs expected_region_index =
     (if expected_region_index < length rs then
        let actual_region_index = slot_of (vm_addr (rs ! expected_region_index))
        in if actual_region_index > expected_region_index then
             do {
               r \<leftarrow> new_readonly empty_slice_ptr 0
                 (saturating_mul (of_nat expected_region_index) MM_REGION_SIZE);
               rs' \<leftarrow> vec_insert rs expected_region_index r;
               fill_slots rs' (usize_saturating_add expected_region_index 1)
             }
           else if actual_region_index < expected_region_index then
             Some (Inl (InvalidMemoryRegion actual_region_index))
           else fill_slots rs (usize_saturating_add expected_region_index 1)
      else Some (Inr rs))"
  by pat_completeness auto

text \<open>A slot index has 32 bits, so the loop index never saturates.  Each round either leaves a
  region behind or moves towards the slot of the region at hand.\<close>

lemma slot_of_eq: "slot_of a = unat a div 2 ^ 32"
  by (simp add: slot_of_def checked_shr_def layout drop_bit_eq_div unat_div)

lemma slot_of_less: "slot_of a < 2 ^ 32"
  unfolding slot_of_eq by (rule less_mult_imp_div_less) simp

lemma slot_of_saturating:
  "e \<le> slot_of a \<Longrightarrow> usize_saturating_add e 1 = Suc e"
  using slot_of_less[of a] by (simp add: usize_saturating_add_def usize_max_def)

lemma vec_insert_nth_Suc:
  "vec_insert xs i x = Some ys \<Longrightarrow> i < length xs \<Longrightarrow> ys ! Suc i = xs ! i \<and> length ys = Suc (length xs)"
  by (auto simp: vec_insert_def nth_append nth_Cons' split: if_splits)

termination fill_slots
proof (relation "measures [\<lambda>(rs, e). length rs - e, \<lambda>(rs, e). slot_of (vm_addr (rs ! e)) - e]",
    goal_cases)
  case (2 rs e s r rs')
  then have "usize_saturating_add e 1 = Suc e"
    by (intro slot_of_saturating[of e "vm_addr (rs ! e)"]) simp
  then show ?case using 2 vec_insert_nth_Suc[of rs e r rs'] by auto
next
  case (3 rs e s)
  then have "e = slot_of (vm_addr (rs ! e))" by simp
  from slot_of_saturating[OF eq_refl[OF this]] 3 show ?case by auto
qed simp

declare fill_slots.simps [simp del]

definition aligned_new ::
  "MemoryRegion list \<Rightarrow> Config \<Rightarrow> SBPFVersion \<Rightarrow> AccessViolationHandler \<Rightarrow>
   (EbpfError + AlignedMemoryMapping) option" where
  "aligned_new rs0 config version handler =
     do {
       checked \<leftarrow>
         (if allow_memory_region_zero config then fill_slots (sort_key vm_addr rs0) 0
          else do {
            r \<leftarrow> new_readonly empty_slice_ptr 0 0;
            let rs = sort_key vm_addr (r # rs0);
            Some (case find (\<lambda>index. slot_of (vm_addr (rs ! index)) \<noteq> index) [0..<length rs] of
                    Some index \<Rightarrow> Inl (InvalidMemoryRegion index)
                  | None \<Rightarrow> Inr rs)
          });
       Some (case checked of
               Inl e \<Rightarrow> Inl e
             | Inr rs \<Rightarrow> Inr \<lparr>am_common =
                 \<lparr>regions = rs, access_violation_handler = handler,
                  common_allow_memory_region_zero = allow_memory_region_zero config,
                  common_max_call_depth = of_nat (max_call_depth config),
                  common_stack_frame_size = of_nat (stack_frame_size config),
                  common_sbpf_version = version\<rparr>\<rparr>)
     }"

definition aligned_find_region ::
  "AlignedMemoryMapping \<Rightarrow> u64 \<Rightarrow> (AlignedMemoryMapping \<times> (usize \<times> MemoryRegion) option) option" where
  "aligned_find_region m a =
     (let index = unat (wrapping_shr a (of_nat VIRTUAL_ADDRESS_BITS)) in
      if index < length (regions (am_common m)) \<and>
         (index > 0 \<or> common_allow_memory_region_zero (am_common m))
      then do { r \<leftarrow> slice_get (regions (am_common m)) index; Some (m, Some (index, r)) }
      else Some (m, None))"

definition aligned_replace_region ::
  "AlignedMemoryMapping \<Rightarrow> usize \<Rightarrow> MemoryRegion \<Rightarrow> (EbpfError + AlignedMemoryMapping) option" where
  "aligned_replace_region m index region =
     (let begin_index = slot_of (vm_addr region);
          end_index = slot_of (saturating_add (vm_addr region) (saturating_sub (len region) 1))
      in if begin_index \<noteq> index \<or> end_index \<noteq> index then Some (Inl (InvalidMemoryRegion index))
         else do {
           rs \<leftarrow> slice_set (regions (am_common m)) index region;
           Some (Inr (m\<lparr>am_common := (am_common m)\<lparr>regions := rs\<rparr>\<rparr>))
         })"

section \<open>Invariant and lookup\<close>

definition slots_filled :: "MemoryRegion list \<Rightarrow> bool" where
  "slots_filled rs \<longleftrightarrow> (\<forall>i < length rs. slot_of (vm_addr (rs ! i)) = i)"

definition aligned_wf :: "AlignedMemoryMapping \<Rightarrow> bool" where
  "aligned_wf m \<longleftrightarrow> slots_filled (regions (am_common m))"

definition aligned_slot :: "CommonMemoryMapping \<Rightarrow> u64 \<Rightarrow> usize option" where
  "aligned_slot c a =
     (if slot_of a < length (regions c) \<and> (0 < slot_of a \<or> common_allow_memory_region_zero c)
      then Some (slot_of a) else None)"

lemma wrapping_shr_slot: "unat (wrapping_shr a (of_nat VIRTUAL_ADDRESS_BITS)) = slot_of a"
  by (simp add: wrapping_shr_def layout slot_of_eq drop_bit_eq_div unat_div)

interpretation aligned: region_finder aligned_find_region am_common
  "\<lambda>m. aligned_slot (am_common m)" aligned_wf
  by unfold_locales
     (auto simp: aligned_find_region_def wrapping_shr_slot aligned_slot_def slice_get_Some Let_def
       split: if_splits)

section \<open>Construction and replacement\<close>

definition empty_region :: "usize \<Rightarrow> MemoryRegion" where
  "empty_region i = \<lparr>host_addr = empty_slice_ptr, vm_addr = of_nat i * MM_REGION_SIZE, len = 0,
     vm_gap_shift = 63, writable = False, access_violation_handler_payload = None\<rparr>"

lemma new_readonly_empty:
  assumes "i < 2 ^ 32"
  shows "new_readonly empty_slice_ptr 0 (saturating_mul (of_nat i) MM_REGION_SIZE) = Some (empty_region i)"
proof -
  have "unat (of_nat i :: u64) = i" using assms by (simp add: unat_of_nat)
  then have "saturating_mul (of_nat i) MM_REGION_SIZE = of_nat i * MM_REGION_SIZE"
    using assms by (simp add: saturating_mul_def layout)
  then show ?thesis
    by (simp add: new_readonly_def MemoryRegion_new_def empty_region_def Let_def saturating_sub_def
        saturating_mul_def)
qed

lemma slot_of_empty_region: "i < 2 ^ 32 \<Longrightarrow> slot_of (vm_addr (empty_region i)) = i"
  by (simp add: slot_of_eq empty_region_def layout unat_word_ariths unat_of_nat)

lemma len_empty_region [simp]: "len (empty_region i) = 0"
  by (simp add: empty_region_def)

text \<open>What the filling loop still has to place: regions in strictly increasing slots from
  \<open>e\<close> on.\<close>

definition slots_ascend :: "usize \<Rightarrow> MemoryRegion list \<Rightarrow> bool" where
  "slots_ascend e rs \<longleftrightarrow>
     sorted_wrt (<) (map (\<lambda>r. slot_of (vm_addr r)) rs) \<and> (\<forall>r \<in> set rs. e \<le> slot_of (vm_addr r))"

lemma fill_slots_spec:
  assumes "e \<le> length rs" "\<forall>i < e. slot_of (vm_addr (rs ! i)) = i"
  shows "if slots_ascend e (drop e rs)
    then \<exists>rs'. fill_slots rs e = Some (Inr rs') \<and> slots_filled rs' \<and> set rs \<subseteq> set rs' \<and>
           (\<forall>r \<in> set rs' - set rs. len r = 0)
    else \<exists>i. fill_slots rs e = Some (Inl (InvalidMemoryRegion i))"
  using assms
proof (induction rs e rule: fill_slots.induct)
  case (1 rs e)
  show ?case
  proof (cases "e < length rs")
    case False
    then show ?thesis using "1.prems" by (auto simp: fill_slots.simps slots_ascend_def slots_filled_def)
  next
    case True
    let ?s = "slot_of (vm_addr (rs ! e))"
    have d: "drop e rs = rs ! e # drop (Suc e) rs" using True by (rule Cons_nth_drop_Suc[symmetric])
    have lt: "?s < 2 ^ 32" by (rule slot_of_less)
    consider (gt) "?s > e" | (less) "?s < e" | (eq) "?s = e" by linarith
    then show ?thesis
    proof cases
      case gt
      let ?rs = "take e rs @ empty_region e # drop e rs"
      have e: "e < 2 ^ 32" "usize_saturating_add e 1 = Suc e" "vec_insert rs e (empty_region e) = Some ?rs"
        using gt lt True slot_of_saturating[of e "vm_addr (rs ! e)"] by (simp_all add: vec_insert_def)
      have step: "fill_slots rs e = fill_slots ?rs (Suc e)"
        using True gt e new_readonly_empty[OF e(1)] by (simp add: fill_slots.simps[of rs e])
      have "slots_ascend (Suc e) (drop (Suc e) ?rs) \<longleftrightarrow> slots_ascend e (drop e rs)"
        using True gt by (auto simp: slots_ascend_def d)
      moreover have "\<forall>i < Suc e. slot_of (vm_addr (?rs ! i)) = i"
        using "1.prems" True e(1) by (auto simp: nth_append less_Suc_eq slot_of_empty_region)
      moreover have "set ?rs = insert (empty_region e) (set rs)"
        by (metis append_take_drop_id insert_is_Un list.simps(15) set_append sup_left_commute)
      moreover have "Suc e \<le> length ?rs" using True by simp
      ultimately show ?thesis
        unfolding step
        using "1.IH"(1)[OF True refl gt new_readonly_empty[OF e(1)] e(3), unfolded e(2)]
        by (simp split: if_splits del: length_append set_append drop_append) fastforce
    next
      case less
      then show ?thesis using True by (auto simp: fill_slots.simps[of rs e] slots_ascend_def d)
    next
      case eq
      then have e: "usize_saturating_add e 1 = Suc e"
        using slot_of_saturating[of e "vm_addr (rs ! e)"] by simp
      have step: "fill_slots rs e = fill_slots rs (Suc e)"
        using True eq e by (simp add: fill_slots.simps[of rs e])
      have "slots_ascend (Suc e) (drop (Suc e) rs) \<longleftrightarrow> slots_ascend e (drop e rs)"
        using eq by (auto simp: slots_ascend_def d Suc_le_eq)
      moreover have "\<forall>i < Suc e. slot_of (vm_addr (rs ! i)) = i"
        using "1.prems" eq by (auto simp: less_Suc_eq)
      ultimately show ?thesis
        using "1.IH"(2)[OF True refl, unfolded e] eq True by (simp add: step)
    qed
  qed
qed

lemma slots_ascend_sorted:
  "slots_ascend 0 (sort_key vm_addr rs) \<longleftrightarrow> distinct (map (\<lambda>r. slot_of (vm_addr r)) rs)"
proof -
  have mono: "a \<le> b \<Longrightarrow> slot_of a \<le> slot_of b" for a b :: u64
    by (simp add: slot_of_eq word_le_nat_alt div_le_mono)
  have "sorted_wrt (\<lambda>r q. vm_addr r \<le> vm_addr q) (sort_key vm_addr rs)"
    using sorted_sort_key[of vm_addr rs] by (simp add: sorted_wrt_map)
  then have "sorted (map (\<lambda>r. slot_of (vm_addr r)) (sort_key vm_addr rs))"
    unfolding sorted_wrt_map by (rule sorted_wrt_mono_rel[rotated]) (rule mono)
  then show ?thesis
    by (simp add: slots_ascend_def strict_sorted_iff distinct_map)
qed

lemma slots_filled_nth:
  "slots_filled rs \<Longrightarrow> r \<in> set rs \<Longrightarrow> rs ! slot_of (vm_addr r) = r \<and> slot_of (vm_addr r) < length rs"
  by (auto simp: slots_filled_def in_set_conv_nth)

lemma aligned_new_zero:
  assumes "allow_memory_region_zero config"
  shows "if distinct (map (\<lambda>r. slot_of (vm_addr r)) rs)
    then \<exists>m. aligned_new rs config version handler = Some (Inr m) \<and> aligned_wf m \<and>
           (\<forall>r \<in> set rs. slot_of (vm_addr r) < length (regions (am_common m)) \<and>
              regions (am_common m) ! slot_of (vm_addr r) = r) \<and>
           (\<forall>r \<in> set (regions (am_common m)) - set rs. len r = 0) \<and>
           access_violation_handler (am_common m) = handler \<and>
           common_allow_memory_region_zero (am_common m)
    else \<exists>i. aligned_new rs config version handler = Some (Inl (InvalidMemoryRegion i))"
proof (cases "slots_ascend 0 (sort_key vm_addr rs)")
  case True
  then obtain rs' where rs': "fill_slots (sort_key vm_addr rs) 0 = Some (Inr rs')" "slots_filled rs'"
    "set rs \<subseteq> set rs'" "\<forall>r \<in> set rs' - set rs. len r = 0"
    using fill_slots_spec[of 0 "sort_key vm_addr rs"] by auto
  then have "\<forall>r \<in> set rs. slot_of (vm_addr r) < length rs' \<and> rs' ! slot_of (vm_addr r) = r"
    using slots_filled_nth[OF rs'(2)] by blast
  with True rs' assms show ?thesis
    by (simp add: aligned_new_def aligned_wf_def slots_ascend_sorted)
next
  case False
  then obtain i where "fill_slots (sort_key vm_addr rs) 0 = Some (Inl (InvalidMemoryRegion i))"
    using fill_slots_spec[of 0 "sort_key vm_addr rs"] by auto
  then show ?thesis using assms False by (simp add: aligned_new_def slots_ascend_sorted)
qed

lemma aligned_new_no_zero:
  assumes "\<not> allow_memory_region_zero config"
  shows "if slots_filled (sort_key vm_addr (empty_region 0 # rs))
    then \<exists>m. aligned_new rs config version handler = Some (Inr m) \<and> aligned_wf m \<and>
           regions (am_common m) = sort_key vm_addr (empty_region 0 # rs) \<and>
           access_violation_handler (am_common m) = handler
    else \<exists>i. aligned_new rs config version handler = Some (Inl (InvalidMemoryRegion i))"
proof -
  let ?rs = "sort_key vm_addr (empty_region 0 # rs)"
  let ?f = "find (\<lambda>i. slot_of (vm_addr (?rs ! i)) \<noteq> i) [0..<length ?rs]"
  have r: "new_readonly empty_slice_ptr 0 0 = Some (empty_region 0)"
    using new_readonly_empty[of 0] by (simp add: saturating_mul_def)
  have f: "?f = None \<longleftrightarrow> slots_filled ?rs"
    by (auto simp: find_None_iff slots_filled_def less_Suc_eq)
  have new: "aligned_new rs config version handler =
      Some (case ?f of Some i \<Rightarrow> Inl (InvalidMemoryRegion i)
        | None \<Rightarrow> Inr \<lparr>am_common = \<lparr>regions = ?rs, access_violation_handler = handler,
             common_allow_memory_region_zero = allow_memory_region_zero config,
             common_max_call_depth = of_nat (max_call_depth config),
             common_stack_frame_size = of_nat (stack_frame_size config),
             common_sbpf_version = version\<rparr>\<rparr>)"
    using assms by (simp add: aligned_new_def r Let_def del: sort_key_simps split: option.split)
  show ?thesis
  proof (cases ?f)
    case None
    with f show ?thesis by (simp only: new) (simp add: aligned_wf_def)
  next
    case (Some i)
    with f show ?thesis by (simp only: new) simp
  qed
qed

lemma aligned_replace_region_wf:
  assumes "aligned_wf m" "i < length (regions (am_common m))"
  shows "(\<exists>e. aligned_replace_region m i r = Some (Inl e)) \<or>
    (\<exists>m'. aligned_replace_region m i r = Some (Inr m') \<and> aligned_wf m' \<and>
      am_common m' = (am_common m)\<lparr>regions := (regions (am_common m))[i := r]\<rparr>)"
  using assms
  by (auto simp: aligned_replace_region_def aligned_wf_def slots_filled_def slice_set_Some nth_list_update)

section \<open>Properties\<close>



end
