(* ===== verification/Memory_Mapping.thy ===== *)
theory Memory_Mapping
  imports Unaligned_Mapping Aligned_Mapping
begin

text \<open>
  \<open>MemoryMapping\<close> of \<^verbatim>\<open>src/src/memory_region.rs\<close>: the choice between the identity, aligned and
  unaligned mapping, \<open>map\<close> with and without the access violation handler, and the loads and
  stores of the interpreter on host memory.  Shown: every access either is translated into the
  bytes of a region or is an access violation, without ever touching memory outside the regions;
  a load after a store reads the stored value; the invariant is kept.
\<close>

section \<open>Host memory\<close>

fun host_read :: "host_memory \<Rightarrow> u64 \<Rightarrow> nat \<Rightarrow> bytes option" where
  "host_read h a 0 = Some []"
| "host_read h a (Suc n) = do { b \<leftarrow> h a; bs \<leftarrow> host_read h (a + 1) n; Some (b # bs) }"

fun host_write :: "host_memory \<Rightarrow> u64 \<Rightarrow> bytes \<Rightarrow> host_memory option" where
  "host_write h a [] = Some h"
| "host_write h a (b # bs) =
     (if h a = None then None else host_write (h(a \<mapsto> b)) (a + 1) bs)"

section \<open>Operations\<close>

datatype MemoryMapping =
    Identity
  | Aligned AlignedMemoryMapping
  | Unaligned UnalignedMemoryMapping

definition new_identity :: MemoryMapping where
  "new_identity = Identity"

definition mapping_new_with_access_violation_handler ::
  "MemoryRegion list \<Rightarrow> Config \<Rightarrow> SBPFVersion \<Rightarrow> AccessViolationHandler \<Rightarrow>
   (EbpfError + MemoryMapping) option" where
  "mapping_new_with_access_violation_handler rs config version handler =
     (if version \<ge> V4 \<or> aligned_memory_mapping config
      then map_option (map_sum id Aligned) (aligned_new rs config version handler)
      else map_option (map_sum id Unaligned) (unaligned_new rs config version handler))"

definition mapping_new ::
  "MemoryRegion list \<Rightarrow> Config \<Rightarrow> SBPFVersion \<Rightarrow> (EbpfError + MemoryMapping) option" where
  "mapping_new rs config version =
     mapping_new_with_access_violation_handler rs config version default_access_violation_handler"

fun find_region :: "MemoryMapping \<Rightarrow> u64 \<Rightarrow> (MemoryMapping \<times> (usize \<times> MemoryRegion) option) option" where
  "find_region Identity a = Some (Identity, None)"
| "find_region (Aligned m) a =
     map_option (\<lambda>(m', r). (Aligned m', r)) (aligned_find_region m a)"
| "find_region (Unaligned m) a =
     map_option (\<lambda>(m', r). (Unaligned m', r)) (unaligned_find_region m a)"

fun common :: "MemoryMapping \<Rightarrow> CommonMemoryMapping option" where
  "common Identity = None"
| "common (Aligned m) = Some (am_common m)"
| "common (Unaligned m) = Some (um_common m)"

fun get_regions :: "MemoryMapping \<Rightarrow> MemoryRegion list" where
  "get_regions Identity = []"
| "get_regions (Aligned m) = regions (am_common m)"
| "get_regions (Unaligned m) = regions (um_common m)"

text \<open>\<open>map\<close>: a lookup may update the cache, so the mapping is returned with the result.\<close>

definition mapping_map ::
  "MemoryMapping \<Rightarrow> AccessType \<Rightarrow> u64 \<Rightarrow> u64 \<Rightarrow> (MemoryMapping \<times> ProgramResult) option" where
  "mapping_map m access_type vaddr n =
     do {
       (m, found) \<leftarrow> find_region m vaddr;
       Some (m,
         case Option.bind found (\<lambda>(_, region). vm_to_host region access_type vaddr n) of
           Some haddr \<Rightarrow> Ok haddr
         | None \<Rightarrow> (case common m of
                      None \<Rightarrow> Ok vaddr
                    | Some c \<Rightarrow> generate_access_violation c access_type vaddr n))
     }"

text \<open>The start of the region after \<open>index\<close>, or the end of the address space.\<close>

definition next_region_start :: "MemoryRegion list \<Rightarrow> usize \<Rightarrow> u64" where
  "next_region_start rs index =
     (case slice_get rs (usize_saturating_add index 1) of None \<Rightarrow> u64_max | Some r \<Rightarrow> vm_addr r)"

definition replace_region ::
  "MemoryMapping \<Rightarrow> usize \<Rightarrow> MemoryRegion \<Rightarrow> (EbpfError + MemoryMapping) option" where
  "replace_region m index region =
     (let rs = get_regions m in
      if index \<ge> length rs \<or> vm_addr (rs ! index) \<noteq> vm_addr region \<or>
         snd (vm_addr_range region) > next_region_start rs index
      then Some (Inl (InvalidMemoryRegion index))
      else case m of
        Identity \<Rightarrow> Some (Inl (InvalidMemoryRegion index))
      | Aligned a \<Rightarrow> map_option (map_sum id Aligned) (aligned_replace_region a index region)
      | Unaligned u \<Rightarrow> map_option (map_sum id Unaligned) (unaligned_replace_region u index region))"

definition map_with_access_violation_handler ::
  "MemoryMapping \<Rightarrow> host_memory \<Rightarrow> AccessType \<Rightarrow> u64 \<Rightarrow> u64 \<Rightarrow>
   (MemoryMapping \<times> host_memory \<times> ProgramResult) option" where
  "map_with_access_violation_handler m h access_type vaddr n =
     (case common m of
        None \<Rightarrow> Some (m, h, Ok vaddr)
      | Some c \<Rightarrow>
          do {
            (m, found) \<leftarrow> find_region m vaddr;
            case found of
              None \<Rightarrow> Some (m, h, generate_access_violation c access_type vaddr n)
            | Some (index, region) \<Rightarrow>
                (case vm_to_host region access_type vaddr n of
                   Some haddr \<Rightarrow> Some (m, h, Ok haddr)
                 | None \<Rightarrow>
                     (let max_len = saturating_sub (next_region_start (get_regions m) index) (vm_addr region);
                          (region, h) = access_violation_handler c h region max_len access_type vaddr n
                      in case vm_to_host region access_type vaddr n of
                           Some haddr \<Rightarrow>
                             do {
                               replaced \<leftarrow> replace_region m index region;
                               case replaced of
                                 Inl err \<Rightarrow> Some (m, h, Err err)
                               | Inr m \<Rightarrow> Some (m, h, Ok haddr)
                             }
                         | None \<Rightarrow> Some (m, h, generate_access_violation c access_type vaddr n)))
          })"

text \<open>\<open>load\<close> and \<open>store\<close> of the unsigned integer type with \<open>n\<close> bytes.\<close>

definition mapping_load ::
  "nat \<Rightarrow> MemoryMapping \<Rightarrow> host_memory \<Rightarrow> u64 \<Rightarrow> (MemoryMapping \<times> host_memory \<times> ProgramResult) option" where
  "mapping_load n m h vaddr =
     do {
       (m, h, r) \<leftarrow> map_with_access_violation_handler m h Load vaddr (of_nat n);
       case r of
         Ok haddr \<Rightarrow> do { bs \<leftarrow> host_read h haddr n; Some (m, h, Ok (le_word bs)) }
       | Err e \<Rightarrow> Some (m, h, Err e)
     }"

definition mapping_store ::
  "nat \<Rightarrow> MemoryMapping \<Rightarrow> host_memory \<Rightarrow> u64 \<Rightarrow> u64 \<Rightarrow>
   (MemoryMapping \<times> host_memory \<times> ProgramResult) option" where
  "mapping_store n m h v vaddr =
     do {
       (m, h, r) \<leftarrow> map_with_access_violation_handler m h Store vaddr (of_nat n);
       case r of
         Ok haddr \<Rightarrow> do { h \<leftarrow> host_write h haddr (le_bytes n v); Some (m, h, Ok haddr) }
       | Err e \<Rightarrow> Some (m, h, Err e)
     }"

section \<open>Host memory lemmas\<close>

text \<open>\<open>owned h a n\<close>: the \<open>n\<close> bytes from \<open>a\<close> on belong to the process.\<close>

definition owned :: "host_memory \<Rightarrow> u64 \<Rightarrow> nat \<Rightarrow> bool" where
  "owned h a n \<longleftrightarrow> (\<forall>i < n. h (a + of_nat i) \<noteq> None)"

lemma owned_Suc: "owned h a (Suc n) \<longleftrightarrow> h a \<noteq> None \<and> owned h (a + 1) n"
  unfolding owned_def by (auto simp: less_Suc_eq_0_disj add.assoc)

lemma owned_mono: "owned h a n \<Longrightarrow> dom h \<subseteq> dom h' \<Longrightarrow> owned h' a n"
  by (auto simp: owned_def)

lemma owned_sub: "owned h a n \<Longrightarrow> i + k \<le> n \<Longrightarrow> owned h (a + of_nat i) k"
  unfolding owned_def by (metis add.assoc add_less_cancel_left le_trans less_le_trans of_nat_add)

lemma host_read_owned: "owned h a n \<Longrightarrow> \<exists>bs. host_read h a n = Some bs \<and> length bs = n"
  by (induction n arbitrary: a) (fastforce simp: owned_Suc)+

lemma host_write_owned:
  "owned h a (length bs) \<Longrightarrow> \<exists>h'. host_write h a bs = Some h' \<and> dom h' = dom h"
proof (induction bs arbitrary: h a)
  case (Cons b bs)
  then have o: "h a \<noteq> None" "owned h (a + 1) (length bs)" by (simp_all add: owned_Suc)
  then have "owned (h(a \<mapsto> b)) (a + 1) (length bs)" by (auto intro: owned_mono)
  then obtain h' where "host_write (h(a \<mapsto> b)) (a + 1) bs = Some h'" "dom h' = dom (h(a \<mapsto> b))"
    using Cons.IH by blast
  moreover have "dom (h(a \<mapsto> b)) = dom h" using o(1) by auto
  ultimately show ?case using o(1) by simp
qed simp

lemma host_write_other:
  "host_write h a bs = Some h' \<Longrightarrow> (\<And>i. i < length bs \<Longrightarrow> x \<noteq> a + of_nat i) \<Longrightarrow> h' x = h x"
proof (induction bs arbitrary: h a)
  case (Cons b bs)
  have "x \<noteq> a + 1 + of_nat i" if "i < length bs" for i
    using Cons.prems(2)[of "Suc i"] that by (simp add: algebra_simps)
  moreover have "x \<noteq> a" using Cons.prems(2)[of 0] by simp
  moreover have "host_write (h(a \<mapsto> b)) (a + 1) bs = Some h'"
    using Cons.prems(1) by (simp split: if_splits)
  ultimately show ?case using Cons.IH[of "h(a \<mapsto> b)" "a + 1"] by (metis fun_upd_other)
qed simp

lemma offset_neq: "i + 1 < 2 ^ 64 \<Longrightarrow> (a :: u64) \<noteq> a + 1 + of_nat i"
proof
  assume "i + 1 < 2 ^ 64" "a = a + 1 + of_nat i"
  then have "of_nat (Suc i) = (0 :: u64)" by (simp add: add.assoc)
  then have "unat (of_nat (Suc i) :: u64) = 0" by simp
  then show False using \<open>i + 1 < 2 ^ 64\<close> by (simp only: unat_of_nat) simp
qed

lemma host_read_write:
  "host_write h a bs = Some h' \<Longrightarrow> length bs < 2 ^ 64 \<Longrightarrow> host_read h' a (length bs) = Some bs"
proof (induction bs arbitrary: h a)
  case (Cons b bs)
  then have w: "host_write (h(a \<mapsto> b)) (a + 1) bs = Some h'" by (simp split: if_splits)
  have "a \<noteq> a + 1 + of_nat i" if "i < length bs" for i
    using that Cons.prems(2) by (intro offset_neq) simp
  then have "h' a = Some b" using host_write_other[OF w, of a] by simp
  then show ?case using Cons.IH[OF w] Cons.prems(2) by simp
qed simp

section \<open>Invariant\<close>

fun mapping_wf :: "MemoryMapping \<Rightarrow> bool" where
  "mapping_wf Identity = False"
| "mapping_wf (Aligned m) = aligned_wf m"
| "mapping_wf (Unaligned m) = unaligned_wf m"

fun mapping_spec :: "MemoryMapping \<Rightarrow> u64 \<Rightarrow> usize option" where
  "mapping_spec Identity a = None"
| "mapping_spec (Aligned m) a = aligned_slot (am_common m) a"
| "mapping_spec (Unaligned m) a = last_region_le (regions (um_common m)) a"

definition common_of :: "MemoryMapping \<Rightarrow> CommonMemoryMapping" where
  "common_of m = the (common m)"

lemma common_of_simps [simp]:
  "common_of (Aligned a) = am_common a" "common_of (Unaligned u) = um_common u"
  by (simp_all add: common_of_def)

lemma mapping_wf_common:
  "mapping_wf m \<Longrightarrow> common m = Some (common_of m) \<and> get_regions m = regions (common_of m)"
  by (cases m) simp_all

interpretation mapping: region_finder find_region common_of mapping_spec mapping_wf
proof (unfold_locales, goal_cases)
  case (1 m a)
  show ?case
  proof (cases m)
    case (Aligned al)
    then show ?thesis using 1 aligned.find_region_spec[of al a] by (auto simp: fun_eq_iff)
  next
    case (Unaligned u)
    then show ?thesis using 1 unaligned.find_region_spec[of u a] by (auto simp: fun_eq_iff)
  qed (use 1 in simp)
next
  case (2 m a i)
  then show ?case
    using aligned.spec_in_range unaligned.spec_in_range by (cases m) auto
qed

lemma next_region_start_Suc:
  "Suc i < length rs \<Longrightarrow> length rs < 2 ^ 58 \<Longrightarrow> next_region_start rs i = vm_addr (rs ! Suc i)"
  by (simp add: next_region_start_def usize_saturating_add_def usize_max_def slice_get_def)

lemma last_region_le_update:
  "vm_addr r = vm_addr (rs ! i) \<Longrightarrow> last_region_le (rs[i := r]) = last_region_le rs"
proof (rule ext)
  fix a
  assume r: "vm_addr r = vm_addr (rs ! i)"
  have "vm_addr (rs[i := r] ! k) = vm_addr (rs ! k)" if "k < length rs" for k
    using r that by (cases "i = k") simp_all
  then show "last_region_le (rs[i := r]) a = last_region_le rs a"
    unfolding last_region_le_def length_list_update by (intro find_cong) auto
qed

text \<open>Replacing a region either fails with an error or keeps the invariant and the lookups.\<close>

lemma replace_region_cases:
  assumes "mapping_wf m"
  shows "(\<exists>e. replace_region m i r = Some (Inl e)) \<or>
    (\<exists>m'. replace_region m i r = Some (Inr m') \<and> mapping_wf m' \<and> i < length (get_regions m) \<and>
       common_of m' = (common_of m)\<lparr>regions := (get_regions m)[i := r]\<rparr> \<and>
       mapping_spec m' = mapping_spec m)"
proof (cases "i \<ge> length (get_regions m) \<or> vm_addr (get_regions m ! i) \<noteq> vm_addr r \<or>
    snd (vm_addr_range r) > next_region_start (get_regions m) i")
  case True
  then show ?thesis by (auto simp: replace_region_def Let_def)
next
  case False
  then have r: "i < length (get_regions m)" "vm_addr r = vm_addr (get_regions m ! i)"
    "snd (vm_addr_range r) \<le> next_region_start (get_regions m) i" by auto
  show ?thesis
  proof (cases m)
    case (Aligned a)
    then show ?thesis
      using r assms aligned_replace_region_wf[of a i r]
      by (auto simp: replace_region_def aligned_slot_def fun_eq_iff)
  next
    case (Unaligned u)
    then have "length (regions (um_common u)) < 2 ^ 58" using assms by (simp add: unaligned_wf_def)
    then have "Suc i < length (regions (um_common u)) \<Longrightarrow>
        snd (vm_addr_range r) \<le> vm_addr (regions (um_common u) ! Suc i)"
      using r(3) Unaligned by (simp add: next_region_start_Suc)
    then show ?thesis
      using r assms Unaligned unaligned_replace_region_wf[of u i r]
      by (auto simp: replace_region_def fun_eq_iff last_region_le_update)
  qed (use assms in simp)
qed

text \<open>Regions the process owns, and handlers that only hand out such regions.\<close>

definition region_ok :: "host_memory \<Rightarrow> MemoryRegion \<Rightarrow> bool" where
  "region_ok h r \<longleftrightarrow> region_wf r \<and> owned h (host_addr r) (unat (len r))"

definition handler_ok :: "AccessViolationHandler \<Rightarrow> bool" where
  "handler_ok f \<longleftrightarrow> (\<forall>h r k t a n. region_ok h r \<longrightarrow>
     region_ok (snd (f h r k t a n)) (fst (f h r k t a n)) \<and> dom h \<subseteq> dom (snd (f h r k t a n)))"

definition mapping_ok :: "host_memory \<Rightarrow> MemoryMapping \<Rightarrow> bool" where
  "mapping_ok h m \<longleftrightarrow>
     mapping_wf m \<and> (\<forall>r \<in> set (get_regions m). region_ok h r) \<and>
     handler_ok (access_violation_handler (common_of m))"

lemma region_ok_mono: "region_ok h r \<Longrightarrow> dom h \<subseteq> dom h' \<Longrightarrow> region_ok h' r"
  by (auto simp: region_ok_def intro: owned_mono)

lemma mapping_ok_mono: "mapping_ok h m \<Longrightarrow> dom h \<subseteq> dom h' \<Longrightarrow> mapping_ok h' m"
  by (auto simp: mapping_ok_def intro: region_ok_mono)

lemma default_handler_ok [simp]: "handler_ok default_access_violation_handler"
  by (simp add: handler_ok_def default_access_violation_handler_def)

lemma region_ok_access:
  assumes "region_ok h r" "vm_to_host r t a n = Some ha"
  shows "owned h ha (unat n)" "unat ha + unat n < 2 ^ 64"
proof -
  have wf: "unat (vm_gap_shift r) < 64" "unat (host_addr r) + unat (len r) < 2 ^ 64"
    using assms(1) by (simp_all add: region_ok_def region_wf_def)
  let ?i = "unat ha - unat (host_addr r)"
  note V = vm_to_host_SomeD[OF assms(2) wf]
  have "of_nat (unat ha) = (of_nat (unat (host_addr r)) + of_nat ?i :: u64)"
    using V(4) by (simp only: of_nat_add[symmetric]) simp
  then have ha: "ha = host_addr r + of_nat ?i" by simp
  have "owned h (host_addr r + of_nat ?i) (unat n)"
    using assms(1) V(4,5) by (intro owned_sub[where n = "unat (len r)"]) (simp_all add: region_ok_def)
  then show "owned h ha (unat n)" using ha by simp
  show "unat ha + unat n < 2 ^ 64" using V(5) wf(2) by simp
qed

section \<open>Mapping with the handler\<close>

text \<open>\<open>translates m t a n ha\<close>: the region responsible for \<open>a\<close> translates the access.\<close>

definition translates :: "MemoryMapping \<Rightarrow> AccessType \<Rightarrow> u64 \<Rightarrow> u64 \<Rightarrow> u64 \<Rightarrow> bool" where
  "translates m t a n ha \<longleftrightarrow>
     (\<exists>i. mapping_spec m a = Some i \<and> vm_to_host (get_regions m ! i) t a n = Some ha)"

lemma mapping_ok_lookup:
  assumes "mapping_ok h m"
  obtains m' where "find_region m a =
      Some (m', map_option (\<lambda>i. (i, get_regions m ! i)) (mapping_spec m a))"
    "mapping_ok h m'" "common_of m' = common_of m" "mapping_spec m' = mapping_spec m"
    "get_regions m' = get_regions m"
proof -
  have wf: "mapping_wf m" using assms by (simp add: mapping_ok_def)
  have g: "get_regions m = regions (common_of m)" using mapping_wf_common[OF wf] by simp
  from mapping.find_region_spec[OF wf, of a] obtain m' where m': "find_region m a =
      Some (m', map_option (\<lambda>i. (i, get_regions m ! i)) (mapping_spec m a))"
    "mapping_wf m'" "common_of m' = common_of m" "mapping_spec m' = mapping_spec m"
    unfolding g by blast
  have "get_regions m' = get_regions m" using mapping_wf_common[OF m'(2)] m'(3) g by simp
  moreover from this have "mapping_ok h m'" using assms m' by (simp add: mapping_ok_def)
  ultimately show ?thesis using that m' by blast
qed

lemma mapping_ok_spec:
  "mapping_ok h m \<Longrightarrow> mapping_spec m a = Some i \<Longrightarrow> i < length (get_regions m) \<and> region_ok h (get_regions m ! i)"
  using mapping.spec_in_range[of m a i] by (simp add: mapping_ok_def mapping_wf_common)

lemma translates_owned:
  "mapping_ok h m \<Longrightarrow> translates m t a n ha \<Longrightarrow> owned h ha (unat n) \<and> unat ha + unat n < 2 ^ 64"
  unfolding translates_def using mapping_ok_spec region_ok_access by blast

lemma generate_access_violation_Err: "\<exists>e. generate_access_violation c t a n = Err e"
  by (simp add: generate_access_violation_def Let_def)

text \<open>An access that is translated at once leaves everything but the cache unchanged.\<close>

lemma map_with_handler_hit:
  assumes "mapping_ok h m" "translates m t a n ha"
  shows "\<exists>m'. map_with_access_violation_handler m h t a n = Some (m', h, Ok ha) \<and> mapping_ok h m' \<and>
    common_of m' = common_of m \<and> mapping_spec m' = mapping_spec m \<and> get_regions m' = get_regions m"
proof -
  have "common m = Some (common_of m)" using assms(1) by (simp add: mapping_ok_def mapping_wf_common)
  moreover obtain i where "mapping_spec m a = Some i" "vm_to_host (get_regions m ! i) t a n = Some ha"
    using assms(2) by (auto simp: translates_def)
  ultimately show ?thesis
    by (rule_tac mapping_ok_lookup[OF assms(1), of a]) (auto simp: map_with_access_violation_handler_def)
qed

lemma mapping_ok_replace:
  assumes "mapping_ok h m" "replace_region m i r = Some (Inr m')"
    and "region_ok h' r" "dom h \<subseteq> dom h'"
  shows "mapping_ok h' m'" "mapping_spec m' = mapping_spec m"
    "i < length (get_regions m)" "get_regions m' = (get_regions m)[i := r]"
proof -
  have wf: "mapping_wf m" using assms(1) by (simp add: mapping_ok_def)
  from replace_region_cases[OF wf, of i r] assms(2) have R: "mapping_wf m'" "i < length (get_regions m)"
    "common_of m' = (common_of m)\<lparr>regions := (get_regions m)[i := r]\<rparr>" "mapping_spec m' = mapping_spec m"
    by auto
  then show "mapping_spec m' = mapping_spec m" "i < length (get_regions m)" by simp_all
  show G: "get_regions m' = (get_regions m)[i := r]" using R by (simp add: mapping_wf_common)
  have "\<forall>q \<in> set (get_regions m). region_ok h' q"
    using assms(1,4) region_ok_mono by (auto simp: mapping_ok_def)
  then have "\<forall>q \<in> set ((get_regions m)[i := r]). region_ok h' q"
    using assms(3) set_update_subset_insert[of "get_regions m" i r] by blast
  then show "mapping_ok h' m'" using R G assms(1) by (simp add: mapping_ok_def)
qed

text \<open>In general the access ends in a translated address of the new mapping or in an error.\<close>

lemma map_with_handler_ok:
  assumes "mapping_ok h m"
  shows "\<exists>m' h' r. map_with_access_violation_handler m h t a n = Some (m', h', r) \<and>
    mapping_ok h' m' \<and> dom h \<subseteq> dom h' \<and> (\<forall>ha. r = Ok ha \<longrightarrow> translates m' t a n ha)"
proof -
  obtain m1 where m1: "find_region m a =
      Some (m1, map_option (\<lambda>i. (i, get_regions m ! i)) (mapping_spec m a))"
    "mapping_ok h m1" "common_of m1 = common_of m" "mapping_spec m1 = mapping_spec m"
    "get_regions m1 = get_regions m"
    using mapping_ok_lookup[OF assms] .
  have c: "common m = Some (common_of m)" using assms by (simp add: mapping_ok_def mapping_wf_common)
  obtain e where e: "generate_access_violation (common_of m) t a n = Err e"
    using generate_access_violation_Err by blast
  show ?thesis
  proof (cases "mapping_spec m a")
    case None
    then show ?thesis using m1 c e by (simp add: map_with_access_violation_handler_def)
  next
    case (Some i)
    let ?r = "get_regions m ! i"
    let ?k = "saturating_sub (next_region_start (get_regions m) i) (vm_addr ?r)"
    obtain r1 h1 where H: "access_violation_handler (common_of m) h ?r ?k t a n = (r1, h1)" by fastforce
    have ok1: "region_ok h1 r1" "dom h \<subseteq> dom h1"
    proof -
      have "handler_ok (access_violation_handler (common_of m))" "region_ok h ?r"
        using assms mapping_ok_spec[OF assms Some] by (simp_all add: mapping_ok_def)
      then show "region_ok h1 r1" "dom h \<subseteq> dom h1"
        unfolding handler_ok_def by (metis H fst_conv snd_conv)+
    qed
    show ?thesis
    proof (cases "vm_to_host ?r t a n")
      case (Some ha)
      then show ?thesis
        using m1 c \<open>mapping_spec m a = Some i\<close>
        by (auto simp: map_with_access_violation_handler_def translates_def)
    next
      case None
      note run = map_with_access_violation_handler_def m1 c \<open>mapping_spec m a = Some i\<close> None H
      show ?thesis
      proof (cases "vm_to_host r1 t a n")
        case None
        then show ?thesis
          using m1 e mapping_ok_mono[OF m1(2) ok1(2)] ok1(2) by (simp add: run)
      next
        case (Some ha)
        have "mapping_wf m1" using m1(2) by (simp add: mapping_ok_def)
        from replace_region_cases[OF this, of i r1] consider (err) x where "replace_region m1 i r1 = Some (Inl x)"
          | (ok) m2 where "replace_region m1 i r1 = Some (Inr m2)" by blast
        then show ?thesis
        proof cases
          case err
          then show ?thesis using Some mapping_ok_mono[OF m1(2) ok1(2)] ok1(2) by (simp add: run)
        next
          case ok
          note R = mapping_ok_replace[OF m1(2) ok ok1]
          have "translates m2 t a n ha"
            using R Some \<open>mapping_spec m a = Some i\<close> m1(4) by (simp add: translates_def)
          then show ?thesis using ok Some R(1) ok1(2) by (simp add: run)
        qed
      qed
    qed
  qed
qed

section \<open>Loads and stores\<close>

lemma unat_access_size: "n \<le> 8 \<Longrightarrow> unat (of_nat n :: u64) = n"
  by (simp add: unat_of_nat)

lemma mapping_load_ok:
  assumes "mapping_ok h m" "n \<le> 8"
  shows "\<exists>m' h' r. mapping_load n m h a = Some (m', h', r) \<and> mapping_ok h' m' \<and> dom h \<subseteq> dom h'"
proof -
  obtain m' h' r where M: "map_with_access_violation_handler m h Load a (of_nat n) = Some (m', h', r)"
    "mapping_ok h' m'" "dom h \<subseteq> dom h'" "\<forall>ha. r = Ok ha \<longrightarrow> translates m' Load a (of_nat n) ha"
    using map_with_handler_ok[OF assms(1)] by blast
  show ?thesis
  proof (cases r)
    case (Ok ha)
    then have "owned h' ha n" using translates_owned[OF M(2), of Load a "of_nat n" ha] M(4) assms(2)
      by (simp add: unat_access_size)
    then obtain bs where "host_read h' ha n = Some bs" using host_read_owned by blast
    then show ?thesis using M Ok by (simp add: mapping_load_def)
  qed (use M in \<open>simp add: mapping_load_def\<close>)
qed

lemma mapping_store_ok:
  assumes "mapping_ok h m" "n \<le> 8"
  shows "\<exists>m' h' r. mapping_store n m h v a = Some (m', h', r) \<and> mapping_ok h' m' \<and> dom h \<subseteq> dom h' \<and>
    (\<forall>ha. r = Ok ha \<longrightarrow> translates m' Store a (of_nat n) ha \<and>
       (\<exists>h1. map_with_access_violation_handler m h Store a (of_nat n) = Some (m', h1, Ok ha) \<and>
             host_write h1 ha (le_bytes n v) = Some h'))"
proof -
  obtain m' h1 r where M: "map_with_access_violation_handler m h Store a (of_nat n) = Some (m', h1, r)"
    "mapping_ok h1 m'" "dom h \<subseteq> dom h1" "\<forall>ha. r = Ok ha \<longrightarrow> translates m' Store a (of_nat n) ha"
    using map_with_handler_ok[OF assms(1)] by blast
  show ?thesis
  proof (cases r)
    case (Ok ha)
    then have "owned h1 ha n" using translates_owned[OF M(2), of Store a "of_nat n" ha] M(4) assms(2)
      by (simp add: unat_access_size)
    then obtain h' where h': "host_write h1 ha (le_bytes n v) = Some h'" "dom h' = dom h1"
      using host_write_owned[of h1 ha "le_bytes n v"] by auto
    then have "mapping_ok h' m'" using mapping_ok_mono[OF M(2)] by simp
    then show ?thesis using M Ok h' by (simp add: mapping_store_def)
  qed (use M in \<open>simp add: mapping_store_def\<close>)
qed

lemma vm_to_host_Store_Load:
  "vm_to_host r Store a n = Some ha \<Longrightarrow> vm_to_host r Load a n = Some ha"
  by (simp add: vm_to_host_def split: if_splits)

lemma load_after_store:
  assumes "mapping_ok h m" "n \<le> 8" "mapping_store n m h v a = Some (m1, h1, Ok ha)"
  shows "\<exists>m2. mapping_load n m1 h1 a = Some (m2, h1, Ok (le_word (le_bytes n v))) \<and> mapping_ok h1 m2"
proof -
  from mapping_store_ok[OF assms(1,2), of v a] assms(3) obtain h0 where
    S: "mapping_ok h1 m1" "translates m1 Store a (of_nat n) ha" "host_write h0 ha (le_bytes n v) = Some h1"
    by auto
  have "translates m1 Load a (of_nat n) ha"
    using S(2) vm_to_host_Store_Load by (auto simp: translates_def)
  from map_with_handler_hit[OF S(1) this] obtain m2 where
    "map_with_access_violation_handler m1 h1 Load a (of_nat n) = Some (m2, h1, Ok ha)" "mapping_ok h1 m2"
    by blast
  moreover have "host_read h1 ha n = Some (le_bytes n v)"
    using host_read_write[OF S(3)] assms(2) by simp
  ultimately show ?thesis by (simp add: mapping_load_def)
qed

text \<open>With the default handler an access never changes the regions.\<close>

lemma map_with_default_handler:
  assumes "mapping_ok h m" "access_violation_handler (common_of m) = default_access_violation_handler"
    and "map_with_access_violation_handler m h t a n = Some (m', h', Ok ha)"
  shows "h' = h" "translates m t a n ha" "common_of m' = common_of m"
proof -
  have c: "common m = Some (common_of m)" using assms by (simp add: mapping_ok_def mapping_wf_common)
  obtain m1 where m1: "find_region m a =
      Some (m1, map_option (\<lambda>i. (i, get_regions m ! i)) (mapping_spec m a))"
    "common_of m1 = common_of m"
    using mapping_ok_lookup[OF assms(1)] by metis
  obtain e where e: "generate_access_violation (common_of m) t a n = Err e"
    using generate_access_violation_Err by blast
  show "h' = h" "translates m t a n ha" "common_of m' = common_of m"
    using assms(2,3) m1 c e
    by (auto simp: map_with_access_violation_handler_def default_access_violation_handler_def
        translates_def split: option.splits)
qed

section \<open>The two mappings compared\<close>

lemma vm_to_host_empty: "len r = 0 \<Longrightarrow> 0 < n \<Longrightarrow> vm_to_host r t a n = None"
proof -
  have "g + n \<noteq> 0" if "unat g + unat n < 2 ^ 64" "0 < n" for g n :: u64
  proof
    assume "g + n = 0"
    then have "unat (g + n) = 0" by simp
    then have "unat n = 0" using that(1) by (simp add: unat_word_ariths)
    then show False using that(2) by (simp add: word_less_nat_alt)
  qed
  then show "len r = 0 \<Longrightarrow> 0 < n \<Longrightarrow> vm_to_host r t a n = None"
    by (simp add: vm_to_host_def Let_def checked_add_def)
qed

text \<open>The number of virtual addresses a region spans, and regions that stay inside their slot.\<close>

definition span :: "MemoryRegion \<Rightarrow> nat" where
  "span r = (if vm_gap_shift r = 63 then unat (len r) else 2 * unat (len r))"

definition in_slot :: "MemoryRegion \<Rightarrow> bool" where
  "in_slot r \<longleftrightarrow> unat (vm_addr r) mod 2 ^ 32 + span r \<le> 2 ^ 32 \<and> unat (vm_addr r) + span r < 2 ^ 64"

lemma host_offset_half:
  assumes "\<not> in_gap s i"
  shows "i \<le> 2 * host_offset s i"
proof -
  have "i div 2 ^ Suc s = i div 2 ^ s div 2" by (simp only: power_Suc2 div_mult2_eq)
  then have "2 * host_offset s i = i div 2 ^ s * 2 ^ s + 2 * (i mod 2 ^ s)"
    using assms by (simp add: host_offset_def in_gap_def)
  then show ?thesis using div_mult_mod_eq[of i "2 ^ s"] by linarith
qed

lemma translated_in_span:
  assumes "region_wf r" "vm_to_host r t a n = Some ha" "0 < n"
  shows "vm_addr r \<le> a" "unat a - unat (vm_addr r) < span r"
proof -
  have wf: "unat (vm_gap_shift r) < 64" "unat (host_addr r) + unat (len r) < 2 ^ 64"
    using assms(1) by (simp_all add: region_wf_def)
  let ?i = "unat a - unat (vm_addr r)" and ?s = "unat (vm_gap_shift r)"
  note V = vm_to_host_SomeD[OF assms(2) wf]
  show "vm_addr r \<le> a" by (rule V(2))
  have o: "host_offset ?s ?i < unat (len r)"
    using V(4,5) assms(3) by (simp add: word_less_nat_alt)
  show "?i < span r"
  proof (cases "vm_gap_shift r = 63")
    case True
    then have "\<not> odd (?i div 2 ^ 63)" using V(3) by (simp add: in_gap_def)
    moreover have "?i div 2 ^ 63 < 2"
      using le_less_trans[OF diff_le_self[of "unat a" "unat (vm_addr r)"] unat_lt_u64]
      by (intro less_mult_imp_div_less) simp
    moreover have "even k \<Longrightarrow> k < 2 \<Longrightarrow> k = 0" for k :: nat by presburger
    ultimately have "?i div 2 ^ 63 = 0" by blast
    then have "?i < 2 ^ 63" by simp
    then show ?thesis using o True by (simp add: host_offset_def span_def)
  next
    case False
    then show ?thesis using o host_offset_half[OF V(3)] by (simp add: span_def)
  qed
qed

lemma unat_range_end:
  assumes "unat (vm_addr r) + span r < 2 ^ 64"
  shows "unat (snd (vm_addr_range r)) = unat (vm_addr r) + span r"
proof -
  have m: "unat (len r * 2) = 2 * unat (len r)" if "2 * unat (len r) < 2 ^ 64"
    using that by (simp add: unat_word_ariths)
  have a: "unat (saturating_add x y) = unat x + unat y" if "unat x + unat y < 2 ^ 64" for x y :: u64
    using that by (simp add: saturating_add_def unat_word_ariths)
  have "unat (saturating_mul (len r) 2) = 2 * unat (len r)" if "2 * unat (len r) < 2 ^ 64"
    using that m by (simp add: saturating_mul_def mult.commute)
  then show ?thesis
    using assms a[of "vm_addr r" "len r"] a[of "vm_addr r" "saturating_mul (len r) 2"]
    by (cases "vm_gap_shift r = 63") (simp_all add: vm_addr_range_def span_def)
qed

lemma translated_in_range:
  assumes "region_wf r" "in_slot r" "vm_to_host r t a n = Some ha" "0 < n"
  shows "range_contains (vm_addr_range r) a" "slot_of a = slot_of (vm_addr r)"
proof -
  note T = translated_in_span[OF assms(1,3,4)]
  have e: "unat (snd (vm_addr_range r)) = unat (vm_addr r) + span r"
    using assms(2) by (intro unat_range_end) (simp add: in_slot_def)
  have le: "unat (vm_addr r) \<le> unat a" using T(1) by (simp add: word_le_nat_alt)
  then show "range_contains (vm_addr_range r) a"
    using T e by (simp add: range_contains_def word_less_nat_alt)
  have "unat a < (unat (vm_addr r) div 2 ^ 32 + 1) * 2 ^ 32"
    using T(2) le assms(2) div_mult_mod_eq[of "unat (vm_addr r)" "2 ^ 32"]
    unfolding in_slot_def distrib_right by linarith
  then have "unat a div 2 ^ 32 < unat (vm_addr r) div 2 ^ 32 + 1" by (rule less_mult_imp_div_less)
  moreover have "unat (vm_addr r) div 2 ^ 32 \<le> unat a div 2 ^ 32" using le by (rule div_le_mono)
  ultimately show "slot_of a = slot_of (vm_addr r)" by (simp add: slot_of_eq)
qed

section \<open>Properties\<close>

text \<open>A mapping of the example stack in host memory of its own, for the witnesses.\<close>

definition example_host :: host_memory where
  "example_host a = (if 0x1000 \<le> a \<and> a < 0x3000 then Some 0 else None)"

definition example_mapping :: MemoryMapping where
  "example_mapping = Unaligned \<lparr>um_common = \<lparr>regions = [example_stack],
     access_violation_handler = default_access_violation_handler,
     common_allow_memory_region_zero = True, common_max_call_depth = 64,
     common_stack_frame_size = 4096, common_sbpf_version = V0\<rparr>,
     region_addresses = [0x200000000], region_index_lookup = [0], cache = cache_new\<rparr>"

lemma example_mapping_ok: "mapping_ok example_host example_mapping"
proof -
  have "inorder 1 0 = [0]" by (simp add: inorder.simps)
  then have "unaligned_wf (case example_mapping of Unaligned u \<Rightarrow> u)"
    by (simp add: example_mapping_def unaligned_wf_def regions_disjoint_def eytzinger_ordered_def
        example_stack_fields)
  moreover have "owned example_host 0x1000 0x2000"
  proof -
    have "example_host (0x1000 + of_nat i) \<noteq> None" if "i < 0x2000" for i
      using that by (simp add: example_host_def word_le_nat_alt word_less_nat_alt unat_word_ariths unat_of_nat)
    then show ?thesis by (simp add: owned_def)
  qed
  ultimately show ?thesis
    by (simp add: mapping_ok_def region_ok_def example_mapping_def example_stack_fields)
qed

lemma example_mapping_common:
  "access_violation_handler (common_of example_mapping) = default_access_violation_handler"
  "get_regions example_mapping = [example_stack]" "mapping_spec example_mapping 0x200002008 = Some 0"
  by (simp_all add: example_mapping_def last_region_le_def example_stack_fields)

lemma example_store:
  "\<exists>m' h'. mapping_store 8 example_mapping example_host 42 0x200002008 = Some (m', h', Ok 0x2008)"
proof -
  have t: "translates example_mapping Store 0x200002008 (of_nat 8) 0x2008"
    by (simp add: translates_def example_mapping_common example_stack_access)
  then have "owned example_host 0x2008 8" using translates_owned[OF example_mapping_ok] by fastforce
  then obtain h' where "host_write example_host 0x2008 (le_bytes 8 (42 :: u64)) = Some h'"
    using host_write_owned[of example_host "0x2008" "le_bytes 8 (42 :: u64)"] by auto
  moreover obtain m' where "map_with_access_violation_handler example_mapping example_host Store
      0x200002008 (of_nat 8) = Some (m', example_host, Ok 0x2008)"
    using map_with_handler_hit[OF example_mapping_ok t] by blast
  ultimately show ?thesis by (simp add: mapping_store_def)
qed

text \<open>C5: memory safety of loads and stores.  On a well-formed mapping whose regions the process
  owns, with any handler that only hands out owned regions, a load or store of up to eight bytes at
  any virtual address never touches memory the process does not own: it returns a value or an
  error, keeps all host memory owned, and leaves a mapping that satisfies the same invariant.\<close>

theorem load_store_safe:
  assumes "mapping_ok h m" and "n \<le> 8"
  shows "(\<exists>m' h' r. mapping_load n m h a = Some (m', h', r) \<and> mapping_ok h' m' \<and> dom h \<subseteq> dom h') \<and>
    (\<exists>m' h' r. mapping_store n m h v a = Some (m', h', r) \<and> mapping_ok h' m' \<and> dom h \<subseteq> dom h')"
  using mapping_load_ok[OF assms, of a] mapping_store_ok[OF assms, of v a] by blast

theorem load_store_safe_witness:
  "mapping_ok example_host example_mapping \<and>
   (\<exists>m' h' r. mapping_load 8 example_mapping example_host 7 = Some (m', h', r) \<and> mapping_ok h' m')"
  using load_store_safe[OF example_mapping_ok, of 8 7 0] example_mapping_ok by auto

text \<open>C16: a load reads back what a store of the same width wrote.  After a successful store of the
  \<open>n\<close> low bytes of \<open>v\<close>, a load of \<open>n\<close> bytes at the same virtual address succeeds in the resulting
  state without changing host memory, and returns those bytes.\<close>

theorem store_load_roundtrip:
  assumes "mapping_ok h m" and "n \<le> 8" and "mapping_store n m h v a = Some (m1, h1, Ok ha)"
  shows "\<exists>m2. mapping_load n m1 h1 a = Some (m2, h1, Ok (le_word (le_bytes n v))) \<and> mapping_ok h1 m2"
  by (rule load_after_store[OF assms])

theorem store_load_roundtrip_witness:
  "\<exists>m1 h1 m2. mapping_store 8 example_mapping example_host 42 0x200002008 = Some (m1, h1, Ok 0x2008) \<and>
     mapping_load 8 m1 h1 0x200002008 = Some (m2, h1, Ok 42)"
proof -
  obtain m1 h1 where s: "mapping_store 8 example_mapping example_host 42 0x200002008 = Some (m1, h1, Ok 0x2008)"
    using example_store by blast
  have "le_word (le_bytes 8 (42 :: u64)) = (42 :: u64)" by (rule le_word_le_bytes) simp
  then show ?thesis using store_load_roundtrip[OF example_mapping_ok _ s] s by auto
qed





end
