(* ===== verification/Vm.thy ===== *)
theory Vm
  imports Executable Memory_Mapping
begin

text \<open>
  The virtual machine state of \<^verbatim>\<open>src/src/vm.rs\<close>: \<open>ContextObject\<close> with the test implementation of
  \<^verbatim>\<open>src/test_utils/src/lib.rs\<close>, \<open>CallFrame\<close>, \<open>EbpfVm\<close> with its constructor, and the invocation of
  built-in functions through the adapter of \<open>declare_builtin_function\<close>
  (\<^verbatim>\<open>src/src/program.rs\<close>).

  A built-in function is an identifier; what its Rust body does is a parameter \<open>rust\<close> of the
  definitions.  The host memory of the process is carried along as the component \<open>host\<close> of the
  machine state.  The field for the debugger port and the encryption key of the environment
  pointer have no effect on the behaviour and are left out.
\<close>

section \<open>Context objects\<close>

record 'c ContextObject =
  consume :: "'c \<Rightarrow> u64 \<Rightarrow> 'c"
  get_remaining :: "'c \<Rightarrow> u64"

text \<open>What the virtual machine relies on: consuming lowers the remaining budget, saturating at
  zero.\<close>

locale context_object =
  fixes ops :: "'c ContextObject"
  assumes remaining_after_consume:
    "get_remaining ops (consume ops c n) = saturating_sub (get_remaining ops c) n"
begin

lemma consume_decreases: "get_remaining ops (consume ops c n) \<le> get_remaining ops c"
  by (auto simp: remaining_after_consume saturating_sub_def word_le_nat_alt unat_sub)

lemma consume_exact:
  "n \<le> get_remaining ops c \<Longrightarrow> unat (get_remaining ops (consume ops c n)) = unat (get_remaining ops c) - unat n"
  by (simp add: remaining_after_consume saturating_sub_def unat_sub)

end

record TestContextObject =
  remaining :: u64

definition TestContextObject_new :: "u64 \<Rightarrow> TestContextObject" where
  "TestContextObject_new n = \<lparr>remaining = n\<rparr>"

definition test_context_object :: "TestContextObject ContextObject" where
  "test_context_object =
     \<lparr>consume = (\<lambda>c amount. c\<lparr>remaining := saturating_sub (remaining c) amount\<rparr>),
      get_remaining = remaining\<rparr>"

interpretation test_ctx: context_object test_context_object
  by unfold_locales (simp add: test_context_object_def)

section \<open>Machine state\<close>

record CallFrame =
  caller_saved_registers :: "u64 list"
  frame_pointer :: u64
  target_pc :: u64

definition CallFrame_default :: CallFrame where
  "CallFrame_default =
     \<lparr>caller_saved_registers = replicate SCRATCH_REGS 0, frame_pointer = 0, target_pc = 0\<rparr>"

record ('c, 'f) EbpfVm =
  host_stack_pointer :: u64
  call_depth :: u64
  context_object_pointer :: 'c
  previous_instruction_meter :: u64
  due_insn_count :: u64
  stopwatch_numerator :: u64
  stopwatch_denominator :: u64
  registers :: "u64 list"
  program_result :: ProgramResult
  memory_mapping :: MemoryMapping
  call_frames :: "CallFrame list"
  vm_loader :: "'f BuiltinProgram"
  register_trace :: "u64 list list"
  host :: host_memory

definition EbpfVm_new ::
  "host_memory \<Rightarrow> 'f BuiltinProgram \<Rightarrow> SBPFVersion \<Rightarrow> 'c \<Rightarrow> MemoryMapping \<Rightarrow> usize \<Rightarrow>
   ('c, 'f) EbpfVm option" where
  "EbpfVm_new h loader version ctx mapping stack_len =
     do {
       config \<leftarrow> get_config loader;
       regs \<leftarrow> slice_set (replicate 12 0) FRAME_PTR_REG
         (saturating_add MM_STACK_START
            (of_nat (if \<not> manual_stack_frame_bump version then stack_frame_size config else stack_len)));
       let mapping = (if \<not> enable_address_translation config then new_identity else mapping);
       Some \<lparr>host_stack_pointer = 0,
             call_depth = 0,
             context_object_pointer = ctx,
             previous_instruction_meter = 0,
             due_insn_count = 0,
             stopwatch_numerator = 0,
             stopwatch_denominator = 0,
             registers = regs,
             program_result = Ok 0,
             memory_mapping = mapping,
             call_frames = replicate (max_call_depth config) CallFrame_default,
             vm_loader = loader,
             register_trace = [],
             host = h\<rparr>
     }"

section \<open>Built-in functions\<close>

text \<open>The Rust body of a built-in function: from the context object, the five arguments, the memory
  mapping and the host memory to their new values and a result.\<close>

type_synonym ('c, 'f) builtin_semantics =
  "'f \<Rightarrow> 'c \<Rightarrow> u64 \<Rightarrow> u64 \<Rightarrow> u64 \<Rightarrow> u64 \<Rightarrow> u64 \<Rightarrow> MemoryMapping \<Rightarrow> host_memory \<Rightarrow>
   ('c \<times> MemoryMapping \<times> host_memory \<times> (BoxedError + u64)) option"

definition builtin_vm ::
  "'c ContextObject \<Rightarrow> ('c, 'f) builtin_semantics \<Rightarrow> 'f \<Rightarrow> ('c, 'f) EbpfVm \<Rightarrow>
   u64 \<Rightarrow> u64 \<Rightarrow> u64 \<Rightarrow> u64 \<Rightarrow> u64 \<Rightarrow> ('c, 'f) EbpfVm option" where
  "builtin_vm ops rust f vm a b c d e =
     do {
       config \<leftarrow> get_config (vm_loader vm);
       vm \<leftarrow> (if enable_instruction_meter config
              then do {
                amount \<leftarrow> sub_ovf (previous_instruction_meter vm) (due_insn_count vm);
                Some (vm\<lparr>context_object_pointer := consume ops (context_object_pointer vm) amount\<rparr>)
              }
              else Some vm);
       (ctx, mapping, h, result) \<leftarrow>
         rust f (context_object_pointer vm) a b c d e (memory_mapping vm) (host vm);
       let vm = vm\<lparr>context_object_pointer := ctx, memory_mapping := mapping, host := h,
                   program_result := stable_result_from (map_sum SyscallError id result)\<rparr>;
       Some (if enable_instruction_meter config
             then vm\<lparr>previous_instruction_meter := get_remaining ops (context_object_pointer vm)\<rparr>
             else vm)
     }"

definition invoke_function ::
  "'c ContextObject \<Rightarrow> ('c, 'f) builtin_semantics \<Rightarrow> ('c, 'f) EbpfVm \<Rightarrow> 'f \<Rightarrow> ('c, 'f) EbpfVm option" where
  "invoke_function ops rust vm f =
     do {
       a \<leftarrow> slice_get (registers vm) 1;
       b \<leftarrow> slice_get (registers vm) 2;
       c \<leftarrow> slice_get (registers vm) 3;
       d \<leftarrow> slice_get (registers vm) 4;
       e \<leftarrow> slice_get (registers vm) 5;
       builtin_vm ops rust f vm a b c d e
     }"

end
