(* ===== verification/Interpreter.thy ===== *)
theory Interpreter
  imports Vm
begin

text \<open>
  The interpreter (\<^verbatim>\<open>src/src/interpreter.rs\<close>).  The state is the \<open>Interpreter\<close> structure; the
  \<open>match\<close> of \<open>step\<close> is the list of its arms in source order, grouped by instruction class, and the
  first arm whose opcode and guard apply is executed.  The arms of one shape share a definition
  that reads the registers, computes and writes back; what they compute is written out per arm.
  An arm either continues with the next program counter or ends the execution, which is the
  \<open>return false\<close> of the source.
\<close>

unbundle bit_operations_syntax

section \<open>State\<close>

record ('c, 'f) Interpreter =
  vm :: "('c, 'f) EbpfVm"
  executable :: "'f Executable"
  program :: bytes
  program_vm_addr :: u64
  reg :: "u64 list"

definition Interpreter_new ::
  "('c, 'f) EbpfVm \<Rightarrow> 'f Executable \<Rightarrow> u64 list \<Rightarrow> ('c, 'f) Interpreter option" where
  "Interpreter_new m exe regs =
     do {
       (program_vm_addr, program) \<leftarrow> get_text_bytes exe;
       Some \<lparr>vm = m, executable = exe, program = program, program_vm_addr = program_vm_addr, reg = regs\<rparr>
     }"

datatype 's outcome =
    Next 's u64
  | Halt 's

type_synonym ('c, 'f) exec_arm = "u8 \<times> bool \<times> ('c, 'f) Interpreter outcome option"

section \<open>Macros and helpers\<close>

definition throw_error ::
  "('c, 'f) Interpreter \<Rightarrow> EbpfError \<Rightarrow> ('c, 'f) Interpreter outcome option" where
  "throw_error it err =
     do {
       pc \<leftarrow> slice_get (reg it) 11;
       regs \<leftarrow> slice_set (registers (vm it)) 11 pc;
       Some (Halt (it\<lparr>vm := (vm it)\<lparr>registers := regs, program_result := Err err\<rparr>\<rparr>))
     }"

definition check_pc ::
  "('c, 'f) Interpreter \<Rightarrow> u64 \<Rightarrow> ('c, 'f) Interpreter outcome option" where
  "check_pc it target =
     (if is_pc_in_program (program it) (unat target) then Some (Next it target)
      else throw_error it CallOutsideTextSegment)"

text \<open>\<open>push_frame\<close>: on success the updated state, otherwise the halted one.\<close>

definition push_frame ::
  "('c, 'f) Interpreter \<Rightarrow> Config \<Rightarrow> (('c, 'f) Interpreter + ('c, 'f) Interpreter) option" where
  "push_frame it config =
     do {
       frame \<leftarrow> slice_get (call_frames (vm it)) (unat (call_depth (vm it)));
       saved \<leftarrow> slice_range (reg it) FIRST_SCRATCH_REG (FIRST_SCRATCH_REG + SCRATCH_REGS);
       fp \<leftarrow> slice_get (reg it) FRAME_PTR_REG;
       pc \<leftarrow> slice_get (reg it) 11;
       return_pc \<leftarrow> add_ovf pc 1;
       frames \<leftarrow> slice_set (call_frames (vm it)) (unat (call_depth (vm it)))
         (frame\<lparr>caller_saved_registers := saved, frame_pointer := fp, target_pc := return_pc\<rparr>);
       depth \<leftarrow> add_ovf (call_depth (vm it)) 1;
       let it = it\<lparr>vm := (vm it)\<lparr>call_frames := frames, call_depth := depth\<rparr>\<rparr>;
       if unat depth = max_call_depth config
       then do {
         out \<leftarrow> throw_error it CallDepthExceeded;
         case out of Halt it \<Rightarrow> Some (Inl it) | Next it _ \<Rightarrow> Some (Inl it)
       }
       else if \<not> manual_stack_frame_bump (get_sbpf_version (executable it))
       then do {
         size \<leftarrow> usize_mul_ovf (stack_frame_size config)
           (if stack_frame_gaps (get_sbpf_version (executable it)) \<and> enable_stack_frame_gaps config
            then 2 else 1);
         regs \<leftarrow> slice_set (reg it) FRAME_PTR_REG (fp + of_nat size);
         Some (Inr (it\<lparr>reg := regs\<rparr>))
       }
       else Some (Inr it)
     }"

definition sign_extension :: "('c, 'f) Interpreter \<Rightarrow> i32 \<Rightarrow> u64" where
  "sign_extension it value =
     (if explicit_sign_extension_of_results (get_sbpf_version (executable it))
      then ucast value else scast value)"

definition set_reg ::
  "('c, 'f) Interpreter \<Rightarrow> u8 \<Rightarrow> u64 \<Rightarrow> u64 \<Rightarrow> ('c, 'f) Interpreter outcome option" where
  "set_reg it r v next_pc =
     do { regs \<leftarrow> slice_set (reg it) (unat r) v; Some (Next (it\<lparr>reg := regs\<rparr>) next_pc) }"

section \<open>Shapes of arms\<close>

definition alu_imm where
  "alu_imm it insn next_pc f =
     do { d \<leftarrow> slice_get (reg it) (unat (dst insn)); set_reg it (dst insn) (f d (imm insn)) next_pc }"

definition alu_reg where
  "alu_reg it insn next_pc f =
     do {
       d \<leftarrow> slice_get (reg it) (unat (dst insn));
       s \<leftarrow> slice_get (reg it) (unat (src insn));
       set_reg it (dst insn) (f d s) next_pc
     }"

definition div_imm where
  "div_imm it insn next_pc f =
     do {
       d \<leftarrow> slice_get (reg it) (unat (dst insn));
       r \<leftarrow> f d (imm insn);
       set_reg it (dst insn) r next_pc
     }"

definition div_reg where
  "div_reg it insn next_pc is_zero f =
     do {
       s \<leftarrow> slice_get (reg it) (unat (src insn));
       if is_zero s then throw_error it DivideByZero
       else do {
         d \<leftarrow> slice_get (reg it) (unat (dst insn));
         r \<leftarrow> f d s;
         set_reg it (dst insn) r next_pc
       }
     }"

definition sdiv_imm where
  "sdiv_imm it insn next_pc overflows f =
     do {
       d \<leftarrow> slice_get (reg it) (unat (dst insn));
       if overflows d (imm insn) then throw_error it DivideOverflow
       else do { r \<leftarrow> f d (imm insn); set_reg it (dst insn) r next_pc }
     }"

definition sdiv_reg where
  "sdiv_reg it insn next_pc is_zero overflows f =
     do {
       s \<leftarrow> slice_get (reg it) (unat (src insn));
       if is_zero s then throw_error it DivideByZero
       else do {
         d \<leftarrow> slice_get (reg it) (unat (dst insn));
         if overflows d s then throw_error it DivideOverflow
         else do { r \<leftarrow> f d s; set_reg it (dst insn) r next_pc }
       }
     }"

definition endian_arm where
  "endian_arm it insn next_pc f16 f32 f64 =
     do {
       d \<leftarrow> slice_get (reg it) (unat (dst insn));
       if imm insn = 16 then set_reg it (dst insn) (f16 d) next_pc
       else if imm insn = 32 then set_reg it (dst insn) (f32 d) next_pc
       else if imm insn = 64 then set_reg it (dst insn) (f64 d) next_pc
       else throw_error it InvalidInstruction
     }"

text \<open>Memory accesses of \<open>n\<close> bytes through the memory mapping.\<close>

definition load_arm where
  "load_arm n it insn next_pc =
     do {
       s \<leftarrow> slice_get (reg it) (unat (src insn));
       let vaddr = s + scast (off insn);
       (mapping, h, result) \<leftarrow> mapping_load n (memory_mapping (vm it)) (host (vm it)) vaddr;
       let it = it\<lparr>vm := (vm it)\<lparr>memory_mapping := mapping, host := h\<rparr>\<rparr>;
       case result of
         Ok value \<Rightarrow> set_reg it (dst insn) value next_pc
       | Err err \<Rightarrow> throw_error it err
     }"

definition store_access where
  "store_access n it insn next_pc value =
     do {
       d \<leftarrow> slice_get (reg it) (unat (dst insn));
       let vaddr = d + scast (off insn);
       (mapping, h, result) \<leftarrow> mapping_store n (memory_mapping (vm it)) (host (vm it)) value vaddr;
       let it = it\<lparr>vm := (vm it)\<lparr>memory_mapping := mapping, host := h\<rparr>\<rparr>;
       case result of
         Ok _ \<Rightarrow> Some (Next it next_pc)
       | Err err \<Rightarrow> throw_error it err
     }"

definition store_imm_arm where
  "store_imm_arm n it insn next_pc = store_access n it insn next_pc (imm insn)"

definition store_reg_arm where
  "store_reg_arm n it insn next_pc =
     do { s \<leftarrow> slice_get (reg it) (unat (src insn)); store_access n it insn next_pc s }"

definition jump where
  "jump it insn next_pc = do { target \<leftarrow> signed_add_ovf next_pc (scast (off insn)); Some (Next it target) }"

definition jump_imm where
  "jump_imm it insn next_pc cond =
     do {
       d \<leftarrow> slice_get (reg it) (unat (dst insn));
       if cond d (imm insn) then jump it insn next_pc else Some (Next it next_pc)
     }"

definition jump_reg where
  "jump_reg it insn next_pc cond =
     do {
       d \<leftarrow> slice_get (reg it) (unat (dst insn));
       s \<leftarrow> slice_get (reg it) (unat (src insn));
       if cond d s then jump it insn next_pc else Some (Next it next_pc)
     }"

section \<open>The arms\<close>

definition exec_ld ::
  "('c, 'f) Interpreter \<Rightarrow> Insn \<Rightarrow> u64 \<Rightarrow> ('c, 'f) exec_arm list" where
  "exec_ld it insn next_pc =
     (let v = get_sbpf_version (executable it) in
     [(LD_DW_IMM, \<not> disable_lddw v,
        do {
          insn \<leftarrow> augment_lddw_unchecked (program it) insn;
          regs \<leftarrow> slice_set (reg it) (unat (dst insn)) (imm insn);
          pc \<leftarrow> slice_get regs 11;
          pc \<leftarrow> add_ovf pc 1;
          regs \<leftarrow> slice_set regs 11 pc;
          next_pc \<leftarrow> add_ovf next_pc 1;
          Some (Next (it\<lparr>reg := regs\<rparr>) next_pc)
        })])"

definition exec_ldx ::
  "('c, 'f) Interpreter \<Rightarrow> Insn \<Rightarrow> u64 \<Rightarrow> ('c, 'f) exec_arm list" where
  "exec_ldx it insn next_pc =
     (let v = get_sbpf_version (executable it) in
     [(LD_B_REG, \<not> move_memory_instruction_classes v, load_arm 1 it insn next_pc),
      (LD_H_REG, \<not> move_memory_instruction_classes v, load_arm 2 it insn next_pc),
      (LD_W_REG, \<not> move_memory_instruction_classes v, load_arm 4 it insn next_pc),
      (LD_DW_REG, \<not> move_memory_instruction_classes v, load_arm 8 it insn next_pc)])"

definition exec_st ::
  "('c, 'f) Interpreter \<Rightarrow> Insn \<Rightarrow> u64 \<Rightarrow> ('c, 'f) exec_arm list" where
  "exec_st it insn next_pc =
     (let v = get_sbpf_version (executable it) in
     [(ST_B_IMM, \<not> move_memory_instruction_classes v, store_imm_arm 1 it insn next_pc),
      (ST_H_IMM, \<not> move_memory_instruction_classes v, store_imm_arm 2 it insn next_pc),
      (ST_W_IMM, \<not> move_memory_instruction_classes v, store_imm_arm 4 it insn next_pc),
      (ST_DW_IMM, \<not> move_memory_instruction_classes v, store_imm_arm 8 it insn next_pc)])"

definition exec_stx ::
  "('c, 'f) Interpreter \<Rightarrow> Insn \<Rightarrow> u64 \<Rightarrow> ('c, 'f) exec_arm list" where
  "exec_stx it insn next_pc =
     (let v = get_sbpf_version (executable it) in
     [(ST_B_REG, \<not> move_memory_instruction_classes v, store_reg_arm 1 it insn next_pc),
      (ST_H_REG, \<not> move_memory_instruction_classes v, store_reg_arm 2 it insn next_pc),
      (ST_W_REG, \<not> move_memory_instruction_classes v, store_reg_arm 4 it insn next_pc),
      (ST_DW_REG, \<not> move_memory_instruction_classes v, store_reg_arm 8 it insn next_pc)])"

definition exec_alu32_load ::
  "('c, 'f) Interpreter \<Rightarrow> Insn \<Rightarrow> u64 \<Rightarrow> ('c, 'f) exec_arm list" where
  "exec_alu32_load it insn next_pc =
     (let v = get_sbpf_version (executable it) in
     [(ADD32_IMM, True, alu_imm it insn next_pc (\<lambda>d i. sign_extension it (ucast d + ucast i))),
      (ADD32_REG, True, alu_reg it insn next_pc (\<lambda>d s. sign_extension it (ucast d + ucast s))),
      (SUB32_IMM, True,
        alu_imm it insn next_pc (\<lambda>d i. if swap_sub_reg_imm_operands v
          then sign_extension it (ucast i - ucast d)
          else sign_extension it (ucast d - ucast i))),
      (SUB32_REG, True, alu_reg it insn next_pc (\<lambda>d s. sign_extension it (ucast d - ucast s))),
      (MUL32_IMM, \<not> enable_pqr v,
        alu_imm it insn next_pc (\<lambda>d i. sign_extension it (ucast d * ucast i))),
      (MUL32_REG, \<not> enable_pqr v,
        alu_reg it insn next_pc (\<lambda>d s. sign_extension it (ucast d * ucast s))),
      (LD_1B_REG, move_memory_instruction_classes v, load_arm 1 it insn next_pc),
      (DIV32_IMM, \<not> enable_pqr v,
        div_imm it insn next_pc (\<lambda>d i. map_option ucast (unsigned_div (ucast d :: u32) (ucast i)))),
      (DIV32_REG, \<not> enable_pqr v,
        div_reg it insn next_pc (\<lambda>s. (ucast s :: u32) = 0)
          (\<lambda>d s. map_option ucast (unsigned_div (ucast d :: u32) (ucast s)))),
      (LD_2B_REG, move_memory_instruction_classes v, load_arm 2 it insn next_pc),
      (OR32_IMM, True, alu_imm it insn next_pc (\<lambda>d i. ucast (ucast d OR ucast i :: u32))),
      (OR32_REG, True, alu_reg it insn next_pc (\<lambda>d s. ucast (ucast d OR ucast s :: u32))),
      (AND32_IMM, True, alu_imm it insn next_pc (\<lambda>d i. ucast (ucast d AND ucast i :: u32))),
      (AND32_REG, True, alu_reg it insn next_pc (\<lambda>d s. ucast (ucast d AND ucast s :: u32))),
      (LSH32_IMM, True,
        alu_imm it insn next_pc (\<lambda>d i. ucast (wrapping_shl (ucast d :: u32) (ucast i)))),
      (LSH32_REG, True,
        alu_reg it insn next_pc (\<lambda>d s. ucast (wrapping_shl (ucast d :: u32) (ucast s)))),
      (RSH32_IMM, True,
        alu_imm it insn next_pc (\<lambda>d i. ucast (wrapping_shr (ucast d :: u32) (ucast i)))),
      (RSH32_REG, True,
        alu_reg it insn next_pc (\<lambda>d s. ucast (wrapping_shr (ucast d :: u32) (ucast s)))),
      (NEG32, \<not> disable_neg v,
        alu_imm it insn next_pc (\<lambda>d _. scast (- ucast d :: i32) AND 0xffffffff)),
      (LD_4B_REG, move_memory_instruction_classes v, load_arm 4 it insn next_pc),
      (MOD32_IMM, \<not> enable_pqr v,
        div_imm it insn next_pc (\<lambda>d i. map_option ucast (unsigned_rem (ucast d :: u32) (ucast i)))),
      (MOD32_REG, \<not> enable_pqr v,
        div_reg it insn next_pc (\<lambda>s. (ucast s :: u32) = 0)
          (\<lambda>d s. map_option ucast (unsigned_rem (ucast d :: u32) (ucast s)))),
      (LD_8B_REG, move_memory_instruction_classes v, load_arm 8 it insn next_pc),
      (XOR32_IMM, True, alu_imm it insn next_pc (\<lambda>d i. ucast (ucast d XOR ucast i :: u32))),
      (XOR32_REG, True, alu_reg it insn next_pc (\<lambda>d s. ucast (ucast d XOR ucast s :: u32))),
      (MOV32_IMM, True, alu_imm it insn next_pc (\<lambda>_ i. ucast (ucast i :: u32))),
      (MOV32_REG, True,
        alu_reg it insn next_pc (\<lambda>_ s. if explicit_sign_extension_of_results v
          then scast (ucast s :: i32)
          else ucast (ucast s :: u32))),
      (ARSH32_IMM, True,
        alu_imm it insn next_pc (\<lambda>d i. ucast (wrapping_sar (ucast d :: i32) (ucast i)))),
      (ARSH32_REG, True,
        alu_reg it insn next_pc (\<lambda>d s. ucast (wrapping_sar (ucast d :: i32) (ucast s)))),
      (LE, \<not> disable_le v,
        endian_arm it insn next_pc (\<lambda>d. ucast (to_le (ucast d :: u16)))
          (\<lambda>d. ucast (to_le (ucast d :: u32))) to_le),
      (BE, True,
        endian_arm it insn next_pc (\<lambda>d. ucast (to_be (ucast d :: u16)))
          (\<lambda>d. ucast (to_be (ucast d :: u32))) to_be)])"

definition exec_alu64_store ::
  "('c, 'f) Interpreter \<Rightarrow> Insn \<Rightarrow> u64 \<Rightarrow> ('c, 'f) exec_arm list" where
  "exec_alu64_store it insn next_pc =
     (let v = get_sbpf_version (executable it) in
     [(ADD64_IMM, True, alu_imm it insn next_pc (\<lambda>d i. d + i)),
      (ADD64_REG, True, alu_reg it insn next_pc (\<lambda>d s. d + s)),
      (SUB64_IMM, True,
        alu_imm it insn next_pc (\<lambda>d i. if swap_sub_reg_imm_operands v
          then i - d
          else d - i)),
      (SUB64_REG, True, alu_reg it insn next_pc (\<lambda>d s. d - s)),
      (MUL64_IMM, \<not> enable_pqr v, alu_imm it insn next_pc (\<lambda>d i. d * i)),
      (ST_1B_IMM, move_memory_instruction_classes v, store_imm_arm 1 it insn next_pc),
      (MUL64_REG, \<not> enable_pqr v, alu_reg it insn next_pc (\<lambda>d s. d * s)),
      (ST_1B_REG, move_memory_instruction_classes v, store_reg_arm 1 it insn next_pc),
      (DIV64_IMM, \<not> enable_pqr v, div_imm it insn next_pc (\<lambda>d i. unsigned_div d i)),
      (ST_2B_IMM, move_memory_instruction_classes v, store_imm_arm 2 it insn next_pc),
      (DIV64_REG, \<not> enable_pqr v,
        div_reg it insn next_pc (\<lambda>s. s = 0) (\<lambda>d s. unsigned_div d s)),
      (ST_2B_REG, move_memory_instruction_classes v, store_reg_arm 2 it insn next_pc),
      (OR64_IMM, True, alu_imm it insn next_pc (\<lambda>d i. d OR i)),
      (OR64_REG, True, alu_reg it insn next_pc (\<lambda>d s. d OR s)),
      (AND64_IMM, True, alu_imm it insn next_pc (\<lambda>d i. d AND i)),
      (AND64_REG, True, alu_reg it insn next_pc (\<lambda>d s. d AND s)),
      (LSH64_IMM, True, alu_imm it insn next_pc (\<lambda>d i. wrapping_shl d (ucast i))),
      (LSH64_REG, True, alu_reg it insn next_pc (\<lambda>d s. wrapping_shl d (ucast s))),
      (RSH64_IMM, True, alu_imm it insn next_pc (\<lambda>d i. wrapping_shr d (ucast i))),
      (RSH64_REG, True, alu_reg it insn next_pc (\<lambda>d s. wrapping_shr d (ucast s))),
      (ST_4B_IMM, move_memory_instruction_classes v, store_imm_arm 4 it insn next_pc),
      (NEG64, \<not> disable_neg v, alu_imm it insn next_pc (\<lambda>d _. - d)),
      (ST_4B_REG, move_memory_instruction_classes v, store_reg_arm 4 it insn next_pc),
      (MOD64_IMM, \<not> enable_pqr v, div_imm it insn next_pc (\<lambda>d i. unsigned_rem d i)),
      (ST_8B_IMM, move_memory_instruction_classes v, store_imm_arm 8 it insn next_pc),
      (MOD64_REG, \<not> enable_pqr v,
        div_reg it insn next_pc (\<lambda>s. s = 0) (\<lambda>d s. unsigned_rem d s)),
      (ST_8B_REG, move_memory_instruction_classes v, store_reg_arm 8 it insn next_pc),
      (XOR64_IMM, True, alu_imm it insn next_pc (\<lambda>d i. d XOR i)),
      (XOR64_REG, True, alu_reg it insn next_pc (\<lambda>d s. d XOR s)),
      (MOV64_IMM, True, alu_imm it insn next_pc (\<lambda>_ i. i)),
      (MOV64_REG, True, alu_reg it insn next_pc (\<lambda>_ s. s)),
      (ARSH64_IMM, True, alu_imm it insn next_pc (\<lambda>d i. wrapping_sar d (ucast i))),
      (ARSH64_REG, True, alu_reg it insn next_pc (\<lambda>d s. wrapping_sar d (ucast s))),
      (HOR64_IMM, disable_lddw v, alu_imm it insn next_pc (\<lambda>d i. d OR wrapping_shl i 32))])"

definition exec_pqr ::
  "('c, 'f) Interpreter \<Rightarrow> Insn \<Rightarrow> u64 \<Rightarrow> ('c, 'f) exec_arm list" where
  "exec_pqr it insn next_pc =
     (let v = get_sbpf_version (executable it) in
     [(LMUL32_IMM, enable_pqr v,
        alu_imm it insn next_pc (\<lambda>d i. ucast (ucast d * ucast i :: u32))),
      (LMUL32_REG, enable_pqr v,
        alu_reg it insn next_pc (\<lambda>d s. ucast (ucast d * ucast s :: u32))),
      (LMUL64_IMM, enable_pqr v, alu_imm it insn next_pc (\<lambda>d i. d * i)),
      (LMUL64_REG, enable_pqr v, alu_reg it insn next_pc (\<lambda>d s. d * s)),
      (UHMUL64_IMM, enable_pqr v,
        alu_imm it insn next_pc (\<lambda>d i. ucast (wrapping_shr (ucast d * ucast (ucast i :: u32) :: u128) 64))),
      (UHMUL64_REG, enable_pqr v,
        alu_reg it insn next_pc (\<lambda>d s. ucast (wrapping_shr (ucast d * ucast s :: u128) 64))),
      (SHMUL64_IMM, enable_pqr v,
        alu_imm it insn next_pc (\<lambda>d i. ucast (wrapping_sar (scast d * scast i :: i128) 64))),
      (SHMUL64_REG, enable_pqr v,
        alu_reg it insn next_pc (\<lambda>d s. ucast (wrapping_sar (scast d * scast s :: i128) 64))),
      (UDIV32_IMM, enable_pqr v,
        div_imm it insn next_pc (\<lambda>d i. map_option ucast (unsigned_div (ucast d :: u32) (ucast i)))),
      (UDIV32_REG, enable_pqr v,
        div_reg it insn next_pc (\<lambda>s. (ucast s :: u32) = 0)
          (\<lambda>d s. map_option ucast (unsigned_div (ucast d :: u32) (ucast s)))),
      (UDIV64_IMM, enable_pqr v,
        div_imm it insn next_pc (\<lambda>d i. unsigned_div d (ucast (ucast i :: u32)))),
      (UDIV64_REG, enable_pqr v,
        div_reg it insn next_pc (\<lambda>s. s = 0) (\<lambda>d s. unsigned_div d s)),
      (UREM32_IMM, enable_pqr v,
        div_imm it insn next_pc (\<lambda>d i. map_option ucast (unsigned_rem (ucast d :: u32) (ucast i)))),
      (UREM32_REG, enable_pqr v,
        div_reg it insn next_pc (\<lambda>s. (ucast s :: u32) = 0)
          (\<lambda>d s. map_option ucast (unsigned_rem (ucast d :: u32) (ucast s)))),
      (UREM64_IMM, enable_pqr v,
        div_imm it insn next_pc (\<lambda>d i. unsigned_rem d (ucast (ucast i :: u32)))),
      (UREM64_REG, enable_pqr v,
        div_reg it insn next_pc (\<lambda>s. s = 0) (\<lambda>d s. unsigned_rem d s)),
      (SDIV32_IMM, enable_pqr v,
        sdiv_imm it insn next_pc (\<lambda>d i. sint (ucast d :: i32) = sint_min TYPE(32) \<and> sint (ucast i :: i32) = - 1)
          (\<lambda>d i. map_option ucast (signed_div (ucast d :: i32) (ucast i :: i32)))),
      (SDIV32_REG, enable_pqr v,
        sdiv_reg it insn next_pc (\<lambda>s. (ucast s :: i32) = 0)
          (\<lambda>d s. sint (ucast d :: i32) = sint_min TYPE(32) \<and> sint (ucast s :: i32) = - 1)
          (\<lambda>d s. map_option ucast (signed_div (ucast d :: i32) (ucast s :: i32)))),
      (SDIV64_IMM, enable_pqr v,
        sdiv_imm it insn next_pc (\<lambda>d i. sint d = sint_min TYPE(64) \<and> sint i = - 1)
          (\<lambda>d i. signed_div d i)),
      (SDIV64_REG, enable_pqr v,
        sdiv_reg it insn next_pc (\<lambda>s. s = 0)
          (\<lambda>d s. sint d = sint_min TYPE(64) \<and> sint s = - 1)
          (\<lambda>d s. signed_div d s)),
      (SREM32_IMM, enable_pqr v,
        sdiv_imm it insn next_pc (\<lambda>d i. sint (ucast d :: i32) = sint_min TYPE(32) \<and> sint (ucast i :: i32) = - 1)
          (\<lambda>d i. map_option ucast (signed_rem (ucast d :: i32) (ucast i :: i32)))),
      (SREM32_REG, enable_pqr v,
        sdiv_reg it insn next_pc (\<lambda>s. (ucast s :: i32) = 0)
          (\<lambda>d s. sint (ucast d :: i32) = sint_min TYPE(32) \<and> sint (ucast s :: i32) = - 1)
          (\<lambda>d s. map_option ucast (signed_rem (ucast d :: i32) (ucast s :: i32)))),
      (SREM64_IMM, enable_pqr v,
        sdiv_imm it insn next_pc (\<lambda>d i. sint d = sint_min TYPE(64) \<and> sint i = - 1)
          (\<lambda>d i. signed_rem d i)),
      (SREM64_REG, enable_pqr v,
        sdiv_reg it insn next_pc (\<lambda>s. s = 0)
          (\<lambda>d s. sint d = sint_min TYPE(64) \<and> sint s = - 1)
          (\<lambda>d s. signed_rem d s))])"

definition exec_jmp32 ::
  "('c, 'f) Interpreter \<Rightarrow> Insn \<Rightarrow> u64 \<Rightarrow> ('c, 'f) exec_arm list" where
  "exec_jmp32 it insn next_pc =
     (let v = get_sbpf_version (executable it) in
     [(JEQ32_IMM, enable_jmp32 v,
        jump_imm it insn next_pc (\<lambda>d i. (ucast d :: u32) = (ucast i :: u32))),
      (JEQ32_REG, enable_jmp32 v,
        jump_reg it insn next_pc (\<lambda>d s. (ucast d :: u32) = (ucast s :: u32))),
      (JGT32_IMM, enable_jmp32 v,
        jump_imm it insn next_pc (\<lambda>d i. (ucast d :: u32) > (ucast i :: u32))),
      (JGT32_REG, enable_jmp32 v,
        jump_reg it insn next_pc (\<lambda>d s. (ucast d :: u32) > (ucast s :: u32))),
      (JGE32_IMM, enable_jmp32 v,
        jump_imm it insn next_pc (\<lambda>d i. (ucast d :: u32) \<ge> (ucast i :: u32))),
      (JGE32_REG, enable_jmp32 v,
        jump_reg it insn next_pc (\<lambda>d s. (ucast d :: u32) \<ge> (ucast s :: u32))),
      (JLT32_IMM, enable_jmp32 v,
        jump_imm it insn next_pc (\<lambda>d i. (ucast d :: u32) < (ucast i :: u32))),
      (JLT32_REG, enable_jmp32 v,
        jump_reg it insn next_pc (\<lambda>d s. (ucast d :: u32) < (ucast s :: u32))),
      (JLE32_IMM, enable_jmp32 v,
        jump_imm it insn next_pc (\<lambda>d i. (ucast d :: u32) \<le> (ucast i :: u32))),
      (JLE32_REG, enable_jmp32 v,
        jump_reg it insn next_pc (\<lambda>d s. (ucast d :: u32) \<le> (ucast s :: u32))),
      (JSET32_IMM, enable_jmp32 v,
        jump_imm it insn next_pc (\<lambda>d i. (ucast d :: u32) AND (ucast i :: u32) \<noteq> 0)),
      (JSET32_REG, enable_jmp32 v,
        jump_reg it insn next_pc (\<lambda>d s. (ucast d :: u32) AND (ucast s :: u32) \<noteq> 0)),
      (JNE32_IMM, enable_jmp32 v,
        jump_imm it insn next_pc (\<lambda>d i. (ucast d :: u32) \<noteq> (ucast i :: u32))),
      (JNE32_REG, enable_jmp32 v,
        jump_reg it insn next_pc (\<lambda>d s. (ucast d :: u32) \<noteq> (ucast s :: u32))),
      (JSGT32_IMM, enable_jmp32 v,
        jump_imm it insn next_pc (\<lambda>d i. sint (ucast d :: i32) > sint (ucast i :: i32))),
      (JSGT32_REG, enable_jmp32 v,
        jump_reg it insn next_pc (\<lambda>d s. sint (ucast d :: i32) > sint (ucast s :: i32))),
      (JSGE32_IMM, enable_jmp32 v,
        jump_imm it insn next_pc (\<lambda>d i. sint (ucast d :: i32) \<ge> sint (ucast i :: i32))),
      (JSGE32_REG, enable_jmp32 v,
        jump_reg it insn next_pc (\<lambda>d s. sint (ucast d :: i32) \<ge> sint (ucast s :: i32))),
      (JSLT32_IMM, enable_jmp32 v,
        jump_imm it insn next_pc (\<lambda>d i. sint (ucast d :: i32) < sint (ucast i :: i32))),
      (JSLT32_REG, enable_jmp32 v,
        jump_reg it insn next_pc (\<lambda>d s. sint (ucast d :: i32) < sint (ucast s :: i32))),
      (JSLE32_IMM, enable_jmp32 v,
        jump_imm it insn next_pc (\<lambda>d i. sint (ucast d :: i32) \<le> sint (ucast i :: i32))),
      (JSLE32_REG, enable_jmp32 v,
        jump_reg it insn next_pc (\<lambda>d s. sint (ucast d :: i32) \<le> sint (ucast s :: i32)))])"

definition exec_jmp64 ::
  "('c, 'f) Interpreter \<Rightarrow> Insn \<Rightarrow> u64 \<Rightarrow> ('c, 'f) exec_arm list" where
  "exec_jmp64 it insn next_pc =
     (let v = get_sbpf_version (executable it) in
     [(JA, True, jump it insn next_pc),
      (JEQ64_IMM, True, jump_imm it insn next_pc (\<lambda>d i. d = i)),
      (JEQ64_REG, True, jump_reg it insn next_pc (\<lambda>d s. d = s)),
      (JGT64_IMM, True, jump_imm it insn next_pc (\<lambda>d i. d > i)),
      (JGT64_REG, True, jump_reg it insn next_pc (\<lambda>d s. d > s)),
      (JGE64_IMM, True, jump_imm it insn next_pc (\<lambda>d i. d \<ge> i)),
      (JGE64_REG, True, jump_reg it insn next_pc (\<lambda>d s. d \<ge> s)),
      (JLT64_IMM, True, jump_imm it insn next_pc (\<lambda>d i. d < i)),
      (JLT64_REG, True, jump_reg it insn next_pc (\<lambda>d s. d < s)),
      (JLE64_IMM, True, jump_imm it insn next_pc (\<lambda>d i. d \<le> i)),
      (JLE64_REG, True, jump_reg it insn next_pc (\<lambda>d s. d \<le> s)),
      (JSET64_IMM, True, jump_imm it insn next_pc (\<lambda>d i. d AND i \<noteq> 0)),
      (JSET64_REG, True, jump_reg it insn next_pc (\<lambda>d s. d AND s \<noteq> 0)),
      (JNE64_IMM, True, jump_imm it insn next_pc (\<lambda>d i. d \<noteq> i)),
      (JNE64_REG, True, jump_reg it insn next_pc (\<lambda>d s. d \<noteq> s)),
      (JSGT64_IMM, True, jump_imm it insn next_pc (\<lambda>d i. sint d > sint i)),
      (JSGT64_REG, True, jump_reg it insn next_pc (\<lambda>d s. sint d > sint s)),
      (JSGE64_IMM, True, jump_imm it insn next_pc (\<lambda>d i. sint d \<ge> sint i)),
      (JSGE64_REG, True, jump_reg it insn next_pc (\<lambda>d s. sint d \<ge> sint s)),
      (JSLT64_IMM, True, jump_imm it insn next_pc (\<lambda>d i. sint d < sint i)),
      (JSLT64_REG, True, jump_reg it insn next_pc (\<lambda>d s. sint d < sint s)),
      (JSLE64_IMM, True, jump_imm it insn next_pc (\<lambda>d i. sint d \<le> sint i)),
      (JSLE64_REG, True, jump_reg it insn next_pc (\<lambda>d s. sint d \<le> sint s))])"

section \<open>Calls\<close>

definition call_reg_arm ::
  "Config \<Rightarrow> ('c, 'f) Interpreter \<Rightarrow> Insn \<Rightarrow> ('c, 'f) Interpreter outcome option" where
  "call_reg_arm config it insn =
     do {
       target \<leftarrow>
         (let v = get_sbpf_version (executable it) in
          if callx_uses_src_reg v then slice_get (reg it) (unat (src insn))
          else if callx_uses_dst_reg v then slice_get (reg it) (unat (dst insn))
          else slice_get (reg it) (unat (imm insn)));
       pushed \<leftarrow> push_frame it config;
       case pushed of
         Inl it \<Rightarrow> Some (Halt it)
       | Inr it \<Rightarrow> check_pc it ((target - program_vm_addr it) div of_nat INSN_SIZE)
     }"

definition copy_registers :: "u64 list \<Rightarrow> nat \<Rightarrow> nat \<Rightarrow> u64 list \<Rightarrow> u64 list option" where
  "copy_registers regs i j values =
     (if i \<le> j \<and> j \<le> length regs \<and> length values = j - i
      then Some (take i regs @ values @ drop j regs) else None)"

definition dispatch_syscall ::
  "'c ContextObject \<Rightarrow> ('c, 'f) builtin_semantics \<Rightarrow> ('c, 'f) Interpreter \<Rightarrow> 'f \<Rightarrow>
   (('c, 'f) Interpreter \<times> ProgramResult) option" where
  "dispatch_syscall ops rust it f =
     do {
       due \<leftarrow> sub_ovf (previous_instruction_meter (vm it)) (due_insn_count (vm it));
       args \<leftarrow> slice_range (reg it) 0 6;
       regs \<leftarrow> copy_registers (registers (vm it)) 0 6 args;
       m \<leftarrow> invoke_function ops rust ((vm it)\<lparr>due_insn_count := due, registers := regs\<rparr>) f;
       let m = m\<lparr>due_insn_count := 0\<rparr>;
       Some (it\<lparr>vm := m\<rparr>, program_result m)
     }"

text \<open>\<open>CALL_IMM\<close>: first the external part, which says whether a system call was made, then the
  internal part.\<close>

definition call_imm_external ::
  "'c ContextObject \<Rightarrow> ('c, 'f) builtin_semantics \<Rightarrow> ('c, 'f) Interpreter \<Rightarrow> Insn \<Rightarrow>
   (('c, 'f) Interpreter + ('c, 'f) Interpreter \<times> bool) option" where
  "call_imm_external ops rust it insn =
     (if \<not> static_syscalls (get_sbpf_version (executable it)) \<or> src insn = 0
      then case lookup_by_key (get_function_registry (get_loader (executable it))) (ucast (imm insn)) of
             Some (_, f) \<Rightarrow>
               do {
                 (it, result) \<leftarrow> dispatch_syscall ops rust it f;
                 case result of
                   Ok value \<Rightarrow> do { regs \<leftarrow> slice_set (reg it) 0 value; Some (Inr (it\<lparr>reg := regs\<rparr>, True)) }
                 | Err _ \<Rightarrow> Some (Inl it)
               }
           | None \<Rightarrow> Some (Inr (it, False))
      else Some (Inr (it, False)))"

definition call_imm_internal ::
  "Config \<Rightarrow> ('c, 'f) Interpreter \<Rightarrow> Insn \<Rightarrow> u64 \<Rightarrow> bool \<Rightarrow> ('c, 'f) Interpreter outcome option" where
  "call_imm_internal config it insn next_pc resolved =
     (let unresolved = (if resolved then Some (Next it next_pc) else throw_error it UnsupportedInstruction) in
      if static_syscalls (get_sbpf_version (executable it)) then
        let target = i64_saturating_add next_pc (imm insn) in
        if is_pc_in_program (program it) (unat target) \<and> src insn = 1
        then do {
          pushed \<leftarrow> push_frame it config;
          case pushed of Inl it \<Rightarrow> Some (Halt it) | Inr it \<Rightarrow> Some (Next it target)
        }
        else unresolved
      else
        case lookup_by_key (exe_get_function_registry (executable it)) (ucast (imm insn)) of
          Some (_, target) \<Rightarrow>
            do {
              pushed \<leftarrow> push_frame it config;
              case pushed of Inl it \<Rightarrow> Some (Halt it) | Inr it \<Rightarrow> check_pc it (of_nat target)
            }
        | None \<Rightarrow> unresolved)"

definition call_imm_arm ::
  "'c ContextObject \<Rightarrow> ('c, 'f) builtin_semantics \<Rightarrow> Config \<Rightarrow> ('c, 'f) Interpreter \<Rightarrow> Insn \<Rightarrow> u64 \<Rightarrow>
   ('c, 'f) Interpreter outcome option" where
  "call_imm_arm ops rust config it insn next_pc =
     do {
       external \<leftarrow> call_imm_external ops rust it insn;
       case external of
         Inl it \<Rightarrow> Some (Halt it)
       | Inr (it, resolved) \<Rightarrow> call_imm_internal config it insn next_pc resolved
     }"

definition exit_arm ::
  "Config \<Rightarrow> ('c, 'f) Interpreter \<Rightarrow> ('c, 'f) Interpreter outcome option" where
  "exit_arm config it =
     (if call_depth (vm it) = 0 then
        if enable_instruction_meter config \<and> due_insn_count (vm it) > previous_instruction_meter (vm it)
        then throw_error it ExceededMaxInstructions
        else do {
          r0 \<leftarrow> slice_get (reg it) 0;
          Some (Halt (it\<lparr>vm := (vm it)\<lparr>program_result := Ok r0\<rparr>\<rparr>))
        }
      else do {
        depth \<leftarrow> sub_ovf (call_depth (vm it)) 1;
        frame \<leftarrow> slice_get (call_frames (vm it)) (unat depth);
        regs \<leftarrow> slice_set (reg it) FRAME_PTR_REG (frame_pointer frame);
        regs \<leftarrow> copy_registers regs FIRST_SCRATCH_REG (FIRST_SCRATCH_REG + SCRATCH_REGS)
          (caller_saved_registers frame);
        check_pc (it\<lparr>vm := (vm it)\<lparr>call_depth := depth\<rparr>, reg := regs\<rparr>) (target_pc frame)
      })"

definition exec_call ::
  "'c ContextObject \<Rightarrow> ('c, 'f) builtin_semantics \<Rightarrow> Config \<Rightarrow> ('c, 'f) Interpreter \<Rightarrow> Insn \<Rightarrow> u64 \<Rightarrow>
   ('c, 'f) exec_arm list" where
  "exec_call ops rust config it insn next_pc =
     [(CALL_REG, True, call_reg_arm config it insn),
      (CALL_IMM, True, call_imm_arm ops rust config it insn next_pc),
      (EXIT, True, exit_arm config it)]"

section \<open>One step\<close>

definition exec_arms ::
  "'c ContextObject \<Rightarrow> ('c, 'f) builtin_semantics \<Rightarrow> Config \<Rightarrow> ('c, 'f) Interpreter \<Rightarrow> Insn \<Rightarrow> u64 \<Rightarrow>
   ('c, 'f) exec_arm list" where
  "exec_arms ops rust config it insn next_pc =
     exec_ld it insn next_pc @ exec_ldx it insn next_pc @ exec_st it insn next_pc @
     exec_stx it insn next_pc @ exec_alu32_load it insn next_pc @ exec_alu64_store it insn next_pc @
     exec_pqr it insn next_pc @ exec_jmp32 it insn next_pc @ exec_jmp64 it insn next_pc @
     exec_call ops rust config it insn next_pc"

definition exec_insn ::
  "'c ContextObject \<Rightarrow> ('c, 'f) builtin_semantics \<Rightarrow> Config \<Rightarrow> ('c, 'f) Interpreter \<Rightarrow> Insn \<Rightarrow> u64 \<Rightarrow>
   ('c, 'f) Interpreter outcome option" where
  "exec_insn ops rust config it insn next_pc =
     (case select_arm (exec_arms ops rust config it insn next_pc) (opc insn) of
        Some action \<Rightarrow> action
      | None \<Rightarrow> throw_error it UnsupportedInstruction)"

definition finish_step ::
  "('c, 'f) Interpreter outcome \<Rightarrow> (('c, 'f) Interpreter \<times> bool) option" where
  "finish_step out =
     (case out of
        Halt it \<Rightarrow> Some (it, False)
      | Next it next_pc \<Rightarrow> do { regs \<leftarrow> slice_set (reg it) 11 next_pc; Some (it\<lparr>reg := regs\<rparr>, True) })"

definition step ::
  "'c ContextObject \<Rightarrow> ('c, 'f) builtin_semantics \<Rightarrow> ('c, 'f) Interpreter \<Rightarrow>
   (('c, 'f) Interpreter \<times> bool) option" where
  "step ops rust it =
     do {
       config \<leftarrow> exe_get_config (executable it);
       if enable_instruction_meter config \<and>
          due_insn_count (vm it) \<ge> previous_instruction_meter (vm it)
       then throw_error it ExceededMaxInstructions \<bind> finish_step
       else do {
         due \<leftarrow> add_ovf (due_insn_count (vm it)) 1;
         let it = it\<lparr>vm := (vm it)\<lparr>due_insn_count := due\<rparr>\<rparr>;
         pc \<leftarrow> slice_get (reg it) 11;
         position \<leftarrow> usize_mul_ovf (unat pc) INSN_SIZE;
         if position \<ge> length (program it)
         then throw_error it ExecutionOverrun \<bind> finish_step
         else do {
           next_pc \<leftarrow> add_ovf pc 1;
           insn \<leftarrow> get_insn_unchecked (program it) (unat pc);
           let it = (if enable_register_tracing config
                     then it\<lparr>vm := (vm it)\<lparr>register_trace := register_trace (vm it) @ [reg it]\<rparr>\<rparr>
                     else it);
           exec_insn ops rust config it insn next_pc \<bind> finish_step
         }
       }
     }"

end
