(* ===== verification/Interpreter_Safety.thy ===== *)
theory Interpreter_Safety
  imports Interpreter
begin

text \<open>
  Safety of the interpreter on verified programs: in every state that satisfies the machine
  invariant a step of a verified program returns (no out-of-range register, array or memory
  access, no division by zero, no overflow of checked arithmetic), and when it continues it keeps
  the invariant, ends at a program counter inside the program, and uses up instruction budget.
\<close>

section \<open>Invariants\<close>

text \<open>The part of the invariant that also holds after an error.\<close>

definition core_ok :: "'c ContextObject \<Rightarrow> Config \<Rightarrow> ('c, 'f) Interpreter \<Rightarrow> bool" where
  "core_ok ops config it \<longleftrightarrow>
     length (reg it) = 12 \<and> length (registers (vm it)) = 12 \<and>
     length (call_frames (vm it)) = max_call_depth config \<and>
     (\<forall>f \<in> set (call_frames (vm it)). length (caller_saved_registers f) = 4) \<and>
     mapping_ok (host (vm it)) (memory_mapping (vm it)) \<and>
     get_config (vm_loader (vm it)) = Some config \<and>
     previous_instruction_meter (vm it) = get_remaining ops (context_object_pointer (vm it)) \<and>
     due_insn_count (vm it) \<le> get_remaining ops (context_object_pointer (vm it))"

definition machine_ok :: "'c ContextObject \<Rightarrow> Config \<Rightarrow> ('c, 'f) Interpreter \<Rightarrow> bool" where
  "machine_ok ops config it \<longleftrightarrow>
     core_ok ops config it \<and> unat (call_depth (vm it)) < max_call_depth config"

definition code_ok :: "Config \<Rightarrow> ('c, 'f) Interpreter \<Rightarrow> bool" where
  "code_ok config it \<longleftrightarrow>
     exe_get_config (executable it) = Some config \<and> enable_instruction_meter config \<and>
     2 * stack_frame_size config \<le> usize_max \<and> max_call_depth config \<le> usize_max \<and>
     slice_fits (program it) \<and>
     verify (program it) config (get_sbpf_version (executable it))
       (exe_get_function_registry (executable it)) (get_function_registry (exe_loader (executable it))) =
       Some (Inr ())"

definition same_code :: "('c, 'f) Interpreter \<Rightarrow> ('c, 'f) Interpreter \<Rightarrow> bool" where
  "same_code it it' \<longleftrightarrow>
     executable it' = executable it \<and> program it' = program it \<and> program_vm_addr it' = program_vm_addr it"

text \<open>The instructions that may still be executed.\<close>

definition budget :: "'c ContextObject \<Rightarrow> ('c, 'f) Interpreter \<Rightarrow> nat" where
  "budget ops it =
     unat (get_remaining ops (context_object_pointer (vm it))) - unat (due_insn_count (vm it))"

fun outcome_ok ::
  "'c ContextObject \<Rightarrow> Config \<Rightarrow> ('c, 'f) Interpreter \<Rightarrow> ('c, 'f) Interpreter outcome \<Rightarrow> bool" where
  "outcome_ok ops config it (Halt it') \<longleftrightarrow>
     same_code it it' \<and> core_ok ops config it' \<and> budget ops it' \<le> budget ops it"
| "outcome_ok ops config it (Next it' next_pc) \<longleftrightarrow>
     same_code it it' \<and> machine_ok ops config it' \<and> budget ops it' \<le> budget ops it \<and>
     unat next_pc \<le> num_insns (program it)"

definition safe ::
  "'c ContextObject \<Rightarrow> Config \<Rightarrow> ('c, 'f) Interpreter \<Rightarrow> ('c, 'f) Interpreter outcome option \<Rightarrow> bool" where
  "safe ops config it r \<longleftrightarrow> (\<exists>out. r = Some out \<and> outcome_ok ops config it out)"

lemma same_code_refl [simp]: "same_code it it"
  by (simp add: same_code_def)

lemma same_code_update [simp]:
  "same_code it (it\<lparr>reg := r\<rparr>)" "same_code it (it\<lparr>vm := m\<rparr>)" "same_code it (it\<lparr>vm := m, reg := r\<rparr>)"
  by (simp_all add: same_code_def)

text \<open>Updates the invariants do not see.\<close>

lemma core_ok_reg [simp]:
  "core_ok ops config it \<Longrightarrow> length r = 12 \<Longrightarrow> core_ok ops config (it\<lparr>reg := r\<rparr>)"
  by (clarsimp simp: core_ok_def)

lemma machine_ok_reg [simp]:
  "machine_ok ops config it \<Longrightarrow> length r = 12 \<Longrightarrow> machine_ok ops config (it\<lparr>reg := r\<rparr>)"
  by (simp add: machine_ok_def)

lemma budget_reg [simp]: "budget ops (it\<lparr>reg := r\<rparr>) = budget ops it"
  by (simp add: budget_def)

lemma machine_ok_core: "machine_ok ops config it \<Longrightarrow> core_ok ops config it"
  by (simp add: machine_ok_def)

lemma machine_ok_length:
  "machine_ok ops config it \<Longrightarrow> length (reg it) = 12"
  "machine_ok ops config it \<Longrightarrow> length (registers (vm it)) = 12"
  by (simp_all add: machine_ok_def core_ok_def)

lemma core_ok_length:
  "core_ok ops config it \<Longrightarrow> length (reg it) = 12"
  "core_ok ops config it \<Longrightarrow> length (registers (vm it)) = 12"
  by (simp_all add: core_ok_def)

lemma safe_weaken:
  assumes "safe ops config it1 r" "same_code it it1" "budget ops it1 \<le> budget ops it"
  shows "safe ops config it r"
proof -
  obtain out where "r = Some out" "outcome_ok ops config it1 out" using assms(1) by (auto simp: safe_def)
  then show ?thesis using assms(2,3) by (cases out) (auto simp: safe_def same_code_def)
qed

section \<open>Shapes of arms\<close>

named_theorems safe_arms "safety of the shapes of arms"

lemma safe_throw_error [safe_arms]:
  assumes "core_ok ops config it"
  shows "safe ops config it (throw_error it e)"
proof -
  let ?regs = "(registers (vm it))[11 := reg it ! 11]"
  let ?it = "it\<lparr>vm := (vm it)\<lparr>registers := ?regs, program_result := Err e\<rparr>\<rparr>"
  have l: "length (reg it) = 12" "length (registers (vm it)) = 12"
    using assms by (simp_all add: core_ok_def)
  then have "throw_error it e = Some (Halt ?it)"
    by (simp add: throw_error_def slice_get_Some slice_set_Some)
  moreover have "core_ok ops config ?it" using assms unfolding core_ok_def by simp
  moreover have "budget ops ?it = budget ops it" by (simp add: budget_def)
  ultimately show ?thesis by (simp add: safe_def)
qed

lemma read_reg:
  "machine_ok ops config it \<Longrightarrow> unat r < 12 \<Longrightarrow> slice_get (reg it) (unat r) = Some (reg it ! unat r)"
  by (simp add: slice_get_Some machine_ok_length)

lemma safe_set_reg [safe_arms]:
  assumes "machine_ok ops config it" "unat r < 12" "unat next_pc \<le> num_insns (program it)"
  shows "safe ops config it (set_reg it r v next_pc)"
  using assms machine_ok_length[OF assms(1)] by (simp add: set_reg_def safe_def slice_set_Some)

lemma safe_alu_imm [safe_arms]:
  assumes "machine_ok ops config it" "unat (dst insn) < 12" "unat next_pc \<le> num_insns (program it)"
  shows "safe ops config it (alu_imm it insn next_pc f)"
  using assms by (simp add: alu_imm_def read_reg[OF assms(1)] safe_set_reg)

lemma safe_alu_reg [safe_arms]:
  assumes "machine_ok ops config it" "unat (dst insn) < 12" "unat (src insn) < 12"
    and "unat next_pc \<le> num_insns (program it)"
  shows "safe ops config it (alu_reg it insn next_pc f)"
  using assms by (simp add: alu_reg_def read_reg[OF assms(1)] safe_set_reg)

lemma safe_div_imm [safe_arms]:
  assumes "machine_ok ops config it" "unat (dst insn) < 12" "unat next_pc \<le> num_insns (program it)"
    and "\<forall>d. f d (imm insn) \<noteq> None"
  shows "safe ops config it (div_imm it insn next_pc f)"
proof -
  obtain r where "f (reg it ! unat (dst insn)) (imm insn) = Some r" using assms(4) by blast
  then show ?thesis using assms by (simp add: div_imm_def read_reg[OF assms(1)] safe_set_reg)
qed

lemma safe_div_reg [safe_arms]:
  assumes "machine_ok ops config it" "unat (dst insn) < 12" "unat (src insn) < 12"
    and "unat next_pc \<le> num_insns (program it)" "\<forall>d s. \<not> is_zero s \<longrightarrow> f d s \<noteq> None"
  shows "safe ops config it (div_reg it insn next_pc is_zero f)"
proof (cases "is_zero (reg it ! unat (src insn))")
  case False
  then obtain r where "f (reg it ! unat (dst insn)) (reg it ! unat (src insn)) = Some r"
    using assms(5) by blast
  then show ?thesis using assms False by (simp add: div_reg_def read_reg[OF assms(1)] safe_set_reg)
qed (use assms in \<open>simp add: div_reg_def read_reg[OF assms(1)] safe_throw_error[OF machine_ok_core[OF assms(1)]]\<close>)

lemma safe_sdiv_imm [safe_arms]:
  assumes "machine_ok ops config it" "unat (dst insn) < 12" "unat next_pc \<le> num_insns (program it)"
    and "\<forall>d. \<not> ovf d (imm insn) \<longrightarrow> f d (imm insn) \<noteq> None"
  shows "safe ops config it (sdiv_imm it insn next_pc ovf f)"
proof (cases "ovf (reg it ! unat (dst insn)) (imm insn)")
  case False
  then obtain r where "f (reg it ! unat (dst insn)) (imm insn) = Some r" using assms(4) by blast
  then show ?thesis using assms False by (simp add: sdiv_imm_def read_reg[OF assms(1)] safe_set_reg)
qed (use assms in \<open>simp add: sdiv_imm_def read_reg[OF assms(1)] safe_throw_error[OF machine_ok_core[OF assms(1)]]\<close>)

lemma safe_sdiv_reg [safe_arms]:
  assumes "machine_ok ops config it" "unat (dst insn) < 12" "unat (src insn) < 12"
    and "unat next_pc \<le> num_insns (program it)"
    and "\<forall>d s. \<not> is_zero s \<longrightarrow> \<not> ovf d s \<longrightarrow> f d s \<noteq> None"
  shows "safe ops config it (sdiv_reg it insn next_pc is_zero ovf f)"
proof -
  let ?s = "reg it ! unat (src insn)" and ?d = "reg it ! unat (dst insn)"
  consider "is_zero ?s" | "\<not> is_zero ?s" "ovf ?d ?s" | "\<not> is_zero ?s" "\<not> ovf ?d ?s" by blast
  then show ?thesis
  proof cases
    case 3
    then obtain r where "f ?d ?s = Some r" using assms(5) by blast
    then show ?thesis using assms 3 by (simp add: sdiv_reg_def read_reg[OF assms(1)] safe_set_reg)
  qed (use assms in \<open>simp_all add: sdiv_reg_def read_reg[OF assms(1)] safe_throw_error[OF machine_ok_core[OF assms(1)]]\<close>)
qed

lemma safe_endian_arm [safe_arms]:
  assumes "machine_ok ops config it" "unat (dst insn) < 12" "unat next_pc \<le> num_insns (program it)"
  shows "safe ops config it (endian_arm it insn next_pc f16 f32 f64)"
  using assms by (simp add: endian_arm_def read_reg[OF assms(1)] safe_set_reg safe_throw_error[OF machine_ok_core[OF assms(1)]])

text \<open>Memory accesses.\<close>

lemma machine_ok_memory:
  assumes "machine_ok ops config it" "mapping_ok h m"
  shows "machine_ok ops config (it\<lparr>vm := (vm it)\<lparr>memory_mapping := m, host := h\<rparr>\<rparr>)"
  using assms by (simp add: machine_ok_def core_ok_def)

lemma budget_memory [simp]:
  "budget ops (it\<lparr>vm := (vm it)\<lparr>memory_mapping := m, host := h\<rparr>\<rparr>) = budget ops it"
  by (simp add: budget_def)

lemma safe_load_arm [safe_arms]:
  assumes "machine_ok ops config it" "unat (dst insn) < 12" "unat (src insn) < 12"
    and "unat next_pc \<le> num_insns (program it)" "n \<le> 8"
  shows "safe ops config it (load_arm n it insn next_pc)"
proof -
  let ?a = "reg it ! unat (src insn) + scast (off insn)"
  obtain m h r where M: "mapping_load n (memory_mapping (vm it)) (host (vm it)) ?a = Some (m, h, r)"
    "mapping_ok h m"
    using mapping_load_ok[OF _ assms(5), of "host (vm it)" "memory_mapping (vm it)" ?a] assms(1)
    by (auto simp: machine_ok_def core_ok_def)
  let ?it = "it\<lparr>vm := (vm it)\<lparr>memory_mapping := m, host := h\<rparr>\<rparr>"
  have ok: "machine_ok ops config ?it" by (rule machine_ok_memory[OF assms(1) M(2)])
  have "load_arm n it insn next_pc =
      (case r of Ok value \<Rightarrow> set_reg ?it (dst insn) value next_pc | Err e \<Rightarrow> throw_error ?it e)"
    using M(1) assms(1,3) by (simp add: load_arm_def read_reg[OF assms(1)] Let_def)
  moreover have "safe ops config ?it (case r of Ok value \<Rightarrow> set_reg ?it (dst insn) value next_pc
      | Err e \<Rightarrow> throw_error ?it e)"
    using ok assms(2,4) by (cases r) (simp_all add: safe_set_reg safe_throw_error[OF machine_ok_core])
  ultimately show ?thesis using safe_weaken[of ops config ?it _ it] by simp
qed

lemma safe_store_access:
  assumes "machine_ok ops config it" "unat (dst insn) < 12"
    and "unat next_pc \<le> num_insns (program it)" "n \<le> 8"
  shows "safe ops config it (store_access n it insn next_pc v)"
proof -
  let ?a = "reg it ! unat (dst insn) + scast (off insn)"
  obtain m h r where M: "mapping_store n (memory_mapping (vm it)) (host (vm it)) v ?a = Some (m, h, r)"
    "mapping_ok h m"
    using mapping_store_ok[OF _ assms(4), of "host (vm it)" "memory_mapping (vm it)" v ?a] assms(1)
    by (auto simp: machine_ok_def core_ok_def)
  let ?it = "it\<lparr>vm := (vm it)\<lparr>memory_mapping := m, host := h\<rparr>\<rparr>"
  have ok: "machine_ok ops config ?it" by (rule machine_ok_memory[OF assms(1) M(2)])
  have run: "store_access n it insn next_pc v =
      (case r of Ok _ \<Rightarrow> Some (Next ?it next_pc) | Err e \<Rightarrow> throw_error ?it e)"
    using M(1) assms(1,2) by (simp add: store_access_def read_reg[OF assms(1)] Let_def)
  have "safe ops config ?it (case r of Ok _ \<Rightarrow> Some (Next ?it next_pc) | Err e \<Rightarrow> throw_error ?it e)"
    using ok assms(3) by (cases r) (simp_all add: safe_def[of _ _ _ "Some _"] safe_throw_error[OF machine_ok_core])
  then show ?thesis unfolding run using safe_weaken[of ops config ?it _ it] by simp
qed

lemma safe_store_arms [safe_arms]:
  assumes "machine_ok ops config it" "unat (dst insn) < 12" "unat (src insn) < 12"
    and "unat next_pc \<le> num_insns (program it)" "n \<le> 8"
  shows "safe ops config it (store_imm_arm n it insn next_pc)"
    "safe ops config it (store_reg_arm n it insn next_pc)"
  using assms
  by (simp_all add: store_imm_arm_def store_reg_arm_def read_reg[OF assms(1)] safe_store_access)

text \<open>Jumps, with the target checked by the verifier.\<close>

lemma signed_add_small:
  fixes a b :: i64
  assumes "0 \<le> uint a + sint b" "uint a + sint b < 2 ^ 63" "uint a < 2 ^ 62"
  shows "signed_add_ovf a b = Some (a + b)" "uint (a + b) = uint a + sint b"
proof -
  have "- (2 ^ 63) \<le> uint a" by (rule order_trans[OF _ uint_ge_0]) simp
  then have a: "sint a = uint a" using assms(3) by (simp add: sint_uint signed_take_bit_int_eq_self)
  then show "signed_add_ovf a b = Some (a + b)"
    using assms by (simp add: signed_add_ovf_def int_fits_def sint_min_def sint_max_def)
  have "uint (a + b) = uint (word_of_int (uint a + sint b) :: i64)" by simp
  also have "\<dots> = take_bit 64 (uint a + sint b)" unfolding unsigned_of_int by simp
  also have "\<dots> = uint a + sint b" using assms(1,2) by (simp add: take_bit_int_eq_self)
  finally show "uint (a + b) = uint a + sint b" .
qed

lemma safe_jump:
  assumes "machine_ok ops config it" "slice_fits (program it)"
    and "unat next_pc \<le> num_insns (program it)"
    and "0 \<le> int (unat next_pc) + sint (off insn)"
    and "nat (int (unat next_pc) + sint (off insn)) < num_insns (program it)"
  shows "safe ops config it (jump it insn next_pc)"
proof -
  have s: "sint (scast (off insn) :: i64) = sint (off insn)" by (simp add: sint_up_scast is_up)
  have n: "num_insns (program it) < 2 ^ 60" using assms(2) by (simp add: num_insns_def slice_fits_def)
  have t: "int (unat next_pc) + sint (off insn) < int (num_insns (program it))"
    using assms(4,5) by (simp add: nat_less_iff)
  moreover have "int (num_insns (program it)) < 2 ^ 60" using n by simp
  moreover have "int (unat next_pc) \<le> int (num_insns (program it))" by (simp only: of_nat_le_iff assms(3))
  moreover have "(2 :: int) ^ 60 < 2 ^ 63" "(2 :: int) ^ 60 < 2 ^ 62" by simp_all
  ultimately have "0 \<le> uint next_pc + sint (off insn)" "uint next_pc + sint (off insn) < 2 ^ 63"
    "uint next_pc < 2 ^ 62" using assms(4) unfolding uint_nat by linarith+
  note sum = signed_add_small[of next_pc "scast (off insn)", unfolded s, OF this]
  have "int (unat (next_pc + scast (off insn))) < int (num_insns (program it))"
    using t unfolding uint_nat[symmetric] sum(2) .
  then have "unat (next_pc + scast (off insn)) < num_insns (program it)" by (simp only: of_nat_less_iff)
  then show ?thesis using assms(1) by (simp add: jump_def sum(1) safe_def)
qed

lemma safe_jump_arms:
  assumes "machine_ok ops config it" "unat (dst insn) < 12" "unat (src insn) < 12"
    and "unat next_pc \<le> num_insns (program it)" "safe ops config it (jump it insn next_pc)"
  shows "safe ops config it (jump_imm it insn next_pc cond)"
    and "safe ops config it (jump_reg it insn next_pc cond')"
proof -
  have "safe ops config it (Some (Next it next_pc))" using assms(1,4) by (simp add: safe_def)
  then show "safe ops config it (jump_imm it insn next_pc cond)"
    "safe ops config it (jump_reg it insn next_pc cond')"
    using assms(2,3,5) by (simp_all add: jump_imm_def jump_reg_def read_reg[OF assms(1)])
qed

section \<open>What the verifier guarantees per opcode\<close>

lemma select_arm_SomeD:
  "select_arm arms opcode = Some c \<Longrightarrow> \<exists>g. (opcode, g, c) \<in> set arms \<and> g"
  by (induction arms) (auto simp: select_arm_def split: if_splits)

lemma select_arm_list_all:
  "list_all (\<lambda>(op, g, a). opcode = op \<and> g \<longrightarrow> P a) arms \<Longrightarrow> select_arm arms opcode = Some a \<Longrightarrow> P a"
  by (drule select_arm_SomeD) (auto simp: list_all_iff)

definition jmp64_opcodes :: "u8 list" where
  "jmp64_opcodes =
     [JA, JEQ64_IMM, JEQ64_REG, JGT64_IMM, JGT64_REG, JGE64_IMM, JGE64_REG, JLT64_IMM, JLT64_REG,
      JLE64_IMM, JLE64_REG, JSET64_IMM, JSET64_REG, JNE64_IMM, JNE64_REG, JSGT64_IMM, JSGT64_REG,
      JSGE64_IMM, JSGE64_REG, JSLT64_IMM, JSLT64_REG, JSLE64_IMM, JSLE64_REG]"

definition jmp32_opcodes :: "u8 list" where
  "jmp32_opcodes =
     [JEQ32_IMM, JEQ32_REG, JGT32_IMM, JGT32_REG, JGE32_IMM, JGE32_REG, JLT32_IMM, JLT32_REG,
      JLE32_IMM, JLE32_REG, JSET32_IMM, JSET32_REG, JNE32_IMM, JNE32_REG, JSGT32_IMM, JSGT32_REG,
      JSGE32_IMM, JSGE32_REG, JSLT32_IMM, JSLT32_REG, JSLE32_IMM, JSLE32_REG]"

definition div_imm_opcodes :: "u8 list" where
  "div_imm_opcodes = [DIV32_IMM, MOD32_IMM, DIV64_IMM, MOD64_IMM]"

definition pqr_div_imm_opcodes :: "u8 list" where
  "pqr_div_imm_opcodes =
     [UDIV32_IMM, UDIV64_IMM, UREM32_IMM, UREM64_IMM, SDIV32_IMM, SDIV64_IMM, SREM32_IMM, SREM64_IMM]"

lemma version_guards:
  "move_memory_instruction_classes v \<longleftrightarrow> enable_pqr v" "disable_neg v \<longleftrightarrow> enable_pqr v"
  "disable_le v \<longleftrightarrow> enable_pqr v" "disable_lddw v \<longleftrightarrow> enable_pqr v"
  "enable_jmp32 v \<Longrightarrow> \<not> enable_pqr v"
  by (auto simp: features)

lemma pqr_not_jmp32: "enable_pqr v \<Longrightarrow> \<not> enable_jmp32 v"
  using version_guards(5) by blast

lemma verifier_jmp64:
  "list_all (\<lambda>(op, g, c). g \<longrightarrow> op \<in> set jmp64_opcodes \<longrightarrow> c = JmpOffset) (verifier_arms v insn)"
  by (simp add: arms_defs jmp64_opcodes_def opcode)

lemma verifier_jmp32:
  "enable_jmp32 v \<Longrightarrow>
   list_all (\<lambda>(op, g, c). g \<longrightarrow> op \<in> set jmp32_opcodes \<longrightarrow> c = JmpOffset) (verifier_arms v insn)"
  by (simp add: arms_defs jmp32_opcodes_def opcode version_guards)

lemma verifier_div_imm:
  "\<not> enable_pqr v \<Longrightarrow>
   list_all (\<lambda>(op, g, c). g \<longrightarrow> op \<in> set div_imm_opcodes \<longrightarrow> c = ImmNonzero) (verifier_arms v insn)"
  by (simp add: arms_defs div_imm_opcodes_def opcode version_guards)

lemma verifier_pqr_div_imm:
  "enable_pqr v \<Longrightarrow>
   list_all (\<lambda>(op, g, c). g \<longrightarrow> op \<in> set pqr_div_imm_opcodes \<longrightarrow> c = ImmNonzero) (verifier_arms v insn)"
  by (simp add: arms_defs pqr_div_imm_opcodes_def opcode version_guards pqr_not_jmp32)

lemma verifier_lddw:
  "list_all (\<lambda>(op, g, c). g \<longrightarrow> op \<in> {LD_DW_IMM} \<longrightarrow> c = LoadDw) (verifier_arms v insn)"
  by (simp add: arms_defs opcode)

lemma verifier_callx:
  "list_all (\<lambda>(op, g, c). g \<longrightarrow> op \<in> {CALL_REG} \<longrightarrow> c = CallxRegister) (verifier_arms v insn)"
  by (simp add: arms_defs opcode)

end
