(* ===== verification/Interpreter_Step.thy ===== *)
theory Interpreter_Step
  imports Interpreter_Safety
begin

text \<open>
  One step of the interpreter on a verified program.  The table of arms is shown safe class by
  class, with what the verifier guarantees for the instruction at hand; calls and system calls
  follow, the latter under the contract \<open>syscall_interface\<close> of the built-in functions.  The results
  are that a step never goes wrong, keeps the machine invariant, and uses up instruction budget.
\<close>

section \<open>Division\<close>

lemma signed_quotient_fits:
  fixes a b :: "'a::len word"
  assumes "b \<noteq> 0" "\<not> (sint a = sint_min TYPE('a) \<and> sint b = - 1)"
  shows "int_fits TYPE('a) (sint a sdiv sint b)"
proof -
  let ?n = "2 ^ (LENGTH('a) - 1) :: int"
  have a: "- ?n \<le> sint a" "sint a < ?n" using sint_ge[of a] sint_less[of a] by simp_all
  have b: "sint b \<noteq> 0" using assms(1) by (metis signed_0 signed_word_eqI)
  have n: "1 \<le> ?n" by simp
  consider "sint b = 1" | "sint b = - 1" | "2 \<le> \<bar>sint b\<bar>" using b by linarith
  then have "- ?n \<le> sint a sdiv sint b \<and> sint a sdiv sint b < ?n"
  proof cases
    case 3
    have "\<bar>sint a\<bar> div \<bar>sint b\<bar> \<le> \<bar>sint a\<bar> div 2" using 3 by (intro zdiv_mono2) auto
    also have "\<dots> < ?n" using a n by linarith
    finally have "\<bar>sint a\<bar> div \<bar>sint b\<bar> < ?n" .
    moreover have "0 \<le> \<bar>sint a\<bar> div \<bar>sint b\<bar>" using b by (simp add: pos_imp_zdiv_nonneg_iff)
    ultimately show ?thesis using n by (auto simp: signed_divide_int_def sgn_if)
  qed (use a assms(2) in \<open>auto simp: signed_divide_int_def sint_min_def sgn_if\<close>)
  then show ?thesis by (simp add: int_fits_def sint_min_def sint_max_def)
qed

lemma signed_division_total:
  fixes a b :: "'a::len word"
  assumes "b \<noteq> 0" "\<not> (sint a = sint_min TYPE('a) \<and> sint b = - 1)"
  shows "signed_div a b \<noteq> None" "signed_rem a b \<noteq> None"
  using signed_quotient_fits[OF assms] assms(1) by (simp_all add: signed_div_def signed_rem_def)

lemma unsigned_division_total:
  "b \<noteq> 0 \<Longrightarrow> unsigned_div a b \<noteq> None" "b \<noteq> 0 \<Longrightarrow> unsigned_rem a b \<noteq> None"
  by (simp_all add: unsigned_div_def unsigned_rem_def)

section \<open>What the verifier guarantees for one instruction\<close>

lemma insn_ok_registers:
  assumes "insn_ok prog v pc"
  shows "unat (src (insn_at prog pc)) \<le> 10" "unat (dst (insn_at prog pc)) \<le> 10"
  using assms by (auto simp: insn_ok_def registers_ok_def word_le_nat_alt split: option.splits)

lemma insn_ok_check:
  assumes "insn_ok prog v pc"
    and "list_all (\<lambda>(op, g, c). g \<longrightarrow> op \<in> S \<longrightarrow> c = k) (verifier_arms v (insn_at prog pc))"
    and "opc (insn_at prog pc) \<in> S"
  shows "check_holds prog v pc k"
proof -
  obtain c where "arm_of prog v pc = Some c" "check_holds prog v pc c"
    using assms(1) by (auto simp: insn_ok_def split: option.splits)
  moreover from this(1) obtain g where "(opc (insn_at prog pc), g, c) \<in> set (verifier_arms v (insn_at prog pc))" g
    unfolding arm_of_def by (auto dest: select_arm_SomeD)
  ultimately show ?thesis using assms(2,3) by (auto simp: list_all_iff)
qed

text \<open>The facts the safety of the arms needs, for an instruction whose successor is \<open>next_pc\<close>.\<close>

definition insn_facts :: "SBPFVersion \<Rightarrow> bytes \<Rightarrow> Insn \<Rightarrow> u64 \<Rightarrow> bool" where
  "insn_facts v prog insn next_pc \<longleftrightarrow>
     unat (src insn) \<le> 10 \<and> unat (dst insn) \<le> 10 \<and> unat next_pc \<le> num_insns prog \<and>
     (opc insn \<in> set div_imm_opcodes \<and> \<not> enable_pqr v \<longrightarrow> (ucast (imm insn) :: u32) \<noteq> 0) \<and>
     (opc insn \<in> set pqr_div_imm_opcodes \<and> enable_pqr v \<longrightarrow> (ucast (imm insn) :: u32) \<noteq> 0) \<and>
     (opc insn \<in> set jmp64_opcodes \<or> opc insn \<in> set jmp32_opcodes \<and> enable_jmp32 v \<longrightarrow>
        0 \<le> int (unat next_pc) + sint (off insn) \<and>
        nat (int (unat next_pc) + sint (off insn)) < num_insns prog) \<and>
     (opc insn = CALL_REG \<longrightarrow> 0 \<le> sint (callx_register v insn) \<and> sint (callx_register v insn) < 10) \<and>
     (opc insn = LD_DW_IMM \<and> \<not> disable_lddw v \<longrightarrow> unat next_pc < num_insns prog)"

lemma low_imm_nonzero: "imm (insn_at prog pc) \<noteq> 0 \<Longrightarrow> (ucast (imm (insn_at prog pc)) :: u32) \<noteq> 0"
  using insn_at_imm[of prog pc] by (metis scast_0)

lemma verified_insn_facts:
  assumes "insn_ok prog v pc" "pc < num_insns prog" "unat next_pc = pc + 1"
  shows "insn_facts v prog (insn_at prog pc) next_pc"
proof -
  let ?insn = "insn_at prog pc"
  have "check_holds prog v pc ImmNonzero" if "opc ?insn \<in> set div_imm_opcodes" "\<not> enable_pqr v"
    using insn_ok_check[OF assms(1) verifier_div_imm] that by blast
  moreover have "check_holds prog v pc ImmNonzero" if "opc ?insn \<in> set pqr_div_imm_opcodes" "enable_pqr v"
    using insn_ok_check[OF assms(1) verifier_pqr_div_imm] that by blast
  moreover have "check_holds prog v pc JmpOffset" if "opc ?insn \<in> set jmp64_opcodes"
    using insn_ok_check[OF assms(1) verifier_jmp64 that] .
  moreover have "check_holds prog v pc JmpOffset" if "opc ?insn \<in> set jmp32_opcodes" "enable_jmp32 v"
    using insn_ok_check[OF assms(1) verifier_jmp32] that by blast
  moreover have "check_holds prog v pc CallxRegister" if "opc ?insn \<in> {CALL_REG}"
    using insn_ok_check[OF assms(1) verifier_callx that] .
  moreover have "check_holds prog v pc LoadDw" if "opc ?insn \<in> {LD_DW_IMM}"
    using insn_ok_check[OF assms(1) verifier_lddw that] .
  ultimately show ?thesis
    using insn_ok_registers[OF assms(1)] assms(2,3) low_imm_nonzero[of prog pc]
    unfolding insn_facts_def by (auto simp: jump_target_def add.assoc add.commute)
qed

section \<open>The arms without calls\<close>

definition arms_safe ::
  "'c ContextObject \<Rightarrow> Config \<Rightarrow> ('c, 'f) Interpreter \<Rightarrow> Insn \<Rightarrow> ('c, 'f) exec_arm list \<Rightarrow> bool" where
  "arms_safe ops config it insn arms \<longleftrightarrow>
     list_all (\<lambda>(op, g, act). opc insn = op \<and> g \<longrightarrow> safe ops config it act) arms"

lemma arms_safe_append [simp]:
  "arms_safe ops config it insn (xs @ ys) \<longleftrightarrow>
     arms_safe ops config it insn xs \<and> arms_safe ops config it insn ys"
  by (simp add: arms_safe_def)

lemma arms_safe_select:
  assumes "arms_safe ops config it insn arms" "select_arm arms (opc insn) = Some act"
  shows "safe ops config it act"
  using select_arm_list_all[OF _ assms(2), of "safe ops config it"] assms(1) by (simp add: arms_safe_def)

text \<open>The assumptions on a state and an instruction shared by the lemmas on the classes.\<close>

definition ready :: "'c ContextObject \<Rightarrow> Config \<Rightarrow> ('c, 'f) Interpreter \<Rightarrow> Insn \<Rightarrow> u64 \<Rightarrow> bool" where
  "ready ops config it insn next_pc \<longleftrightarrow>
     machine_ok ops config it \<and> slice_fits (program it) \<and>
     unat (reg it ! 11) + 1 = unat next_pc \<and> ptr insn = unat (reg it ! 11) \<and>
     insn_facts (get_sbpf_version (executable it)) (program it) insn next_pc"

lemma readyD:
  assumes "ready ops config it insn next_pc"
  shows "machine_ok ops config it" "slice_fits (program it)"
    "unat (src insn) < 12" "unat (dst insn) < 12" "unat next_pc \<le> num_insns (program it)"
    "unat (dst insn) < 11"
  using assms by (simp_all add: ready_def insn_facts_def)

lemma widen_eq_0: "(ucast (x :: u32) :: u64) = 0 \<longleftrightarrow> x = 0"
  by transfer simp

lemma ready_imm:
  assumes "ready ops config it insn next_pc"
    and "opc insn \<in> set div_imm_opcodes \<and> \<not> enable_pqr (get_sbpf_version (executable it)) \<or>
      opc insn \<in> set pqr_div_imm_opcodes \<and> enable_pqr (get_sbpf_version (executable it))"
  shows "(ucast (imm insn) :: u32) \<noteq> 0" "imm insn \<noteq> 0" "(ucast (ucast (imm insn) :: u32) :: u64) \<noteq> 0"
proof -
  show u: "(ucast (imm insn) :: u32) \<noteq> 0" using assms by (auto simp: ready_def insn_facts_def)
  then show "imm insn \<noteq> 0" by auto
  show "(ucast (ucast (imm insn) :: u32) :: u64) \<noteq> 0"
    using u by (simp add: widen_eq_0)
qed

lemma ready_jump:
  assumes "ready ops config it insn next_pc"
    and "opc insn \<in> set jmp64_opcodes \<or>
      opc insn \<in> set jmp32_opcodes \<and> enable_jmp32 (get_sbpf_version (executable it))"
  shows "safe ops config it (jump it insn next_pc)"
  using assms by (intro safe_jump) (auto simp: ready_def insn_facts_def)

lemmas arm_lists = arms_safe_def Let_def list.pred_inject prod.case

lemma arms_safe_ld:
  assumes "ready ops config it insn next_pc"
  shows "arms_safe ops config it insn (exec_ld it insn next_pc)"
  unfolding exec_ld_def arm_lists
proof (intro conjI impI TrueI, elim conjE)
  assume lddw: "opc insn = LD_DW_IMM" "\<not> disable_lddw (get_sbpf_version (executable it))"
  let ?p = "program it" and ?pc = "reg it ! 11"
  have pc: "unat ?pc + 1 = unat next_pc" "ptr insn = unat ?pc" and fits: "slice_fits ?p"
    and ok: "machine_ok ops config it" using assms by (simp_all add: ready_def)
  have "unat next_pc < num_insns ?p" using lddw assms by (simp add: ready_def insn_facts_def)
  then have len: "8 * (unat next_pc + 1) \<le> length ?p" by (simp add: less_num_insns)
  then have small: "unat ?pc + 2 < 2 ^ 60" using fits pc by (simp add: slice_fits_def)
  obtain i where aug: "augment_lddw_unchecked ?p insn = Some (insn\<lparr>imm := i\<rparr>)"
  proof -
    have "12 + unat ?pc * 8 \<le> length ?p" "4 \<le> length ?p - (12 + unat ?pc * 8)" 
      using len[folded pc(1)] by simp_all
    then show ?thesis
      using that pc(2) by (simp add: augment_lddw_unchecked_def slice_from_def read_i32_def layout)
  qed
  have l: "length (reg it) = 12" and d: "unat (dst insn) < 11"
    using machine_ok_length[OF ok] readyD[OF assms] by simp_all
  have a: "add_ovf ?pc 1 = Some (?pc + 1)" "add_ovf next_pc 1 = Some (next_pc + 1)"
    "unat (next_pc + 1) = unat next_pc + 1"
    using small pc by (simp_all add: add_ovf_def checked_add_def unat_word_ariths)
  then have n: "unat (next_pc + 1) \<le> num_insns ?p" using len by (simp add: num_insns_def)
  show "safe ops config it (do {
      insn \<leftarrow> augment_lddw_unchecked (program it) insn;
      regs \<leftarrow> slice_set (reg it) (unat (dst insn)) (imm insn);
      pc \<leftarrow> slice_get regs 11;
      pc \<leftarrow> add_ovf pc 1;
      regs \<leftarrow> slice_set regs 11 pc;
      next_pc \<leftarrow> add_ovf next_pc 1;
      Some (Next (it\<lparr>reg := regs\<rparr>) next_pc) })"
    using ok l d aug a n by (simp add: safe_def slice_set_Some slice_get_Some)
qed simp

lemma arms_safe_memory:
  assumes "ready ops config it insn next_pc"
  shows "arms_safe ops config it insn (exec_ldx it insn next_pc)"
    "arms_safe ops config it insn (exec_st it insn next_pc)"
    "arms_safe ops config it insn (exec_stx it insn next_pc)"
  unfolding exec_ldx_def exec_st_def exec_stx_def arm_lists
  by (intro conjI impI TrueI safe_arms readyD[OF assms]; simp)+

lemma arms_safe_alu32:
  assumes "ready ops config it insn next_pc"
  shows "arms_safe ops config it insn (exec_alu32_load it insn next_pc)"
  unfolding exec_alu32_load_def arm_lists
  by (intro conjI impI TrueI safe_arms readyD[OF assms] allI;
      simp add: unsigned_division_total ready_imm[OF assms] div_imm_opcodes_def)

lemma arms_safe_alu64:
  assumes "ready ops config it insn next_pc"
  shows "arms_safe ops config it insn (exec_alu64_store it insn next_pc)"
  unfolding exec_alu64_store_def arm_lists
  by (intro conjI impI TrueI safe_arms readyD[OF assms] allI;
      simp add: unsigned_division_total ready_imm[OF assms] div_imm_opcodes_def)

lemma arms_safe_pqr:
  assumes "ready ops config it insn next_pc"
  shows "arms_safe ops config it insn (exec_pqr it insn next_pc)"
  unfolding exec_pqr_def arm_lists
  by (intro conjI impI TrueI safe_arms readyD[OF assms] allI;
      simp add: unsigned_division_total signed_division_total ready_imm[OF assms] pqr_div_imm_opcodes_def)

lemma arms_safe_jumps:
  assumes "ready ops config it insn next_pc"
  shows "arms_safe ops config it insn (exec_jmp32 it insn next_pc)"
    "arms_safe ops config it insn (exec_jmp64 it insn next_pc)"
  unfolding exec_jmp32_def exec_jmp64_def arm_lists
  by (intro conjI impI TrueI safe_jump_arms readyD[OF assms] ready_jump[OF assms];
      simp add: jmp32_opcodes_def jmp64_opcodes_def)+

section \<open>Calls\<close>

lemma safe_check_pc:
  assumes "machine_ok ops config it" "slice_fits (program it)"
  shows "safe ops config it (check_pc it target)"
proof (cases "is_pc_in_program (program it) (unat target)")
  case True
  then have "unat target < num_insns (program it)"
    using is_pc_in_program_iff[OF assms(2)] by (simp add: less_num_insns)
  then show ?thesis using True assms(1) by (simp add: check_pc_def safe_def)
qed (use assms in \<open>simp add: check_pc_def safe_throw_error[OF machine_ok_core]\<close>)

definition saved_frame :: "('c, 'f) Interpreter \<Rightarrow> CallFrame" where
  "saved_frame it =
     \<lparr>caller_saved_registers = take 4 (drop 6 (reg it)), frame_pointer = reg it ! 10,
      target_pc = reg it ! 11 + 1\<rparr>"

definition entered :: "('c, 'f) Interpreter \<Rightarrow> ('c, 'f) EbpfVm" where
  "entered it =
     (vm it)\<lparr>call_frames := (call_frames (vm it))[unat (call_depth (vm it)) := saved_frame it],
              call_depth := call_depth (vm it) + 1\<rparr>"

definition frame_bump :: "Config \<Rightarrow> SBPFVersion \<Rightarrow> u64" where
  "frame_bump config v =
     (if manual_stack_frame_bump v then 0
      else of_nat (stack_frame_size config *
             (if stack_frame_gaps v \<and> enable_stack_frame_gaps config then 2 else 1)))"

definition callee :: "Config \<Rightarrow> ('c, 'f) Interpreter \<Rightarrow> ('c, 'f) Interpreter" where
  "callee config it =
     it\<lparr>vm := entered it,
        reg := (reg it)[10 := reg it ! 10 + frame_bump config (get_sbpf_version (executable it))]\<rparr>"

text \<open>The exact effect of \<open>push_frame\<close>.\<close>

lemma push_frame_eq:
  assumes "machine_ok ops config it" "code_ok config it" "unat (reg it ! 11) + 1 < 2 ^ 64"
  shows "push_frame it config = Some (
    if unat (call_depth (vm it)) + 1 = max_call_depth config
    then Inl (it\<lparr>vm := (entered it)\<lparr>registers := (registers (vm it))[11 := reg it ! 11],
                                  program_result := Err CallDepthExceeded\<rparr>\<rparr>)
    else Inr (callee config it))"
proof -
  let ?d = "call_depth (vm it)" and ?v = "get_sbpf_version (executable it)"
  have l: "length (reg it) = 12" "length (registers (vm it)) = 12" "length (call_frames (vm it)) = max_call_depth config"
    and d: "unat ?d < max_call_depth config" and m: "max_call_depth config \<le> usize_max"
    using assms(1,2) by (simp_all add: machine_ok_def core_ok_def code_ok_def)
  have pc: "add_ovf (reg it ! 11) 1 = Some (reg it ! 11 + 1)"
    using assms(3) by (simp add: add_ovf_def checked_add_def)
  have dd: "add_ovf ?d 1 = Some (?d + 1)" "unat (?d + 1) = unat ?d + 1"
    using d m by (simp_all add: add_ovf_def checked_add_def usize_max_def unat_word_ariths)
  have size: "usize_mul_ovf (stack_frame_size config)
      (if stack_frame_gaps ?v \<and> enable_stack_frame_gaps config then 2 else 1) =
    Some (stack_frame_size config * (if stack_frame_gaps ?v \<and> enable_stack_frame_gaps config then 2 else 1))"
    using assms(2) by (simp add: usize_mul_ovf_def code_ok_def)
  have fr: "f\<lparr>caller_saved_registers := a, frame_pointer := b, target_pc := c\<rparr> =
      \<lparr>caller_saved_registers = a, frame_pointer = b, target_pc = c\<rparr>" for f :: CallFrame and a b c by simp
  show ?thesis
    using l d dd(2)
    by (simp add: push_frame_def slice_get_Some slice_set_Some slice_range_def layout pc dd(1) fr
        throw_error_def size callee_def entered_def saved_frame_def frame_bump_def Let_def list_update_same_conv)
qed

lemma callee_frames_ok:
  assumes "core_ok ops config it" "i < max_call_depth config"
  shows "\<forall>f \<in> set ((call_frames (vm it))[i := saved_frame it]). length (caller_saved_registers f) = 4"
proof -
  have "length (caller_saved_registers (saved_frame it)) = 4"
    using assms by (simp add: saved_frame_def core_ok_def)
  then show ?thesis using assms by (auto simp: core_ok_def dest: set_update_subset_insert[THEN subsetD])
qed

lemma callee_ok:
  assumes "machine_ok ops config it" "code_ok config it"
  shows "core_ok ops config (it\<lparr>vm := (entered it)\<lparr>registers := (registers (vm it))[11 := x], program_result := r\<rparr>\<rparr>)"
    and "unat (call_depth (vm it)) + 1 \<noteq> max_call_depth config \<Longrightarrow> machine_ok ops config (callee config it)"
    and "budget ops (callee config it) = budget ops it" "same_code it (callee config it)"
    and "budget ops (it\<lparr>vm := (entered it)\<lparr>registers := ys, program_result := r\<rparr>\<rparr>) = budget ops it"
proof -
  have d: "unat (call_depth (vm it)) < max_call_depth config" and c: "core_ok ops config it"
    and m: "max_call_depth config \<le> usize_max" using assms by (simp_all add: machine_ok_def code_ok_def)
  have dd: "unat (call_depth (vm it) + 1) = unat (call_depth (vm it)) + 1"
    using d m by (simp add: usize_max_def unat_word_ariths)
  note f = callee_frames_ok[OF c d]
  show "core_ok ops config (it\<lparr>vm := (entered it)\<lparr>registers := (registers (vm it))[11 := x], program_result := r\<rparr>\<rparr>)"
    using c f by (simp add: core_ok_def entered_def)
  show "machine_ok ops config (callee config it)" if "unat (call_depth (vm it)) + 1 \<noteq> max_call_depth config"
    using c f d dd that by (simp add: core_ok_def machine_ok_def callee_def entered_def)
  show "budget ops (callee config it) = budget ops it" "same_code it (callee config it)"
    "budget ops (it\<lparr>vm := (entered it)\<lparr>registers := ys, program_result := r\<rparr>\<rparr>) = budget ops it"
    by (simp_all add: budget_def callee_def entered_def same_code_def)
qed

text \<open>Whatever follows a successful \<open>push_frame\<close>.\<close>

lemma safe_push_frame:
  assumes "machine_ok ops config it" "code_ok config it" "unat (reg it ! 11) + 1 < 2 ^ 64"
    and "machine_ok ops config (callee config it) \<Longrightarrow> safe ops config (callee config it) (k (callee config it))"
  shows "safe ops config it
    (push_frame it config \<bind> (\<lambda>r. case r of Inl it \<Rightarrow> Some (Halt it) | Inr it \<Rightarrow> k it))"
proof (cases "unat (call_depth (vm it)) + 1 = max_call_depth config")
  case True
  then show ?thesis using push_frame_eq[OF assms(1-3)] callee_ok[OF assms(1,2)]
    by (simp add: safe_def)
next
  case False
  note c = callee_ok(2)[OF assms(1,2) False] callee_ok(3,4)[OF assms(1,2)]
  have "safe ops config it (k (callee config it))"
    using safe_weaken[OF assms(4)[OF c(1)] c(3)] c(2) by simp
  then show ?thesis using push_frame_eq[OF assms(1-3)] False by simp
qed

lemma safe_call_reg:
  assumes "ready ops config it insn next_pc" "code_ok config it" "opc insn = CALL_REG"
  shows "safe ops config it (call_reg_arm config it insn)"
proof -
  let ?v = "get_sbpf_version (executable it)"
  have ok: "machine_ok ops config it" and fits: "slice_fits (program it)" using readyD[OF assms(1)] by simp_all
  have l: "length (reg it) = 12" using machine_ok_length[OF ok] by simp
  have pc: "unat (reg it ! 11) + 1 < 2 ^ 64" using assms(1) by (simp add: ready_def)
  have r: "0 \<le> sint (callx_register ?v insn)" "sint (callx_register ?v insn) < 10"
    using assms(1,3) by (simp_all add: ready_def insn_facts_def)
  have "unat (imm insn) < 12" if "\<not> callx_uses_src_reg ?v" "\<not> callx_uses_dst_reg ?v"
  proof -
    have that: "callx_register ?v insn = imm insn" using that by (simp add: callx_register_def)
    have "uint (imm insn) = sint (imm insn)" using r that by (simp add: uint_sint take_bit_int_eq_self)
    then have "uint (imm insn) < 10" using r that by simp
    then show ?thesis unfolding uint_nat by linarith
  qed
  then have "(let v = ?v in
      if callx_uses_src_reg v then slice_get (reg it) (unat (src insn))
      else if callx_uses_dst_reg v then slice_get (reg it) (unat (dst insn))
      else slice_get (reg it) (unat (imm insn))) \<noteq> None"
    using l readyD(3,4)[OF assms(1)] by (simp add: slice_get_Some Let_def)
  then obtain target where t: "(let v = ?v in
      if callx_uses_src_reg v then slice_get (reg it) (unat (src insn))
      else if callx_uses_dst_reg v then slice_get (reg it) (unat (dst insn))
      else slice_get (reg it) (unat (imm insn))) = Some target" by blast
  show ?thesis
    unfolding call_reg_arm_def t Option.bind_lunit
    by (rule safe_push_frame[OF ok assms(2) pc], rule safe_check_pc)
       (use fits in \<open>simp_all add: callee_def\<close>)
qed

lemma safe_exit:
  assumes "machine_ok ops config it" "slice_fits (program it)"
  shows "safe ops config it (exit_arm config it)"
proof (cases "call_depth (vm it) = 0")
  case True
  have "\<not> previous_instruction_meter (vm it) < due_insn_count (vm it)" and l: "0 < length (reg it)"
    using assms(1) by (auto simp: machine_ok_def core_ok_def not_less)
  moreover have "core_ok ops config (it\<lparr>vm := (vm it)\<lparr>program_result := r\<rparr>\<rparr>)" for r
    using assms(1) by (simp add: machine_ok_def core_ok_def)
  ultimately show ?thesis
    using True by (simp add: exit_arm_def safe_def slice_get_Some budget_def)
next
  case False
  let ?d = "call_depth (vm it) - 1"
  let ?f = "call_frames (vm it) ! unat ?d"
  have ok: "core_ok ops config it" "unat (call_depth (vm it)) < max_call_depth config"
    using assms(1) by (simp_all add: machine_ok_def)
  have d: "unat ?d = unat (call_depth (vm it)) - 1" "sub_ovf (call_depth (vm it)) 1 = Some ?d"
    using False by (simp_all add: unat_minus_one sub_ovf_def checked_sub_def word_le_nat_alt unat_gt_0 Suc_leI)
  then have lt: "unat ?d < length (call_frames (vm it))" using ok by (simp add: core_ok_def)
  then have "length (caller_saved_registers ?f) = 4" using ok(1) nth_mem[OF lt] by (auto simp: core_ok_def)
  moreover have "length (reg it) = 12" using ok(1) by (simp add: core_ok_def)
  moreover define regs where "regs = take 6 ((reg it)[10 := frame_pointer ?f]) @
      caller_saved_registers ?f @ drop 10 ((reg it)[10 := frame_pointer ?f])"
  ultimately have eq: "exit_arm config it =
      check_pc (it\<lparr>vm := (vm it)\<lparr>call_depth := ?d\<rparr>, reg := regs\<rparr>) (target_pc ?f)"
    and r: "length regs = 12"
    using False d(2) lt
    by (simp_all add: exit_arm_def slice_get_Some slice_set_Some copy_registers_def layout)
  let ?it = "it\<lparr>vm := (vm it)\<lparr>call_depth := ?d\<rparr>, reg := regs\<rparr>"
  have "machine_ok ops config ?it" using ok r d(1) by (simp add: machine_ok_def core_ok_def)
  then have "safe ops config ?it (check_pc ?it (target_pc ?f))" using assms(2) by (intro safe_check_pc) simp_all
  then show ?thesis
    unfolding eq by (rule safe_weaken) (simp_all add: budget_def)
qed

lemma safe_call_imm_internal:
  assumes "machine_ok ops config it" "code_ok config it" "unat (reg it ! 11) + 1 < 2 ^ 64"
    and "unat next_pc \<le> num_insns (program it)"
  shows "safe ops config it (call_imm_internal config it insn next_pc resolved)"
proof -
  have fits: "slice_fits (program it)" using assms(2) by (simp add: code_ok_def)
  have u: "safe ops config it (if resolved then Some (Next it next_pc) else throw_error it UnsupportedInstruction)"
    using assms(1,4) by (auto simp: safe_def[of _ _ _ "Some _"] intro: safe_throw_error machine_ok_core)
  have i: "safe ops config it
      (push_frame it config \<bind> (\<lambda>r. case r of Inl it \<Rightarrow> Some (Halt it) | Inr it \<Rightarrow> Some (Next it t)))"
    if "is_pc_in_program (program it) (unat t)" for t
    using that is_pc_in_program_iff[OF fits, of "unat t"] less_num_insns[of "unat t" "program it"]
    by (intro safe_push_frame[OF assms(1-3)]) (simp add: safe_def callee_def[of config it])
  have e: "safe ops config it
      (push_frame it config \<bind> (\<lambda>r. case r of Inl it \<Rightarrow> Some (Halt it) | Inr it \<Rightarrow> check_pc it t))" for t
    by (rule safe_push_frame[OF assms(1-3)], rule safe_check_pc) (use fits in \<open>simp_all add: callee_def\<close>)
  show ?thesis using u i e by (auto simp: call_imm_internal_def Let_def split: option.split)
qed

text \<open>The state in which the instruction is executed: one more instruction is due, and the registers
  are traced if the configuration asks for it.\<close>

definition metered :: "Config \<Rightarrow> ('c, 'f) Interpreter \<Rightarrow> ('c, 'f) Interpreter" where
  "metered config it =
     (let m = (vm it)\<lparr>due_insn_count := due_insn_count (vm it) + 1\<rparr> in
      it\<lparr>vm := (if enable_register_tracing config
               then m\<lparr>register_trace := register_trace m @ [reg it]\<rparr> else m)\<rparr>)"

lemma metered_simps [simp]:
  "reg (metered config it) = reg it" "program (metered config it) = program it"
  "executable (metered config it) = executable it" "same_code it (metered config it)"
  by (simp_all add: metered_def Let_def same_code_def)

lemma metered_ok:
  assumes "machine_ok ops config it" "due_insn_count (vm it) < previous_instruction_meter (vm it)"
  shows "machine_ok ops config (metered config it)" "budget ops (metered config it) < budget ops it"
    "add_ovf (due_insn_count (vm it)) 1 = Some (due_insn_count (vm it) + 1)"
proof -
  let ?k = "due_insn_count (vm it)" and ?r = "get_remaining ops (context_object_pointer (vm it))"
  have lt: "unat ?k < unat ?r" using assms by (simp add: machine_ok_def core_ok_def word_less_nat_alt)
  moreover have "unat ?r < 2 ^ 64" by simp
  ultimately have "unat ?k + 1 < 2 ^ 64" by linarith
  then show "add_ovf ?k 1 = Some (?k + 1)" by (simp add: add_ovf_def checked_add_def)
  have k: "unat (?k + 1) = unat ?k + 1" using \<open>unat ?k + 1 < 2 ^ 64\<close> by (simp add: unat_word_ariths)
  then show "machine_ok ops config (metered config it)"
    using assms lt by (simp add: metered_def Let_def machine_ok_def core_ok_def word_le_nat_alt)
  show "budget ops (metered config it) < budget ops it"
    using lt k by (simp add: metered_def Let_def budget_def)
qed

lemma step_eq:
  assumes "machine_ok ops config it" "code_ok config it" "unat (reg it ! 11) < num_insns (program it)"
    and "due_insn_count (vm it) < previous_instruction_meter (vm it)"
  shows "step ops rust it =
    exec_insn ops rust config (metered config it) (insn_at (program it) (unat (reg it ! 11))) (reg it ! 11 + 1)
      \<bind> finish_step"
    and "unat (reg it ! 11 + 1) = unat (reg it ! 11) + 1"
proof -
  let ?pc = "reg it ! 11" and ?p = "program it"
  have len: "(unat ?pc + 1) * 8 \<le> length ?p" using assms(3) by (simp add: less_num_insns)
  moreover have "length ?p < 2 ^ 63" using assms(2) by (simp add: code_ok_def slice_fits_def)
  ultimately have pos: "usize_mul_ovf (unat ?pc) INSN_SIZE = Some (unat ?pc * 8)" "\<not> length ?p \<le> unat ?pc * 8"
    and pc: "unat ?pc + 1 < 2 ^ 64" by (simp_all add: usize_mul_ovf_def usize_max_def layout)
  have c: "exe_get_config (executable it) = Some config" "enable_instruction_meter config"
    using assms(2) by (simp_all add: code_ok_def)
  have l: "length (reg it) = 12" using machine_ok_length[OF assms(1)] by simp
  show "unat (?pc + 1) = unat ?pc + 1" using pc by (simp add: unat_word_ariths)
  have n: "add_ovf ?pc 1 = Some (?pc + 1)" using pc by (simp add: add_ovf_def checked_add_def)
  show "step ops rust it =
    exec_insn ops rust config (metered config it) (insn_at (program it) (unat (reg it ! 11))) (reg it ! 11 + 1)
      \<bind> finish_step"
    using assms(4) metered_ok(3)[OF assms(1,4)] pos n l len
    by (simp add: step_def c not_le[symmetric] slice_get_Some Let_def get_insn_unchecked_eq metered_def)
qed

text \<open>The contract of a step.\<close>

definition step_contract ::
  "'c ContextObject \<Rightarrow> Config \<Rightarrow> ('c, 'f) Interpreter \<Rightarrow> (('c, 'f) Interpreter \<times> bool) option \<Rightarrow> bool" where
  "step_contract ops config it r \<longleftrightarrow>
     (\<exists>it' continues. r = Some (it', continues) \<and> same_code it it' \<and> core_ok ops config it' \<and>
        budget ops it' \<le> budget ops it \<and>
        (continues \<longrightarrow> machine_ok ops config it' \<and> unat (reg it' ! 11) \<le> num_insns (program it') \<and>
           budget ops it' < budget ops it))"

lemma step_contract_safe:
  assumes "safe ops config it1 r" "same_code it it1" "budget ops it1 < budget ops it"
  shows "step_contract ops config it (r \<bind> finish_step)"
proof -
  obtain out where out: "r = Some out" "outcome_ok ops config it1 out" using assms(1) by (auto simp: safe_def)
  show ?thesis
  proof (cases out)
    case (Next it' next_pc)
    then have ok: "machine_ok ops config it'" "length (reg it') = 12" using out machine_ok_length by auto
    then have "core_ok ops config (it'\<lparr>reg := (reg it')[11 := next_pc]\<rparr>)" by (simp add: machine_ok_core)
    then show ?thesis
      using ok out Next assms(2,3)
      by (auto simp: step_contract_def finish_step_def slice_set_Some same_code_def)
  qed (use out assms(2,3) in \<open>auto simp: step_contract_def finish_step_def same_code_def\<close>)
qed

lemma step_contract_error:
  assumes "core_ok ops config it1" "same_code it it1" "budget ops it1 \<le> budget ops it"
  shows "step_contract ops config it (throw_error it1 e \<bind> finish_step)"
proof -
  have "safe ops config it (throw_error it1 e)"
    by (rule safe_weaken[OF safe_throw_error]) (use assms in simp_all)
  then show ?thesis
    by (auto simp: safe_def throw_error_def finish_step_def step_contract_def bind_eq_Some_conv)
qed

lemma verified_length:
  "verify prog config v fr sr = Some (Inr ()) \<Longrightarrow> slice_fits prog \<Longrightarrow> length prog mod 8 = 0"
  using verify_eq[of prog config v fr sr] by auto

lemma step_exceeded_eq:
  assumes "code_ok config it" "\<not> due_insn_count (vm it) < previous_instruction_meter (vm it)"
  shows "step ops rust it = throw_error it ExceededMaxInstructions \<bind> finish_step"
  using assms by (simp add: step_def code_ok_def not_less)

lemma step_overrun_eq:
  assumes "machine_ok ops config it" "code_ok config it" "unat (reg it ! 11) = num_insns (program it)"
    and "due_insn_count (vm it) < previous_instruction_meter (vm it)"
  shows "step ops rust it =
    throw_error (it\<lparr>vm := (vm it)\<lparr>due_insn_count := due_insn_count (vm it) + 1\<rparr>\<rparr>) ExecutionOverrun \<bind> finish_step"
proof -
  have "length (program it) mod 8 = 0"
    using assms(2) by (auto simp: code_ok_def dest: verified_length)
  then have len: "length (program it) = 8 * num_insns (program it)" unfolding num_insns_def by presburger
  then have pos: "usize_mul_ovf (unat (reg it ! 11)) INSN_SIZE = Some (length (program it))"
    using assms(2,3) by (simp add: usize_mul_ovf_def usize_max_def layout code_ok_def slice_fits_def)
  then show ?thesis
    using assms(2,4) metered_ok(3)[OF assms(1,4)] machine_ok_length[OF assms(1)]
    by (simp add: step_def code_ok_def not_le[symmetric] slice_get_Some Let_def)
qed

lemma step_overrun:
  assumes "machine_ok ops config it" "code_ok config it" "unat (reg it ! 11) = num_insns (program it)"
    and "due_insn_count (vm it) < previous_instruction_meter (vm it)"
  shows "step_contract ops config it (step ops rust it)"
  unfolding step_overrun_eq[OF assms]
  by (rule step_contract_error)
     (use metered_ok(1,2)[OF assms(1,4)] in
       \<open>auto simp: metered_def Let_def machine_ok_def core_ok_def budget_def split: if_splits\<close>)

text \<open>No arm applies to the second slot of a wide load.\<close>

lemma exec_arms_opcodes:
  "list_all (\<lambda>(op, g, act). op \<noteq> 0) (exec_arms ops rust config it insn next_pc)"
  by (simp add: exec_arms_def exec_ld_def exec_ldx_def exec_st_def exec_stx_def exec_alu32_load_def
      exec_alu64_store_def exec_pqr_def exec_jmp32_def exec_jmp64_def exec_call_def Let_def opcode)

lemma exec_insn_second_slot:
  assumes "opc insn = 0"
  shows "exec_insn ops rust config it insn next_pc = throw_error it UnsupportedInstruction"
proof -
  have "select_arm (exec_arms ops rust config it insn next_pc) 0 = None"
  proof (rule ccontr)
    assume "select_arm (exec_arms ops rust config it insn next_pc) 0 \<noteq> None"
    then obtain act g where "(0, g, act) \<in> set (exec_arms ops rust config it insn next_pc)"
      by (auto dest: select_arm_SomeD)
    then show False using exec_arms_opcodes[of ops rust config it insn next_pc] by (auto simp: list_all_iff)
  qed
  then show ?thesis by (simp add: exec_insn_def assms)
qed

section \<open>System calls\<close>

text \<open>What the interpreter relies on of the built-in functions: on a well-formed mapping the Rust body
  returns, leaves a well-formed mapping, and does not add to the remaining budget.\<close>

locale syscall_interface = context_object ops for ops :: "'c ContextObject" +
  fixes rust :: "('c, 'f) builtin_semantics"
  assumes rust_safe:
    "mapping_ok h m \<Longrightarrow> \<exists>ctx' m' h' result. rust f ctx a1 a2 a3 a4 a5 m h = Some (ctx', m', h', result) \<and>
       mapping_ok h' m' \<and> get_remaining ops ctx' \<le> get_remaining ops ctx"
begin

lemma invoke_ok:
  assumes "machine_ok ops config it" "enable_instruction_meter config"
  obtains it' result where "dispatch_syscall ops rust it f = Some (it', result)" "machine_ok ops config it'"
    "same_code it it'" "reg it' = reg it" "budget ops it' \<le> budget ops it"
proof -
  let ?m = "vm it" and ?c = "context_object_pointer (vm it)" and ?k = "due_insn_count (vm it)"
  let ?r = "get_remaining ops ?c"
  have ok: "core_ok ops config it" "unat (call_depth ?m) < max_call_depth config"
    using assms(1) by (simp_all add: machine_ok_def)
  then have l: "length (reg it) = 12" "length (registers ?m) = 12" and cfg: "get_config (vm_loader ?m) = Some config"
    and prev: "previous_instruction_meter ?m = ?r" and k: "?k \<le> ?r"
    and map: "mapping_ok (host ?m) (memory_mapping ?m)" by (simp_all add: core_ok_def)
  have s: "sub_ovf ?r ?k = Some (?r - ?k)" "sub_ovf ?r (?r - ?k) = Some ?k"
    using k by (simp_all add: sub_ovf_def checked_sub_def word_sub_le)
  obtain ctx' m' h' res where R: "rust f (consume ops ?c ?k) (reg it ! 1) (reg it ! 2) (reg it ! 3)
      (reg it ! 4) (reg it ! 5) (memory_mapping ?m) (host ?m) = Some (ctx', m', h', res)" "mapping_ok h' m'"
    "get_remaining ops ctx' \<le> get_remaining ops (consume ops ?c ?k)"
    using rust_safe[OF map, of f "consume ops ?c ?k" "reg it ! 1" "reg it ! 2" "reg it ! 3" "reg it ! 4" "reg it ! 5"]
    by blast
  define regs where "regs = take 6 (reg it) @ drop 6 (registers ?m)"
  have args: "length regs = 12" "regs ! 1 = reg it ! 1" "regs ! 2 = reg it ! 2" "regs ! 3 = reg it ! 3"
    "regs ! 4 = reg it ! 4" "regs ! 5 = reg it ! 5" using l by (simp_all add: regs_def nth_append)
  define it' where "it' = it\<lparr>vm := ?m\<lparr>due_insn_count := 0, registers := regs, context_object_pointer := ctx',
      memory_mapping := m', host := h', program_result := stable_result_from (map_sum SyscallError id res),
      previous_instruction_meter := get_remaining ops ctx'\<rparr>\<rparr>"
  have "dispatch_syscall ops rust it f = Some (it', program_result (vm it'))"
    using l args s prev cfg R(1) assms(2)
    by (simp add: dispatch_syscall_def slice_range_def copy_registers_def regs_def[symmetric] invoke_function_def
        builtin_vm_def slice_get_Some Let_def it'_def)
  moreover have "machine_ok ops config it'"
    using ok l args R(2) by (simp add: machine_ok_def core_ok_def it'_def)
  moreover have "budget ops it' \<le> budget ops it"
    using R(3) consume_exact[OF k] by (simp add: budget_def it'_def word_le_nat_alt)
  moreover have "same_code it it'" "reg it' = reg it" by (simp_all add: same_code_def it'_def)
  ultimately show thesis using that by blast
qed

lemma safe_call_imm:
  assumes "ready ops config it insn next_pc" "code_ok config it"
  shows "safe ops config it (call_imm_arm ops rust config it insn next_pc)"
proof -
  note ok = readyD[OF assms(1)]
  have pc: "unat (reg it ! 11) + 1 < 2 ^ 64" using assms(1) by (simp add: ready_def)
  have internal: "safe ops config it (call_imm_internal config it insn next_pc r)" for r
    by (rule safe_call_imm_internal[OF ok(1) assms(2) pc ok(5)])
  have meter: "enable_instruction_meter config" using assms(2) by (simp add: code_ok_def)
  have external: "safe ops config it (dispatch_syscall ops rust it f \<bind> (\<lambda>(it, result).
      case result of Ok value \<Rightarrow> slice_set (reg it) 0 value \<bind> (\<lambda>regs. Some (Inr (it\<lparr>reg := regs\<rparr>, True)))
      | Err _ \<Rightarrow> Some (Inl it)) \<bind> (\<lambda>external. case external of Inl it \<Rightarrow> Some (Halt it)
      | Inr (it, resolved) \<Rightarrow> call_imm_internal config it insn next_pc resolved))" for f
  proof -
    obtain it' result where D: "dispatch_syscall ops rust it f = Some (it', result)" "machine_ok ops config it'"
      "same_code it it'" "reg it' = reg it" "budget ops it' \<le> budget ops it"
      by (rule invoke_ok[OF ok(1) meter])
    have l: "length (reg it) = 12" using machine_ok_length[OF ok(1)] by simp
    let ?it = "\<lambda>v. it'\<lparr>reg := (reg it)[0 := v]\<rparr>"
    have "safe ops config (?it v) (call_imm_internal config (?it v) insn next_pc True)" for v
      using D assms(2) l pc ok(5)
      by (intro safe_call_imm_internal) (simp_all add: code_ok_def same_code_def)
    then have "safe ops config it (call_imm_internal config (?it v) insn next_pc True)" for v
      by (rule safe_weaken) (use D in \<open>simp_all add: same_code_def\<close>)
    moreover have "safe ops config it (Some (Halt it'))" using D by (simp add: safe_def machine_ok_core)
    ultimately show ?thesis using D l by (cases result) (simp_all add: slice_set_Some)
  qed
  show ?thesis
  proof (cases "\<not> static_syscalls (get_sbpf_version (executable it)) \<or> src insn = 0")
    case True
    show ?thesis
    proof (cases "lookup_by_key (get_function_registry (get_loader (executable it))) (ucast (imm insn))")
      case None
      then show ?thesis using True internal by (simp add: call_imm_arm_def call_imm_external_def)
    next
      case (Some nf)
      obtain n f where "nf = (n, f)" by (cases nf)
      then show ?thesis
        using True Some external[of f] by (simp add: call_imm_arm_def call_imm_external_def)
    qed
  qed (use internal in \<open>simp add: call_imm_arm_def call_imm_external_def\<close>)
qed

lemma arms_safe_call:
  assumes "ready ops config it insn next_pc" "code_ok config it"
  shows "arms_safe ops config it insn (exec_call ops rust config it insn next_pc)"
  using safe_call_reg[OF assms] safe_call_imm[OF assms] safe_exit[OF readyD(1,2)[OF assms(1)]]
  by (simp add: exec_call_def arms_safe_def)

lemma exec_insn_safe:
  assumes "ready ops config it insn next_pc" "code_ok config it"
  shows "safe ops config it (exec_insn ops rust config it insn next_pc)"
proof -
  have "arms_safe ops config it insn (exec_arms ops rust config it insn next_pc)"
    unfolding exec_arms_def arms_safe_append
    by (intro conjI arms_safe_ld[OF assms(1)] arms_safe_memory[OF assms(1)] arms_safe_alu32[OF assms(1)]
        arms_safe_alu64[OF assms(1)] arms_safe_pqr[OF assms(1)] arms_safe_jumps[OF assms(1)] arms_safe_call[OF assms])
  note arms = arms_safe_select[OF this]
  show ?thesis
  proof (cases "select_arm (exec_arms ops rust config it insn next_pc) (opc insn)")
    case None
    then show ?thesis
      unfolding exec_insn_def by (simp add: safe_throw_error[OF machine_ok_core[OF readyD(1)[OF assms(1)]]])
  next
    case (Some act)
    then show ?thesis unfolding exec_insn_def using arms[OF Some] by simp
  qed
qed

lemma step_ok:
  assumes "machine_ok ops config it" "code_ok config it" "unat (reg it ! 11) \<le> num_insns (program it)"
  shows "step_contract ops config it (step ops rust it)"
proof -
  let ?p = "program it" and ?pc = "reg it ! 11" and ?v = "get_sbpf_version (executable it)"
  let ?insn = "insn_at ?p (unat ?pc)" and ?it = "metered config it"
  consider "\<not> due_insn_count (vm it) < previous_instruction_meter (vm it)"
    | "due_insn_count (vm it) < previous_instruction_meter (vm it)" "unat ?pc = num_insns ?p"
    | (run) "due_insn_count (vm it) < previous_instruction_meter (vm it)" "unat ?pc < num_insns ?p"
    using assms(3) by linarith
  then show ?thesis
  proof cases
    case run
    note s = step_eq[OF assms(1,2) run(2,1)] and m = metered_ok[OF assms(1) run(1)]
    have fits: "slice_fits ?p" using assms(2) by (simp add: code_ok_def)
    consider "insn_ok ?p ?v (unat ?pc)" | "opc ?insn = 0"
      using verified_slot[OF fits _ run(2)] assms(2) unfolding code_ok_def by blast
    then have "safe ops config ?it (exec_insn ops rust config ?it ?insn (?pc + 1))"
    proof cases
      case 1
      from verified_insn_facts[OF this run(2) s(2)] have "ready ops config ?it ?insn (?pc + 1)"
        using m(1) fits s(2) by (simp add: ready_def)
      moreover have "code_ok config ?it" using assms(2) by (simp add: code_ok_def)
      ultimately show ?thesis by (rule exec_insn_safe)
    next
      case 2
      show ?thesis unfolding exec_insn_second_slot[OF 2] by (rule safe_throw_error[OF machine_ok_core[OF m(1)]])
    qed
    then show ?thesis unfolding s(1) by (rule step_contract_safe) (use m(2) in simp_all)
  next
    case 1
    show ?thesis
      unfolding step_exceeded_eq[OF assms(2) 1] by (rule step_contract_error) (use machine_ok_core[OF assms(1)] in simp_all)
  qed (rule step_overrun[OF assms(1,2)])
qed

end

end
