(* ===== verification/Test_Syscalls.thy ===== *)
theory Test_Syscalls
  imports Interpreter_Step
begin

text \<open>
  The built-in functions of \<^verbatim>\<open>src/test_utils/src/syscalls.rs\<close>: the Rust bodies handed to
  \<open>declare_builtin_function\<close>.  Printing to the standard output has no effect on the machine and is
  left out, but the memory a message is printed from is read.  \<open>SyscallTracePrintf\<close> computes its
  result with floating-point logarithms and is not modelled.

  The memory-safe functions provide the contract \<open>syscall_interface\<close> the interpreter relies on;
  \<open>SyscallStrCmp\<close> checks only the first byte of its two strings and is kept apart.
\<close>

unbundle bit_operations_syntax

section \<open>Bodies\<close>

datatype TestSyscall =
    SyscallGatherBytes
  | SyscallMemFrob
  | SyscallString
  | SyscallU64

definition gather_bytes :: "u64 \<Rightarrow> u64 \<Rightarrow> u64 \<Rightarrow> u64 \<Rightarrow> u64 \<Rightarrow> u64" where
  "gather_bytes arg1 arg2 arg3 arg4 arg5 =
     wrapping_shl arg1 32 OR wrapping_shl arg2 24 OR wrapping_shl arg3 16 OR wrapping_shl arg4 8 OR arg5"

text \<open>The loop of \<open>SyscallMemFrob\<close> over \<open>i\<close>, with \<open>n\<close> iterations left.\<close>

fun frob_loop :: "host_memory \<Rightarrow> u64 \<Rightarrow> u64 \<Rightarrow> nat \<Rightarrow> host_memory option" where
  "frob_loop h addr i 0 = Some h"
| "frob_loop h addr i (Suc n) =
     do {
       p \<leftarrow> add_ovf addr i;
       b \<leftarrow> h p;
       frob_loop (h(p \<mapsto> b XOR 0x2a)) addr (i + 1) n
     }"

definition mem_frob ::
  "u64 \<Rightarrow> u64 \<Rightarrow> MemoryMapping \<Rightarrow> host_memory \<Rightarrow>
   (MemoryMapping \<times> host_memory \<times> (BoxedError + u64)) option" where
  "mem_frob vaddr n m h =
     (if n = 0 then Some (m, h, Inr 0)
      else do {
        (m, r) \<leftarrow> mapping_map m Store vaddr n;
        case r of
          Err e \<Rightarrow> Some (m, h, Inl (BoxedEbpfError e))
        | Ok addr \<Rightarrow> do { h \<leftarrow> frob_loop h addr 0 (unat n); Some (m, h, Inr 0) }
      })"

definition print_string ::
  "u64 \<Rightarrow> u64 \<Rightarrow> MemoryMapping \<Rightarrow> host_memory \<Rightarrow>
   (MemoryMapping \<times> host_memory \<times> (BoxedError + u64)) option" where
  "print_string vaddr n m h =
     (if n = 0 then Some (m, h, Inr 0)
      else do {
        (m, r) \<leftarrow> mapping_map m Load vaddr n;
        case r of
          Err e \<Rightarrow> Some (m, h, Inl (BoxedEbpfError e))
        | Ok addr \<Rightarrow> do { _ \<leftarrow> host_read h addr (unat n); Some (m, h, Inr 0) }
      })"

fun test_rust :: "(TestContextObject, TestSyscall) builtin_semantics" where
  "test_rust SyscallGatherBytes ctx a b c d e m h = Some (ctx, m, h, Inr (gather_bytes a b c d e))"
| "test_rust SyscallMemFrob ctx a b c d e m h = map_option (Pair ctx) (mem_frob a b m h)"
| "test_rust SyscallString ctx a b c d e m h = map_option (Pair ctx) (print_string a b m h)"
| "test_rust SyscallU64 ctx a b c d e m h = Some (ctx, m, h, Inr 0)"

text \<open>\<open>SyscallStrCmp\<close>.  The loop ends at the latest when an address overflows.\<close>

function strcmp_loop :: "host_memory \<Rightarrow> u64 \<Rightarrow> u64 \<Rightarrow> u64 option" where
  "strcmp_loop h a b =
     do {
       a_val \<leftarrow> h a;
       b_val \<leftarrow> h b;
       if a_val = b_val \<and> a_val \<noteq> 0 \<and> b_val \<noteq> 0
       then (if unat a + 1 < 2 ^ 64 \<and> unat b + 1 < 2 ^ 64 then strcmp_loop h (a + 1) (b + 1) else None)
       else Some (ucast (if a_val \<ge> b_val then a_val - b_val else b_val - a_val))
     }"
  by pat_completeness auto
termination
  by (relation "measure (\<lambda>(h, a, b). 2 ^ 64 - unat a)") (auto simp: unat_word_ariths)

definition str_cmp ::
  "u64 \<Rightarrow> u64 \<Rightarrow> MemoryMapping \<Rightarrow> host_memory \<Rightarrow> (MemoryMapping \<times> (BoxedError + u64)) option" where
  "str_cmp arg1 arg2 m h =
     (if arg1 = 0 \<or> arg2 = 0 then Some (m, Inr u64_max)
      else do {
        (m, r) \<leftarrow> mapping_map m Load arg1 1;
        case r of
          Err e \<Rightarrow> Some (m, Inl (BoxedEbpfError e))
        | Ok a \<Rightarrow>
            do {
              (m, r) \<leftarrow> mapping_map m Load arg2 1;
              case r of
                Err e \<Rightarrow> Some (m, Inl (BoxedEbpfError e))
              | Ok b \<Rightarrow> do { v \<leftarrow> strcmp_loop h a b; Some (m, Inr v) }
            }
      })"

section \<open>Safety\<close>

lemma mapping_map_ok:
  assumes "mapping_ok h m"
  shows "\<exists>m' r. mapping_map m t a n = Some (m', r) \<and> mapping_ok h m' \<and> mapping_spec m' = mapping_spec m \<and>
    get_regions m' = get_regions m \<and> (\<forall>ha. r = Ok ha \<longleftrightarrow> translates m t a n ha)"
proof -
  obtain m1 where m1: "find_region m a =
      Some (m1, map_option (\<lambda>i. (i, get_regions m ! i)) (mapping_spec m a))"
    "mapping_ok h m1" "common_of m1 = common_of m" "mapping_spec m1 = mapping_spec m"
    "get_regions m1 = get_regions m"
    using mapping_ok_lookup[OF assms] .
  have c: "common m1 = Some (common_of m)"
    using m1(2,3) by (simp add: mapping_ok_def mapping_wf_common)
  obtain e where e: "generate_access_violation (common_of m) t a n = Err e"
    using generate_access_violation_Err by blast
  show ?thesis
    using m1 c e
    by (cases "mapping_spec m a"; cases "vm_to_host (get_regions m ! the (mapping_spec m a)) t a n")
       (auto simp: mapping_map_def translates_def)
qed

text \<open>\<open>SyscallMemFrob\<close> changes exactly the bytes of its range.\<close>

lemma frob_loop_eq:
  assumes "owned h (addr + i) n" "unat addr + unat i + n < 2 ^ 64"
  shows "frob_loop h addr i n = Some (\<lambda>x. if \<exists>k < n. x = addr + i + of_nat k
    then map_option (\<lambda>b. b XOR 0x2a) (h x) else h x)"
  using assms
proof (induction n arbitrary: h i)
  case (Suc n)
  let ?p = "addr + i"
  obtain b where b: "h ?p = Some b" using Suc.prems(1) by (auto simp: owned_Suc)
  have p: "add_ovf addr i = Some ?p" using Suc.prems(2) by (simp add: add_ovf_def checked_add_def)
  have i: "unat (i + 1) = unat i + 1" using Suc.prems(2) by (simp add: unat_word_ariths)
  let ?h = "h(?p \<mapsto> b XOR 0x2a)"
  have "owned ?h (addr + (i + 1)) n"
    using Suc.prems(1) by (auto simp: owned_Suc add.assoc intro: owned_mono)
  moreover have "unat addr + unat (i + 1) + n < 2 ^ 64" using Suc.prems(2) i by simp
  ultimately have IH: "frob_loop ?h addr (i + 1) n = Some (\<lambda>x. if \<exists>k < n. x = addr + (i + 1) + of_nat k
      then map_option (\<lambda>b. b XOR 0x2a) (?h x) else ?h x)" by (rule Suc.IH)
  have ne: "?p \<noteq> addr + (i + 1) + of_nat k" if "k < n" for k
    using offset_neq[of k ?p] that Suc.prems(2) by (simp add: add.assoc)
  have "(\<exists>k < Suc n. x = ?p + of_nat k) \<longleftrightarrow> x = ?p \<or> (\<exists>k < n. x = addr + (i + 1) + of_nat k)" for x
    by (auto simp: less_Suc_eq_0_disj add_ac)
  then show ?case using b p IH ne by (auto simp: fun_eq_iff)
qed (simp add: fun_eq_iff)

definition frobbed :: "host_memory \<Rightarrow> u64 \<Rightarrow> nat \<Rightarrow> host_memory" where
  "frobbed h ha n =
     (\<lambda>x. if \<exists>k < n. x = ha + of_nat k then map_option (\<lambda>b. b XOR 0x2a) (h x) else h x)"

lemma frob_loop_frobbed:
  "owned h ha n \<Longrightarrow> unat ha + n < 2 ^ 64 \<Longrightarrow> frob_loop h ha 0 n = Some (frobbed h ha n)"
  using frob_loop_eq[of h ha 0 n] by (simp add: frobbed_def)

lemma frobbed_frobbed: "frobbed (frobbed h ha n) ha n = h"
  by (auto simp: frobbed_def fun_eq_iff option.map_comp comp_def xor.assoc option.map_id0 option.map_ident)

lemma frobbed_dom: "dom (frobbed h ha n) = dom h"
  by (auto simp: frobbed_def split: if_splits)

lemma mem_frob_ok:
  assumes "mapping_ok h m"
  shows "\<exists>m' h' r. mem_frob a n m h = Some (m', h', r) \<and> mapping_ok h' m'"
proof -
  obtain m' r where M: "mapping_map m Store a n = Some (m', r)" "mapping_ok h m'"
    "\<And>ha. r = Ok ha \<Longrightarrow> translates m Store a n ha"
    using mapping_map_ok[OF assms, of Store a n] by auto
  show ?thesis
  proof (cases r)
    case (Ok ha)
    then have "owned h ha (unat n)" "unat ha + unat n < 2 ^ 64"
      using translates_owned[OF assms] M(3) by blast+
    then have "frob_loop h ha 0 (unat n) = Some (frobbed h ha (unat n))" by (rule frob_loop_frobbed)
    moreover have "mapping_ok (frobbed h ha (unat n)) m'" using M(2) by (rule mapping_ok_mono) (simp add: frobbed_dom)
    ultimately show ?thesis using M Ok assms by (auto simp: mem_frob_def)
  qed (use M assms in \<open>auto simp: mem_frob_def\<close>)
qed

lemma print_string_ok:
  assumes "mapping_ok h m"
  shows "\<exists>m' r. print_string a n m h = Some (m', h, r) \<and> mapping_ok h m'"
proof -
  obtain m' r where M: "mapping_map m Load a n = Some (m', r)" "mapping_ok h m'"
    "\<And>ha. r = Ok ha \<Longrightarrow> translates m Load a n ha"
    using mapping_map_ok[OF assms, of Load a n] by auto
  show ?thesis
  proof (cases r)
    case (Ok ha)
    then have "owned h ha (unat n)" using translates_owned[OF assms] M(3) by blast
    then obtain bs where "host_read h ha (unat n) = Some bs" using host_read_owned by blast
    then show ?thesis using M Ok assms by (auto simp: print_string_def)
  qed (use M assms in \<open>auto simp: print_string_def\<close>)
qed

interpretation test_syscalls: syscall_interface test_context_object test_rust
proof (unfold_locales, goal_cases)
  case (1 h m f ctx a1 a2 a3 a4 a5)
  then show ?case
    using mem_frob_ok[OF 1, of a1 a2] print_string_ok[OF 1, of a1 a2] by (cases f) auto
qed

section \<open>Properties\<close>

lemma mem_frob_eq:
  assumes "mapping_ok h m" "n \<noteq> 0" "translates m Store a n ha"
  obtains m' where "mem_frob a n m h = Some (m', frobbed h ha (unat n), Inr 0)"
    "mapping_ok (frobbed h ha (unat n)) m'" "translates m' Store a n ha"
proof -
  obtain m' where M: "mapping_map m Store a n = Some (m', Ok ha)" "mapping_ok h m'"
    "mapping_spec m' = mapping_spec m" "get_regions m' = get_regions m"
    using mapping_map_ok[OF assms(1), of Store a n] assms(3) by auto
  have "frob_loop h ha 0 (unat n) = Some (frobbed h ha (unat n))"
    using translates_owned[OF assms(1,3)] by (intro frob_loop_frobbed) simp_all
  then show thesis
    using that[of m'] M assms(2,3) mapping_ok_mono[OF M(2)] by (simp add: mem_frob_def translates_def frobbed_dom)
qed

text \<open>C33: \<open>SyscallMemFrob\<close> flips exactly the bytes the translated range addresses, and calling it a
  second time with the same arguments restores the memory.\<close>

theorem mem_frob_involution:
  assumes "mapping_ok h m" "n \<noteq> 0" "translates m Store a n ha"
  shows "\<exists>m' m''. mem_frob a n m h = Some (m', frobbed h ha (unat n), Inr 0) \<and>
    mem_frob a n m' (frobbed h ha (unat n)) = Some (m'', h, Inr 0)"
proof -
  from assms obtain m' where m': "mem_frob a n m h = Some (m', frobbed h ha (unat n), Inr 0)"
    "mapping_ok (frobbed h ha (unat n)) m'" "translates m' Store a n ha" by (rule mem_frob_eq)
  from m'(2) assms(2) m'(3) obtain m'' where "mem_frob a n m' (frobbed h ha (unat n)) =
      Some (m'', frobbed (frobbed h ha (unat n)) ha (unat n), Inr 0)" by (rule mem_frob_eq)
  then show ?thesis using m'(1) by (simp add: frobbed_frobbed)
qed

theorem mem_frob_involution_witness:
  "\<exists>m' m''. mem_frob 0x200002008 8 example_mapping example_host = Some (m', frobbed example_host 0x2008 8, Inr 0) \<and>
     mem_frob 0x200002008 8 m' (frobbed example_host 0x2008 8) = Some (m'', example_host, Inr 0)"
  using mem_frob_involution[OF example_mapping_ok, of 8 "0x200002008" "0x2008"]
  by (simp add: translates_def example_mapping_common example_stack_access)

text \<open>C34: \<open>SyscallStrCmp\<close> is not confined to the mapped regions.  The two strings start at the last
  byte and at the first byte of the only region; the result is the byte behind the region, which no
  region gives access to, and the process faults when that byte does not exist.\<close>

theorem str_cmp_overread:
  "mapping_ok (example_host(0x1000 \<mapsto> 1, 0x2fff \<mapsto> 1, 0x3000 := v)) example_mapping \<and>
   get_regions example_mapping = [example_stack] \<and> host_addr example_stack + len example_stack = 0x3000 \<and>
   map_option snd (str_cmp 0x200002fff 0x200000000 example_mapping
     (example_host(0x1000 \<mapsto> 1, 0x2fff \<mapsto> 1, 0x3000 := v))) = map_option (\<lambda>b. Inr (ucast b)) v"
proof (intro conjI)
  let ?h = "example_host(0x1000 \<mapsto> 1, 0x2fff \<mapsto> 1, 0x3000 := v)"
  have "dom example_host \<subseteq> dom ?h" by (auto simp: example_host_def split: if_splits)
  then show ok: "mapping_ok ?h example_mapping" using mapping_ok_mono[OF example_mapping_ok] by blast
  show "get_regions example_mapping = [example_stack]" "host_addr example_stack + len example_stack = 0x3000"
    by (simp_all add: example_mapping_common example_stack_fields)
  have s: "mapping_spec example_mapping 0x200002fff = Some 0" "mapping_spec example_mapping 0x200000000 = Some 0"
    by (simp_all add: example_mapping_def last_region_le_def example_stack_fields)
  have v: "vm_to_host example_stack Load 0x200002fff 1 = Some 0x2fff"
    "vm_to_host example_stack Load 0x200000000 1 = Some 0x1000"
    by (simp_all add: vm_to_host_eq in_gap_def host_offset_def example_stack_fields Let_def)
  obtain m1 where m1: "mapping_map example_mapping Load 0x200002fff 1 = Some (m1, Ok 0x2fff)"
    "mapping_ok ?h m1" "mapping_spec m1 = mapping_spec example_mapping" "get_regions m1 = get_regions example_mapping"
    using mapping_map_ok[OF ok, of Load "0x200002fff" 1] s v by (auto simp: translates_def example_mapping_common)
  obtain m2 where m2: "mapping_map m1 Load 0x200000000 1 = Some (m2, Ok 0x1000)"
    using mapping_map_ok[OF m1(2), of Load "0x200000000" 1] s v m1(3,4)
    by (auto simp: translates_def example_mapping_common)
  have "?h 0x1001 = Some 0" by (simp add: example_host_def)
  then have "strcmp_loop ?h 0x3000 0x1001 = map_option ucast v"
    by (subst strcmp_loop.simps) (cases v; simp)
  moreover have "strcmp_loop ?h 0x2fff 0x1000 = strcmp_loop ?h 0x3000 0x1001"
    by (subst strcmp_loop.simps) simp
  ultimately show "map_option snd (str_cmp 0x200002fff 0x200000000 example_mapping ?h) =
      map_option (\<lambda>b. Inr (ucast b)) v"
    using m1(1) m2 by (cases v) (simp_all add: str_cmp_def)
qed

end
