(* ===== verification/Execute.thy ===== *)
theory Execute
  imports Test_Syscalls
begin

text \<open>
  Running a program: the loop \<open>run_interpreter\<close> and \<open>EbpfVm::execute_program\<close> of
  \<^verbatim>\<open>src/src/vm.rs\<close>, without the \<open>jit\<close> and \<open>debugger\<close> features.  The loop may run forever in general,
  which is the value \<open>None\<close> of the partial function; on verified programs with an instruction
  meter it is shown to return within the budget of the context object.
\<close>

section \<open>Operations\<close>

partial_function (option) run_interpreter ::
  "'c ContextObject \<Rightarrow> ('c, 'f) builtin_semantics \<Rightarrow> ('c, 'f) Interpreter \<Rightarrow> ('c, 'f) Interpreter option" where
  "run_interpreter ops rust it =
     do {
       (it, continues) \<leftarrow> step ops rust it;
       if continues then run_interpreter ops rust it else Some it
     }"

declare run_interpreter.simps [code]

text \<open>The assertion that the machine and the executable share their loader compares the loaders.
  Without a compiled program the JIT branch returns an error.\<close>

definition execute_program ::
  "'c ContextObject \<Rightarrow> ('c, 'f) builtin_semantics \<Rightarrow> ('c, 'f) EbpfVm \<Rightarrow> 'f Executable \<Rightarrow> bool \<Rightarrow>
   (('c, 'f) EbpfVm \<times> u64 \<times> ProgramResult) option" where
  "execute_program ops rust m exe interpreted =
     (if vm_loader m \<noteq> get_loader exe then None
      else do {
        regs \<leftarrow> slice_set (registers m) 11 (of_nat (get_entrypoint_instruction_offset exe));
        config \<leftarrow> exe_get_config exe;
        let initial = get_remaining ops (context_object_pointer m);
        let m = m\<lparr>registers := regs, previous_instruction_meter := initial, due_insn_count := 0,
                  program_result := Ok 0\<rparr>;
        if interpreted
        then do {
          it \<leftarrow> Interpreter_new m exe (registers m);
          it \<leftarrow> run_interpreter ops rust it;
          let m = vm it;
          let (count, m) =
            (if enable_instruction_meter config
             then let m = m\<lparr>context_object_pointer := consume ops (context_object_pointer m) (due_insn_count m)\<rparr>
                  in (saturating_sub initial (get_remaining ops (context_object_pointer m)), m)
             else (0, m));
          Some (m\<lparr>program_result := Ok 0\<rparr>, count, program_result m)
        }
        else Some (m, 0, Err JitNotCompiled)
      })"

section \<open>Termination\<close>

text \<open>The steps from one interpreter state to the next, and the final state.\<close>

inductive steps_to ::
  "'c ContextObject \<Rightarrow> ('c, 'f) builtin_semantics \<Rightarrow> ('c, 'f) Interpreter \<Rightarrow> nat \<Rightarrow> ('c, 'f) Interpreter \<Rightarrow> bool"
  for ops rust where
  last: "step ops rust it = Some (it', False) \<Longrightarrow> steps_to ops rust it 1 it'"
| more: "step ops rust it = Some (it1, True) \<Longrightarrow> steps_to ops rust it1 n it' \<Longrightarrow> steps_to ops rust it (Suc n) it'"

inductive_cases steps_toE: "steps_to ops rust it n it'"

lemma steps_to_run: "steps_to ops rust it n it' \<Longrightarrow> run_interpreter ops rust it = Some it'"
  by (induction rule: steps_to.induct) (subst run_interpreter.simps; simp)+

lemma step_contract_config:
  "same_code it it' \<Longrightarrow> code_ok config it \<Longrightarrow> code_ok config it'"
  by (simp add: same_code_def code_ok_def)

context syscall_interface
begin

lemma run_terminates:
  assumes "machine_ok ops config it" "code_ok config it" "unat (reg it ! 11) \<le> num_insns (program it)"
  shows "\<exists>n it'. steps_to ops rust it n it' \<and> n \<le> budget ops it + 1 \<and> same_code it it' \<and>
    core_ok ops config it' \<and> budget ops it' \<le> budget ops it"
  using assms
proof (induction "budget ops it" arbitrary: it rule: less_induct)
  case less
  from step_ok[OF less.prems] obtain it1 c where S: "step ops rust it = Some (it1, c)" "same_code it it1"
    "core_ok ops config it1" "budget ops it1 \<le> budget ops it"
    "c \<longrightarrow> machine_ok ops config it1 \<and> unat (reg it1 ! 11) \<le> num_insns (program it1) \<and> budget ops it1 < budget ops it"
    by (auto simp: step_contract_def)
  show ?case
  proof (cases c)
    case True
    have "code_ok config it1" by (rule step_contract_config[OF S(2) less.prems(2)])
    with less.hyps[of it1] S True obtain n it' where IH: "steps_to ops rust it1 n it'" "n \<le> budget ops it1 + 1"
      "same_code it1 it'" "core_ok ops config it'" "budget ops it' \<le> budget ops it1" by auto
    then have "steps_to ops rust it (Suc n) it'" using S(1) True by (auto intro: steps_to.more)
    moreover have "same_code it it'" using S(2) IH(3) by (simp add: same_code_def)
    ultimately show ?thesis using IH S True by (intro exI[of _ "Suc n"] exI[of _ it']) auto
  next
    case False
    then have "steps_to ops rust it 1 it1" using steps_to.last[of ops rust it it1] S(1) by simp
    then show ?thesis using S by (intro exI[of _ 1] exI[of _ it1]) auto
  qed
qed

end

text \<open>What \<open>execute_program\<close> needs of the machine, the executable and the configuration.\<close>

definition vm_ok :: "Config \<Rightarrow> ('c, 'f) EbpfVm \<Rightarrow> bool" where
  "vm_ok config m \<longleftrightarrow>
     length (registers m) = 12 \<and> length (call_frames m) = max_call_depth config \<and>
     (\<forall>f \<in> set (call_frames m). length (caller_saved_registers f) = 4) \<and>
     mapping_ok (host m) (memory_mapping m) \<and> get_config (vm_loader m) = Some config \<and>
     unat (call_depth m) < max_call_depth config"

definition config_ok :: "Config \<Rightarrow> bool" where
  "config_ok config \<longleftrightarrow>
     enable_instruction_meter config \<and> 2 * stack_frame_size config \<le> usize_max \<and>
     0 < max_call_depth config \<and> max_call_depth config \<le> usize_max"

definition exe_ok :: "Config \<Rightarrow> 'f Executable \<Rightarrow> bool" where
  "exe_ok config exe \<longleftrightarrow>
     verified exe \<and> exe_get_config exe = Some config \<and>
     (case get_text_bytes exe of
        None \<Rightarrow> False
      | Some (_, prog) \<Rightarrow> slice_fits prog \<and> entry_pc exe \<le> num_insns prog)"

text \<open>The state the interpreter starts in.\<close>

definition start_vm :: "'c ContextObject \<Rightarrow> ('c, 'f) EbpfVm \<Rightarrow> 'f Executable \<Rightarrow> ('c, 'f) EbpfVm" where
  "start_vm ops m exe =
     m\<lparr>registers := (registers m)[11 := of_nat (entry_pc exe)],
       previous_instruction_meter := get_remaining ops (context_object_pointer m),
       due_insn_count := 0, program_result := Ok 0\<rparr>"

lemma start_ok:
  assumes "vm_ok config m" "config_ok config" "exe_ok config exe" "vm_loader m = exe_loader exe"
  obtains it where "Interpreter_new (start_vm ops m exe) exe (registers (start_vm ops m exe)) = Some it"
    "machine_ok ops config it" "code_ok config it" "unat (reg it ! 11) \<le> num_insns (program it)"
    "budget ops it = unat (get_remaining ops (context_object_pointer m))"
    "slice_set (registers m) 11 (of_nat (get_entrypoint_instruction_offset exe)) = Some (registers (start_vm ops m exe))"
proof -
  obtain va prog where T: "get_text_bytes exe = Some (va, prog)" "slice_fits prog" "entry_pc exe \<le> num_insns prog"
    using assms(3) by (auto simp: exe_ok_def split: option.splits)
  have v: "verify prog config (get_sbpf_version exe) (exe_get_function_registry exe)
      (get_function_registry (exe_loader exe)) = Some (Inr ())"
    using assms(3) T by (auto simp: exe_ok_def elim!: verified_text)
  define it where "it = \<lparr>vm = start_vm ops m exe, executable = exe, program = prog, program_vm_addr = va,
    reg = registers (start_vm ops m exe)\<rparr>"
  have "num_insns prog < 2 ^ 64" using T(2) by (simp add: slice_fits_def num_insns_def)
  then have e: "unat (of_nat (entry_pc exe) :: u64) = entry_pc exe"
    using T(3) by (simp add: unat_of_nat)
  show thesis
  proof (rule that[of it])
    show "Interpreter_new (start_vm ops m exe) exe (registers (start_vm ops m exe)) = Some it"
      using T by (simp add: Interpreter_new_def it_def)
    show "machine_ok ops config it"
      using assms(1) by (simp add: machine_ok_def core_ok_def it_def vm_ok_def start_vm_def)
    show "code_ok config it" using assms(2,3) T v by (simp add: code_ok_def config_ok_def exe_ok_def it_def)
    show "unat (reg it ! 11) \<le> num_insns (program it)"
      using T(3) e assms(1) by (simp add: it_def start_vm_def vm_ok_def)
    show "budget ops it = unat (get_remaining ops (context_object_pointer m))"
      by (simp add: budget_def it_def start_vm_def)
    show "slice_set (registers m) 11 (of_nat (get_entrypoint_instruction_offset exe)) =
        Some (registers (start_vm ops m exe))"
      using assms(1) by (simp add: vm_ok_def start_vm_def slice_set_Some get_entrypoint_instruction_offset_def)
  qed
qed

context syscall_interface
begin

lemma execute_program_ok:
  assumes "vm_ok config m" "config_ok config" "exe_ok config exe" "vm_loader m = exe_loader exe"
  shows "\<exists>m' count result. execute_program ops rust m exe True = Some (m', count, result) \<and>
    count \<le> get_remaining ops (context_object_pointer m) \<and>
    get_remaining ops (context_object_pointer m') = get_remaining ops (context_object_pointer m) - count \<and>
    mapping_ok (host m') (memory_mapping m')"
proof -
  let ?r = "get_remaining ops (context_object_pointer m)"
  obtain it where I: "Interpreter_new (start_vm ops m exe) exe (registers (start_vm ops m exe)) = Some it"
    "machine_ok ops config it" "code_ok config it" "unat (reg it ! 11) \<le> num_insns (program it)"
    "budget ops it = unat ?r"
    "slice_set (registers m) 11 (of_nat (get_entrypoint_instruction_offset exe)) = Some (registers (start_vm ops m exe))"
    using start_ok[OF assms] .
  obtain n it' where R: "steps_to ops rust it n it'" "core_ok ops config it'" "budget ops it' \<le> budget ops it"
    using run_terminates[OF I(2-4)] by blast
  let ?c = "context_object_pointer (vm it')" and ?k = "due_insn_count (vm it')"
  let ?c' = "consume ops ?c ?k"
  have k: "?k \<le> get_remaining ops ?c" using R(2) by (simp add: core_ok_def)
  have le: "get_remaining ops ?c' \<le> ?r"
    using consume_exact[OF k] R(3) I(5) by (simp add: word_le_nat_alt budget_def)
  have cfg: "exe_get_config exe = Some config" "enable_instruction_meter config"
    using assms(2,3) by (simp_all add: exe_ok_def config_ok_def)
  have start: "m\<lparr>registers := registers (start_vm ops m exe), previous_instruction_meter := ?r,
      due_insn_count := 0, program_result := Ok 0\<rparr> = start_vm ops m exe" by (simp add: start_vm_def)
  have "execute_program ops rust m exe True =
      Some ((vm it')\<lparr>context_object_pointer := ?c', program_result := Ok 0\<rparr>,
            saturating_sub ?r (get_remaining ops ?c'), program_result (vm it'))"
    using I(1,6) steps_to_run[OF R(1)] cfg assms(4)
    by (simp add: execute_program_def get_loader_def Let_def start split: prod.splits)
  moreover have "saturating_sub ?r (get_remaining ops ?c') = ?r - get_remaining ops ?c'"
    using le by (simp add: saturating_sub_def)
  moreover have "?r - get_remaining ops ?c' \<le> ?r" using le by (rule word_sub_le)
  ultimately show ?thesis using R(2) by (simp add: core_ok_def)
qed

end

section \<open>New machines\<close>

lemma EbpfVm_new_ok:
  assumes "get_config loader = Some config" "config_ok config" "enable_address_translation config"
    and "mapping_ok h mapping"
  obtains m where "EbpfVm_new h loader version ctx mapping stack_len = Some m" "vm_ok config m"
    "vm_loader m = loader" "context_object_pointer m = ctx" "call_depth m = 0"
  using assms that
  by (simp add: EbpfVm_new_def slice_set_Some layout Let_def vm_ok_def config_ok_def CallFrame_default_def)

text \<open>An executable made from the bytes of the example program.\<close>

definition example_exe :: "'f Executable" where
  "example_exe =
     \<lparr>elf_bytes = (0x10000, example_program), exe_sbpf_version = V3,
      ro_section = Borrowed 0 (0, 24), text_section_vaddr = MM_BYTECODE_START,
      text_section_range = (0, 24), entry_pc = 0, exe_function_registry = FunctionRegistry_default,
      exe_loader = new_mock\<rparr>"

lemma config_ok_default: "config_ok Config_default" "enable_address_translation Config_default"
  by (simp_all add: config_ok_def Config_default_def usize_max_def)

lemma example_exe_ok: "exe_ok Config_default (example_exe :: 'f Executable)"
proof -
  let ?e = "example_exe :: 'f Executable"
  have t: "get_text_bytes ?e = Some (MM_BYTECODE_START, example_program)"
    by (simp add: get_text_bytes_def example_exe_def slice_range_def)
  have c: "exe_get_config ?e = Some Config_default"
    by (simp add: exe_get_config_def example_exe_def new_mock_def get_config_def)
  have "verify example_program Config_default (get_sbpf_version ?e) (exe_get_function_registry ?e)
      (get_function_registry (exe_loader ?e)) = Some (Inr ())"
    using example_program_verified by (simp add: verify_def get_sbpf_version_def example_exe_def)
  then have "verified ?e" using t c by (simp add: verified_def exe_verify_def)
  then show ?thesis using t c by (simp add: exe_ok_def example_program_fits example_exe_def)
qed

section \<open>Properties\<close>

text \<open>C2: execution of a verified program terminates without going wrong.  For a new machine on a
  well-formed mapping, a verified executable whose entry point lies in its text, a configuration with
  an instruction meter, and built-in functions that keep their contract, \<open>execute_program\<close> returns a
  result; it never uses more instructions than the context object has, the context object is charged
  exactly the number reported, and the memory mapping stays well-formed.\<close>

theorem execute_program_terminates:
  assumes "syscall_interface ops rust"
    and "config_ok config" and "enable_address_translation config" and "exe_ok config exe"
    and "mapping_ok h mapping" and "EbpfVm_new h (exe_loader exe) version ctx mapping stack_len = Some m"
  shows "\<exists>m' count result. execute_program ops rust m exe True = Some (m', count, result) \<and>
    count \<le> get_remaining ops ctx \<and>
    get_remaining ops (context_object_pointer m') = get_remaining ops ctx - count \<and>
    mapping_ok (host m') (memory_mapping m')"
proof -
  have "get_config (exe_loader exe) = Some config"
    using assms(4) by (simp add: exe_ok_def exe_get_config_def)
  from EbpfVm_new_ok[OF this assms(2,3,5), of version ctx stack_len] assms(6)
  have "vm_ok config m" "vm_loader m = exe_loader exe" "context_object_pointer m = ctx" by auto
  then show ?thesis
    using syscall_interface.execute_program_ok[OF assms(1), of config m exe] assms(2,4) by simp
qed

theorem execute_program_terminates_witness:
  "\<exists>m m' count result.
     EbpfVm_new example_host new_mock V3 (TestContextObject_new 10) example_mapping 4096 = Some m \<and>
     execute_program test_context_object test_rust m example_exe True = Some (m', count, result) \<and> count \<le> 10"
proof -
  have l: "exe_loader (example_exe :: TestSyscall Executable) = new_mock" by (simp add: example_exe_def)
  obtain m where m: "EbpfVm_new example_host (new_mock :: TestSyscall BuiltinProgram) V3
      (TestContextObject_new 10) example_mapping 4096 = Some m"
    by (simp add: EbpfVm_new_def new_mock_def get_config_def slice_set_Some layout Let_def)
  from execute_program_terminates[OF test_syscalls.syscall_interface_axioms config_ok_default example_exe_ok
      example_mapping_ok m[folded l]] m show ?thesis
    by (auto simp: test_context_object_def TestContextObject_new_def)
qed

end
