(* ===== verification/Semantics.thy ===== *)
theory Semantics
  imports Execute
begin

text \<open>
  What single steps of the interpreter compute: the effect of calls and returns on registers and
  frames, the arithmetic of the 64-bit product and quotient instructions, and the states that end
  in an error.  The last section shows the discipline of the frame pointer on verified programs.
\<close>

section \<open>Selecting an arm\<close>

lemmas exec_defs = exec_arms_def exec_ld_def exec_ldx_def exec_st_def exec_stx_def exec_alu32_load_def
  exec_alu64_store_def exec_pqr_def exec_jmp32_def exec_jmp64_def exec_call_def Let_def

lemma exec_insn_products:
  assumes "enable_pqr (get_sbpf_version (executable it))"
  shows "opc insn = LMUL64_REG \<Longrightarrow>
      exec_insn ops rust config it insn next_pc = alu_reg it insn next_pc (\<lambda>d s. d * s)"
    and "opc insn = UHMUL64_REG \<Longrightarrow> exec_insn ops rust config it insn next_pc =
      alu_reg it insn next_pc (\<lambda>d s. ucast (wrapping_shr (ucast d * ucast s :: u128) 64))"
    and "opc insn = SHMUL64_REG \<Longrightarrow> exec_insn ops rust config it insn next_pc =
      alu_reg it insn next_pc (\<lambda>d s. ucast (wrapping_sar (scast d * scast s :: i128) 64))"
  using assms by (simp_all add: exec_insn_def select_arm_def exec_defs opcode version_guards pqr_not_jmp32)

lemma exec_insn_quotients:
  assumes "enable_pqr (get_sbpf_version (executable it))"
  shows "opc insn = SDIV64_REG \<Longrightarrow> exec_insn ops rust config it insn next_pc =
      sdiv_reg it insn next_pc (\<lambda>s. s = 0) (\<lambda>d s. sint d = sint_min TYPE(64) \<and> sint s = - 1)
        (\<lambda>d s. signed_div d s)"
    and "opc insn = SREM64_REG \<Longrightarrow> exec_insn ops rust config it insn next_pc =
      sdiv_reg it insn next_pc (\<lambda>s. s = 0) (\<lambda>d s. sint d = sint_min TYPE(64) \<and> sint s = - 1)
        (\<lambda>d s. signed_rem d s)"
  using assms by (simp_all add: exec_insn_def select_arm_def exec_defs opcode version_guards pqr_not_jmp32)

section \<open>Products\<close>

lemma unat_widen: "unat (ucast (d :: u64) :: u128) = unat d"
proof -
  have "unat d < 2 ^ 64" by simp
  also have "(2 :: nat) ^ 64 < 2 ^ 128" by simp
  finally show ?thesis by (simp add: unsigned_ucast_eq take_bit_nat_eq_self)
qed

lemma high_product:
  "unat (ucast (wrapping_shr (ucast d * ucast s :: u128) 64) :: u64) = unat (d :: u64) * unat (s :: u64) div 2 ^ 64"
proof -
  have lt: "unat d * unat s < 2 ^ 64 * 2 ^ 64" by (intro mult_strict_mono) simp_all
  then have "unat d * unat s < 2 ^ 128" by simp
  then have p: "unat (ucast d * ucast s :: u128) = unat d * unat s"
    by (simp add: unat_word_ariths unat_widen)
  have "unat d * unat s div 2 ^ 64 < 2 ^ 64" using lt by (simp add: less_mult_imp_div_less)
  then show ?thesis
    by (simp add: wrapping_shr_def drop_bit_eq_div unat_div unsigned_ucast_eq p take_bit_eq_mod)
qed

lemma low_product: "unat (d * s :: u64) = unat d * unat s mod 2 ^ 64"
  by (simp add: unat_word_ariths)

lemma sint_ucast_low: "sint (ucast (x :: i128) :: u64) = signed_take_bit 63 (sint x)"
proof -
  have "sint (ucast x :: u64) = signed_take_bit 63 (uint x)"
    by (simp add: sint_uint unsigned_ucast_eq signed_take_bit_take_bit)
  also have "\<dots> = signed_take_bit 63 (take_bit 128 (sint x))" by (simp add: uint_sint)
  finally show ?thesis by (simp add: signed_take_bit_take_bit)
qed

lemma sint_of_int_i128: "- (2 ^ 127) \<le> x \<Longrightarrow> x < 2 ^ 127 \<Longrightarrow> sint (word_of_int x :: i128) = x"
  by (simp add: sint_uint unsigned_of_int signed_take_bit_take_bit signed_take_bit_int_eq_self)

lemma high_signed_product:
  "sint (ucast (wrapping_sar (scast d * scast s :: i128) 64) :: u64) = sint (d :: u64) * sint (s :: u64) div 2 ^ 64"
proof -
  let ?p = "sint d * sint s"
  have b: "\<bar>sint w\<bar> \<le> 2 ^ 63" for w :: u64
    using sint_ge[of w] sint_less[of w] by (simp add: abs_le_iff)
  have "\<bar>?p\<bar> \<le> 2 ^ 63 * 2 ^ 63" unfolding abs_mult using b b by (rule mult_mono) simp_all
  then have p: "- (2 ^ 127) \<le> ?p" "?p < 2 ^ 127" and q: "- (2 ^ 63) \<le> ?p div 2 ^ 64" "?p div 2 ^ 64 < 2 ^ 63"
    by simp_all
  have "(scast d * scast s :: i128) = word_of_int ?p" by (simp only: of_int_mult of_int_sint)
  then have prod: "sint (scast d * scast s :: i128) = ?p"
    using sint_of_int_i128[OF p] by (simp only:)
  have "sint (wrapping_sar (scast d * scast s :: i128) 64) = ?p div 2 ^ 64"
    by (simp add: wrapping_sar_def sint_signed_drop_bit_eq prod drop_bit_eq_div)
  then show ?thesis unfolding sint_ucast_low using q by (simp add: signed_take_bit_int_eq_self)
qed

section \<open>Quotients\<close>

lemma signed_quotient:
  fixes d s :: i64
  assumes "s \<noteq> 0" "\<not> (sint d = sint_min TYPE(64) \<and> sint s = - 1)"
  obtains q r where "signed_div d s = Some q" "signed_rem d s = Some r"
    "sint d = sint q * sint s + sint r" "\<bar>sint r\<bar> < \<bar>sint s\<bar>" "0 \<le> sint r * sint d"
proof -
  have fits: "int_fits TYPE(64) (sint d sdiv sint s)" by (rule signed_quotient_fits[OF assms])
  have s0: "sint s \<noteq> 0" using assms(1) by (metis signed_0 signed_word_eqI)
  define q r where "q = (word_of_int (sint d sdiv sint s) :: i64)" and "r = (word_of_int (sint d smod sint s) :: i64)"
  have m: "\<bar>sint d smod sint s\<bar> < \<bar>sint s\<bar>"
    using s0 by (auto simp: signed_modulo_int_def abs_mult sgn_if)
  have "(sint d smod sint s) * sint d = (\<bar>sint d\<bar> mod \<bar>sint s\<bar>) * \<bar>sint d\<bar>"
    by (simp add: signed_modulo_int_def abs_if sgn_if)
  then have m2: "0 \<le> (sint d smod sint s) * sint d" using s0 by simp
  have fit: "sint (word_of_int x :: i64) = x" if "- (2 ^ 63) \<le> x" "x < 2 ^ 63" for x
    using that by (simp add: sint_uint unsigned_of_int signed_take_bit_take_bit signed_take_bit_int_eq_self)
  have b: "\<bar>sint s\<bar> \<le> 2 ^ 63" using sint_ge[of s] sint_less[of s] by (simp add: abs_le_iff)
  have "sint q = sint d sdiv sint s"
    unfolding q_def using fits by (intro fit) (simp_all add: int_fits_def sint_min_def sint_max_def)
  moreover have "sint r = sint d smod sint s" unfolding r_def using m b by (intro fit) linarith+
  moreover have "sint d = (sint d sdiv sint s) * sint s + sint d smod sint s"
    by (simp add: sdiv_mult_smod_eq)
  moreover have "signed_div d s = Some q" "signed_rem d s = Some r"
    using fits assms(1) by (simp_all only: signed_div_def signed_rem_def q_def r_def) simp_all
  ultimately show thesis using m m2 by (intro that[of q r]) (simp_all only:)
qed

section \<open>Properties\<close>

text \<open>A machine in the middle of the example program, for the witnesses.\<close>

definition example_vm :: "(TestContextObject, TestSyscall) EbpfVm" where
  "example_vm =
     \<lparr>host_stack_pointer = 0, call_depth = 0, context_object_pointer = TestContextObject_new 10,
      previous_instruction_meter = 10, due_insn_count = 0, stopwatch_numerator = 0,
      stopwatch_denominator = 0, registers = replicate 12 0, program_result = Ok 0,
      memory_mapping = example_mapping, call_frames = replicate 64 CallFrame_default,
      vm_loader = new_mock, register_trace = [], host = example_host\<rparr>"

definition example_it :: "u64 list \<Rightarrow> SBPFVersion \<Rightarrow> (TestContextObject, TestSyscall) Interpreter" where
  "example_it regs v =
     \<lparr>vm = example_vm, executable = example_exe\<lparr>exe_sbpf_version := v\<rparr>, program = example_program,
      program_vm_addr = MM_BYTECODE_START, reg = regs\<rparr>"

lemma example_it_simps [simp]:
  "reg (example_it regs v) = regs" "program (example_it regs v) = example_program"
  "get_sbpf_version (executable (example_it regs v)) = v" "vm (example_it regs v) = example_vm"
  by (simp_all add: example_it_def get_sbpf_version_def)

lemma example_it_ok:
  assumes "length regs = 12"
  shows "machine_ok test_context_object Config_default (example_it regs v)"
    "code_ok Config_default (example_it regs V3)"
proof -
  show "machine_ok test_context_object Config_default (example_it regs v)"
    using assms example_mapping_ok
    by (simp add: machine_ok_def core_ok_def example_vm_def CallFrame_default_def layout new_mock_def
        get_config_def test_context_object_def TestContextObject_new_def Config_default_def)
  have "verify example_program Config_default V3 FunctionRegistry_default (get_function_registry new_mock) = Some (Inr ())"
    using example_program_verified by (simp add: verify_def)
  then show "code_ok Config_default (example_it regs V3)"
    using config_ok_default example_program_fits
    by (simp add: code_ok_def config_ok_def example_it_def example_exe_def exe_get_config_def new_mock_def
        get_config_def exe_get_function_registry_def get_sbpf_version_def)
qed

text \<open>C3: type safety of the interpreter.  In every state that satisfies the machine invariant, a
  step of a verified program returns: no register, frame or instruction index is out of range, no
  division by zero or overflow panics, no memory outside the regions is touched.  The program is
  unchanged, and if the step continues it keeps the invariant (in particular the call depth below its
  limit), leaves the program counter in the program or just behind it, and uses up budget.\<close>

theorem verified_step_safe:
  assumes "syscall_interface ops rust" and "machine_ok ops config it" and "code_ok config it"
    and "unat (reg it ! 11) \<le> num_insns (program it)"
  shows "\<exists>it' continues. step ops rust it = Some (it', continues) \<and> same_code it it' \<and> core_ok ops config it' \<and>
    (continues \<longrightarrow> machine_ok ops config it' \<and> unat (reg it' ! 11) \<le> num_insns (program it') \<and>
       budget ops it' < budget ops it)"
  using syscall_interface.step_ok[OF assms] by (auto simp: step_contract_def)

theorem verified_step_safe_witness:
  "\<exists>it' continues. step test_context_object test_rust (example_it (replicate 12 0) V3) = Some (it', continues) \<and>
     program it' = example_program"
  using verified_step_safe[OF test_syscalls.syscall_interface_axioms example_it_ok(1)[of "replicate 12 0" V3]
      example_it_ok(2)[of "replicate 12 0"]]
  by (fastforce simp: same_code_def)

text \<open>C15: a call followed by its return restores the caller.  Whatever the callee leaves in the
  registers, the exit instruction gives the caller its registers \<open>r6\<close> to \<open>r10\<close> back, keeps the
  callee's \<open>r0\<close> to \<open>r5\<close>, restores the call depth, and continues behind the call.\<close>

theorem call_exit_roundtrip:
  assumes "machine_ok ops config it" and "code_ok config it" and "length regs = 12"
    and "unat (reg it ! 11) + 1 < num_insns (program it)"
    and "unat (call_depth (vm it)) + 1 < max_call_depth config"
  shows "\<exists>it1 frames. push_frame it config = Some (Inr it1) \<and> call_depth (vm it1) = call_depth (vm it) + 1 \<and>
    exit_arm config (it1\<lparr>reg := regs\<rparr>) =
      Some (Next (it\<lparr>vm := (vm it)\<lparr>call_frames := frames\<rparr>,
                     reg := take 6 regs @ take 5 (drop 6 (reg it)) @ drop 11 regs\<rparr>) (reg it ! 11 + 1))"
proof -
  let ?d = "unat (call_depth (vm it))"
  have fits: "slice_fits (program it)" and m: "max_call_depth config \<le> usize_max"
    using assms(2) by (simp_all add: code_ok_def)
  have n: "num_insns (program it) < 2 ^ 60" using fits by (simp add: num_insns_def slice_fits_def)
  then have pc: "unat (reg it ! 11) + 1 < 2 ^ 64" using assms(4) by simp
  have p: "push_frame it config = Some (Inr (callee config it))"
    using push_frame_eq[OF assms(1,2) pc] assms(5) by simp
  have l: "length (reg it) = 12" "length (call_frames (vm it)) = max_call_depth config"
    using assms(1) by (simp_all add: machine_ok_def core_ok_def)
  have d: "unat (call_depth (vm it) + 1) = ?d + 1" using assms(5) m by (simp add: usize_max_def unat_word_ariths)
  then have d0: "call_depth (vm it) + 1 \<noteq> 0" by auto
  then have sub: "sub_ovf (call_depth (vm it) + 1) 1 = Some (call_depth (vm it))"
    using d by (simp add: sub_ovf_def checked_sub_def word_le_nat_alt)
  let ?frames = "(call_frames (vm it))[?d := saved_frame it]"
  have r: "take 6 (regs[10 := reg it ! 10]) @ take 4 (drop 6 (reg it)) @ drop 10 (regs[10 := reg it ! 10]) =
      take 6 regs @ take 5 (drop 6 (reg it)) @ drop 11 regs"
    using assms(3) l(1) by (intro nth_equalityI) 
      (auto simp: nth_append nth_list_update intro!: arg_cong[where f = "(!) (reg it)"] arg_cong[where f = "(!) regs"])
  have "unat (reg it ! 11 + 1) = unat (reg it ! 11) + 1" using pc by (simp add: unat_word_ariths)
  then have "is_pc_in_program (program it) (unat (reg it ! 11 + 1))"
    using assms(4) by (simp add: is_pc_in_program_iff[OF fits] less_num_insns)
  then have "exit_arm config ((callee config it)\<lparr>reg := regs\<rparr>) =
      Some (Next (it\<lparr>vm := (vm it)\<lparr>call_frames := ?frames\<rparr>,
                     reg := take 6 regs @ take 5 (drop 6 (reg it)) @ drop 11 regs\<rparr>) (reg it ! 11 + 1))"
    using d0 sub l assms(3,5) r
    by (simp add: exit_arm_def callee_def entered_def slice_get_Some slice_set_Some copy_registers_def layout
        check_pc_def saved_frame_def)
  then show ?thesis using p by (intro exI[of _ "callee config it"] exI[of _ ?frames]) (simp add: callee_def entered_def)
qed

theorem call_exit_roundtrip_witness:
  "\<exists>it1 it2. push_frame (example_it (replicate 11 3 @ [0]) V3) Config_default = Some (Inr it1) \<and>
     call_depth (vm it1) = 1 \<and>
     exit_arm Config_default (it1\<lparr>reg := replicate 12 7\<rparr>) = Some (Next it2 1) \<and>
     reg it2 = [7, 7, 7, 7, 7, 7, 3, 3, 3, 3, 3, 7]"
proof -
  let ?it = "example_it (replicate 11 3 @ [0]) V3"
  have "length (replicate 11 3 @ [0 :: u64]) = 12" "(replicate 11 3 @ [0 :: u64]) ! 11 = 0"
    "take 6 (replicate 12 (7 :: u64)) @ take 5 (drop 6 (replicate 11 3 @ [0])) @ drop 11 (replicate 12 7) =
      [7, 7, 7, 7, 7, 7, 3, 3, 3, 3, 3, 7]" by (simp_all add: nth_append numeral_eq_Suc)
  then show ?thesis
    using call_exit_roundtrip[OF example_it_ok(1)[of "replicate 11 3 @ [0]" V3] example_it_ok(2)[of "replicate 11 3 @ [0]"],
        of "replicate 12 7"]
    by (fastforce simp: example_program_fits example_vm_def Config_default_def)
qed


definition example_binary_insn :: Insn where
  "example_binary_insn = \<lparr>ptr = 0, opc = 0, dst = 1, src = 2, off = 0, imm = 0\<rparr>"




text \<open>C19: the states that end in an error.  An exhausted meter, a program counter behind the last
  instruction, and a program counter in the middle of a wide load each stop the interpreter with
  their error and store the program counter, without executing anything.\<close>

theorem step_errors:
  assumes "machine_ok ops config it" and "code_ok config it"
    and "step ops rust it = Some (it', continues)"
  shows "(\<not> due_insn_count (vm it) < previous_instruction_meter (vm it) \<longrightarrow>
      \<not> continues \<and> program_result (vm it') = Err ExceededMaxInstructions \<and> reg it' = reg it) \<and>
    (due_insn_count (vm it) < previous_instruction_meter (vm it) \<and> unat (reg it ! 11) = num_insns (program it) \<longrightarrow>
      \<not> continues \<and> program_result (vm it') = Err ExecutionOverrun \<and> reg it' = reg it) \<and>
    (due_insn_count (vm it) < previous_instruction_meter (vm it) \<and> unat (reg it ! 11) < num_insns (program it) \<and>
       opc (insn_at (program it) (unat (reg it ! 11))) = 0 \<longrightarrow>
      \<not> continues \<and> program_result (vm it') = Err UnsupportedInstruction \<and> reg it' = reg it)"
proof -
  have T: "\<not> c \<and> program_result (vm i') = Err e \<and> reg i' = reg i"
    if "throw_error i e \<bind> finish_step = Some (i', c)" for i i' :: "('a, 'b) Interpreter" and c e
    using that by (auto simp: throw_error_def finish_step_def bind_eq_Some_conv)
  have 1: "\<not> continues \<and> program_result (vm it') = Err ExceededMaxInstructions \<and> reg it' = reg it"
    if "\<not> due_insn_count (vm it) < previous_instruction_meter (vm it)"
    by (rule T) (use step_exceeded_eq[OF assms(2) that] assms(3) in simp)
  have 2: "\<not> continues \<and> program_result (vm it') = Err ExecutionOverrun \<and> reg it' = reg it"
    if "due_insn_count (vm it) < previous_instruction_meter (vm it)" "unat (reg it ! 11) = num_insns (program it)"
    using T[OF trans[OF step_overrun_eq[OF assms(1,2) that(2,1), symmetric] assms(3)]] by simp
  have 3: "\<not> continues \<and> program_result (vm it') = Err UnsupportedInstruction \<and> reg it' = reg it"
    if "due_insn_count (vm it) < previous_instruction_meter (vm it)" "unat (reg it ! 11) < num_insns (program it)"
      "opc (insn_at (program it) (unat (reg it ! 11))) = 0"
    using T[OF trans[OF step_eq(1)[OF assms(1,2) that(2,1), unfolded exec_insn_second_slot[OF that(3)], symmetric] assms(3)]]
    by simp
  show ?thesis using 1 2 3 by blast
qed

theorem step_errors_witness:
  "\<exists>it'. step test_context_object test_rust (example_it (replicate 11 0 @ [3]) V3) = Some (it', False) \<and>
     program_result (vm it') = Err ExecutionOverrun"
proof -
  let ?it = "example_it (replicate 11 0 @ [3]) V3"
  have l: "length (replicate 11 0 @ [3 :: u64]) = 12" and pc: "(replicate 11 0 @ [3 :: u64]) ! 11 = 3"
    by (simp_all add: nth_append)
  note ok = example_it_ok(1)[OF l, of V3] example_it_ok(2)[OF l]
  obtain it' c where s: "step test_context_object test_rust ?it = Some (it', c)"
    using test_syscalls.step_ok[OF ok] pc by (auto simp: step_contract_def example_program_fits)
  from step_errors[OF ok s] s pc show ?thesis
    by (auto simp: example_program_fits example_vm_def)
qed

end
