(* ===== verification/Frames.thy ===== *)
theory Frames
  imports Semantics
begin

text \<open>
  The discipline of the frame pointer.  With fixed stack frames, register \<open>r10\<close> of a verified program
  is changed by calls and returns only: at call depth \<open>d\<close> it is the initial frame pointer plus \<open>d\<close>
  frames, and the saved frame pointers are those of the callers.
\<close>

section \<open>Instructions that keep the frame\<close>

definition kept :: "('c, 'f) Interpreter \<Rightarrow> ('c, 'f) Interpreter outcome option \<Rightarrow> bool" where
  "kept it r \<longleftrightarrow>
     (\<forall>it' n. r = Some (Next it' n) \<longrightarrow>
        executable it' = executable it \<and> reg it' ! 10 = reg it ! 10 \<and>
        call_depth (vm it') = call_depth (vm it) \<and> call_frames (vm it') = call_frames (vm it))"

named_theorems kept_arms "arms that keep the frame"

lemma kept_throw_error [kept_arms]: "kept it (throw_error it' e)"
  by (auto simp: kept_def throw_error_def bind_eq_Some_conv)

lemma kept_set_reg:
  "unat r \<noteq> 10 \<Longrightarrow> call_depth (vm it') = call_depth (vm it) \<Longrightarrow> call_frames (vm it') = call_frames (vm it) \<Longrightarrow>
   reg it' ! 10 = reg it ! 10 \<Longrightarrow> executable it' = executable it \<Longrightarrow> kept it (set_reg it' r v n)"
  by (auto simp: kept_def set_reg_def slice_set_def bind_eq_Some_conv split: if_splits)

lemma kept_bind: "(\<And>x. m = Some x \<Longrightarrow> kept it (f x)) \<Longrightarrow> kept it (m \<bind> f)"
  by (cases m) (auto simp: kept_def)

lemma kept_alu [kept_arms]:
  assumes "unat (dst insn) \<noteq> 10"
  shows "kept it (alu_imm it insn n f)" "kept it (alu_reg it insn n g)" "kept it (div_imm it insn n h)"
    "kept it (div_reg it insn n z g')" "kept it (sdiv_imm it insn n o' h')" "kept it (sdiv_reg it insn n z o'' g'')"
    "kept it (endian_arm it insn n f16 f32 f64)"
  unfolding alu_imm_def alu_reg_def div_imm_def div_reg_def sdiv_imm_def sdiv_reg_def endian_arm_def
  using assms by (auto intro!: kept_bind kept_set_reg kept_throw_error)

lemma kept_load [kept_arms]: "unat (dst insn) \<noteq> 10 \<Longrightarrow> kept it (load_arm k it insn n)"
  unfolding load_arm_def Let_def
  by (auto intro!: kept_bind kept_set_reg kept_throw_error split: StableResult.split)

lemma kept_store [kept_arms]: "kept it (store_imm_arm k it insn n)" "kept it (store_reg_arm k it insn n)"
proof -
  have "kept it (store_access k it insn n v)" for v
    unfolding store_access_def Let_def
    by (auto intro!: kept_bind kept_throw_error split: StableResult.split) (simp add: kept_def)
  then show "kept it (store_imm_arm k it insn n)" "kept it (store_reg_arm k it insn n)"
    unfolding store_imm_arm_def store_reg_arm_def by (auto intro!: kept_bind)
qed

lemma kept_jump [kept_arms]:
  "kept it (jump it insn n)" "kept it (jump_imm it insn n c)" "kept it (jump_reg it insn n c')"
  unfolding jump_def jump_imm_def jump_reg_def by (auto intro!: kept_bind) (auto simp: kept_def)

section \<open>The table of arms\<close>

definition store_opcodes :: "SBPFVersion \<Rightarrow> u8 list" where
  "store_opcodes v =
     (if enable_pqr v
      then [ST_1B_IMM, ST_2B_IMM, ST_4B_IMM, ST_8B_IMM, ST_1B_REG, ST_2B_REG, ST_4B_REG, ST_8B_REG]
      else [ST_B_IMM, ST_H_IMM, ST_W_IMM, ST_DW_IMM, ST_B_REG, ST_H_REG, ST_W_REG, ST_DW_REG])"

lemma verifier_store:
  "list_all (\<lambda>(op, g, c). g \<and> c = SetStore \<longrightarrow> op \<in> set (store_opcodes v)) (verifier_arms v insn)"
  by (cases "enable_pqr v") (simp_all add: arms_defs store_opcodes_def opcode version_guards)

definition arms_kept :: "('c, 'f) Interpreter \<Rightarrow> Insn \<Rightarrow> ('c, 'f) exec_arm list \<Rightarrow> bool" where
  "arms_kept it insn arms \<longleftrightarrow>
     list_all (\<lambda>(op, g, act). opc insn = op \<and> g \<longrightarrow> kept it act) arms"

lemmas kept_lists = arms_kept_def Let_def list.pred_inject prod.case

lemma arms_kept_register:
  assumes "unat (dst insn) \<noteq> 10"
  shows "arms_kept it insn (exec_ldx it insn n)" "arms_kept it insn (exec_st it insn n)"
    "arms_kept it insn (exec_stx it insn n)" "arms_kept it insn (exec_alu32_load it insn n)"
    "arms_kept it insn (exec_alu64_store it insn n)" "arms_kept it insn (exec_pqr it insn n)"
    "arms_kept it insn (exec_jmp32 it insn n)" "arms_kept it insn (exec_jmp64 it insn n)"
  unfolding exec_ldx_def exec_st_def exec_stx_def exec_alu32_load_def exec_alu64_store_def exec_pqr_def
    exec_jmp32_def exec_jmp64_def kept_lists
  by (intro conjI impI TrueI kept_arms assms; simp)+

lemma arms_kept_ld:
  assumes "unat (dst insn) \<noteq> 10"
  shows "arms_kept it insn (exec_ld it insn n)"
proof -
  have "unat (dst i) \<noteq> 10" if "augment_lddw_unchecked (program it) insn = Some i" for i
    using that assms by (auto simp: augment_lddw_unchecked_def bind_eq_Some_conv)
  then show ?thesis
    unfolding exec_ld_def kept_lists
    by (auto intro!: kept_bind) (auto simp: kept_def slice_set_def split: if_splits)
qed

definition plain_arms :: "('c, 'f) Interpreter \<Rightarrow> Insn \<Rightarrow> u64 \<Rightarrow> ('c, 'f) exec_arm list" where
  "plain_arms it insn n =
     exec_ld it insn n @ exec_ldx it insn n @ exec_st it insn n @ exec_stx it insn n @ exec_alu32_load it insn n @
     exec_alu64_store it insn n @ exec_pqr it insn n @ exec_jmp32 it insn n @ exec_jmp64 it insn n"

lemma store_table:
  "list_all (\<lambda>(op, g, act). g \<longrightarrow> op \<in> set (store_opcodes (get_sbpf_version (executable it))) \<longrightarrow> kept it act)
     (plain_arms it insn n)"
  by (cases "enable_pqr (get_sbpf_version (executable it))")
     (simp_all add: plain_arms_def exec_ld_def exec_ldx_def exec_st_def exec_stx_def exec_alu32_load_def
       exec_alu64_store_def exec_pqr_def exec_jmp32_def exec_jmp64_def Let_def store_opcodes_def opcode
       version_guards pqr_not_jmp32 kept_store kept_jump)

lemma plain_arms_kept:
  assumes "unat (dst insn) \<noteq> 10 \<or> opc insn \<in> set (store_opcodes (get_sbpf_version (executable it)))"
  shows "arms_kept it insn (plain_arms it insn n)"
proof (cases "unat (dst insn) = 10")
  case True
  then show ?thesis using assms store_table[of it insn n] by (auto simp: arms_kept_def list_all_iff)
next
  case False
  then show ?thesis
    using arms_kept_ld[OF False, of it n] arms_kept_register[OF False, of it n]
    by (simp add: plain_arms_def arms_kept_def)
qed

section \<open>Calls and returns\<close>

definition frames_ok :: "Config \<Rightarrow> u64 \<Rightarrow> ('c, 'f) Interpreter \<Rightarrow> bool" where
  "frames_ok config base it \<longleftrightarrow>
     (let bump = frame_bump config (get_sbpf_version (executable it)) in
      reg it ! 10 = base + of_nat (unat (call_depth (vm it))) * bump \<and>
      (\<forall>i < unat (call_depth (vm it)). frame_pointer (call_frames (vm it) ! i) = base + of_nat i * bump))"

definition framed :: "Config \<Rightarrow> u64 \<Rightarrow> ('c, 'f) Interpreter outcome option \<Rightarrow> bool" where
  "framed config base r \<longleftrightarrow> (\<forall>it' n. r = Some (Next it' n) \<longrightarrow> frames_ok config base it')"

lemma kept_framed: "frames_ok config base it \<Longrightarrow> kept it r \<Longrightarrow> framed config base r"
  by (auto simp: kept_def framed_def frames_ok_def Let_def)

lemma frames_ok_cong:
  "frames_ok config base it \<Longrightarrow> executable it' = executable it \<Longrightarrow> reg it' ! 10 = reg it ! 10 \<Longrightarrow>
   call_depth (vm it') = call_depth (vm it) \<Longrightarrow> call_frames (vm it') = call_frames (vm it) \<Longrightarrow>
   frames_ok config base it'"
  by (simp add: frames_ok_def)

lemma push_frame_effect:
  assumes "push_frame it config = Some (Inr it')"
    and "\<not> manual_stack_frame_bump (get_sbpf_version (executable it))"
  shows "executable it' = executable it" "unat (call_depth (vm it')) = unat (call_depth (vm it)) + 1"
    "reg it' ! 10 = reg it ! 10 + frame_bump config (get_sbpf_version (executable it))"
    "unat (call_depth (vm it)) < length (call_frames (vm it))"
    "\<exists>f. call_frames (vm it') = (call_frames (vm it))[unat (call_depth (vm it)) := f] \<and> frame_pointer f = reg it ! 10"
  using assms
  by (auto simp: push_frame_def bind_eq_Some_conv Let_def slice_get_def slice_set_def add_ovf_def checked_add_def
      usize_mul_ovf_def layout frame_bump_def throw_error_def unat_word_ariths split: if_splits)

lemma push_frame_framed:
  assumes "frames_ok config base it" "push_frame it config = Some (Inr it')"
    and "\<not> manual_stack_frame_bump (get_sbpf_version (executable it))"
  shows "frames_ok config base it'"
proof -
  note E = push_frame_effect[OF assms(2,3)]
  obtain f where f: "call_frames (vm it') = (call_frames (vm it))[unat (call_depth (vm it)) := f]"
    "frame_pointer f = reg it ! 10" using E(5) by blast
  show ?thesis
    using assms(1) E(1-4) f
    by (auto simp: frames_ok_def Let_def less_Suc_eq nth_list_update algebra_simps)
qed

lemma framed_push_frame:
  assumes "frames_ok config base it" "\<not> manual_stack_frame_bump (get_sbpf_version (executable it))"
    and "\<And>it'. frames_ok config base it' \<Longrightarrow> framed config base (k it')"
  shows "framed config base (push_frame it config \<bind> (\<lambda>r. case r of Inl it \<Rightarrow> Some (Halt it) | Inr it \<Rightarrow> k it))"
proof (cases "push_frame it config")
  case (Some r)
  then show ?thesis
    using push_frame_framed[OF assms(1) _ assms(2)] assms(3) by (cases r) (auto simp: framed_def)
qed (simp add: framed_def)

lemma framed_throw_error: "framed config base (throw_error it e)"
  by (auto simp: framed_def throw_error_def bind_eq_Some_conv)

lemma framed_check_pc: "frames_ok config base it \<Longrightarrow> framed config base (check_pc it t)"
  by (auto simp: check_pc_def framed_def throw_error_def bind_eq_Some_conv)

lemma framed_bind: "(\<And>x. m = Some x \<Longrightarrow> framed config base (f x)) \<Longrightarrow> framed config base (m \<bind> f)"
  by (cases m) (auto simp: framed_def)

lemma framed_call_reg:
  assumes "frames_ok config base it" "\<not> manual_stack_frame_bump (get_sbpf_version (executable it))"
  shows "framed config base (call_reg_arm config it insn)"
  unfolding call_reg_arm_def
  by (rule framed_bind, rule framed_push_frame[OF assms], rule framed_check_pc)

lemma framed_exit:
  assumes "frames_ok config base it"
  shows "framed config base (exit_arm config it)"
proof (cases "call_depth (vm it) = 0")
  case True
  then show ?thesis by (auto simp: exit_arm_def framed_def throw_error_def bind_eq_Some_conv split: if_splits)
next
  case False
  then have d: "unat (call_depth (vm it) - 1) < unat (call_depth (vm it))"
    by (simp add: unat_minus_one unat_gt_0)
  have r: "(take 6 xs @ saved @ drop 10 ys) ! 10 = ys ! 10" if "10 < length xs" "10 < length ys" "length saved = 4"
    for xs ys saved :: "u64 list" using that by (simp add: nth_append)
  show ?thesis
    unfolding exit_arm_def using False
    by (auto intro!: framed_bind framed_check_pc)
       (use assms d in \<open>auto simp: frames_ok_def Let_def sub_ovf_def checked_sub_def slice_get_def slice_set_def
          copy_registers_def layout r unat_minus_one split: if_splits\<close>)
qed

lemma dispatch_frames:
  "dispatch_syscall ops rust it f = Some (it', r) \<Longrightarrow>
   executable it' = executable it \<and> reg it' = reg it \<and> call_depth (vm it') = call_depth (vm it) \<and>
   call_frames (vm it') = call_frames (vm it)"
  by (auto simp: dispatch_syscall_def invoke_function_def builtin_vm_def bind_eq_Some_conv Let_def split: if_splits)

lemma external_frames:
  assumes "frames_ok config base it" "call_imm_external ops rust it insn = Some (Inr (i, b))"
  shows "frames_ok config base i" "executable i = executable it"
proof -
  have D: "frames_ok config base (it1\<lparr>reg := (reg it1)[0 := v]\<rparr>) \<and> executable it1 = executable it"
    if "dispatch_syscall ops rust it f = Some (it1, r)" for it1 f r v
    using dispatch_frames[OF that] by (auto intro: frames_ok_cong[OF assms(1)])
  have "frames_ok config base i \<and> executable i = executable it"
  proof (cases "\<not> static_syscalls (get_sbpf_version (executable it)) \<or> src insn = 0")
    case True
    show ?thesis
    proof (cases "lookup_by_key (get_function_registry (get_loader (executable it))) (ucast (imm insn))")
      case None
      then show ?thesis using True assms by (simp add: call_imm_external_def)
    next
      case (Some nf)
      obtain n f where nf: "nf = (n, f)" by (cases nf)
      from assms(2) True Some nf obtain it1 r where r: "dispatch_syscall ops rust it f = Some (it1, r)"
        "(case r of Ok v \<Rightarrow> slice_set (reg it1) 0 v \<bind> (\<lambda>regs. Some (Inr (it1\<lparr>reg := regs\<rparr>, True)))
          | Err _ \<Rightarrow> Some (Inl it1)) = Some (Inr (i, b))"
        by (auto simp: call_imm_external_def bind_eq_Some_conv)
      then show ?thesis
        using D[OF r(1)] by (cases r) (auto simp: bind_eq_Some_conv slice_set_def split: if_splits)
    qed
  qed (use assms in \<open>simp add: call_imm_external_def\<close>)
  then show "frames_ok config base i" "executable i = executable it" by simp_all
qed

lemma framed_call_imm:
  assumes "frames_ok config base it" "\<not> manual_stack_frame_bump (get_sbpf_version (executable it))"
  shows "framed config base (call_imm_arm ops rust config it insn n)"
proof -
  have I: "framed config base (call_imm_internal config i insn n b)"
    if "frames_ok config base i" "executable i = executable it" for i b
  proof -
    have m: "\<not> manual_stack_frame_bump (get_sbpf_version (executable i))" using assms(2) that(2) by simp
    have t: "framed config base (push_frame i config \<bind> (\<lambda>r. case r of Inl it \<Rightarrow> Some (Halt it) | Inr it \<Rightarrow> Some (Next it t)))" for t
      by (rule framed_push_frame[OF that(1) m]) (simp add: framed_def)
    have c: "framed config base (push_frame i config \<bind> (\<lambda>r. case r of Inl it \<Rightarrow> Some (Halt it) | Inr it \<Rightarrow> check_pc it t))" for t
      by (rule framed_push_frame[OF that(1) m], rule framed_check_pc)
    have u: "framed config base (if b then Some (Next i n) else throw_error i UnsupportedInstruction)"
      using that(1) framed_throw_error[of config base i] by (auto simp: framed_def)
    show ?thesis using t c u by (auto simp: call_imm_internal_def Let_def split: option.split)
  qed
  show ?thesis
    unfolding call_imm_arm_def
  proof (rule framed_bind)
    fix x
    assume x: "call_imm_external ops rust it insn = Some x"
    show "framed config base (case x of Inl it \<Rightarrow> Some (Halt it)
        | Inr (it, resolved) \<Rightarrow> call_imm_internal config it insn n resolved)"
    proof (cases x)
      case (Inr ib)
      obtain i b where ib: "ib = (i, b)" by (cases ib)
      show ?thesis using I[OF external_frames[OF assms(1) x[unfolded Inr ib]]] by (simp add: Inr ib)
    qed (simp add: framed_def)
  qed
qed

section \<open>Steps\<close>

lemma verified_frame_register:
  assumes "insn_ok prog v pc" "\<not> manual_stack_frame_bump v"
  shows "unat (dst (insn_at prog pc)) \<noteq> 10 \<or> opc (insn_at prog pc) \<in> set (store_opcodes v)"
proof -
  obtain c where c: "arm_of prog v pc = Some c" "registers_ok (insn_at prog pc) (c = SetStore) v"
    using assms(1) by (auto simp: insn_ok_def split: option.splits)
  show ?thesis
  proof (cases "c = SetStore")
    case True
    from c(1) obtain g where "(opc (insn_at prog pc), g, c) \<in> set (verifier_arms v (insn_at prog pc))" g
      unfolding arm_of_def by (auto dest: select_arm_SomeD)
    then show ?thesis using verifier_store[of v "insn_at prog pc"] True by (auto simp: list_all_iff)
  next
    case False
    then have "unat (dst (insn_at prog pc)) \<le> 9"
      using c(2) assms(2) by (auto simp: registers_ok_def word_le_nat_alt)
    then show ?thesis by simp
  qed
qed

lemma exec_insn_framed:
  assumes "frames_ok config base it" "\<not> manual_stack_frame_bump (get_sbpf_version (executable it))"
    and "unat (dst insn) \<noteq> 10 \<or> opc insn \<in> set (store_opcodes (get_sbpf_version (executable it)))"
  shows "framed config base (exec_insn ops rust config it insn n)"
proof -
  have arms: "exec_arms ops rust config it insn n = plain_arms it insn n @ exec_call ops rust config it insn n"
    by (simp add: exec_arms_def plain_arms_def)
  have "list_all (\<lambda>(op, g, act). opc insn = op \<and> g \<longrightarrow> framed config base act) (plain_arms it insn n)"
    using plain_arms_kept[OF assms(3), of n] kept_framed[OF assms(1)]
    by (auto simp: arms_kept_def list_all_iff)
  then have "list_all (\<lambda>(op, g, act). opc insn = op \<and> g \<longrightarrow> framed config base act) (exec_arms ops rust config it insn n)"
    unfolding arms
    by (simp add: exec_call_def framed_call_reg[OF assms(1,2)] framed_call_imm[OF assms(1,2)] framed_exit[OF assms(1)])
  note sel = select_arm_list_all[OF this]
  show ?thesis
  proof (cases "select_arm (exec_arms ops rust config it insn n) (opc insn)")
    case (Some act)
    then show ?thesis unfolding exec_insn_def using sel[OF Some] by simp
  qed (simp add: exec_insn_def framed_throw_error)
qed

text \<open>C8: the frame pointer follows the call depth.  On a verified program with fixed stack frames
  every step keeps \<open>r10\<close> at the initial frame pointer plus one frame per call, and the frame pointers
  saved for the callers at theirs.\<close>

theorem frame_pointer_invariant:
  assumes "machine_ok ops config it" and "code_ok config it" and "unat (reg it ! 11) \<le> num_insns (program it)"
    and "\<not> manual_stack_frame_bump (get_sbpf_version (executable it))"
    and "frames_ok config base it" and "step ops rust it = Some (it', True)"
  shows "frames_ok config base it'"
proof -
  let ?pc = "reg it ! 11" and ?p = "program it"
  let ?insn = "insn_at ?p (unat ?pc)"
  have T: "throw_error i e \<bind> finish_step \<noteq> Some (i', True)" for i i' :: "('a, 'b) Interpreter" and e
    by (auto simp: throw_error_def finish_step_def bind_eq_Some_conv)
  have due: "due_insn_count (vm it) < previous_instruction_meter (vm it)"
    using step_exceeded_eq[OF assms(2)] assms(6) T by metis
  then have "unat ?pc \<noteq> num_insns ?p" using step_overrun_eq[OF assms(1,2)] assms(6) T by metis
  then have pc: "unat ?pc < num_insns ?p" using assms(3) by simp
  note s = step_eq(1)[OF assms(1,2) pc due]
  have fr: "frames_ok config base (metered config it)"
    by (rule frames_ok_cong[OF assms(5)]) (simp_all add: metered_def Let_def)
  have "insn_ok ?p (get_sbpf_version (executable it)) (unat ?pc)"
    using verified_slot[OF _ _ pc] assms(2,6) s exec_insn_second_slot T unfolding code_ok_def by metis
  from verified_frame_register[OF this assms(4)]
  have "framed config base (exec_insn ops rust config (metered config it) ?insn (?pc + 1))"
    using fr assms(4) by (intro exec_insn_framed) simp_all
  moreover obtain out where "exec_insn ops rust config (metered config it) ?insn (?pc + 1) = Some out"
    "finish_step out = Some (it', True)" using assms(6) s by (auto simp: bind_eq_Some_conv)
  moreover from this(2) obtain i n regs where "out = Next i n" "slice_set (reg i) 11 n = Some regs" "it' = i\<lparr>reg := regs\<rparr>"
    by (cases out) (auto simp: finish_step_def bind_eq_Some_conv)
  ultimately show ?thesis
    by (auto simp: framed_def slice_set_def split: if_splits intro: frames_ok_cong)
qed

lemma exec_insn_ja: "opc insn = JA \<Longrightarrow> exec_insn ops rust config it insn n = jump it insn n"
  by (simp add: exec_insn_def select_arm_def exec_defs opcode)

theorem frame_pointer_invariant_witness:
  "\<exists>it'. step test_context_object test_rust (example_it (replicate 12 0) V3) = Some (it', True) \<and>
     frames_ok Config_default 0 it'"
proof -
  let ?it = "example_it (replicate 12 0) V3"
  have l: "length (replicate 12 (0 :: u64)) = 12" by simp
  note ok = example_it_ok(1)[OF l, of V3] example_it_ok(2)[OF l]
  have pc: "reg ?it ! 11 = 0" "unat (reg ?it ! 11) < num_insns (program ?it)" by (simp_all add: example_program_fits)
  have due: "due_insn_count (vm ?it) < previous_instruction_meter (vm ?it)" by (simp add: example_vm_def)
  have "jump i \<lparr>ptr = 0, opc = JA, dst = 0, src = 0, off = 1, imm = 0\<rparr> 1 = Some (Next i 2)"
    for i :: "(TestContextObject, TestSyscall) Interpreter"
    by (simp add: jump_def signed_add_ovf_def int_fits_def sint_min_def sint_max_def)
  then have "exec_insn test_context_object test_rust Config_default (metered Config_default ?it)
      (insn_at example_program 0) 1 = Some (Next (metered Config_default ?it) 2)"
    by (subst exec_insn_ja) (simp_all add: insn_at_example_program del: insn_at_simps)
  then obtain it' where s: "step test_context_object test_rust ?it = Some (it', True)"
    using step_eq(1)[OF ok pc(2) due, of test_rust] pc(1) by (auto simp: finish_step_def slice_set_Some)
  have "frames_ok Config_default 0 ?it" by (simp add: frames_ok_def example_vm_def)
  then show ?thesis
    using frame_pointer_invariant[OF ok _ _ _ s, of 0] s pc(2) by (auto simp: features)
qed

end
