(* ===== verification/Load_Execute.thy ===== *)
theory Load_Execute
  imports Elf_Relocation Frames
begin

text \<open>
  The components together: a file is loaded, its text verified and the program executed.  The checks
  of the loader and of the verifier are what the interpreter relies on.
\<close>

section \<open>Loaded and verified executables can be run\<close>

lemma verified_nonempty:
  assumes "verified exe" and "get_text_bytes exe = Some (va, prog)"
  shows "prog \<noteq> []"
  using assms by (auto simp: verify_def check_prog_len_def elim!: verified_text)

lemma loaded_exe_ok:
  assumes "loaded_ok n loader exe" "get_config loader = Some config" "n < 2 ^ 63" "verified exe"
  shows "exe_ok config exe"
proof -
  obtain prog where t: "get_text_bytes exe = Some (text_section_vaddr exe, prog)"
    and e: "prog = [] \<or> entry_pc exe * INSN_SIZE < length prog"
    and l: "exe_loader exe = loader" "length (snd (elf_bytes exe)) = n"
    using assms(1) by (auto simp: loaded_ok_def)
  have "length prog \<le> n"
    using t l(2) by (auto simp: get_text_bytes_def slice_range_def bind_eq_Some_conv split: if_splits)
  moreover have "entry_pc exe \<le> num_insns prog"
    using e verified_nonempty[OF assms(4) t] by (simp add: num_insns_def layout less_eq_div_iff_mult_less_eq)
  ultimately show ?thesis
    using assms(2-4) t by (simp add: exe_ok_def exe_get_config_def l slice_fits_def)
qed

lemma from_elf_loaded:
  assumes "get_config loader = Some config" "slice_fits (snd b)" "from_elf hash al b loader = Some (Inr exe)"
  shows "loaded_ok (length (snd b)) loader exe"
  using assms elf_load_loaded[OF assms(1,2)] by (auto simp: from_elf_def map_sum_eq_Inr)

section \<open>Properties\<close>

text \<open>C1: from the file to the result.  For every file the loader accepts and every text the verifier
  then accepts, on a new machine with a well-formed memory mapping, an instruction meter and built-in
  functions that keep their contract, the execution of the program returns: it never goes wrong, uses
  at most the available instructions, is charged exactly what it used, and leaves the mapping
  well-formed.  No property of the file other than these two acceptances is needed.\<close>

theorem load_execute_terminates:
  assumes "syscall_interface ops rust" "config_ok config" "enable_address_translation config"
    and "get_config loader = Some config" "slice_fits (snd b)"
    and "from_elf hash al b loader = Some (Inr exe)" "exe_verify exe = Some (Inr ())"
    and "mapping_ok h mapping" "EbpfVm_new h loader version ctx mapping stack_len = Some m"
  shows "\<exists>m' count result. execute_program ops rust m exe True = Some (m', count, result) \<and>
    count \<le> get_remaining ops ctx \<and>
    get_remaining ops (context_object_pointer m') = get_remaining ops ctx - count \<and>
    mapping_ok (host m') (memory_mapping m')"
proof -
  have L: "loaded_ok (length (snd b)) loader exe" by (rule from_elf_loaded[OF assms(4-6)])
  then have ok: "exe_ok config exe"
    using loaded_exe_ok[OF L assms(4)] assms(5,7) by (simp add: slice_fits_def verified_def)
  have "vm_ok config m" "vm_loader m = exe_loader exe" "context_object_pointer m = ctx"
    using EbpfVm_new_ok[OF assms(4,2,3,8), of version ctx stack_len] assms(9) L by (auto simp: loaded_ok_def)
  then show ?thesis
    using syscall_interface.execute_program_ok[OF assms(1), of config m exe] assms(2) ok by simp
qed

theorem load_execute_terminates_witness:
  "\<exists>exe m m' count result.
     from_elf (\<lambda>_. 7) \<lparr>copy_addr = 0x20000, clone_addr = 0x30000, ro_vec_addr = 0x40000\<rparr>
       (0x10000, strict_elf example_program) (new_mock :: TestSyscall BuiltinProgram) = Some (Inr exe) \<and>
     EbpfVm_new example_host new_mock V3 (TestContextObject_new 10) example_mapping 4096 = Some m \<and>
     execute_program test_context_object test_rust m exe True = Some (m', count, result) \<and> count \<le> 10"
proof -
  let ?l = "new_mock :: TestSyscall BuiltinProgram"
  let ?al = "\<lparr>copy_addr = 0x20000, clone_addr = 0x30000, ro_vec_addr = 0x40000\<rparr> :: Allocations"
  let ?exe = "(strict_exe 0x20000 ?l example_program)\<lparr>exe_sbpf_version := V3\<rparr>"
  have c: "get_config ?l = Some Config_default" "\<not> enable_symbol_and_section_labels Config_default"
    by (simp_all add: get_config_def new_mock_def Config_default_def)
  have ne: "example_program \<noteq> []" by (metis length_example_program list.size(3) zero_neq_numeral)
  have load: "from_elf (\<lambda>_. 7) ?al (0x10000, strict_elf example_program) ?l = Some (Inr ?exe)"
    using strict_elf_load[OF c(1)] strict_elf_loads[OF c, of "0x20000" example_program] ne
    by (simp add: from_elf_def Config_default_def less_eq_SBPFVersion_def)
  have t: "get_text_bytes ?exe = Some (MM_BYTECODE_START, example_program)"
    using phdr.length_image
    by (simp add: get_text_bytes_def strict_exe_def slice_range_def) (simp add: strict_elf_def)
  have v: "exe_verify ?exe = Some (Inr ())"
    using example_program_verified c(1)
    by (simp add: exe_verify_def t exe_get_config_def get_sbpf_version_def exe_get_function_registry_def)
      (simp add: strict_exe_def verify_def)
  obtain m where m: "EbpfVm_new example_host ?l V3 (TestContextObject_new 10) example_mapping 4096 = Some m"
    by (simp add: EbpfVm_new_def new_mock_def get_config_def slice_set_Some layout Let_def)
  have f: "slice_fits (snd (0x10000 :: u64, strict_elf example_program))" by (simp add: slice_fits_def)
  from load_execute_terminates[OF test_syscalls.syscall_interface_axioms config_ok_default c(1) f load v
      example_mapping_ok m] m load show ?thesis
    by (auto simp: test_context_object_def TestContextObject_new_def)
qed

end
