(* ===== verification/Insn_Builder.thy ===== *)
theory Insn_Builder
  imports Ebpf
begin

text \<open>
  The program builder of \<^verbatim>\<open>src/src/insn_builder.rs\<close>.  A builder borrows the code it will be pushed to
  exclusively, so the borrowed \<open>BpfCode\<close> is a field of the builder and \<open>push\<close> returns the extended
  code.  The trait \<open>Instruction\<close> is a record of its required methods; its provided methods and
  \<open>into_bytes\<close> take that record, and its laws are the locale \<open>instruction\<close>, interpreted for every
  builder.
\<close>

unbundle bit_operations_syntax

section \<open>The trait\<close>

record BpfCode =
  instructions :: bytes

definition BpfCode_new :: BpfCode where
  "BpfCode_new = \<lparr>instructions = []\<rparr>"

definition Insn_default :: Insn where
  "Insn_default = \<lparr>ptr = 0, opc = 0, dst = 0, src = 0, off = 0, imm = 0\<rparr>"

record 'i Instruction =
  opt_code_byte :: "'i \<Rightarrow> u8"
  trait_insn :: "'i \<Rightarrow> Insn"
  trait_set_insn :: "Insn \<Rightarrow> 'i \<Rightarrow> 'i"

definition get_dst :: "'i Instruction \<Rightarrow> 'i \<Rightarrow> u8" where
  "get_dst T x = dst (trait_insn T x)"

definition get_src :: "'i Instruction \<Rightarrow> 'i \<Rightarrow> u8" where
  "get_src T x = src (trait_insn T x)"

definition get_off :: "'i Instruction \<Rightarrow> 'i \<Rightarrow> i16" where
  "get_off T x = off (trait_insn T x)"

definition get_imm :: "'i Instruction \<Rightarrow> 'i \<Rightarrow> i64" where
  "get_imm T x = imm (trait_insn T x)"

definition set_dst :: "'i Instruction \<Rightarrow> u8 \<Rightarrow> 'i \<Rightarrow> 'i" where
  "set_dst T v x = trait_set_insn T ((trait_insn T x)\<lparr>dst := v\<rparr>) x"

definition set_src :: "'i Instruction \<Rightarrow> u8 \<Rightarrow> 'i \<Rightarrow> 'i" where
  "set_src T v x = trait_set_insn T ((trait_insn T x)\<lparr>src := v\<rparr>) x"

definition set_off :: "'i Instruction \<Rightarrow> i16 \<Rightarrow> 'i \<Rightarrow> 'i" where
  "set_off T v x = trait_set_insn T ((trait_insn T x)\<lparr>off := v\<rparr>) x"

definition set_imm :: "'i Instruction \<Rightarrow> i64 \<Rightarrow> 'i \<Rightarrow> 'i" where
  "set_imm T v x = trait_set_insn T ((trait_insn T x)\<lparr>imm := v\<rparr>) x"

text \<open>\<open>>>\<close> on a signed integer shifts arithmetically, \<open>as u8\<close> keeps the low byte.\<close>

definition into_bytes :: "'i Instruction \<Rightarrow> 'i \<Rightarrow> bytes" where
  "into_bytes T x =
     [opt_code_byte T x,
      push_bit 4 (get_src T x) OR get_dst T x,
      ucast (get_off T x),
      ucast (signed_drop_bit 8 (get_off T x)),
      ucast (get_imm T x),
      ucast (signed_drop_bit 8 (get_imm T x)),
      ucast (signed_drop_bit 16 (get_imm T x)),
      ucast (signed_drop_bit 24 (get_imm T x))]"

definition code_into_bytes :: "BpfCode \<Rightarrow> bytes" where
  "code_into_bytes code = instructions code"

section \<open>Moves and arithmetic\<close>

datatype Source = SourceImm | SourceReg

fun source_value :: "Source \<Rightarrow> u8" where
  "source_value SourceImm = BPF_IMM"
| "source_value SourceReg = BPF_X"

datatype OpBits = OpAdd | OpSub | OpMul | OpDiv | OpBitOr | OpBitAnd | OpLShift | OpRShift | OpNegate | OpMod | OpBitXor | OpMov | OpSignRShift

fun op_bits_value :: "OpBits \<Rightarrow> u8" where
  "op_bits_value OpAdd = BPF_ADD"
| "op_bits_value OpSub = BPF_SUB"
| "op_bits_value OpMul = BPF_MUL"
| "op_bits_value OpDiv = BPF_DIV"
| "op_bits_value OpBitOr = BPF_OR"
| "op_bits_value OpBitAnd = BPF_AND"
| "op_bits_value OpLShift = BPF_LSH"
| "op_bits_value OpRShift = BPF_RSH"
| "op_bits_value OpNegate = BPF_NEG"
| "op_bits_value OpMod = BPF_MOD"
| "op_bits_value OpBitXor = BPF_XOR"
| "op_bits_value OpMov = BPF_MOV"
| "op_bits_value OpSignRShift = BPF_ARSH"

datatype Arch = X64 | X32

fun arch_value :: "Arch \<Rightarrow> u8" where
  "arch_value X64 = BPF_ALU64_STORE"
| "arch_value X32 = BPF_ALU32_LOAD"

record Move =
  mv_bpf_code :: BpfCode
  mv_src_bit :: Source
  mv_op_bits :: OpBits
  mv_arch_bits :: Arch
  mv_insn :: Insn

definition Move_impl :: "Move Instruction" where
  "Move_impl = \<lparr>opt_code_byte = (\<lambda>x. op_bits_value (mv_op_bits x) OR source_value (mv_src_bit x) OR arch_value (mv_arch_bits x)),
     trait_insn = mv_insn, trait_set_insn = (\<lambda>i x. x\<lparr>mv_insn := i\<rparr>)\<rparr>"

definition Move_push :: "Move \<Rightarrow> BpfCode" where
  "Move_push x =
     (mv_bpf_code x)\<lparr>instructions := instructions (mv_bpf_code x) @ into_bytes Move_impl x\<rparr>"

definition mov_internal :: "BpfCode \<Rightarrow> Source \<Rightarrow> Arch \<Rightarrow> OpBits \<Rightarrow> Move" where
  "mov_internal code source arch_bits op_bits =
     \<lparr>mv_bpf_code = code, mv_src_bit = source, mv_op_bits = op_bits, mv_arch_bits = arch_bits,
      mv_insn = Insn_default\<rparr>"

definition code_add :: "BpfCode \<Rightarrow> Source \<Rightarrow> Arch \<Rightarrow> Move" where
  "code_add code source arch = mov_internal code source arch OpAdd"

definition code_sub :: "BpfCode \<Rightarrow> Source \<Rightarrow> Arch \<Rightarrow> Move" where
  "code_sub code source arch = mov_internal code source arch OpSub"

definition code_mul :: "BpfCode \<Rightarrow> Source \<Rightarrow> Arch \<Rightarrow> Move" where
  "code_mul code source arch = mov_internal code source arch OpMul"

definition code_div :: "BpfCode \<Rightarrow> Source \<Rightarrow> Arch \<Rightarrow> Move" where
  "code_div code source arch = mov_internal code source arch OpDiv"

definition code_bit_or :: "BpfCode \<Rightarrow> Source \<Rightarrow> Arch \<Rightarrow> Move" where
  "code_bit_or code source arch = mov_internal code source arch OpBitOr"

definition code_bit_and :: "BpfCode \<Rightarrow> Source \<Rightarrow> Arch \<Rightarrow> Move" where
  "code_bit_and code source arch = mov_internal code source arch OpBitAnd"

definition code_left_shift :: "BpfCode \<Rightarrow> Source \<Rightarrow> Arch \<Rightarrow> Move" where
  "code_left_shift code source arch = mov_internal code source arch OpLShift"

definition code_right_shift :: "BpfCode \<Rightarrow> Source \<Rightarrow> Arch \<Rightarrow> Move" where
  "code_right_shift code source arch = mov_internal code source arch OpRShift"

definition code_negate :: "BpfCode \<Rightarrow> Arch \<Rightarrow> Move" where
  "code_negate code arch = mov_internal code SourceImm arch OpNegate"

definition code_modulo :: "BpfCode \<Rightarrow> Source \<Rightarrow> Arch \<Rightarrow> Move" where
  "code_modulo code source arch = mov_internal code source arch OpMod"

definition code_bit_xor :: "BpfCode \<Rightarrow> Source \<Rightarrow> Arch \<Rightarrow> Move" where
  "code_bit_xor code source arch = mov_internal code source arch OpBitXor"

definition code_mov :: "BpfCode \<Rightarrow> Source \<Rightarrow> Arch \<Rightarrow> Move" where
  "code_mov code source arch = mov_internal code source arch OpMov"

definition code_signed_right_shift :: "BpfCode \<Rightarrow> Source \<Rightarrow> Arch \<Rightarrow> Move" where
  "code_signed_right_shift code source arch = mov_internal code source arch OpSignRShift"

section \<open>Byte swaps\<close>

datatype Endian = Little | Big

fun endian_value :: "Endian \<Rightarrow> u8" where
  "endian_value Little = LE"
| "endian_value Big = BE"

record SwapBytes =
  sb_bpf_code :: BpfCode
  sb_endian :: Endian
  sb_insn :: Insn

definition SwapBytes_impl :: "SwapBytes Instruction" where
  "SwapBytes_impl = \<lparr>opt_code_byte = (\<lambda>x. endian_value (sb_endian x)),
     trait_insn = sb_insn, trait_set_insn = (\<lambda>i x. x\<lparr>sb_insn := i\<rparr>)\<rparr>"

definition SwapBytes_push :: "SwapBytes \<Rightarrow> BpfCode" where
  "SwapBytes_push x =
     (sb_bpf_code x)\<lparr>instructions := instructions (sb_bpf_code x) @ into_bytes SwapBytes_impl x\<rparr>"

definition code_swap_bytes :: "BpfCode \<Rightarrow> Endian \<Rightarrow> SwapBytes" where
  "code_swap_bytes code endian = \<lparr>sb_bpf_code = code, sb_endian = endian, sb_insn = Insn_default\<rparr>"

section \<open>Loads and stores\<close>

datatype MemSize = Byte | HalfWord | Word | DoubleWord

fun mem_size_value :: "MemSize \<Rightarrow> u8" where
  "mem_size_value Byte = BPF_B"
| "mem_size_value HalfWord = BPF_H"
| "mem_size_value Word = BPF_W"
| "mem_size_value DoubleWord = BPF_DW"

datatype Addressing = AddrImm | AddrAbs | AddrInd | AddrMem

fun addressing_value :: "Addressing \<Rightarrow> u8" where
  "addressing_value AddrImm = BPF_IMM"
| "addressing_value AddrAbs = BPF_ABS"
| "addressing_value AddrInd = BPF_IND"
| "addressing_value AddrMem = BPF_MEM"

record LoadBuilder =
  ld_bpf_code :: BpfCode
  ld_addressing :: Addressing
  ld_mem_size :: MemSize
  ld_source :: u8
  ld_insn :: Insn

definition LoadBuilder_impl :: "LoadBuilder Instruction" where
  "LoadBuilder_impl = \<lparr>opt_code_byte = (\<lambda>x. addressing_value (ld_addressing x) OR mem_size_value (ld_mem_size x) OR ld_source x),
     trait_insn = ld_insn, trait_set_insn = (\<lambda>i x. x\<lparr>ld_insn := i\<rparr>)\<rparr>"

definition LoadBuilder_push :: "LoadBuilder \<Rightarrow> BpfCode" where
  "LoadBuilder_push x =
     (ld_bpf_code x)\<lparr>instructions := instructions (ld_bpf_code x) @ into_bytes LoadBuilder_impl x\<rparr>"

definition load_internal :: "BpfCode \<Rightarrow> MemSize \<Rightarrow> Addressing \<Rightarrow> u8 \<Rightarrow> LoadBuilder" where
  "load_internal code mem_size addressing source =
     \<lparr>ld_bpf_code = code, ld_addressing = addressing, ld_mem_size = mem_size, ld_source = source,
      ld_insn = Insn_default\<rparr>"

definition code_load :: "BpfCode \<Rightarrow> MemSize \<Rightarrow> LoadBuilder" where
  "code_load code mem_size = load_internal code mem_size AddrImm BPF_LD"

definition code_load_abs :: "BpfCode \<Rightarrow> MemSize \<Rightarrow> LoadBuilder" where
  "code_load_abs code mem_size = load_internal code mem_size AddrAbs BPF_LD"

definition code_load_ind :: "BpfCode \<Rightarrow> MemSize \<Rightarrow> LoadBuilder" where
  "code_load_ind code mem_size = load_internal code mem_size AddrInd BPF_LD"

definition code_load_x :: "BpfCode \<Rightarrow> MemSize \<Rightarrow> LoadBuilder" where
  "code_load_x code mem_size = load_internal code mem_size AddrMem BPF_LDX"

record StoreBuilder =
  st_bpf_code :: BpfCode
  st_mem_size :: MemSize
  st_source :: u8
  st_insn :: Insn

definition StoreBuilder_impl :: "StoreBuilder Instruction" where
  "StoreBuilder_impl = \<lparr>opt_code_byte = (\<lambda>x. BPF_MEM OR BPF_ST OR mem_size_value (st_mem_size x) OR st_source x),
     trait_insn = st_insn, trait_set_insn = (\<lambda>i x. x\<lparr>st_insn := i\<rparr>)\<rparr>"

definition StoreBuilder_push :: "StoreBuilder \<Rightarrow> BpfCode" where
  "StoreBuilder_push x =
     (st_bpf_code x)\<lparr>instructions := instructions (st_bpf_code x) @ into_bytes StoreBuilder_impl x\<rparr>"

definition store_internal :: "BpfCode \<Rightarrow> MemSize \<Rightarrow> u8 \<Rightarrow> StoreBuilder" where
  "store_internal code mem_size source =
     \<lparr>st_bpf_code = code, st_mem_size = mem_size, st_source = source, st_insn = Insn_default\<rparr>"

definition code_store :: "BpfCode \<Rightarrow> MemSize \<Rightarrow> StoreBuilder" where
  "code_store code mem_size = store_internal code mem_size BPF_IMM"

definition code_store_x :: "BpfCode \<Rightarrow> MemSize \<Rightarrow> StoreBuilder" where
  "code_store_x code mem_size = store_internal code mem_size (BPF_MEM OR BPF_STX)"

section \<open>Jumps, calls and exit\<close>

datatype Cond = CondAbs | CondEquals | CondGreater | CondGreaterEquals | CondLower | CondLowerEquals | CondBitAnd | CondNotEquals | CondGreaterSigned | CondGreaterEqualsSigned | CondLowerSigned | CondLowerEqualsSigned

fun cond_value :: "Cond \<Rightarrow> u8" where
  "cond_value CondAbs = BPF_JA"
| "cond_value CondEquals = BPF_JEQ"
| "cond_value CondGreater = BPF_JGT"
| "cond_value CondGreaterEquals = BPF_JGE"
| "cond_value CondLower = BPF_JLT"
| "cond_value CondLowerEquals = BPF_JLE"
| "cond_value CondBitAnd = BPF_JSET"
| "cond_value CondNotEquals = BPF_JNE"
| "cond_value CondGreaterSigned = BPF_JSGT"
| "cond_value CondGreaterEqualsSigned = BPF_JSGE"
| "cond_value CondLowerSigned = BPF_JSLT"
| "cond_value CondLowerEqualsSigned = BPF_JSLE"

record Jump =
  jp_bpf_code :: BpfCode
  jp_cond :: Cond
  jp_src_bit :: Source
  jp_insn :: Insn

definition Jump_impl :: "Jump Instruction" where
  "Jump_impl = \<lparr>opt_code_byte = (\<lambda>x. cond_value (jp_cond x) OR source_value (jp_src_bit x) OR BPF_JMP64),
     trait_insn = jp_insn, trait_set_insn = (\<lambda>i x. x\<lparr>jp_insn := i\<rparr>)\<rparr>"

definition Jump_push :: "Jump \<Rightarrow> BpfCode" where
  "Jump_push x =
     (jp_bpf_code x)\<lparr>instructions := instructions (jp_bpf_code x) @ into_bytes Jump_impl x\<rparr>"

definition code_jump_conditional :: "BpfCode \<Rightarrow> Cond \<Rightarrow> Source \<Rightarrow> Jump" where
  "code_jump_conditional code cond src_bit =
     \<lparr>jp_bpf_code = code, jp_cond = cond, jp_src_bit = src_bit, jp_insn = Insn_default\<rparr>"

definition code_jump_unconditional :: "BpfCode \<Rightarrow> Jump" where
  "code_jump_unconditional code = code_jump_conditional code CondAbs SourceImm"

record FunctionCall =
  fc_bpf_code :: BpfCode
  fc_insn :: Insn

definition FunctionCall_impl :: "FunctionCall Instruction" where
  "FunctionCall_impl = \<lparr>opt_code_byte = (\<lambda>x. BPF_CALL OR BPF_JMP64),
     trait_insn = fc_insn, trait_set_insn = (\<lambda>i x. x\<lparr>fc_insn := i\<rparr>)\<rparr>"

definition FunctionCall_push :: "FunctionCall \<Rightarrow> BpfCode" where
  "FunctionCall_push x =
     (fc_bpf_code x)\<lparr>instructions := instructions (fc_bpf_code x) @ into_bytes FunctionCall_impl x\<rparr>"

definition code_call :: "BpfCode \<Rightarrow> FunctionCall" where
  "code_call code = \<lparr>fc_bpf_code = code, fc_insn = Insn_default\<rparr>"

record Exit =
  ex_bpf_code :: BpfCode
  ex_insn :: Insn

definition Exit_impl :: "Exit Instruction" where
  "Exit_impl = \<lparr>opt_code_byte = (\<lambda>x. BPF_EXIT OR BPF_JMP64),
     trait_insn = ex_insn, trait_set_insn = (\<lambda>i x. x\<lparr>ex_insn := i\<rparr>)\<rparr>"

definition Exit_push :: "Exit \<Rightarrow> BpfCode" where
  "Exit_push x =
     (ex_bpf_code x)\<lparr>instructions := instructions (ex_bpf_code x) @ into_bytes Exit_impl x\<rparr>"

definition code_exit :: "BpfCode \<Rightarrow> Exit" where
  "code_exit code = \<lparr>ex_bpf_code = code, ex_insn = Insn_default\<rparr>"

section \<open>The contract of a builder\<close>

text \<open>The instruction a builder stands for has the builder's own opcode byte.  Setting instruction
  fields keeps the opcode byte and the borrowed code, and \<open>push\<close> appends the bytes.\<close>

definition built_insn :: "'i Instruction \<Rightarrow> 'i \<Rightarrow> Insn" where
  "built_insn T x = (trait_insn T x)\<lparr>opc := opt_code_byte T x\<rparr>"

definition set_fields :: "'i Instruction \<Rightarrow> Insn \<Rightarrow> 'i \<Rightarrow> 'i" where
  "set_fields T i x = set_imm T (imm i) (set_off T (off i) (set_src T (src i) (set_dst T (dst i) x)))"

lemma signed_shift_bytes:
  "(ucast (signed_drop_bit 8 x) :: u8) = ucast (drop_bit 8 (x :: i16))"
  "(ucast (signed_drop_bit 8 y) :: u8) = ucast (drop_bit 8 (y :: i64))"
  "(ucast (signed_drop_bit 16 y) :: u8) = ucast (drop_bit 16 (y :: i64))"
  "(ucast (signed_drop_bit 24 y) :: u8) = ucast (drop_bit 24 (y :: i64))"
  by (rule bit_word_eqI; auto simp: bit_simps min_def)+

lemma into_bytes_to_array: "into_bytes T x = to_array (built_insn T x)"
  by (simp add: into_bytes_def to_array_eq built_insn_def get_dst_def get_src_def get_off_def
      get_imm_def le_bytes_2 le_bytes_4 signed_shift_bytes)

locale builder =
  fixes T :: "'i Instruction" and push :: "'i \<Rightarrow> BpfCode" and code_of :: "'i \<Rightarrow> BpfCode"
  assumes insn_set: "trait_insn T (trait_set_insn T i x) = i"
    and opt_code_set: "opt_code_byte T (trait_set_insn T i x) = opt_code_byte T x"
    and code_set: "code_of (trait_set_insn T i x) = code_of x"
    and push_appends: "instructions (push x) = instructions (code_of x) @ into_bytes T x"
begin

lemma built_set_fields:
  "built_insn T (set_fields T i x) =
     \<lparr>ptr = ptr (trait_insn T x), opc = opt_code_byte T x, dst = dst i, src = src i, off = off i,
      imm = imm i\<rparr>"
  by (simp add: built_insn_def set_fields_def set_imm_def set_off_def set_src_def set_dst_def
      insn_set opt_code_set)

lemma code_set_fields: "code_of (set_fields T i x) = code_of x"
  by (simp add: set_fields_def set_imm_def set_off_def set_src_def set_dst_def code_set)

lemma push_set_fields:
  "instructions (push (set_fields T i x)) =
     instructions (code_of x) @
     to_array \<lparr>ptr = ptr (trait_insn T x), opc = opt_code_byte T x, dst = dst i, src = src i, off = off i,
       imm = imm i\<rparr>"
  by (simp add: push_appends into_bytes_to_array built_set_fields code_set_fields)

end

interpretation mov_builder: builder Move_impl Move_push mv_bpf_code
  by unfold_locales (simp_all add: Move_impl_def Move_push_def)

interpretation swap_builder: builder SwapBytes_impl SwapBytes_push sb_bpf_code
  by unfold_locales (simp_all add: SwapBytes_impl_def SwapBytes_push_def)

interpretation load_builder: builder LoadBuilder_impl LoadBuilder_push ld_bpf_code
  by unfold_locales (simp_all add: LoadBuilder_impl_def LoadBuilder_push_def)

interpretation store_builder: builder StoreBuilder_impl StoreBuilder_push st_bpf_code
  by unfold_locales (simp_all add: StoreBuilder_impl_def StoreBuilder_push_def)

interpretation jump_builder: builder Jump_impl Jump_push jp_bpf_code
  by unfold_locales (simp_all add: Jump_impl_def Jump_push_def)

interpretation call_builder: builder FunctionCall_impl FunctionCall_push fc_bpf_code
  by unfold_locales (simp_all add: FunctionCall_impl_def FunctionCall_push_def)

interpretation exit_builder: builder Exit_impl Exit_push ex_bpf_code
  by unfold_locales (simp_all add: Exit_impl_def Exit_push_def)

section \<open>Programs\<close>

text \<open>A statement is one call chain of the interface: a constructor of \<open>BpfCode\<close>, the four setters, \<open>push\<close>.\<close>

datatype BuilderCall =
    AluStatement OpBits Source Arch
  | SwapStatement Endian
  | LoadStatement MemSize | LoadAbsStatement MemSize | LoadIndStatement MemSize | LoadXStatement MemSize
  | StoreStatement MemSize | StoreXStatement MemSize
  | JumpStatement | JumpIfStatement Cond Source
  | CallStatement
  | ExitStatement

fun code_alu :: "OpBits \<Rightarrow> BpfCode \<Rightarrow> Source \<Rightarrow> Arch \<Rightarrow> Move" where
  "code_alu OpAdd c s a = code_add c s a"
| "code_alu OpSub c s a = code_sub c s a"
| "code_alu OpMul c s a = code_mul c s a"
| "code_alu OpDiv c s a = code_div c s a"
| "code_alu OpBitOr c s a = code_bit_or c s a"
| "code_alu OpBitAnd c s a = code_bit_and c s a"
| "code_alu OpLShift c s a = code_left_shift c s a"
| "code_alu OpRShift c s a = code_right_shift c s a"
| "code_alu OpNegate c s a = code_negate c a"
| "code_alu OpMod c s a = code_modulo c s a"
| "code_alu OpBitXor c s a = code_bit_xor c s a"
| "code_alu OpMov c s a = code_mov c s a"
| "code_alu OpSignRShift c s a = code_signed_right_shift c s a"

fun emit :: "BpfCode \<Rightarrow> BuilderCall \<times> Insn \<Rightarrow> BpfCode" where
  "emit c (AluStatement op s a, i) = Move_push (set_fields Move_impl i (code_alu op c s a))"
| "emit c (SwapStatement e, i) = SwapBytes_push (set_fields SwapBytes_impl i (code_swap_bytes c e))"
| "emit c (LoadStatement m, i) = LoadBuilder_push (set_fields LoadBuilder_impl i (code_load c m))"
| "emit c (LoadAbsStatement m, i) = LoadBuilder_push (set_fields LoadBuilder_impl i (code_load_abs c m))"
| "emit c (LoadIndStatement m, i) = LoadBuilder_push (set_fields LoadBuilder_impl i (code_load_ind c m))"
| "emit c (LoadXStatement m, i) = LoadBuilder_push (set_fields LoadBuilder_impl i (code_load_x c m))"
| "emit c (StoreStatement m, i) = StoreBuilder_push (set_fields StoreBuilder_impl i (code_store c m))"
| "emit c (StoreXStatement m, i) = StoreBuilder_push (set_fields StoreBuilder_impl i (code_store_x c m))"
| "emit c (JumpStatement, i) = Jump_push (set_fields Jump_impl i (code_jump_unconditional c))"
| "emit c (JumpIfStatement k s, i) = Jump_push (set_fields Jump_impl i (code_jump_conditional c k s))"
| "emit c (CallStatement, i) = FunctionCall_push (set_fields FunctionCall_impl i (code_call c))"
| "emit c (ExitStatement, i) = Exit_push (set_fields Exit_impl i (code_exit c))"

text \<open>The named operation code of \<^verbatim>\<open>ebpf.rs\<close> for every statement that has one.  The instruction set has no
  absolute or indirect loads, no immediate load narrower than 64 bits, and no unconditional jump by
  register.\<close>

fun statement_opc :: "BuilderCall \<Rightarrow> u8 option" where
  "statement_opc (AluStatement OpAdd SourceImm X64) = Some ADD64_IMM"
| "statement_opc (AluStatement OpAdd SourceReg X64) = Some ADD64_REG"
| "statement_opc (AluStatement OpAdd SourceImm X32) = Some ADD32_IMM"
| "statement_opc (AluStatement OpAdd SourceReg X32) = Some ADD32_REG"
| "statement_opc (AluStatement OpSub SourceImm X64) = Some SUB64_IMM"
| "statement_opc (AluStatement OpSub SourceReg X64) = Some SUB64_REG"
| "statement_opc (AluStatement OpSub SourceImm X32) = Some SUB32_IMM"
| "statement_opc (AluStatement OpSub SourceReg X32) = Some SUB32_REG"
| "statement_opc (AluStatement OpMul SourceImm X64) = Some MUL64_IMM"
| "statement_opc (AluStatement OpMul SourceReg X64) = Some MUL64_REG"
| "statement_opc (AluStatement OpMul SourceImm X32) = Some MUL32_IMM"
| "statement_opc (AluStatement OpMul SourceReg X32) = Some MUL32_REG"
| "statement_opc (AluStatement OpDiv SourceImm X64) = Some DIV64_IMM"
| "statement_opc (AluStatement OpDiv SourceReg X64) = Some DIV64_REG"
| "statement_opc (AluStatement OpDiv SourceImm X32) = Some DIV32_IMM"
| "statement_opc (AluStatement OpDiv SourceReg X32) = Some DIV32_REG"
| "statement_opc (AluStatement OpBitOr SourceImm X64) = Some OR64_IMM"
| "statement_opc (AluStatement OpBitOr SourceReg X64) = Some OR64_REG"
| "statement_opc (AluStatement OpBitOr SourceImm X32) = Some OR32_IMM"
| "statement_opc (AluStatement OpBitOr SourceReg X32) = Some OR32_REG"
| "statement_opc (AluStatement OpBitAnd SourceImm X64) = Some AND64_IMM"
| "statement_opc (AluStatement OpBitAnd SourceReg X64) = Some AND64_REG"
| "statement_opc (AluStatement OpBitAnd SourceImm X32) = Some AND32_IMM"
| "statement_opc (AluStatement OpBitAnd SourceReg X32) = Some AND32_REG"
| "statement_opc (AluStatement OpLShift SourceImm X64) = Some LSH64_IMM"
| "statement_opc (AluStatement OpLShift SourceReg X64) = Some LSH64_REG"
| "statement_opc (AluStatement OpLShift SourceImm X32) = Some LSH32_IMM"
| "statement_opc (AluStatement OpLShift SourceReg X32) = Some LSH32_REG"
| "statement_opc (AluStatement OpRShift SourceImm X64) = Some RSH64_IMM"
| "statement_opc (AluStatement OpRShift SourceReg X64) = Some RSH64_REG"
| "statement_opc (AluStatement OpRShift SourceImm X32) = Some RSH32_IMM"
| "statement_opc (AluStatement OpRShift SourceReg X32) = Some RSH32_REG"
| "statement_opc (AluStatement OpNegate _ X64) = Some NEG64"
| "statement_opc (AluStatement OpNegate _ X32) = Some NEG32"
| "statement_opc (AluStatement OpMod SourceImm X64) = Some MOD64_IMM"
| "statement_opc (AluStatement OpMod SourceReg X64) = Some MOD64_REG"
| "statement_opc (AluStatement OpMod SourceImm X32) = Some MOD32_IMM"
| "statement_opc (AluStatement OpMod SourceReg X32) = Some MOD32_REG"
| "statement_opc (AluStatement OpBitXor SourceImm X64) = Some XOR64_IMM"
| "statement_opc (AluStatement OpBitXor SourceReg X64) = Some XOR64_REG"
| "statement_opc (AluStatement OpBitXor SourceImm X32) = Some XOR32_IMM"
| "statement_opc (AluStatement OpBitXor SourceReg X32) = Some XOR32_REG"
| "statement_opc (AluStatement OpMov SourceImm X64) = Some MOV64_IMM"
| "statement_opc (AluStatement OpMov SourceReg X64) = Some MOV64_REG"
| "statement_opc (AluStatement OpMov SourceImm X32) = Some MOV32_IMM"
| "statement_opc (AluStatement OpMov SourceReg X32) = Some MOV32_REG"
| "statement_opc (AluStatement OpSignRShift SourceImm X64) = Some ARSH64_IMM"
| "statement_opc (AluStatement OpSignRShift SourceReg X64) = Some ARSH64_REG"
| "statement_opc (AluStatement OpSignRShift SourceImm X32) = Some ARSH32_IMM"
| "statement_opc (AluStatement OpSignRShift SourceReg X32) = Some ARSH32_REG"
| "statement_opc (SwapStatement Little) = Some LE"
| "statement_opc (SwapStatement Big) = Some BE"
| "statement_opc (LoadStatement DoubleWord) = Some LD_DW_IMM"
| "statement_opc (LoadXStatement Byte) = Some LD_B_REG"
| "statement_opc (StoreStatement Byte) = Some ST_B_IMM"
| "statement_opc (StoreXStatement Byte) = Some ST_B_REG"
| "statement_opc (LoadXStatement HalfWord) = Some LD_H_REG"
| "statement_opc (StoreStatement HalfWord) = Some ST_H_IMM"
| "statement_opc (StoreXStatement HalfWord) = Some ST_H_REG"
| "statement_opc (LoadXStatement Word) = Some LD_W_REG"
| "statement_opc (StoreStatement Word) = Some ST_W_IMM"
| "statement_opc (StoreXStatement Word) = Some ST_W_REG"
| "statement_opc (LoadXStatement DoubleWord) = Some LD_DW_REG"
| "statement_opc (StoreStatement DoubleWord) = Some ST_DW_IMM"
| "statement_opc (StoreXStatement DoubleWord) = Some ST_DW_REG"
| "statement_opc JumpStatement = Some JA"
| "statement_opc (JumpIfStatement CondAbs SourceImm) = Some JA"
| "statement_opc (JumpIfStatement CondEquals SourceImm) = Some JEQ64_IMM"
| "statement_opc (JumpIfStatement CondEquals SourceReg) = Some JEQ64_REG"
| "statement_opc (JumpIfStatement CondGreater SourceImm) = Some JGT64_IMM"
| "statement_opc (JumpIfStatement CondGreater SourceReg) = Some JGT64_REG"
| "statement_opc (JumpIfStatement CondGreaterEquals SourceImm) = Some JGE64_IMM"
| "statement_opc (JumpIfStatement CondGreaterEquals SourceReg) = Some JGE64_REG"
| "statement_opc (JumpIfStatement CondLower SourceImm) = Some JLT64_IMM"
| "statement_opc (JumpIfStatement CondLower SourceReg) = Some JLT64_REG"
| "statement_opc (JumpIfStatement CondLowerEquals SourceImm) = Some JLE64_IMM"
| "statement_opc (JumpIfStatement CondLowerEquals SourceReg) = Some JLE64_REG"
| "statement_opc (JumpIfStatement CondBitAnd SourceImm) = Some JSET64_IMM"
| "statement_opc (JumpIfStatement CondBitAnd SourceReg) = Some JSET64_REG"
| "statement_opc (JumpIfStatement CondNotEquals SourceImm) = Some JNE64_IMM"
| "statement_opc (JumpIfStatement CondNotEquals SourceReg) = Some JNE64_REG"
| "statement_opc (JumpIfStatement CondGreaterSigned SourceImm) = Some JSGT64_IMM"
| "statement_opc (JumpIfStatement CondGreaterSigned SourceReg) = Some JSGT64_REG"
| "statement_opc (JumpIfStatement CondGreaterEqualsSigned SourceImm) = Some JSGE64_IMM"
| "statement_opc (JumpIfStatement CondGreaterEqualsSigned SourceReg) = Some JSGE64_REG"
| "statement_opc (JumpIfStatement CondLowerSigned SourceImm) = Some JSLT64_IMM"
| "statement_opc (JumpIfStatement CondLowerSigned SourceReg) = Some JSLT64_REG"
| "statement_opc (JumpIfStatement CondLowerEqualsSigned SourceImm) = Some JSLE64_IMM"
| "statement_opc (JumpIfStatement CondLowerEqualsSigned SourceReg) = Some JSLE64_REG"
| "statement_opc CallStatement = Some CALL_IMM"
| "statement_opc ExitStatement = Some EXIT"
| "statement_opc _ = None"

fun statement_insn :: "BuilderCall \<times> Insn \<Rightarrow> Insn" where
  "statement_insn (s, i) =
     \<lparr>ptr = 0, opc = the (statement_opc s), dst = dst i, src = src i, off = off i, imm = imm i\<rparr>"

lemmas builder_push_set_fields =
  mov_builder.push_set_fields swap_builder.push_set_fields load_builder.push_set_fields
  store_builder.push_set_fields jump_builder.push_set_fields call_builder.push_set_fields
  exit_builder.push_set_fields

lemmas builder_constructor_defs =
  code_add_def code_sub_def code_mul_def code_div_def code_bit_or_def code_bit_and_def code_left_shift_def code_right_shift_def code_negate_def code_modulo_def code_bit_xor_def code_mov_def code_signed_right_shift_def
  mov_internal_def code_swap_bytes_def code_load_def code_load_x_def code_load_abs_def
  code_load_ind_def load_internal_def code_store_def code_store_x_def store_internal_def
  code_jump_conditional_def code_jump_unconditional_def code_call_def code_exit_def Insn_default_def

lemmas builder_impl_defs =
  Move_impl_def SwapBytes_impl_def LoadBuilder_impl_def StoreBuilder_impl_def Jump_impl_def
  FunctionCall_impl_def Exit_impl_def

lemma emit_appends:
  assumes "statement_opc s = Some b"
  shows "instructions (emit c (s, i)) = instructions c @ to_array (statement_insn (s, i))"
  using assms
  by (cases s rule: statement_opc.cases)
    (simp_all add: builder_push_set_fields,
      simp_all add: builder_constructor_defs builder_impl_defs opcode)

lemma foldl_emit_appends:
  assumes "\<forall>(s, i) \<in> set ss. statement_opc s \<noteq> None"
  shows "instructions (foldl emit c ss) = instructions c @ concat (map to_vec (map statement_insn ss))"
  using assms
proof (induction ss arbitrary: c)
  case (Cons si ss)
  then obtain s i b where "si = (s, i)" "statement_opc s = Some b" by (cases si) auto
  then show ?case using Cons emit_appends[of s b c i] by (simp add: to_vec_def)
qed simp

text \<open>C36: a program built with the interface of \<open>insn_builder\<close>, one call chain per instruction, decodes
  to the instructions asked for: at slot \<open>k\<close>, \<open>get_insn\<close> returns the named operation code of the
  \<open>k\<close>-th statement with the registers, offset and immediate that were set.\<close>

theorem builder_decodes:
  assumes "\<forall>(s, i) \<in> set ss. statement_opc s \<noteq> None \<and> insn_encodable i"
    and "k < length ss" and "slice_fits (code_into_bytes (foldl emit BpfCode_new ss))"
  shows "get_insn (code_into_bytes (foldl emit BpfCode_new ss)) k =
    Some ((statement_insn (ss ! k))\<lparr>ptr := k\<rparr>)"
proof -
  let ?is = "map statement_insn ss"
  have code: "code_into_bytes (foldl emit BpfCode_new ss) = concat (map to_vec ?is)"
    using foldl_emit_appends[of ss BpfCode_new] assms(1)
    by (auto simp: code_into_bytes_def BpfCode_new_def)
  have "\<forall>insn \<in> set ?is. insn_encodable insn"
    using assms(1) by (auto simp: insn_encodable_def)
  then have "insn_at (concat (map to_vec ?is)) k = (?is ! k)\<lparr>ptr := k\<rparr>"
    using assms(2) by (intro insn_at_program) simp_all
  then show ?thesis
    using assms(2,3) unfolding code by (simp add: get_insn_eq del: map_map)
qed

theorem builder_decodes_witness:
  "get_insn (code_into_bytes (foldl emit BpfCode_new
       [(AluStatement OpMov SourceImm X64, Insn_default\<lparr>dst := 3, imm := -2\<rparr>),
        (JumpIfStatement CondGreaterSigned SourceReg, Insn_default\<lparr>dst := 3, src := 4, off := -1\<rparr>),
        (ExitStatement, Insn_default)])) 1 =
     Some \<lparr>ptr = 1, opc = JSGT64_REG, dst = 3, src = 4, off = -1, imm = 0\<rparr>"
proof -
  let ?ss = "[(AluStatement OpMov SourceImm X64, Insn_default\<lparr>dst := 3, imm := -2\<rparr>),
        (JumpIfStatement CondGreaterSigned SourceReg, Insn_default\<lparr>dst := 3, src := 4, off := -1\<rparr>),
        (ExitStatement, Insn_default)]"
  have ok: "\<forall>(s, i) \<in> set ?ss. statement_opc s \<noteq> None \<and> insn_encodable i"
    by (simp add: insn_encodable_def Insn_default_def)
  then have "\<forall>(s, i) \<in> set ?ss. statement_opc s \<noteq> None" by simp
  from foldl_emit_appends[OF this, of BpfCode_new]
  have "slice_fits (code_into_bytes (foldl emit BpfCode_new ?ss))"
    by (simp add: code_into_bytes_def BpfCode_new_def slice_fits_def to_vec_def)
  from builder_decodes[OF ok _ this, of 1] show ?thesis by (simp add: Insn_default_def)
qed

end
