(* ===== verification/Assembler.thy ===== *)
theory Assembler
  imports Executable Rust_Text
begin

text \<open>
  The assembler of \<^verbatim>\<open>src/src/assembler.rs\<close>: the map from mnemonics to operation codes, the
  translation of one instruction, and the two passes of \<open>assemble\<close> over the parsed statements.  The
  parser of \<^verbatim>\<open>asm_parser.rs\<close> is made of the combinators of the \<^verbatim>\<open>combine\<close> crate and is a parameter
  \<open>parse\<close>; its statements and operands are the datatypes of that file.  Error messages are values of
  \<open>AsmError\<close>, one constructor for each format string.  The value \<open>None\<close> is a panic of an arithmetic
  overflow check.
\<close>

unbundle bit_operations_syntax

section \<open>Statements\<close>

datatype Operand = Register i64 | Integer i64 | Memory i64 i64 | LabelOperand string

datatype Statement =
    LabelStatement string
  | Directive string "Operand list"
  | InstructionStatement string "Operand list"

datatype AsmError =
    ParseError string
  | InvalidDestinationRegister i64
  | InvalidSourceRegister i64
  | InvalidOffset i64
  | InvalidImmediate i64
  | LabelNotFound string
  | LabelHashCollision string
  | InvalidDirective string
  | InvalidInstructionName string
  | UnexpectedOperands "Operand list"
  | ExecutableConstructor EbpfError

section \<open>The instruction map\<close>

datatype InstructionType =
    AluBinary | AluUnary | LoadDwImm | LoadReg | StoreImm | StoreReg | JumpUnconditional
  | JumpConditional | Syscall | CallImm | CallReg | Endian i64 | NoOperand

definition alu_binary_ops :: "(string \<times> u8) list" where
  "alu_binary_ops =
     [(''add'', BPF_ADD), (''sub'', BPF_SUB), (''mul'', BPF_MUL), (''div'', BPF_DIV),
      (''or'', BPF_OR), (''and'', BPF_AND), (''lsh'', BPF_LSH), (''rsh'', BPF_RSH),
      (''mod'', BPF_MOD), (''xor'', BPF_XOR), (''mov'', BPF_MOV), (''arsh'', BPF_ARSH),
      (''hor'', BPF_HOR)]"

definition mem_classes :: "(string \<times> InstructionType \<times> u8 \<times> u8) list" where
  "mem_classes =
     [(''ldx'', LoadReg, BPF_MEM OR BPF_LDX, BPF_ALU32_LOAD OR BPF_X),
      (''st'', StoreImm, BPF_MEM OR BPF_ST, BPF_ALU64_STORE OR BPF_K),
      (''stx'', StoreReg, BPF_MEM OR BPF_STX, BPF_ALU64_STORE OR BPF_X)]"

definition mem_sizes :: "(string \<times> u8 \<times> u8) list" where
  "mem_sizes =
     [(''b'', BPF_B, BPF_1B), (''h'', BPF_H, BPF_2B), (''w'', BPF_W, BPF_4B), (''dw'', BPF_DW, BPF_8B)]"

definition jump_conditions :: "(string \<times> u8) list" where
  "jump_conditions =
     [(''jeq'', BPF_JEQ), (''jgt'', BPF_JGT), (''jge'', BPF_JGE), (''jlt'', BPF_JLT),
      (''jle'', BPF_JLE), (''jset'', BPF_JSET), (''jne'', BPF_JNE), (''jsgt'', BPF_JSGT),
      (''jsge'', BPF_JSGE), (''jslt'', BPF_JSLT), (''jsle'', BPF_JSLE)]"

definition misc_entries :: "(string \<times> InstructionType \<times> u8) list" where
  "misc_entries =
     [(''lddw'', LoadDwImm, LD_DW_IMM),
      (''ja'', JumpUnconditional, JA),
      (''syscall'', Syscall, CALL_IMM),
      (''call'', CallImm, CALL_IMM),
      (''callx'', CallReg, CALL_REG),
      (''exit'', NoOperand, EXIT),
      (''neg'', AluUnary, NEG64),
      (''neg32'', AluUnary, NEG32),
      (''neg64'', AluUnary, NEG64)]"

definition alu_entries :: "(string \<times> InstructionType \<times> u8) list" where
  "alu_entries =
     concat (map (\<lambda>(name, op).
       [(name, AluBinary, BPF_ALU64_STORE OR op),
        (name @ ''32'', AluBinary, BPF_ALU32_LOAD OR op),
        (name @ ''64'', AluBinary, BPF_ALU64_STORE OR op)]) alu_binary_ops)"

definition pqr_entries :: "(string \<times> InstructionType \<times> u8) list" where
  "pqr_entries =
     [(''lmul'', AluBinary, BPF_PQR OR BPF_B OR BPF_LMUL),
      (''lmul64'', AluBinary, BPF_PQR OR BPF_B OR BPF_LMUL),
      (''lmul32'', AluBinary, BPF_PQR OR BPF_LMUL),
      (''uhmul'', AluBinary, BPF_PQR OR BPF_B OR BPF_UHMUL),
      (''uhmul64'', AluBinary, BPF_PQR OR BPF_B OR BPF_UHMUL),
      (''shmul'', AluBinary, BPF_PQR OR BPF_B OR BPF_SHMUL),
      (''shmul64'', AluBinary, BPF_PQR OR BPF_B OR BPF_SHMUL),
      (''udiv'', AluBinary, BPF_PQR OR BPF_B OR BPF_UDIV),
      (''udiv64'', AluBinary, BPF_PQR OR BPF_B OR BPF_UDIV),
      (''udiv32'', AluBinary, BPF_PQR OR BPF_UDIV),
      (''urem'', AluBinary, BPF_PQR OR BPF_B OR BPF_UREM),
      (''urem64'', AluBinary, BPF_PQR OR BPF_B OR BPF_UREM),
      (''urem32'', AluBinary, BPF_PQR OR BPF_UREM),
      (''sdiv'', AluBinary, BPF_PQR OR BPF_B OR BPF_SDIV),
      (''sdiv64'', AluBinary, BPF_PQR OR BPF_B OR BPF_SDIV),
      (''sdiv32'', AluBinary, BPF_PQR OR BPF_SDIV),
      (''srem'', AluBinary, BPF_PQR OR BPF_B OR BPF_SREM),
      (''srem64'', AluBinary, BPF_PQR OR BPF_B OR BPF_SREM),
      (''srem32'', AluBinary, BPF_PQR OR BPF_SREM)]"

definition mem_entries :: "SBPFVersion \<Rightarrow> (string \<times> InstructionType \<times> u8) list" where
  "mem_entries v =
     (if move_memory_instruction_classes v
      then concat (map (\<lambda>(prefix, class, _, opcode).
             map (\<lambda>(suffix, _, size). (prefix @ suffix, class, opcode OR size)) mem_sizes) mem_classes)
      else concat (map (\<lambda>(prefix, class, opcode, _).
             map (\<lambda>(suffix, size, _). (prefix @ suffix, class, opcode OR size)) mem_sizes) mem_classes))"

definition jump_entries :: "(string \<times> InstructionType \<times> u8) list" where
  "jump_entries =
     concat (map (\<lambda>(name, condition).
       [(name, JumpConditional, BPF_JMP64 OR condition),
        (name @ ''32'', JumpConditional, BPF_JMP32 OR condition),
        (name @ ''64'', JumpConditional, BPF_JMP64 OR condition)]) jump_conditions)"

definition endian_entries :: "(string \<times> InstructionType \<times> u8) list" where
  "endian_entries =
     concat (map (\<lambda>(digits, width). [(''be'' @ digits, Endian width, BE), (''le'' @ digits, Endian width, LE)])
       [(''16'', 16), (''32'', 32), (''64'', 64)])"

text \<open>\<open>insert\<close> replaces an earlier entry of the same name, so the last entry counts.\<close>

definition make_instruction_map :: "SBPFVersion \<Rightarrow> string \<rightharpoonup> InstructionType \<times> u8" where
  "make_instruction_map v =
     map_of (rev (misc_entries @ alu_entries @ pqr_entries @ mem_entries v @ jump_entries @
       endian_entries))"

section \<open>One instruction\<close>

definition asm_insn :: "u8 \<Rightarrow> i64 \<Rightarrow> i64 \<Rightarrow> i64 \<Rightarrow> i64 \<Rightarrow> AsmError + Insn" where
  "asm_insn op d s ofs im =
     (if \<not> (0 \<le> sint d \<and> sint d < 16) then Inl (InvalidDestinationRegister d)
      else if \<not> (0 \<le> sint s \<and> sint s < 16) then Inl (InvalidSourceRegister s)
      else if sint ofs < - (2 ^ 15) \<or> sint ofs > 2 ^ 15 - 1 then Inl (InvalidOffset ofs)
      else if sint im < - (2 ^ 31) \<or> sint im > 2 ^ 31 - 1 then Inl (InvalidImmediate im)
      else Inr \<lparr>ptr = 0, opc = op, dst = ucast d, src = ucast s, off = ucast ofs, imm = im\<rparr>)"

definition asm_resolve_label ::
  "usize \<Rightarrow> (string \<rightharpoonup> usize) \<Rightarrow> string \<Rightarrow> (AsmError + i64) option" where
  "asm_resolve_label insn_ptr labels label =
     (case labels label of
        None \<Rightarrow> Some (Inl (LabelNotFound label))
      | Some target_pc \<Rightarrow>
          map_option Inr
            (signed_sub_ovf (of_nat target_pc) (of_nat insn_ptr) \<bind> (\<lambda>d. signed_sub_ovf d 1)))"

text \<open>The translation of the operands.  Only a call by offset changes the function registry.\<close>

definition assemble_call_imm ::
  "SBPFVersion \<Rightarrow> usize \<Rightarrow> string \<Rightarrow> u8 \<Rightarrow> i64 \<Rightarrow> usize FunctionRegistry \<Rightarrow>
   (AsmError + Insn \<times> usize FunctionRegistry) option" where
  "assemble_call_imm v insn_ptr name op i r = do {
     next \<leftarrow> signed_add_ovf i (of_nat insn_ptr);
     target_pc \<leftarrow> signed_add_ovf next 1;
     let label = ''function_'' @ show_nat (unat target_pc);
     case register_function r (ucast target_pc) (ascii label) (unat target_pc) of
       Inl _ \<Rightarrow> Some (Inl (LabelHashCollision name))
     | Inr r' \<Rightarrow> Some (map_sum id (\<lambda>x. (x, r'))
         (asm_insn op 0 (if static_syscalls v then 1 else 0) 0 (if static_syscalls v then i else target_pc)))
   }"

definition assemble_call_label ::
  "SBPFVersion \<Rightarrow> (string \<rightharpoonup> usize) \<Rightarrow> usize \<Rightarrow> u8 \<Rightarrow> string \<Rightarrow> (AsmError + Insn) option" where
  "assemble_call_label v labels insn_ptr op label =
     (case labels label of
        None \<Rightarrow> Some (Inl (LabelNotFound label))
      | Some target \<Rightarrow> do {
          target_pc \<leftarrow>
            (if static_syscalls v
             then signed_sub_ovf (of_nat target) (of_nat insn_ptr) \<bind> (\<lambda>d. signed_sub_ovf d 1)
             else Some (of_nat target));
          Some (asm_insn op 0 (if static_syscalls v then 1 else 0) 0 target_pc)
        })"

definition assemble_operands ::
  "(bytes \<Rightarrow> u32) \<Rightarrow> SBPFVersion \<Rightarrow> (string \<rightharpoonup> usize) \<Rightarrow> usize \<Rightarrow> InstructionType \<Rightarrow> u8 \<Rightarrow> Operand list \<Rightarrow>
   (AsmError + Insn) option" where
  "assemble_operands hash v labels insn_ptr ty op operands =
     (case (ty, operands) of
        (AluBinary, [Register d, Register s]) \<Rightarrow> Some (asm_insn (op OR BPF_X) d s 0 0)
      | (AluBinary, [Register d, Integer i]) \<Rightarrow>
          if d = 10 \<and> op = ADD64_IMM then
            (if manual_stack_frame_bump v then Some (asm_insn (op OR BPF_K) 10 0 0 i)
             else Some (asm_insn OR64_IMM 0 0 0 0))
          else Some (asm_insn (op OR BPF_K) d 0 0 i)
      | (AluUnary, [Register d]) \<Rightarrow> Some (asm_insn op d 0 0 0)
      | (LoadReg, [Register d, Memory s ofs]) \<Rightarrow> Some (asm_insn op d s ofs 0)
      | (StoreReg, [Memory d ofs, Register s]) \<Rightarrow> Some (asm_insn op d s ofs 0)
      | (StoreImm, [Memory d ofs, Integer i]) \<Rightarrow> Some (asm_insn op d 0 ofs i)
      | (NoOperand, []) \<Rightarrow> Some (asm_insn op 0 0 0 0)
      | (JumpUnconditional, [Integer ofs]) \<Rightarrow> Some (asm_insn op 0 0 ofs 0)
      | (JumpConditional, [Register d, Register s, Integer ofs]) \<Rightarrow> Some (asm_insn (op OR BPF_X) d s ofs 0)
      | (JumpConditional, [Register d, Integer i, Integer ofs]) \<Rightarrow> Some (asm_insn (op OR BPF_K) d 0 ofs i)
      | (JumpUnconditional, [LabelOperand l]) \<Rightarrow>
          try_bind (asm_resolve_label insn_ptr labels l) (\<lambda>ofs. Some (asm_insn op 0 0 ofs 0))
      | (CallImm, [LabelOperand l]) \<Rightarrow> assemble_call_label v labels insn_ptr op l
      | (Syscall, [LabelOperand l]) \<Rightarrow> Some (asm_insn op 0 0 0 (scast (hash (ascii l))))
      | (Syscall, [Integer i]) \<Rightarrow> Some (asm_insn op 0 0 0 i)
      | (CallReg, [Register d]) \<Rightarrow>
          if callx_uses_src_reg v then Some (asm_insn op 0 d 0 0)
          else if callx_uses_dst_reg v then Some (asm_insn op d 0 0 0)
          else Some (asm_insn op 0 0 0 d)
      | (JumpConditional, [Register d, Register s, LabelOperand l]) \<Rightarrow>
          try_bind (asm_resolve_label insn_ptr labels l) (\<lambda>ofs. Some (asm_insn (op OR BPF_X) d s ofs 0))
      | (JumpConditional, [Register d, Integer i, LabelOperand l]) \<Rightarrow>
          try_bind (asm_resolve_label insn_ptr labels l) (\<lambda>ofs. Some (asm_insn (op OR BPF_K) d 0 ofs i))
      | (Endian width, [Register d]) \<Rightarrow> Some (asm_insn op d 0 0 width)
      | (LoadDwImm, [Register d, Integer i]) \<Rightarrow>
          Some (asm_insn op d 0 0 (signed_drop_bit 32 (push_bit 32 i)))
      | _ \<Rightarrow> Some (Inl (UnexpectedOperands operands)))"

definition assemble_instruction ::
  "(bytes \<Rightarrow> u32) \<Rightarrow> SBPFVersion \<Rightarrow> (string \<rightharpoonup> usize) \<Rightarrow> usize \<Rightarrow> string \<Rightarrow> InstructionType \<Rightarrow> u8 \<Rightarrow> Operand list \<Rightarrow>
   usize FunctionRegistry \<Rightarrow> (AsmError + Insn \<times> usize FunctionRegistry) option" where
  "assemble_instruction hash v labels insn_ptr name ty op operands r =
     (case (ty, operands) of
        (CallImm, [Integer i]) \<Rightarrow> assemble_call_imm v insn_ptr name op i r
      | _ \<Rightarrow> map_option (map_sum id (\<lambda>x. (x, r))) (assemble_operands hash v labels insn_ptr ty op operands))"

section \<open>The two passes\<close>

record labels_state =
  ls_insn_ptr :: usize
  ls_function_registry :: "usize FunctionRegistry"
  ls_labels :: "string \<rightharpoonup> usize"

text \<open>The only directive: its name and the pattern of its operands.\<close>

fun fill_operands :: "string \<Rightarrow> Operand list \<Rightarrow> (i64 \<times> i64) option" where
  "fill_operands name [Integer repeat, Integer value] =
     (if name = ''fill'' then Some (repeat, value) else None)"
| "fill_operands name _ = None"

definition is_function_label :: "string \<Rightarrow> bool" where
  "is_function_label name \<longleftrightarrow> take 9 name = ''function_'' \<or> name = ''entrypoint''"

fun label_statement :: "Statement \<Rightarrow> labels_state \<Rightarrow> (AsmError + labels_state) option" where
  "label_statement (LabelStatement name) st =
     try_bind
       (if is_function_label name then
          Some (case register_function (ls_function_registry st) (of_nat (ls_insn_ptr st)) (ascii name)
                  (ls_insn_ptr st) of
                  Inl _ \<Rightarrow> Inl (LabelHashCollision name)
                | Inr r \<Rightarrow> Inr (st\<lparr>ls_function_registry := r\<rparr>))
        else Some (Inr st))
       (\<lambda>st. Some (Inr (st\<lparr>ls_labels := (ls_labels st)(name \<mapsto> ls_insn_ptr st)\<rparr>)))"
| "label_statement (Directive name operands) st =
     (case fill_operands name operands of
        Some (repeat, _) \<Rightarrow>
          map_option (\<lambda>p. Inr (st\<lparr>ls_insn_ptr := p\<rparr>)) (usize_add_ovf (ls_insn_ptr st) (unat repeat))
      | None \<Rightarrow> Some (Inr st))"
| "label_statement (InstructionStatement name operands) st =
     map_option (\<lambda>p. Inr (st\<lparr>ls_insn_ptr := p\<rparr>))
       (usize_add_ovf (ls_insn_ptr st) (if name = ''lddw'' then 2 else 1))"

fun label_pass :: "Statement list \<Rightarrow> labels_state \<Rightarrow> (AsmError + labels_state) option" where
  "label_pass [] st = Some (Inr st)"
| "label_pass (s # ss) st = try_bind (label_statement s st) (label_pass ss)"

record code_state =
  cs_insn_ptr :: usize
  cs_function_registry :: "usize FunctionRegistry"
  cs_instructions :: "Insn list"

definition push_insn :: "Insn \<Rightarrow> code_state \<Rightarrow> code_state option" where
  "push_insn i st =
     map_option (\<lambda>p. st\<lparr>cs_insn_ptr := p,
         cs_instructions := cs_instructions st @ [i\<lparr>ptr := cs_insn_ptr st\<rparr>]\<rparr>)
       (usize_add_ovf (cs_insn_ptr st) 1)"

definition fill_insn :: "i64 \<Rightarrow> Insn" where
  "fill_insn value =
     \<lparr>ptr = 0,
      opc = ucast value,
      dst = ucast (signed_drop_bit 8 value) AND 0xF,
      src = ucast (signed_drop_bit 12 value) AND 0xF,
      off = ucast (signed_drop_bit 16 value),
      imm = ucast (ucast (signed_drop_bit 32 value) :: u32)\<rparr>"

fun push_repeat :: "nat \<Rightarrow> Insn \<Rightarrow> code_state \<Rightarrow> code_state option" where
  "push_repeat 0 i st = Some st"
| "push_repeat (Suc n) i st = push_insn i st \<bind> push_repeat n i"

text \<open>The second slot of a wide load: the default instruction with the high half of the immediate.\<close>

definition second_slot :: "i64 \<Rightarrow> Insn" where
  "second_slot i = \<lparr>ptr = 0, opc = 0, dst = 0, src = 0, off = 0, imm = signed_drop_bit 32 i\<rparr>"

definition push_second_slot :: "InstructionType \<Rightarrow> Operand list \<Rightarrow> code_state \<Rightarrow> code_state option" where
  "push_second_slot ty operands st =
     (case (ty, operands) of
        (LoadDwImm, [_, Integer i]) \<Rightarrow> push_insn (second_slot i) st
      | _ \<Rightarrow> Some st)"

definition code_instruction ::
  "(bytes \<Rightarrow> u32) \<Rightarrow> SBPFVersion \<Rightarrow> (string \<rightharpoonup> usize) \<Rightarrow> string \<Rightarrow> Operand list \<Rightarrow> code_state \<Rightarrow>
   (AsmError + code_state) option" where
  "code_instruction hash v labels name operands st =
     (case make_instruction_map v name of
        None \<Rightarrow> Some (Inl (InvalidInstructionName name))
      | Some (ty, op) \<Rightarrow>
          try_bind
            (assemble_instruction hash v labels (cs_insn_ptr st) name ty op operands
               (cs_function_registry st))
            (\<lambda>(x, r). do {
               st \<leftarrow> push_insn x (st\<lparr>cs_function_registry := r\<rparr>);
               map_option Inr (push_second_slot ty operands st)
             }))"

fun code_statement ::
  "(bytes \<Rightarrow> u32) \<Rightarrow> SBPFVersion \<Rightarrow> (string \<rightharpoonup> usize) \<Rightarrow> Statement \<Rightarrow> code_state \<Rightarrow>
   (AsmError + code_state) option" where
  "code_statement hash v labels (LabelStatement name) st = Some (Inr st)"
| "code_statement hash v labels (Directive name operands) st =
     (case fill_operands name operands of
        Some (repeat, value) \<Rightarrow> map_option Inr (push_repeat (nat (sint repeat)) (fill_insn value) st)
      | None \<Rightarrow> Some (Inl (InvalidDirective name)))"
| "code_statement hash v labels (InstructionStatement name operands) st =
     code_instruction hash v labels name operands st"

fun code_pass ::
  "(bytes \<Rightarrow> u32) \<Rightarrow> SBPFVersion \<Rightarrow> (string \<rightharpoonup> usize) \<Rightarrow> Statement list \<Rightarrow> code_state \<Rightarrow>
   (AsmError + code_state) option" where
  "code_pass hash v labels [] st = Some (Inr st)"
| "code_pass hash v labels (s # ss) st =
     try_bind (code_statement hash v labels s st) (code_pass hash v labels ss)"

definition assemble_statements ::
  "(bytes \<Rightarrow> u32) \<Rightarrow> SBPFVersion \<Rightarrow> Statement list \<Rightarrow> (AsmError + code_state) option" where
  "assemble_statements hash v statements =
     try_bind
       (label_pass statements
          \<lparr>ls_insn_ptr = 0, ls_function_registry = FunctionRegistry_default,
           ls_labels = [''entrypoint'' \<mapsto> 0]\<rparr>)
       (\<lambda>st. code_pass hash v (ls_labels st) statements
          \<lparr>cs_insn_ptr = 0, cs_function_registry = ls_function_registry st, cs_instructions = []\<rparr>)"

text \<open>The program bytes are copied into memory at the address \<open>elf_addr\<close>.\<close>

definition assemble ::
  "(string \<Rightarrow> string + Statement list) \<Rightarrow> (bytes \<Rightarrow> u32) \<Rightarrow> u64 \<Rightarrow> string \<Rightarrow> 'f BuiltinProgram \<Rightarrow>
   (AsmError + 'f Executable) option" where
  "assemble parse hash elf_addr source loader = do {
     config \<leftarrow> get_config loader;
     let version = snd (enabled_sbpf_versions config);
     case parse source of
       Inl e \<Rightarrow> Some (Inl (ParseError e))
     | Inr statements \<Rightarrow>
         try_bind (assemble_statements hash version statements) (\<lambda>st.
           map_option (map_sum ExecutableConstructor id)
             (from_text_bytes hash elf_addr (concat (map to_vec (cs_instructions st))) loader version
                (cs_function_registry st)))
   }"

end
