(* ===== verification/Assembler_Labels.thy ===== *)
theory Assembler_Labels
  imports Assembler
begin

text \<open>
  The two passes of the assembler agree: the address the first pass gives a label is the slot at
  which the second pass puts the instruction behind it.  So the jumps and calls of an assembled
  executable lead to their labels.
\<close>

section \<open>Addresses\<close>

text \<open>The number of instruction slots a statement takes, and the address behind a list of
  statements.  A label stands for the address behind the statements in front of it; the last
  statement for a label counts.\<close>

fun slots :: "Statement \<Rightarrow> nat" where
  "slots (LabelStatement _) = 0"
| "slots (InstructionStatement name _) = (if name = ''lddw'' then 2 else 1)"
| "slots (Directive name operands) =
     (case fill_operands name operands of Some (n, _) \<Rightarrow> nat (sint n) | None \<Rightarrow> 0)"

fun fill_ok :: "Statement \<Rightarrow> bool" where
  "fill_ok (Directive name operands) \<longleftrightarrow>
     (case fill_operands name operands of Some (n, _) \<Rightarrow> 0 \<le> sint n | None \<Rightarrow> True)"
| "fill_ok _ \<longleftrightarrow> True"

definition address :: "Statement list \<Rightarrow> nat" where
  "address ss = sum_list (map slots ss)"

lemma address_simps [simp]:
  "address [] = 0" "address (s # ss) = slots s + address ss" "address (xs @ ys) = address xs + address ys"
  by (simp_all add: address_def)

lemma unat_nonneg: "0 \<le> sint (x :: i64) \<Longrightarrow> unat x = nat (sint x)"
  using sint_less[of x] by (simp add: uint_sint take_bit_int_eq_self unat_eq_nat_uint)

lemma usize_add_ovf_Some: "usize_add_ovf a b = Some c \<longleftrightarrow> c = a + b \<and> a + b \<le> usize_max"
  by (auto simp: usize_add_ovf_def)

section \<open>The instruction map\<close>

text \<open>No mnemonic has two entries, so the map holds exactly the entries of the table.\<close>

definition instruction_table :: "SBPFVersion \<Rightarrow> (string \<times> InstructionType \<times> u8) list" where
  "instruction_table v = misc_entries @ alu_entries @ pqr_entries @ mem_entries v @ jump_entries @ endian_entries"

definition mnemonics :: "string list" where
  "mnemonics =
     map fst misc_entries @ map fst alu_entries @ map fst pqr_entries @
     concat (map (\<lambda>(prefix, _). map (\<lambda>(suffix, _). prefix @ suffix) mem_sizes) mem_classes) @
     map fst jump_entries @ map fst endian_entries"

lemma distinct_mnemonics: "distinct mnemonics"
  unfolding mnemonics_def by code_simp

lemma mnemonics_eq: "map fst (instruction_table v) = mnemonics"
  by (simp add: instruction_table_def mnemonics_def mem_entries_def map_concat comp_def split_def)

lemma instruction_map_iff:
  "make_instruction_map v name = Some e \<longleftrightarrow> (name, e) \<in> set (instruction_table v)"
proof -
  have "make_instruction_map v = map_of (rev (instruction_table v))"
    by (simp only: make_instruction_map_def instruction_table_def)
  moreover have "distinct (map fst (rev (instruction_table v)))"
    by (simp only: rev_map[symmetric] mnemonics_eq distinct_rev distinct_mnemonics)
  ultimately show ?thesis by (simp only: map_of_eq_Some_iff set_rev)
qed

lemma loads_dw_imm:
  "(name, LoadDwImm, op) \<in> set (instruction_table v) \<longleftrightarrow> name = ''lddw'' \<and> op = LD_DW_IMM"
proof -
  have "(name, LoadDwImm, op) \<notin> set alu_entries" "(name, LoadDwImm, op) \<notin> set jump_entries"
    "(name, LoadDwImm, op) \<notin> set endian_entries"
    by (auto simp: alu_entries_def jump_entries_def endian_entries_def)
  moreover have "(name, LoadDwImm, op) \<notin> set pqr_entries" by (simp add: pqr_entries_def)
  moreover have "(name, LoadDwImm, op) \<notin> set (mem_entries v)"
    by (auto simp: mem_entries_def mem_classes_def)
  moreover have "(name, LoadDwImm, op) \<in> set misc_entries \<longleftrightarrow> name = ''lddw'' \<and> op = LD_DW_IMM"
    by (auto simp: misc_entries_def)
  ultimately show ?thesis by (simp add: instruction_table_def)
qed

section \<open>The first pass\<close>

fun label_map :: "Statement list \<Rightarrow> nat \<Rightarrow> (string \<rightharpoonup> usize) \<Rightarrow> string \<rightharpoonup> usize" where
  "label_map [] p m = m"
| "label_map (s # ss) p m =
     label_map ss (p + slots s) (case s of LabelStatement name \<Rightarrow> m(name \<mapsto> p) | _ \<Rightarrow> m)"

lemma label_statement_spec:
  assumes "label_statement s st = Some (Inr st')" and "fill_ok s"
  shows "ls_insn_ptr st' = ls_insn_ptr st + slots s \<and> ls_labels st' =
      (case s of LabelStatement name \<Rightarrow> (ls_labels st)(name \<mapsto> ls_insn_ptr st) | _ \<Rightarrow> ls_labels st)"
proof (cases s)
  case (LabelStatement name)
  then show ?thesis using assms(1) by (auto simp: try_bind_Inr split: if_splits sum.splits)
next
  case (Directive name operands)
  then show ?thesis using assms
    by (auto simp: usize_add_ovf_Some unat_nonneg split: option.splits)
next
  case (InstructionStatement name operands)
  then show ?thesis using assms(1) by (auto simp: usize_add_ovf_Some)
qed

lemma label_pass_spec:
  assumes "label_pass ss st = Some (Inr st')" and "list_all fill_ok ss"
  shows "ls_labels st' = label_map ss (ls_insn_ptr st) (ls_labels st)"
  using assms
proof (induction ss arbitrary: st)
  case (Cons s ss)
  then obtain st1 where "label_statement s st = Some (Inr st1)" "label_pass ss st1 = Some (Inr st')"
    by (auto simp: try_bind_Inr)
  then show ?case using Cons label_statement_spec[of s st st1] by simp
qed simp

lemma label_map_append: "label_map (xs @ ys) p m = label_map ys (p + address xs) (label_map xs p m)"
  by (induction xs arbitrary: p m) (simp_all add: add.assoc)

lemma label_map_other:
  "LabelStatement l \<notin> set ss \<Longrightarrow> label_map ss p m l = m l"
  by (induction ss arbitrary: p m) (auto split: Statement.split)

lemma label_map_last:
  assumes "LabelStatement l \<notin> set b"
  shows "label_map (a @ LabelStatement l # b) p m l = Some (p + address a)"
  using assms by (simp add: label_map_append label_map_other)

section \<open>The second pass\<close>

lemma push_insn_spec:
  assumes "push_insn i st = Some st'"
  shows "cs_instructions st' = cs_instructions st @ [i\<lparr>ptr := cs_insn_ptr st\<rparr>]"
    and "cs_insn_ptr st' = Suc (cs_insn_ptr st)" "cs_function_registry st' = cs_function_registry st"
  using assms by (auto simp: push_insn_def usize_add_ovf_Some)

lemma push_repeat_spec:
  assumes "push_repeat n i st = Some st'"
  shows "(\<exists>zs. cs_instructions st' = cs_instructions st @ zs \<and> length zs = n) \<and>
    cs_insn_ptr st' = cs_insn_ptr st + n \<and> cs_function_registry st' = cs_function_registry st"
  using assms
proof (induction n arbitrary: st)
  case (Suc n)
  then obtain st1 where p: "push_insn i st = Some st1" and "push_repeat n i st1 = Some st'"
    by (auto simp: bind_eq_Some_conv)
  from Suc.IH[OF this(2)] push_insn_spec[OF p] show ?case by fastforce
qed simp

lemma assemble_lddw:
  assumes "assemble_instruction hash v labels p name LoadDwImm op operands r = Some (Inr y)"
  obtains d i where "operands = [Register d, Integer i]"
  using assms
  by (auto simp: assemble_instruction_def assemble_operands_def split: list.splits Operand.splits)

lemma code_instruction_InrE:
  assumes "code_instruction hash v labels name operands st = Some (Inr st')"
  obtains ty op x r zs where "make_instruction_map v name = Some (ty, op)"
    "assemble_instruction hash v labels (cs_insn_ptr st) name ty op operands (cs_function_registry st) =
       Some (Inr (x, r))"
    "cs_instructions st' = cs_instructions st @ x\<lparr>ptr := cs_insn_ptr st\<rparr> # zs"
    "Suc (length zs) = slots (InstructionStatement name operands)"
    "cs_insn_ptr st' = cs_insn_ptr st + slots (InstructionStatement name operands)"
    "cs_function_registry st' = r"
proof -
  from assms obtain ty op x r st1 where
    m: "make_instruction_map v name = Some (ty, op)" and
    x: "assemble_instruction hash v labels (cs_insn_ptr st) name ty op operands (cs_function_registry st) =
       Some (Inr (x, r))" and
    p: "push_insn x (st\<lparr>cs_function_registry := r\<rparr>) = Some st1" and
    rest: "push_second_slot ty operands st1 = Some st'"
    unfolding code_instruction_def
    by (auto simp: try_bind_Inr bind_eq_Some_conv split: option.splits)
  note p = push_insn_spec[OF p]
  show thesis
  proof (cases "ty = LoadDwImm")
    case True
    with x obtain d i where "operands = [Register d, Integer i]" by (auto elim: assemble_lddw)
    with rest True have "push_insn (second_slot i) st1 = Some st'"
      by (simp add: push_second_slot_def)
    from push_insn_spec[OF this] p m x True show thesis
      by (intro that[of ty op x r "[(second_slot i)\<lparr>ptr := cs_insn_ptr st1\<rparr>]"])
        (simp_all add: instruction_map_iff loads_dw_imm)
  next
    case False
    then have "name \<noteq> ''lddw''"
      using m loads_dw_imm[of name LD_DW_IMM v] instruction_map_iff[of v name] by fastforce
    moreover from rest False have "st' = st1" by (cases ty) (simp_all add: push_second_slot_def)
    ultimately show thesis using p m x by (intro that[of ty op x r "[]"]) simp_all
  qed
qed

lemma code_statement_spec:
  assumes "code_statement hash v labels s st = Some (Inr st')"
  shows "(\<exists>zs. cs_instructions st' = cs_instructions st @ zs \<and> length zs = slots s) \<and>
    cs_insn_ptr st' = cs_insn_ptr st + slots s"
proof (cases s)
  case (Directive name operands)
  then show ?thesis using assms push_repeat_spec by (fastforce split: option.splits)
next
  case (InstructionStatement name operands)
  with assms have "code_instruction hash v labels name operands st = Some (Inr st')" by simp
  then show ?thesis unfolding InstructionStatement
    by (rule code_instruction_InrE) (simp del: slots.simps)
qed (use assms in auto)

text \<open>The instructions so far fill the slots in front of the instruction pointer.\<close>

lemma code_pass_spec:
  assumes "code_pass hash v labels ss st = Some (Inr st')"
  shows "(\<exists>zs. cs_instructions st' = cs_instructions st @ zs \<and> length zs = address ss) \<and>
    cs_insn_ptr st' = cs_insn_ptr st + address ss"
  using assms
proof (induction ss arbitrary: st)
  case (Cons s ss)
  then obtain st1 where s: "code_statement hash v labels s st = Some (Inr st1)"
    and "code_pass hash v labels ss st1 = Some (Inr st')"
    by (auto simp: try_bind_Inr)
  from Cons.IH[OF this(2)] code_statement_spec[OF s] show ?case by fastforce
qed simp

lemma code_pass_append:
  "code_pass hash v labels (xs @ ys) st = try_bind (code_pass hash v labels xs st) (code_pass hash v labels ys)"
proof (induction xs arbitrary: st)
  case (Cons s xs)
  then show ?case by (cases "code_statement hash v labels s st") (auto simp: try_bind_def split: sum.split)
qed simp

lemma assemble_statements_slot:
  assumes "assemble_statements hash v ss = Some (Inr st)" and "list_all fill_ok ss"
    and "ss = pre @ InstructionStatement name operands # post"
  obtains ty op x r r' where "make_instruction_map v name = Some (ty, op)"
    "assemble_instruction hash v (label_map ss 0 [''entrypoint'' \<mapsto> 0]) (address pre) name ty op operands r =
       Some (Inr (x, r'))"
    "address pre < length (cs_instructions st)" "cs_instructions st ! address pre = x\<lparr>ptr := address pre\<rparr>"
    "length (cs_instructions st) = address ss"
proof -
  let ?labels = "label_map ss 0 [''entrypoint'' \<mapsto> 0]"
  from assms(1) obtain st0 where
    l: "label_pass ss \<lparr>ls_insn_ptr = 0, ls_function_registry = FunctionRegistry_default,
           ls_labels = [''entrypoint'' \<mapsto> 0]\<rparr> = Some (Inr st0)" and
    c: "code_pass hash v (ls_labels st0) ss
      \<lparr>cs_insn_ptr = 0, cs_function_registry = ls_function_registry st0, cs_instructions = []\<rparr> = Some (Inr st)"
    by (auto simp: assemble_statements_def try_bind_Inr)
  have labels: "ls_labels st0 = ?labels" using label_pass_spec[OF l assms(2)] by simp
  from c obtain st1 st2 where
    1: "code_pass hash v ?labels pre
      \<lparr>cs_insn_ptr = 0, cs_function_registry = ls_function_registry st0, cs_instructions = []\<rparr> = Some (Inr st1)" and
    2: "code_instruction hash v ?labels name operands st1 = Some (Inr st2)" and
    3: "code_pass hash v ?labels post st2 = Some (Inr st)"
    unfolding labels by (auto simp: assms(3) code_pass_append try_bind_Inr simp del: label_map.simps)
  from code_pass_spec[OF 1] have p1: "cs_insn_ptr st1 = address pre" "length (cs_instructions st1) = address pre"
    by auto
  from code_pass_spec[OF 3] obtain zs where z: "cs_instructions st = cs_instructions st2 @ zs" by auto
  from code_pass_spec[OF c] have len: "length (cs_instructions st) = address ss" by auto
  from 2 show thesis
  proof (rule code_instruction_InrE)
    fix ty op x r ys
    assume "make_instruction_map v name = Some (ty, op)"
      "assemble_instruction hash v ?labels (cs_insn_ptr st1) name ty op operands (cs_function_registry st1) =
         Some (Inr (x, r))"
      "cs_instructions st2 = cs_instructions st1 @ x\<lparr>ptr := cs_insn_ptr st1\<rparr> # ys"
    then show thesis using p1 z len by (intro that) (simp_all add: nth_append)
  qed
qed

section \<open>Registered labels\<close>

definition extends :: "'t FunctionRegistry \<Rightarrow> 't FunctionRegistry \<Rightarrow> bool" where
  "extends r r' \<longleftrightarrow> registry_wf r \<longrightarrow>
     registry_wf r' \<and> (\<forall>k x. lookup_by_key r k = Some x \<longrightarrow> lookup_by_key r' k = Some x)"

lemma extends_refl [simp]: "extends r r"
  by (simp add: extends_def)

lemma extends_trans: "extends r s \<Longrightarrow> extends s t \<Longrightarrow> extends r t"
  by (auto simp: extends_def)

lemma extends_register: "register_function r key name v = Inr r' \<Longrightarrow> extends r r'"
  using registry_wf_register lookup_after_register by (fastforce simp: extends_def)

lemma label_statement_extends:
  assumes "label_statement s st = Some (Inr st')"
  shows "extends (ls_function_registry st) (ls_function_registry st')"
  using assms
  by (cases s) (auto simp: try_bind_Inr extends_register split: if_splits sum.splits option.splits)

lemma label_pass_extends:
  "label_pass ss st = Some (Inr st') \<Longrightarrow> extends (ls_function_registry st) (ls_function_registry st')"
  by (induction ss arbitrary: st)
    (auto simp: try_bind_Inr dest: label_statement_extends intro: extends_trans)

lemma label_pass_append:
  "label_pass (xs @ ys) st = try_bind (label_pass xs st) (label_pass ys)"
proof (induction xs arbitrary: st)
  case (Cons s xs)
  then show ?case by (cases "label_statement s st") (auto simp: try_bind_def split: sum.split)
qed simp

lemma label_pass_ptr:
  "label_pass ss st = Some (Inr st') \<Longrightarrow> list_all fill_ok ss \<Longrightarrow>
     ls_insn_ptr st' = ls_insn_ptr st + address ss"
  by (induction ss arbitrary: st) (auto simp: try_bind_Inr dest: label_statement_spec)

lemma label_pass_registers:
  assumes "label_pass (a @ LabelStatement l # b) st = Some (Inr st')" and "list_all fill_ok a"
    and "is_function_label l" and "registry_wf (ls_function_registry st)"
  shows "\<exists>nm. lookup_by_key (ls_function_registry st') (of_nat (ls_insn_ptr st + address a)) =
    Some (nm, ls_insn_ptr st + address a)"
proof -
  from assms(1) obtain st1 st2 where 1: "label_pass a st = Some (Inr st1)"
    and 2: "label_statement (LabelStatement l) st1 = Some (Inr st2)"
    and 3: "label_pass b st2 = Some (Inr st')"
    by (auto simp: label_pass_append try_bind_Inr simp del: label_statement.simps)
  have wf: "registry_wf (ls_function_registry st1)"
    using label_pass_extends[OF 1] assms(4) by (simp add: extends_def)
  from 2 assms(3) have reg: "register_function (ls_function_registry st1) (of_nat (ls_insn_ptr st1)) (ascii l)
      (ls_insn_ptr st1) = Inr (ls_function_registry st2)"
    by (auto split: sum.splits)
  have "\<exists>nm. lookup_by_key (ls_function_registry st2) (of_nat (ls_insn_ptr st1)) = Some (nm, ls_insn_ptr st1)"
    using lookup_after_register[OF wf reg] reg
    by (auto simp: register_function_def lookup_by_key_def split: option.splits if_splits)
  then show ?thesis
    using label_pass_extends[OF 3] registry_wf_register[OF wf reg] label_pass_ptr[OF 1 assms(2)]
    by (auto simp: extends_def)
qed

lemma assemble_call_imm_Inr:
  assumes "assemble_call_imm v p name op i r = Some (Inr (x, r'))"
  shows "extends r r'" and "\<exists>s im. asm_insn op 0 s 0 im = Inr x"
proof -
  from assms obtain pc where
    c: "(case register_function r (ucast pc) (ascii (''function_'' @ show_nat (unat pc))) (unat pc) of
       Inl _ \<Rightarrow> Some (Inl (LabelHashCollision name))
     | Inr r' \<Rightarrow> Some (map_sum id (\<lambda>x. (x, r'))
         (asm_insn op 0 (if static_syscalls v then 1 else 0) 0 (if static_syscalls v then i else pc)))) =
     Some (Inr (x, r'))"
    unfolding assemble_call_imm_def Let_def bind_eq_Some_conv by blast
  show "extends r r'"
    by (rule sum.exhaust[of "register_function r (ucast pc) (ascii (''function_'' @ show_nat (unat pc))) (unat pc)"];
        use c in \<open>auto simp: map_sum_eq_Inr intro: extends_register\<close>)
  show "\<exists>s im. asm_insn op 0 s 0 im = Inr x"
    by (rule sum.exhaust[of "register_function r (ucast pc) (ascii (''function_'' @ show_nat (unat pc))) (unat pc)"];
        use c in \<open>auto simp: map_sum_eq_Inr\<close>)
qed

lemma assemble_instruction_cases:
  assumes "assemble_instruction hash v labels p name ty op operands r = Some (Inr (x, r'))"
  obtains "r' = r" "assemble_operands hash v labels p ty op operands = Some (Inr x)"
  | i where "ty = CallImm" "operands = [Integer i]" "assemble_call_imm v p name op i r = Some (Inr (x, r'))"
  using assms by (auto simp: assemble_instruction_def map_sum_eq_Inr
      split: InstructionType.split_asm list.split_asm Operand.split_asm)

lemma assemble_instruction_extends:
  assumes "assemble_instruction hash v labels p name ty op operands r = Some (Inr (x, r'))"
  shows "extends r r'"
  using assms by (rule assemble_instruction_cases) (auto intro: assemble_call_imm_Inr(1))

lemma code_statement_extends:
  assumes "code_statement hash v labels s st = Some (Inr st')"
  shows "extends (cs_function_registry st) (cs_function_registry st')"
proof (cases s)
  case (Directive name operands)
  then show ?thesis using assms push_repeat_spec by (fastforce split: option.splits)
next
  case (InstructionStatement name operands)
  with assms have "code_instruction hash v labels name operands st = Some (Inr st')" by simp
  then show ?thesis
    by (rule code_instruction_InrE) (auto dest: assemble_instruction_extends)
qed (use assms in auto)

lemma code_pass_extends:
  "code_pass hash v labels ss st = Some (Inr st') \<Longrightarrow> extends (cs_function_registry st) (cs_function_registry st')"
  by (induction ss arbitrary: st)
    (auto simp: try_bind_Inr dest: code_statement_extends intro: extends_trans)

section \<open>Assembled executables\<close>

lemma from_text_bytes_extends:
  assumes "from_text_bytes hash addr prog loader v r = Some (Inr exe)"
  shows "get_text_bytes exe = Some (MM_BYTECODE_START, prog)" "get_sbpf_version exe = v"
    "extends r (exe_get_function_registry exe)"
proof -
  from assms obtain pc r' where
    e: "exe = \<lparr>elf_bytes = (addr, prog), exe_sbpf_version = v,
      ro_section = Borrowed (unat (if enable_lower_rodata_vaddr v then MM_RODATA_START else MM_BYTECODE_START))
        (0, length prog), text_section_vaddr = MM_BYTECODE_START, text_section_range = (0, length prog),
      entry_pc = pc, exe_function_registry = r', exe_loader = loader\<rparr>" and
    r: "r' = r \<or> (\<exists>key. register_function_hashed_legacy hash r loader (\<not> static_syscalls v)
      entrypoint_name 0 = Some (Inr (key, r')))"
    by (auto simp: from_text_bytes_def new_from_text_bytes_def map_sum_eq_Inr try_bind_Inr
        split: option.splits)
  from r have "extends r r'"
    by (auto simp: register_function_hashed_legacy_def bind_eq_Some_conv try_op_eq_Inr
        intro: extends_register)
  then show "extends r (exe_get_function_registry exe)"
    by (simp add: e exe_get_function_registry_def)
  show "get_text_bytes exe = Some (MM_BYTECODE_START, prog)" "get_sbpf_version exe = v"
    by (simp_all add: e get_text_bytes_def get_sbpf_version_def slice_range_def)
qed

lemma assemble_InrE:
  assumes "assemble parse hash addr source loader = Some (Inr exe)" and "parse source = Inr ss"
  obtains st where "assemble_statements hash (get_sbpf_version exe) ss = Some (Inr st)"
    "get_text_bytes exe = Some (MM_BYTECODE_START, concat (map to_vec (cs_instructions st)))"
    "extends (cs_function_registry st) (exe_get_function_registry exe)"
proof -
  from assms obtain v st where st: "assemble_statements hash v ss = Some (Inr st)"
    and "from_text_bytes hash addr (concat (map to_vec (cs_instructions st))) loader v
      (cs_function_registry st) = Some (Inr exe)"
    by (auto simp: assemble_def bind_eq_Some_conv try_bind_Inr map_sum_eq_Inr Let_def)
  from from_text_bytes_extends[OF this(2)] st that show thesis by simp
qed

lemma small_nibble:
  assumes "0 \<le> sint (x :: i64)" "sint x < 16"
  shows "(ucast x :: u8) < 16"
proof -
  have "uint x = sint x" using assms sint_less[of x] by (simp add: uint_sint take_bit_int_eq_self)
  then have "uint (ucast x :: u8) = sint x"
    using assms by (simp add: unsigned_ucast_eq take_bit_int_eq_self)
  then show ?thesis using assms by (simp add: word_less_def)
qed

lemma sint_ucast:
  "LENGTH('b) \<le> LENGTH('a) \<Longrightarrow>
     sint (ucast (x :: 'a::len word) :: 'b::len word) = signed_take_bit (LENGTH('b) - 1) (sint x)"
proof -
  assume le: "LENGTH('b) \<le> LENGTH('a)"
  have "sint (ucast x :: 'b word) = signed_take_bit (LENGTH('b) - 1) (uint (ucast x :: 'b word))"
    by (simp add: sint_uint)
  also have "uint (ucast x :: 'b word) = take_bit LENGTH('b) (uint x)" by (simp add: unsigned_ucast_eq)
  also have "uint x = take_bit LENGTH('a) (sint x)" by (simp add: uint_sint)
  finally show ?thesis using le by (simp add: signed_take_bit_take_bit min_def)
qed

lemma sint_ucast_i16:
  assumes "- (2 ^ 15) \<le> sint (x :: i64)" "sint x < 2 ^ 15"
  shows "sint (ucast x :: i16) = sint x"
  using assms by (simp add: sint_ucast signed_take_bit_int_eq_self)

lemma scast_ucast_i32:
  assumes "- (2 ^ 31) \<le> sint (x :: i64)" "sint x < 2 ^ 31"
  shows "x = scast (ucast x :: i32)"
  using assms by (simp add: sint_ucast signed_take_bit_int_eq_self scast_eq)

lemma asm_insn_Inr:
  assumes "asm_insn op d s ofs im = Inr x"
  shows "insn_encodable x" "opc x = op" "imm x = im" "sint (off x) = sint ofs" "dst x = ucast d" "src x = ucast s"
proof -
  have x: "x = \<lparr>ptr = 0, opc = op, dst = ucast d, src = ucast s, off = ucast ofs, imm = im\<rparr>"
    and r: "0 \<le> sint d" "sint d < 16" "0 \<le> sint s" "sint s < 16"
      "- (2 ^ 15) \<le> sint ofs" "sint ofs < 2 ^ 15" "- (2 ^ 31) \<le> sint im" "sint im < 2 ^ 31"
    using assms by (auto simp: asm_insn_def split: if_splits)
  show "opc x = op" "imm x = im" "dst x = ucast d" "src x = ucast s" by (simp_all add: x)
  show "sint (off x) = sint ofs" using sint_ucast_i16[OF r(5,6)] by (simp add: x)
  show "insn_encodable x" using scast_ucast_i32[OF r(7,8)] by (simp add: insn_encodable_def x small_nibble r)
qed

lemma assemble_operands_encodable:
  assumes "assemble_operands hash v labels p ty op operands = Some (Inr x)"
  shows "insn_encodable x"
  using assms unfolding assemble_operands_def
  by (cases ty) (auto simp: assemble_call_label_def bind_eq_Some_conv try_bind_Inr dest: asm_insn_Inr(1)
      split: list.split_asm Operand.split_asm if_split_asm option.split_asm)

lemma assemble_instruction_encodable:
  assumes "assemble_instruction hash v labels p name ty op operands r = Some (Inr (x, r'))"
  shows "insn_encodable x"
  using assms
proof (rule assemble_instruction_cases)
  assume "assemble_operands hash v labels p ty op operands = Some (Inr x)"
  then show ?thesis by (rule assemble_operands_encodable)
next
  fix i assume "assemble_call_imm v p name op i r = Some (Inr (x, r'))"
  from assemble_call_imm_Inr(2)[OF this] show ?thesis by (auto dest: asm_insn_Inr(1))
qed

lemma assembled_slot:
  assumes "assemble parse hash addr source loader = Some (Inr exe)" and "parse source = Inr ss"
    and "list_all fill_ok ss" and "ss = pre @ InstructionStatement name operands # post"
    and "get_text_bytes exe = Some (va, prog)" and "slice_fits prog"
  obtains ty op x r r' where "make_instruction_map (get_sbpf_version exe) name = Some (ty, op)"
    "assemble_instruction hash (get_sbpf_version exe) (label_map ss 0 [''entrypoint'' \<mapsto> 0]) (address pre)
       name ty op operands r = Some (Inr (x, r'))"
    "get_insn prog (address pre) = Some (x\<lparr>ptr := address pre\<rparr>)" "address ss < 2 ^ 60"
proof -
  from assms(1,2) obtain st where st: "assemble_statements hash (get_sbpf_version exe) ss = Some (Inr st)"
    and "get_text_bytes exe = Some (MM_BYTECODE_START, concat (map to_vec (cs_instructions st)))"
    by (rule assemble_InrE)
  then have prog: "prog = concat (map to_vec (cs_instructions st))" using assms(5) by simp
  from st assms(3,4) obtain ty op x r r' where
    m: "make_instruction_map (get_sbpf_version exe) name = Some (ty, op)" and
    x: "assemble_instruction hash (get_sbpf_version exe) (label_map ss 0 [''entrypoint'' \<mapsto> 0]) (address pre)
       name ty op operands r = Some (Inr (x, r'))" and
    n: "address pre < length (cs_instructions st)" "cs_instructions st ! address pre = x\<lparr>ptr := address pre\<rparr>"
      "length (cs_instructions st) = address ss"
    by (rule assemble_statements_slot)
  let ?is = "cs_instructions st" and ?k = "address pre"
  have "prog = concat (map to_vec (take ?k ?is)) @ to_array (x\<lparr>ptr := ?k\<rparr>) @ concat (map to_vec (drop (Suc ?k) ?is))"
    unfolding prog n(2)[symmetric] using n(1)
    by (metis (no_types) concat.simps(2) concat_append id_take_nth_drop list.simps(9) map_append to_vec_def)
  moreover have "length (concat (map to_vec (take ?k ?is))) = 8 * ?k" using n(1) by simp
  moreover have "insn_encodable (x\<lparr>ptr := ?k\<rparr>)"
    using assemble_instruction_encodable[OF x] by (simp add: insn_encodable_def)
  ultimately have "insn_at prog ?k = x\<lparr>ptr := ?k\<rparr>" using insn_at_encoded[of "x\<lparr>ptr := ?k\<rparr>"] by simp
  moreover have "length prog = 8 * address ss" using n(3) by (simp add: prog)
  ultimately show thesis
    using m x n assms(6) by (intro that) (auto simp: get_insn_eq slice_fits_def)
qed

section \<open>Jumps and calls\<close>

lemma signed_sub_ovf_Some:
  assumes "signed_sub_ovf a b = Some (c :: i64)"
  shows "sint c = sint a - sint b"
proof -
  have c: "c = word_of_int (sint a - sint b)" and r: "int_fits TYPE(64) (sint a - sint b)"
    using assms by (auto simp: signed_sub_ovf_def split: if_splits)
  show ?thesis unfolding c signed_of_int using r 
    by (simp add: signed_take_bit_int_eq_self int_fits_def sint_min_def sint_max_def)
qed

lemma sint_of_nat_small: "n < 2 ^ 63 \<Longrightarrow> sint (of_nat n :: i64) = int n"
proof -
  assume "n < 2 ^ 63"
  then have "int n < 2 ^ 63" by simp
  then have "sint (word_of_int (int n) :: i64) = int n"
    unfolding signed_of_int by (simp add: signed_take_bit_int_eq_self)
  then show ?thesis by simp
qed

lemma resolved_distance:
  assumes "asm_resolve_label p labels l = Some (Inr ofs)" "labels l = Some t" "t < 2 ^ 60" "p < 2 ^ 60"
  shows "int p + 1 + sint ofs = int t"
  using assms
  by (auto simp: asm_resolve_label_def bind_eq_Some_conv sint_of_nat_small dest!: signed_sub_ovf_Some)

lemma jump_unconditional_operands:
  assumes "assemble_operands hash v labels p JumpUnconditional op operands = Some (Inr x)"
    and "operands \<noteq> []" "last operands = LabelOperand l"
  shows "operands = [LabelOperand l]"
proof -
  from assms(1) have "(\<exists>i. operands = [Integer i]) \<or> (\<exists>l. operands = [LabelOperand l])"
    unfolding assemble_operands_def by (simp split: list.split_asm Operand.split_asm)
  then show ?thesis using assms by auto
qed

lemma jump_conditional_operands:
  assumes "assemble_operands hash v labels p JumpConditional op operands = Some (Inr x)"
    and "operands \<noteq> []" "last operands = LabelOperand l"
  shows "\<exists>d s. operands = [Register d, Register s, LabelOperand l] \<or>
    operands = [Register d, Integer s, LabelOperand l]"
proof -
  from assms(1) have "(\<exists>d s c. operands = [Register d, Register s, c]) \<or>
      (\<exists>d i c. operands = [Register d, Integer i, c])"
    unfolding assemble_operands_def by (simp split: list.split_asm Operand.split_asm)
  then show ?thesis using assms by auto
qed

lemma assemble_jump_operands:
  assumes "assemble_instruction hash v labels p name ty op operands r = Some (Inr (x, r'))"
    and "ty = JumpUnconditional \<or> ty = JumpConditional"
    and "operands \<noteq> []" "last operands = LabelOperand l"
  shows "\<exists>ofs op' d s im. asm_resolve_label p labels l = Some (Inr ofs) \<and>
    asm_insn op' d s ofs im = Inr x \<and> op' \<in> {op, op OR BPF_K, op OR BPF_X}"
proof -
  have ops: "assemble_operands hash v labels p ty op operands = Some (Inr x)"
    using assms(1) by (rule assemble_instruction_cases) (use assms(2) in auto)
  show ?thesis
  proof (cases "ty = JumpUnconditional")
    case True
    with ops assms(3,4) have "operands = [LabelOperand l]" by (auto dest: jump_unconditional_operands)
    with ops True show ?thesis by (auto simp: assemble_operands_def try_bind_Inr) blast
  next
    case False
    with assms(2) have ty: "ty = JumpConditional" by simp
    from jump_conditional_operands[OF ops[unfolded ty] assms(3,4)] ops ty show ?thesis
      by (auto simp: assemble_operands_def try_bind_Inr) blast+
  qed
qed

text \<open>A program with a wide load, a call, a jump and a fill directive.\<close>

definition example_statements :: "Statement list" where
  "example_statements =
     [LabelStatement ''entrypoint'',
      InstructionStatement ''lddw'' [Register 1, Integer 0x1122334455667788],
      InstructionStatement ''call'' [LabelOperand ''function_foo''],
      InstructionStatement ''jeq'' [Register 0, Integer 0, LabelOperand ''end''],
      Directive ''fill'' [Integer 2, Integer 0x95],
      LabelStatement ''end'',
      InstructionStatement ''exit'' [],
      LabelStatement ''function_foo'',
      InstructionStatement ''exit'' []]"

definition example_code :: "Insn list" where
  "example_code =
     [\<lparr>ptr = 0, opc = 0x18, dst = 1, src = 0, off = 0, imm = 0x55667788\<rparr>,
      \<lparr>ptr = 1, opc = 0, dst = 0, src = 0, off = 0, imm = 0x11223344\<rparr>,
      \<lparr>ptr = 2, opc = 0x85, dst = 0, src = 1, off = 0, imm = 4\<rparr>,
      \<lparr>ptr = 3, opc = 0x15, dst = 0, src = 0, off = 2, imm = 0\<rparr>,
      \<lparr>ptr = 4, opc = 0x95, dst = 0, src = 0, off = 0, imm = 0\<rparr>,
      \<lparr>ptr = 5, opc = 0x95, dst = 0, src = 0, off = 0, imm = 0\<rparr>,
      \<lparr>ptr = 6, opc = 0x95, dst = 0, src = 0, off = 0, imm = 0\<rparr>,
      \<lparr>ptr = 7, opc = 0x95, dst = 0, src = 0, off = 0, imm = 0\<rparr>]"

lemma example_instructions:
  "make_instruction_map v ''lddw'' = Some (LoadDwImm, LD_DW_IMM)"
  "make_instruction_map v ''call'' = Some (CallImm, CALL_IMM)"
  "make_instruction_map v ''exit'' = Some (NoOperand, EXIT)"
  "make_instruction_map v ''jeq'' = Some (JumpConditional, JEQ64_IMM)"
  by (simp_all add: instruction_map_iff instruction_table_def misc_entries_def jump_entries_def
      jump_conditions_def opcode)

lemma push_repeat_numeral:
  "push_repeat (numeral n) i st = push_insn i st \<bind> push_repeat (pred_numeral n) i"
  by (simp add: numeral_eq_Suc)

definition example_registry :: "usize FunctionRegistry" where
  "example_registry = \<lparr>fr_map = [(0, entrypoint_name, 0), (7, ascii ''function_foo'', 7)]\<rparr>"

lemma ascii_entrypoint: "ascii ''entrypoint'' = entrypoint_name"
  by (simp add: ascii_def entrypoint_name_def)

lemma example_label_pass:
  "label_pass example_statements
       \<lparr>ls_insn_ptr = 0, ls_function_registry = FunctionRegistry_default, ls_labels = [''entrypoint'' \<mapsto> 0]\<rparr> =
     Some (Inr \<lparr>ls_insn_ptr = 8, ls_function_registry = example_registry,
       ls_labels = [''entrypoint'' \<mapsto> 0, ''end'' \<mapsto> 6, ''function_foo'' \<mapsto> 7]\<rparr>)"
  by (simp add: example_statements_def is_function_label_def FunctionRegistry_default_def example_registry_def
      register_function_def usize_add_ovf_def usize_max_def bt_empty_def bt_get_def ascii_entrypoint)
    (simp add: eval_nat_numeral)

lemma example_code_pass:
  "assemble_statements (\<lambda>_. 0) V4 example_statements =
     Some (Inr \<lparr>cs_insn_ptr = 8, cs_function_registry = example_registry, cs_instructions = example_code\<rparr>)"
  unfolding assemble_statements_def example_label_pass
  by (simp add: example_statements_def usize_add_ovf_def usize_max_def
      code_instruction_def example_instructions assemble_instruction_def assemble_operands_def
      assemble_call_label_def asm_resolve_label_def signed_sub_ovf_def int_fits_def sint_min_def sint_max_def
      asm_insn_def push_insn_def push_repeat_numeral push_second_slot_def second_slot_def fill_insn_def
      features opcode example_code_def)

definition example_assembly :: "unit Executable" where
  "example_assembly =
     \<lparr>elf_bytes = (0, concat (map to_vec example_code)), exe_sbpf_version = V4,
      ro_section = Borrowed 0 (0, 64), text_section_vaddr = MM_BYTECODE_START,
      text_section_range = (0, 64), entry_pc = 0, exe_function_registry = example_registry,
      exe_loader = new_mock\<rparr>"

lemma length_example_code [simp]: "length example_code = 8"
  by (simp add: example_code_def)

lemma example_assembled:
  "assemble (\<lambda>_. Inr example_statements) (\<lambda>_. 0) 0 ''source'' new_mock = Some (Inr example_assembly)"
proof -
  have "lookup_by_name example_registry entrypoint_name = Some (entrypoint_name, 0)"
    by (simp add: lookup_by_name_def example_registry_def)
  then show ?thesis
    by (simp add: assemble_def new_mock_def get_config_def Config_default_def example_code_pass
        from_text_bytes_def new_from_text_bytes_def example_assembly_def features layout)
qed

lemma example_text:
  "get_text_bytes example_assembly = Some (MM_BYTECODE_START, concat (map to_vec example_code))"
  "slice_fits (concat (map to_vec example_code))" "get_sbpf_version example_assembly = V4"
  by (simp_all add: get_text_bytes_def example_assembly_def slice_range_def slice_fits_def get_sbpf_version_def)

text \<open>C37: in an assembled executable, a jump to a label reaches the instruction behind the label:
  the instruction at the slot of the jump decodes to a jump whose target is the slot at which the
  statements behind the last definition of the label start.\<close>

theorem assembled_jump_reaches_label:
  assumes "assemble parse hash addr source loader = Some (Inr exe)" and "parse source = Inr ss"
    and "list_all fill_ok ss" and "ss = pre @ InstructionStatement name operands # post"
    and "make_instruction_map (get_sbpf_version exe) name = Some (ty, op)"
    and "ty = JumpUnconditional \<or> ty = JumpConditional"
    and "operands \<noteq> []" and "last operands = LabelOperand l"
    and "ss = a @ LabelStatement l # b" and "LabelStatement l \<notin> set b"
    and "get_text_bytes exe = Some (va, prog)" and "slice_fits prog"
  shows "\<exists>insn. get_insn prog (address pre) = Some insn \<and> opc insn \<in> {op, op OR BPF_K, op OR BPF_X} \<and>
    int (address pre) + 1 + sint (off insn) = int (address a)"
proof -
  let ?labels = "label_map ss 0 [''entrypoint'' \<mapsto> 0]"
  from assms(1-4) assms(11,12) obtain x r r' where
    x: "assemble_instruction hash (get_sbpf_version exe) ?labels (address pre) name ty op operands r =
      Some (Inr (x, r'))" and
    i: "get_insn prog (address pre) = Some (x\<lparr>ptr := address pre\<rparr>)" and small: "address ss < 2 ^ 60"
    by (rule assembled_slot) (use assms(5) in simp)
  from assemble_jump_operands[OF x assms(6-8)] obtain ofs op' d s im where
    "asm_resolve_label (address pre) ?labels l = Some (Inr ofs)"
    and insn: "asm_insn op' d s ofs im = Inr x" and op: "op' \<in> {op, op OR BPF_K, op OR BPF_X}"
    by blast
  moreover have "?labels l = Some (address a)"
    unfolding assms(9) using label_map_last[OF assms(10), of a 0] by simp
  moreover have "address pre \<le> address ss" "address a \<le> address ss"
    using assms(4) by simp (simp add: assms(9))
  ultimately have "int (address pre) + 1 + sint ofs = int (address a)"
    using resolved_distance[of "address pre" ?labels l ofs "address a"] small by linarith
  then show ?thesis using i op asm_insn_Inr(2,4)[OF insn] by auto
qed

theorem assembled_jump_reaches_label_witness:
  "assemble (\<lambda>_. Inr example_statements) (\<lambda>_. 0) 0 ''source'' new_mock = Some (Inr example_assembly) \<and>
   (\<exists>insn. get_insn (concat (map to_vec example_code)) 3 = Some insn \<and> int 3 + 1 + sint (off insn) = 6)"
proof -
  let ?pre = "take 3 example_statements" and ?a = "take 5 example_statements"
  have pre: "example_statements = ?pre @
      InstructionStatement ''jeq'' [Register 0, Integer 0, LabelOperand ''end''] # drop 4 example_statements"
    and a: "example_statements = ?a @ LabelStatement ''end'' # drop 6 example_statements"
    by (simp_all add: example_statements_def)
  have "address ?pre = 3" "address ?a = 6" "list_all fill_ok example_statements"
    "LabelStatement ''end'' \<notin> set (drop 6 example_statements)"
    by (simp_all add: example_statements_def)
  then show ?thesis
    using assembled_jump_reaches_label[OF example_assembled refl _ pre example_instructions(4) _ _ _ a _
        example_text(1,2)] example_assembled
    by auto
qed

lemma i64_saturating_add_small:
  assumes "- (2 ^ 62) \<le> sint a" "sint a < 2 ^ 62" "- (2 ^ 62) \<le> sint b" "sint b < 2 ^ 62"
  shows "i64_saturating_add a b = a + b"
  using assms by (simp add: i64_saturating_add_def clamp_int_def sint_min_def sint_max_def)

lemma saturating_distance:
  assumes "sint d = int t - int p - 1" "t < 2 ^ 60" "p < 2 ^ 60"
  shows "i64_saturating_add (i64_saturating_add (of_nat p) d) 1 = of_nat t"
proof -
  have d: "d = of_nat t - of_nat p - 1"
  proof -
    have "d = word_of_int (sint d)" by simp
    then show ?thesis unfolding assms(1) by simp
  qed
  have p: "sint (of_nat p :: i64) = int p" using assms(3) by (intro sint_of_nat_small) simp
  have in1: "i64_saturating_add (of_nat p) d = of_nat p + d"
    using assms p by (intro i64_saturating_add_small) simp_all
  have e: "of_nat p + d = word_of_int (int t - 1)" by (simp add: d)
  have "sint (word_of_int (int t - 1) :: i64) = int t - 1"
    unfolding signed_of_int using assms(2) by (simp add: signed_take_bit_int_eq_self)
  then have "i64_saturating_add (word_of_int (int t - 1)) 1 = word_of_int (int t - 1) + 1"
    using assms(2) by (intro i64_saturating_add_small) simp_all
  then show ?thesis by (simp add: in1 e)
qed

lemma ucast_of_nat_u32: "ucast (of_nat n :: i64) = (of_nat n :: u32)"
  by (rule bit_word_eqI) (simp add: bit_simps bit_of_nat_iff)

lemma call_target_pc:
  assumes "assemble_call_label v labels p op l = Some (Inr x)" "labels l = Some t" "t < 2 ^ 60" "p < 2 ^ 60"
  shows "opc x = op" "src x = (if static_syscalls v then 1 else 0)"
    "calculate_call_imm_target_pc v p (imm x) = of_nat t"
proof -
  from assms(1,2) obtain im where
    x: "asm_insn op 0 (if static_syscalls v then 1 else 0) 0 im = Inr x"
    and im: "if static_syscalls v
      then signed_sub_ovf (of_nat t) (of_nat p) \<bind> (\<lambda>d. signed_sub_ovf d 1) = Some im else im = of_nat t"
    by (auto simp: assemble_call_label_def bind_eq_Some_conv split: if_splits)
  note x = asm_insn_Inr[OF x]
  show "opc x = op" by (rule x)
  show "src x = (if static_syscalls v then 1 else 0)" using x by simp
  show "calculate_call_imm_target_pc v p (imm x) = of_nat t"
  proof (cases "static_syscalls v")
    case True
    with im have "sint im = int t - int p - 1"
      using assms(3,4) by (auto simp: bind_eq_Some_conv sint_of_nat_small dest!: signed_sub_ovf_Some)
    from saturating_distance[OF this assms(3,4)] True x(3) show ?thesis
      by (simp add: calculate_call_imm_target_pc_def ucast_of_nat_u32)
  next
    case False
    with im x(3) show ?thesis by (simp add: calculate_call_imm_target_pc_def ucast_of_nat_u32)
  qed
qed

lemma assemble_registers:
  assumes "assemble parse hash addr source loader = Some (Inr exe)" "parse source = Inr ss"
    and "list_all fill_ok ss" "ss = a @ LabelStatement l # b" "is_function_label l"
  shows "\<exists>nm. lookup_by_key (exe_get_function_registry exe) (of_nat (address a)) = Some (nm, address a)"
proof -
  from assms(1,2) obtain st where st: "assemble_statements hash (get_sbpf_version exe) ss = Some (Inr st)"
    and ext: "extends (cs_function_registry st) (exe_get_function_registry exe)"
    by (rule assemble_InrE)
  from st obtain st0 where
    l: "label_pass ss \<lparr>ls_insn_ptr = 0, ls_function_registry = FunctionRegistry_default,
           ls_labels = [''entrypoint'' \<mapsto> 0]\<rparr> = Some (Inr st0)" and
    c: "code_pass hash (get_sbpf_version exe) (ls_labels st0) ss
      \<lparr>cs_insn_ptr = 0, cs_function_registry = ls_function_registry st0, cs_instructions = []\<rparr> = Some (Inr st)"
    by (auto simp: assemble_statements_def try_bind_Inr)
  have "\<exists>nm. lookup_by_key (ls_function_registry st0) (of_nat (address a)) = Some (nm, address a)"
    using label_pass_registers[OF l[unfolded assms(4)]] assms(3-5) by simp
  moreover have "registry_wf (ls_function_registry st0)"
    using label_pass_extends[OF l] by (simp add: extends_def)
  ultimately show ?thesis
    using code_pass_extends[OF c] ext by (auto simp: extends_def)
qed

text \<open>C38: in an assembled executable, a call of a label is a call instruction whose target is the
  slot behind the label, as the virtual machine computes it for the version of the executable; when
  the label names a function, the function registry has an entry for that target.\<close>

theorem assembled_call_resolves:
  assumes "assemble parse hash addr source loader = Some (Inr exe)" and "parse source = Inr ss"
    and "list_all fill_ok ss" and "ss = pre @ InstructionStatement ''call'' [LabelOperand l] # post"
    and "ss = a @ LabelStatement l # b" and "LabelStatement l \<notin> set b"
    and "get_text_bytes exe = Some (va, prog)" and "slice_fits prog"
  shows "\<exists>insn. get_insn prog (address pre) = Some insn \<and> opc insn = CALL_IMM \<and>
    src insn = (if static_syscalls (get_sbpf_version exe) then 1 else 0) \<and>
    calculate_call_imm_target_pc (get_sbpf_version exe) (address pre) (imm insn) = of_nat (address a) \<and>
    (is_function_label l \<longrightarrow>
      (\<exists>nm. lookup_by_key (exe_get_function_registry exe) (of_nat (address a)) = Some (nm, address a)))"
proof -
  let ?labels = "label_map ss 0 [''entrypoint'' \<mapsto> 0]" and ?v = "get_sbpf_version exe"
  have "make_instruction_map ?v ''call'' = Some (CallImm, CALL_IMM)"
    by (simp add: instruction_map_iff instruction_table_def misc_entries_def)
  then obtain x r r' where
    x: "assemble_instruction hash ?v ?labels (address pre) ''call'' CallImm CALL_IMM [LabelOperand l] r =
      Some (Inr (x, r'))" and
    i: "get_insn prog (address pre) = Some (x\<lparr>ptr := address pre\<rparr>)" and small: "address ss < 2 ^ 60"
    using assms(1-4,7,8) by (auto elim!: assembled_slot[where pre = pre and post = post])
  have "assemble_call_label ?v ?labels (address pre) CALL_IMM l = Some (Inr x)"
    using x by (rule assemble_instruction_cases) (auto simp: assemble_operands_def)
  moreover have "?labels l = Some (address a)"
    unfolding assms(5) using label_map_last[OF assms(6), of a 0] by simp
  moreover have "address pre \<le> address ss" "address a \<le> address ss"
    using assms(4) by simp (simp add: assms(5))
  ultimately have "opc x = CALL_IMM" "src x = (if static_syscalls ?v then 1 else 0)"
    "calculate_call_imm_target_pc ?v (address pre) (imm x) = of_nat (address a)"
    using call_target_pc[of ?v ?labels "address pre" CALL_IMM l x "address a"] small by simp_all
  then show ?thesis using i assemble_registers[OF assms(1-3,5)] by auto
qed

theorem assembled_call_resolves_witness:
  "assemble (\<lambda>_. Inr example_statements) (\<lambda>_. 0) 0 ''source'' new_mock = Some (Inr example_assembly) \<and>
   (\<exists>insn. get_insn (concat (map to_vec example_code)) 2 = Some insn \<and> opc insn = CALL_IMM \<and> src insn = 1 \<and>
     calculate_call_imm_target_pc V4 2 (imm insn) = 7) \<and>
   (\<exists>nm. lookup_by_key (exe_get_function_registry example_assembly) 7 = Some (nm, 7))"
proof -
  let ?pre = "take 2 example_statements" and ?a = "take 7 example_statements"
  have pre: "example_statements = ?pre @
      InstructionStatement ''call'' [LabelOperand ''function_foo''] # drop 3 example_statements"
    and a: "example_statements = ?a @ LabelStatement ''function_foo'' # drop 8 example_statements"
    by (simp_all add: example_statements_def)
  have "address ?pre = 2" "address ?a = 7" "list_all fill_ok example_statements"
    "LabelStatement ''function_foo'' \<notin> set (drop 8 example_statements)"
    "is_function_label ''function_foo''" "static_syscalls V4"
    by (simp_all add: example_statements_def is_function_label_def features)
  then show ?thesis
    using assembled_call_resolves[OF example_assembled refl _ pre a _ example_text(1,2)]
      example_assembled example_text(3)
    by auto
qed

end
