(* ===== verification/Disassembler.thy ===== *)
theory Disassembler
  imports Executable Rust_Text
begin

text \<open>
  The disassembler of \<^verbatim>\<open>src/src/disassembler.rs\<close>: the text of one instruction, with jump targets
  named by the labels of the control-flow graph and calls by the function registries.  The arms of
  the match are lists of operation code, guard and text, one list for each class of the source, and
  the first arm that fits is taken.  The value \<open>None\<close> is a panic of an arithmetic overflow check.
  The warning that is printed for a byte swap of an invalid width is left out.
\<close>

section \<open>Nodes of the control-flow graph\<close>

record TopologicalIndex =
  scc_id :: usize
  discovery :: usize

definition TopologicalIndex_default :: TopologicalIndex where
  "TopologicalIndex_default = \<lparr>scc_id = usize_max, discovery = usize_max\<rparr>"

record CfgNode =
  cfg_label :: string
  cfg_sources :: "usize list"
  cfg_destinations :: "usize list"
  cfg_instructions :: "usize \<times> usize"
  topo_index :: TopologicalIndex
  dominator_parent :: usize
  dominated_children :: "usize list"

section \<open>Text of operands\<close>

definition show_u8 :: "u8 \<Rightarrow> string" where
  "show_u8 x = show_nat (unat x)"

definition show_i64 :: "i64 \<Rightarrow> string" where
  "show_i64 x = show_int (sint x)"

definition dis_resolve_label :: "(usize, CfgNode) btree \<Rightarrow> usize \<Rightarrow> string" where
  "dis_resolve_label cfg_nodes pc =
     (case bt_get cfg_nodes pc of Some cfg_node \<Rightarrow> cfg_label cfg_node | None \<Rightarrow> ''[invalid]'')"

definition alu_imm_str :: "string \<Rightarrow> Insn \<Rightarrow> string" where
  "alu_imm_str name insn = name @ '' r'' @ show_u8 (dst insn) @ '', '' @ show_i64 (imm insn)"

definition alu_reg_str :: "string \<Rightarrow> Insn \<Rightarrow> string" where
  "alu_reg_str name insn = name @ '' r'' @ show_u8 (dst insn) @ '', r'' @ show_u8 (src insn)"

definition byteswap_str :: "string \<Rightarrow> Insn \<Rightarrow> string" where
  "byteswap_str name insn = name @ show_i64 (imm insn) @ '' r'' @ show_u8 (dst insn)"

definition signed_off_str :: "i16 \<Rightarrow> string" where
  "signed_off_str v =
     (if sint v < 0 then ''-'' @ show_hex (nat (- sint v)) else ''+'' @ show_hex (nat (sint v)))"

definition ld_st_imm_str :: "string \<Rightarrow> Insn \<Rightarrow> string" where
  "ld_st_imm_str name insn =
     name @ '' [r'' @ show_u8 (dst insn) @ signed_off_str (off insn) @ ''], '' @ show_i64 (imm insn)"

definition ld_reg_str :: "string \<Rightarrow> Insn \<Rightarrow> string" where
  "ld_reg_str name insn =
     name @ '' r'' @ show_u8 (dst insn) @ '', [r'' @ show_u8 (src insn) @ signed_off_str (off insn) @ '']''"

definition st_reg_str :: "string \<Rightarrow> Insn \<Rightarrow> string" where
  "st_reg_str name insn =
     name @ '' [r'' @ show_u8 (dst insn) @ signed_off_str (off insn) @ ''], r'' @ show_u8 (src insn)"

text \<open>\<open>(insn.ptr as isize + insn.off as isize + 1) as usize\<close>\<close>

definition dis_target_pc :: "Insn \<Rightarrow> usize option" where
  "dis_target_pc insn = do {
     p \<leftarrow> signed_add_ovf (of_nat (ptr insn) :: i64) (scast (off insn));
     p \<leftarrow> signed_add_ovf p 1;
     Some (unat p)
   }"

definition jmp_imm_str :: "string \<Rightarrow> Insn \<Rightarrow> (usize, CfgNode) btree \<Rightarrow> string option" where
  "jmp_imm_str name insn cfg_nodes = do {
     target_pc \<leftarrow> dis_target_pc insn;
     Some (name @ '' r'' @ show_u8 (dst insn) @ '', '' @ show_i64 (imm insn) @ '', '' @
       dis_resolve_label cfg_nodes target_pc)
   }"

definition jmp_reg_str :: "string \<Rightarrow> Insn \<Rightarrow> (usize, CfgNode) btree \<Rightarrow> string option" where
  "jmp_reg_str name insn cfg_nodes = do {
     target_pc \<leftarrow> dis_target_pc insn;
     Some (name @ '' r'' @ show_u8 (dst insn) @ '', r'' @ show_u8 (src insn) @ '', '' @
       dis_resolve_label cfg_nodes target_pc)
   }"

definition ja_str :: "Insn \<Rightarrow> (usize, CfgNode) btree \<Rightarrow> string option" where
  "ja_str insn cfg_nodes = do {
     target_pc \<leftarrow> dis_target_pc insn;
     Some (''ja '' @ dis_resolve_label cfg_nodes target_pc)
   }"

definition call_imm_str ::
  "Insn \<Rightarrow> usize \<Rightarrow> usize FunctionRegistry \<Rightarrow> 'f BuiltinProgram \<Rightarrow> SBPFVersion \<Rightarrow> string option" where
  "call_imm_str insn pc function_registry loader v =
     (let key = calculate_call_imm_target_pc v pc (imm insn);
          function_name = map_option (\<lambda>(nm, _). from_utf8_lossy nm) (lookup_by_key function_registry key);
          (name, function_name) =
            (if (function_name = None \<and> \<not> static_syscalls v) \<or> src insn = 0
             then (''syscall'', map_option (\<lambda>(nm, _). from_utf8_lossy nm)
               (lookup_by_key (get_function_registry loader) (ucast (imm insn))))
             else (''call'', function_name))
      in Some (name @ '' '' @ (case function_name of Some nm \<Rightarrow> nm | None \<Rightarrow> show_i64 (imm insn))))"

section \<open>The arms\<close>

type_synonym disasm_arm = "u8 \<times> bool \<times> string option"

definition disasm_ld ::
  "SBPFVersion \<Rightarrow> Insn \<Rightarrow> disasm_arm list" where
  "disasm_ld v insn =
     [(LD_DW_IMM, True, Some (''lddw'' @ '' r'' @ show_u8 (dst insn) @ '', '' @ show_hex (unat (imm insn))))]"

definition disasm_ldx ::
  "SBPFVersion \<Rightarrow> Insn \<Rightarrow> disasm_arm list" where
  "disasm_ldx v insn =
     [(LD_B_REG, \<not> move_memory_instruction_classes v, Some (ld_reg_str ''ldxb'' insn)),
      (LD_H_REG, \<not> move_memory_instruction_classes v, Some (ld_reg_str ''ldxh'' insn)),
      (LD_W_REG, \<not> move_memory_instruction_classes v, Some (ld_reg_str ''ldxw'' insn)),
      (LD_DW_REG, \<not> move_memory_instruction_classes v, Some (ld_reg_str ''ldxdw'' insn))]"

definition disasm_st ::
  "SBPFVersion \<Rightarrow> Insn \<Rightarrow> disasm_arm list" where
  "disasm_st v insn =
     [(ST_B_IMM, \<not> move_memory_instruction_classes v, Some (ld_st_imm_str ''stb'' insn)),
      (ST_H_IMM, \<not> move_memory_instruction_classes v, Some (ld_st_imm_str ''sth'' insn)),
      (ST_W_IMM, \<not> move_memory_instruction_classes v, Some (ld_st_imm_str ''stw'' insn)),
      (ST_DW_IMM, \<not> move_memory_instruction_classes v, Some (ld_st_imm_str ''stdw'' insn))]"

definition disasm_stx ::
  "SBPFVersion \<Rightarrow> Insn \<Rightarrow> disasm_arm list" where
  "disasm_stx v insn =
     [(ST_B_REG, \<not> move_memory_instruction_classes v, Some (st_reg_str ''stxb'' insn)),
      (ST_H_REG, \<not> move_memory_instruction_classes v, Some (st_reg_str ''stxh'' insn)),
      (ST_W_REG, \<not> move_memory_instruction_classes v, Some (st_reg_str ''stxw'' insn)),
      (ST_DW_REG, \<not> move_memory_instruction_classes v, Some (st_reg_str ''stxdw'' insn))]"

definition disasm_alu32_load ::
  "SBPFVersion \<Rightarrow> Insn \<Rightarrow> disasm_arm list" where
  "disasm_alu32_load v insn =
     [(ADD32_IMM, True, Some (alu_imm_str ''add32'' insn)),
      (ADD32_REG, True, Some (alu_reg_str ''add32'' insn)),
      (SUB32_IMM, True, Some (alu_imm_str ''sub32'' insn)),
      (SUB32_REG, True, Some (alu_reg_str ''sub32'' insn)),
      (MUL32_IMM, \<not> enable_pqr v, Some (alu_imm_str ''mul32'' insn)),
      (MUL32_REG, \<not> enable_pqr v, Some (alu_reg_str ''mul32'' insn)),
      (LD_1B_REG, move_memory_instruction_classes v, Some (ld_reg_str ''ldxb'' insn)),
      (DIV32_IMM, \<not> enable_pqr v, Some (alu_imm_str ''div32'' insn)),
      (DIV32_REG, \<not> enable_pqr v, Some (alu_reg_str ''div32'' insn)),
      (LD_2B_REG, move_memory_instruction_classes v, Some (ld_reg_str ''ldxh'' insn)),
      (OR32_IMM, True, Some (alu_imm_str ''or32'' insn)),
      (OR32_REG, True, Some (alu_reg_str ''or32'' insn)),
      (AND32_IMM, True, Some (alu_imm_str ''and32'' insn)),
      (AND32_REG, True, Some (alu_reg_str ''and32'' insn)),
      (LSH32_IMM, True, Some (alu_imm_str ''lsh32'' insn)),
      (LSH32_REG, True, Some (alu_reg_str ''lsh32'' insn)),
      (RSH32_IMM, True, Some (alu_imm_str ''rsh32'' insn)),
      (RSH32_REG, True, Some (alu_reg_str ''rsh32'' insn)),
      (NEG32, \<not> disable_neg v, Some (''neg32'' @ '' r'' @ show_u8 (dst insn))),
      (LD_4B_REG, move_memory_instruction_classes v, Some (ld_reg_str ''ldxw'' insn)),
      (MOD32_IMM, \<not> enable_pqr v, Some (alu_imm_str ''mod32'' insn)),
      (MOD32_REG, \<not> enable_pqr v, Some (alu_reg_str ''mod32'' insn)),
      (LD_8B_REG, move_memory_instruction_classes v, Some (ld_reg_str ''ldxdw'' insn)),
      (XOR32_IMM, True, Some (alu_imm_str ''xor32'' insn)),
      (XOR32_REG, True, Some (alu_reg_str ''xor32'' insn)),
      (MOV32_IMM, True, Some (alu_imm_str ''mov32'' insn)),
      (MOV32_REG, True, Some (alu_reg_str ''mov32'' insn)),
      (ARSH32_IMM, True, Some (alu_imm_str ''arsh32'' insn)),
      (ARSH32_REG, True, Some (alu_reg_str ''arsh32'' insn)),
      (LE, True, Some (byteswap_str ''le'' insn)),
      (BE, True, Some (byteswap_str ''be'' insn))]"

definition disasm_alu64_store ::
  "SBPFVersion \<Rightarrow> Insn \<Rightarrow> disasm_arm list" where
  "disasm_alu64_store v insn =
     [(ADD64_IMM, True, Some (alu_imm_str ''add64'' insn)),
      (ADD64_REG, True, Some (alu_reg_str ''add64'' insn)),
      (SUB64_IMM, True, Some (alu_imm_str ''sub64'' insn)),
      (SUB64_REG, True, Some (alu_reg_str ''sub64'' insn)),
      (MUL64_IMM, \<not> enable_pqr v, Some (alu_imm_str ''mul64'' insn)),
      (ST_1B_IMM, move_memory_instruction_classes v, Some (ld_st_imm_str ''stb'' insn)),
      (MUL64_REG, \<not> enable_pqr v, Some (alu_reg_str ''mul64'' insn)),
      (ST_1B_REG, move_memory_instruction_classes v, Some (st_reg_str ''stxb'' insn)),
      (DIV64_IMM, \<not> enable_pqr v, Some (alu_imm_str ''div64'' insn)),
      (ST_2B_IMM, move_memory_instruction_classes v, Some (ld_st_imm_str ''sth'' insn)),
      (DIV64_REG, \<not> enable_pqr v, Some (alu_reg_str ''div64'' insn)),
      (ST_2B_REG, move_memory_instruction_classes v, Some (st_reg_str ''stxh'' insn)),
      (OR64_IMM, True, Some (alu_imm_str ''or64'' insn)),
      (OR64_REG, True, Some (alu_reg_str ''or64'' insn)),
      (AND64_IMM, True, Some (alu_imm_str ''and64'' insn)),
      (AND64_REG, True, Some (alu_reg_str ''and64'' insn)),
      (LSH64_IMM, True, Some (alu_imm_str ''lsh64'' insn)),
      (LSH64_REG, True, Some (alu_reg_str ''lsh64'' insn)),
      (RSH64_IMM, True, Some (alu_imm_str ''rsh64'' insn)),
      (RSH64_REG, True, Some (alu_reg_str ''rsh64'' insn)),
      (ST_4B_IMM, move_memory_instruction_classes v, Some (ld_st_imm_str ''stw'' insn)),
      (NEG64, \<not> disable_neg v, Some (''neg64'' @ '' r'' @ show_u8 (dst insn))),
      (ST_4B_REG, move_memory_instruction_classes v, Some (st_reg_str ''stxw'' insn)),
      (MOD64_IMM, \<not> enable_pqr v, Some (alu_imm_str ''mod64'' insn)),
      (ST_8B_IMM, move_memory_instruction_classes v, Some (ld_st_imm_str ''stdw'' insn)),
      (MOD64_REG, \<not> enable_pqr v, Some (alu_reg_str ''mod64'' insn)),
      (ST_8B_REG, move_memory_instruction_classes v, Some (st_reg_str ''stxdw'' insn)),
      (XOR64_IMM, True, Some (alu_imm_str ''xor64'' insn)),
      (XOR64_REG, True, Some (alu_reg_str ''xor64'' insn)),
      (MOV64_IMM, True, Some (alu_imm_str ''mov64'' insn)),
      (MOV64_REG, True, Some (alu_reg_str ''mov64'' insn)),
      (ARSH64_IMM, True, Some (alu_imm_str ''arsh64'' insn)),
      (ARSH64_REG, True, Some (alu_reg_str ''arsh64'' insn)),
      (HOR64_IMM, True, Some (alu_imm_str ''hor64'' insn))]"

definition disasm_pqr ::
  "SBPFVersion \<Rightarrow> Insn \<Rightarrow> disasm_arm list" where
  "disasm_pqr v insn =
     [(LMUL32_IMM, enable_pqr v, Some (alu_imm_str ''lmul32'' insn)),
      (LMUL32_REG, enable_pqr v, Some (alu_reg_str ''lmul32'' insn)),
      (LMUL64_IMM, enable_pqr v, Some (alu_imm_str ''lmul64'' insn)),
      (LMUL64_REG, enable_pqr v, Some (alu_reg_str ''lmul64'' insn)),
      (UHMUL64_IMM, enable_pqr v, Some (alu_imm_str ''uhmul64'' insn)),
      (UHMUL64_REG, enable_pqr v, Some (alu_reg_str ''uhmul64'' insn)),
      (SHMUL64_IMM, enable_pqr v, Some (alu_imm_str ''shmul64'' insn)),
      (SHMUL64_REG, enable_pqr v, Some (alu_reg_str ''shmul64'' insn)),
      (UDIV32_IMM, enable_pqr v, Some (alu_imm_str ''udiv32'' insn)),
      (UDIV32_REG, enable_pqr v, Some (alu_reg_str ''udiv32'' insn)),
      (UDIV64_IMM, enable_pqr v, Some (alu_imm_str ''udiv64'' insn)),
      (UDIV64_REG, enable_pqr v, Some (alu_reg_str ''udiv64'' insn)),
      (UREM32_IMM, enable_pqr v, Some (alu_imm_str ''urem32'' insn)),
      (UREM32_REG, enable_pqr v, Some (alu_reg_str ''urem32'' insn)),
      (UREM64_IMM, enable_pqr v, Some (alu_imm_str ''urem64'' insn)),
      (UREM64_REG, enable_pqr v, Some (alu_reg_str ''urem64'' insn)),
      (SDIV32_IMM, enable_pqr v, Some (alu_imm_str ''sdiv32'' insn)),
      (SDIV32_REG, enable_pqr v, Some (alu_reg_str ''sdiv32'' insn)),
      (SDIV64_IMM, enable_pqr v, Some (alu_imm_str ''sdiv64'' insn)),
      (SDIV64_REG, enable_pqr v, Some (alu_reg_str ''sdiv64'' insn)),
      (SREM32_IMM, enable_pqr v, Some (alu_imm_str ''srem32'' insn)),
      (SREM32_REG, enable_pqr v, Some (alu_reg_str ''srem32'' insn)),
      (SREM64_IMM, enable_pqr v, Some (alu_imm_str ''srem64'' insn)),
      (SREM64_REG, enable_pqr v, Some (alu_reg_str ''srem64'' insn))]"

definition disasm_jmp32 ::
  "SBPFVersion \<Rightarrow> Insn \<Rightarrow> (usize, CfgNode) btree \<Rightarrow> disasm_arm list" where
  "disasm_jmp32 v insn cfg_nodes =
     [(JEQ32_IMM, enable_jmp32 v, jmp_imm_str ''jeq32'' insn cfg_nodes),
      (JEQ32_REG, enable_jmp32 v, jmp_reg_str ''jeq32'' insn cfg_nodes),
      (JGT32_IMM, enable_jmp32 v, jmp_imm_str ''jgt32'' insn cfg_nodes),
      (JGT32_REG, enable_jmp32 v, jmp_reg_str ''jgt32'' insn cfg_nodes),
      (JGE32_IMM, enable_jmp32 v, jmp_imm_str ''jge32'' insn cfg_nodes),
      (JGE32_REG, enable_jmp32 v, jmp_reg_str ''jge32'' insn cfg_nodes),
      (JLT32_IMM, enable_jmp32 v, jmp_imm_str ''jlt32'' insn cfg_nodes),
      (JLT32_REG, enable_jmp32 v, jmp_reg_str ''jlt32'' insn cfg_nodes),
      (JLE32_IMM, enable_jmp32 v, jmp_imm_str ''jle32'' insn cfg_nodes),
      (JLE32_REG, enable_jmp32 v, jmp_reg_str ''jle32'' insn cfg_nodes),
      (JSET32_IMM, enable_jmp32 v, jmp_imm_str ''jset32'' insn cfg_nodes),
      (JSET32_REG, enable_jmp32 v, jmp_reg_str ''jset32'' insn cfg_nodes),
      (JNE32_IMM, enable_jmp32 v, jmp_imm_str ''jne32'' insn cfg_nodes),
      (JNE32_REG, enable_jmp32 v, jmp_reg_str ''jne32'' insn cfg_nodes),
      (JSGT32_IMM, enable_jmp32 v, jmp_imm_str ''jsgt32'' insn cfg_nodes),
      (JSGT32_REG, enable_jmp32 v, jmp_reg_str ''jsgt32'' insn cfg_nodes),
      (JSGE32_IMM, enable_jmp32 v, jmp_imm_str ''jsge32'' insn cfg_nodes),
      (JSGE32_REG, enable_jmp32 v, jmp_reg_str ''jsge32'' insn cfg_nodes),
      (JSLT32_IMM, enable_jmp32 v, jmp_imm_str ''jslt32'' insn cfg_nodes),
      (JSLT32_REG, enable_jmp32 v, jmp_reg_str ''jslt32'' insn cfg_nodes),
      (JSLE32_IMM, enable_jmp32 v, jmp_imm_str ''jsle32'' insn cfg_nodes),
      (JSLE32_REG, enable_jmp32 v, jmp_reg_str ''jsle32'' insn cfg_nodes)]"

definition disasm_jmp64 ::
  "SBPFVersion \<Rightarrow> Insn \<Rightarrow> usize \<Rightarrow> (usize, CfgNode) btree \<Rightarrow>
   usize FunctionRegistry \<Rightarrow> 'f BuiltinProgram \<Rightarrow> disasm_arm list" where
  "disasm_jmp64 v insn pc cfg_nodes function_registry loader =
     [(JA, True, ja_str insn cfg_nodes),
      (JEQ64_IMM, True, jmp_imm_str ''jeq'' insn cfg_nodes),
      (JEQ64_REG, True, jmp_reg_str ''jeq'' insn cfg_nodes),
      (JGT64_IMM, True, jmp_imm_str ''jgt'' insn cfg_nodes),
      (JGT64_REG, True, jmp_reg_str ''jgt'' insn cfg_nodes),
      (JGE64_IMM, True, jmp_imm_str ''jge'' insn cfg_nodes),
      (JGE64_REG, True, jmp_reg_str ''jge'' insn cfg_nodes),
      (JLT64_IMM, True, jmp_imm_str ''jlt'' insn cfg_nodes),
      (JLT64_REG, True, jmp_reg_str ''jlt'' insn cfg_nodes),
      (JLE64_IMM, True, jmp_imm_str ''jle'' insn cfg_nodes),
      (JLE64_REG, True, jmp_reg_str ''jle'' insn cfg_nodes),
      (JSET64_IMM, True, jmp_imm_str ''jset'' insn cfg_nodes),
      (JSET64_REG, True, jmp_reg_str ''jset'' insn cfg_nodes),
      (JNE64_IMM, True, jmp_imm_str ''jne'' insn cfg_nodes),
      (JNE64_REG, True, jmp_reg_str ''jne'' insn cfg_nodes),
      (JSGT64_IMM, True, jmp_imm_str ''jsgt'' insn cfg_nodes),
      (JSGT64_REG, True, jmp_reg_str ''jsgt'' insn cfg_nodes),
      (JSGE64_IMM, True, jmp_imm_str ''jsge'' insn cfg_nodes),
      (JSGE64_REG, True, jmp_reg_str ''jsge'' insn cfg_nodes),
      (JSLT64_IMM, True, jmp_imm_str ''jslt'' insn cfg_nodes),
      (JSLT64_REG, True, jmp_reg_str ''jslt'' insn cfg_nodes),
      (JSLE64_IMM, True, jmp_imm_str ''jsle'' insn cfg_nodes),
      (JSLE64_REG, True, jmp_reg_str ''jsle'' insn cfg_nodes),
      (CALL_IMM, True, call_imm_str insn pc function_registry loader v),
      (CALL_REG, True, Some (''callx'' @ '' r'' @ show_u8 (if callx_uses_src_reg v then src insn
         else if callx_uses_dst_reg v then dst insn else ucast (imm insn)))),
      (EXIT, True, Some ''exit'')]"

definition disasm_arms ::
  "SBPFVersion \<Rightarrow> Insn \<Rightarrow> usize \<Rightarrow> (usize, CfgNode) btree \<Rightarrow> usize FunctionRegistry \<Rightarrow>
   'f BuiltinProgram \<Rightarrow> disasm_arm list" where
  "disasm_arms v insn pc cfg_nodes function_registry loader =
     disasm_ld v insn @ disasm_ldx v insn @ disasm_st v insn @ disasm_stx v insn @
     disasm_alu32_load v insn @ disasm_alu64_store v insn @ disasm_pqr v insn @
     disasm_jmp32 v insn cfg_nodes @ disasm_jmp64 v insn pc cfg_nodes function_registry loader"

definition disassemble_instruction ::
  "Insn \<Rightarrow> usize \<Rightarrow> (usize, CfgNode) btree \<Rightarrow> usize FunctionRegistry \<Rightarrow> 'f BuiltinProgram \<Rightarrow>
   SBPFVersion \<Rightarrow> string option" where
  "disassemble_instruction insn pc cfg_nodes function_registry loader v =
     (case select_arm (disasm_arms v insn pc cfg_nodes function_registry loader) (opc insn) of
        Some desc \<Rightarrow> desc
      | None \<Rightarrow> Some (''unknown opcode='' @ show_hex (unat (opc insn))))"

end
