(* ===== verification/Reassembly.thy ===== *)
theory Reassembly
  imports Assembler_Labels Disassembler
begin

text \<open>
  The assembler reads what the disassembler writes.  The instruction set is given once more as a table
  of operation code, guard, mnemonic and operand shape; the disassembler prints the mnemonic and the
  operands of that shape, and the assembler translates them back to the instruction.
\<close>

unbundle bit_operations_syntax

section \<open>The instruction set by operand shape\<close>

datatype shape =
  AluImm | AluReg | Unary | Swap | LdReg | StImm | StReg | JmpImm | JmpReg | Ja | Lddw | Call | Callx | NoArgs

type_synonym isa_arm = "u8 \<times> bool \<times> string \<times> shape"

definition isa_ld :: "SBPFVersion \<Rightarrow> isa_arm list" where
  "isa_ld v =
     [(LD_DW_IMM, True, ''lddw'', Lddw)]"

definition isa_ldx :: "SBPFVersion \<Rightarrow> isa_arm list" where
  "isa_ldx v =
     [(LD_B_REG, \<not> move_memory_instruction_classes v, ''ldxb'', LdReg),
      (LD_H_REG, \<not> move_memory_instruction_classes v, ''ldxh'', LdReg),
      (LD_W_REG, \<not> move_memory_instruction_classes v, ''ldxw'', LdReg),
      (LD_DW_REG, \<not> move_memory_instruction_classes v, ''ldxdw'', LdReg)]"

definition isa_st :: "SBPFVersion \<Rightarrow> isa_arm list" where
  "isa_st v =
     [(ST_B_IMM, \<not> move_memory_instruction_classes v, ''stb'', StImm),
      (ST_H_IMM, \<not> move_memory_instruction_classes v, ''sth'', StImm),
      (ST_W_IMM, \<not> move_memory_instruction_classes v, ''stw'', StImm),
      (ST_DW_IMM, \<not> move_memory_instruction_classes v, ''stdw'', StImm)]"

definition isa_stx :: "SBPFVersion \<Rightarrow> isa_arm list" where
  "isa_stx v =
     [(ST_B_REG, \<not> move_memory_instruction_classes v, ''stxb'', StReg),
      (ST_H_REG, \<not> move_memory_instruction_classes v, ''stxh'', StReg),
      (ST_W_REG, \<not> move_memory_instruction_classes v, ''stxw'', StReg),
      (ST_DW_REG, \<not> move_memory_instruction_classes v, ''stxdw'', StReg)]"

definition isa_alu32_load :: "SBPFVersion \<Rightarrow> isa_arm list" where
  "isa_alu32_load v =
     [(ADD32_IMM, True, ''add32'', AluImm),
      (ADD32_REG, True, ''add32'', AluReg),
      (SUB32_IMM, True, ''sub32'', AluImm),
      (SUB32_REG, True, ''sub32'', AluReg),
      (MUL32_IMM, \<not> enable_pqr v, ''mul32'', AluImm),
      (MUL32_REG, \<not> enable_pqr v, ''mul32'', AluReg),
      (LD_1B_REG, move_memory_instruction_classes v, ''ldxb'', LdReg),
      (DIV32_IMM, \<not> enable_pqr v, ''div32'', AluImm),
      (DIV32_REG, \<not> enable_pqr v, ''div32'', AluReg),
      (LD_2B_REG, move_memory_instruction_classes v, ''ldxh'', LdReg),
      (OR32_IMM, True, ''or32'', AluImm),
      (OR32_REG, True, ''or32'', AluReg),
      (AND32_IMM, True, ''and32'', AluImm),
      (AND32_REG, True, ''and32'', AluReg),
      (LSH32_IMM, True, ''lsh32'', AluImm),
      (LSH32_REG, True, ''lsh32'', AluReg),
      (RSH32_IMM, True, ''rsh32'', AluImm),
      (RSH32_REG, True, ''rsh32'', AluReg),
      (NEG32, \<not> disable_neg v, ''neg32'', Unary),
      (LD_4B_REG, move_memory_instruction_classes v, ''ldxw'', LdReg),
      (MOD32_IMM, \<not> enable_pqr v, ''mod32'', AluImm),
      (MOD32_REG, \<not> enable_pqr v, ''mod32'', AluReg),
      (LD_8B_REG, move_memory_instruction_classes v, ''ldxdw'', LdReg),
      (XOR32_IMM, True, ''xor32'', AluImm),
      (XOR32_REG, True, ''xor32'', AluReg),
      (MOV32_IMM, True, ''mov32'', AluImm),
      (MOV32_REG, True, ''mov32'', AluReg),
      (ARSH32_IMM, True, ''arsh32'', AluImm),
      (ARSH32_REG, True, ''arsh32'', AluReg),
      (LE, True, ''le'', Swap),
      (BE, True, ''be'', Swap)]"

definition isa_alu64_store :: "SBPFVersion \<Rightarrow> isa_arm list" where
  "isa_alu64_store v =
     [(ADD64_IMM, True, ''add64'', AluImm),
      (ADD64_REG, True, ''add64'', AluReg),
      (SUB64_IMM, True, ''sub64'', AluImm),
      (SUB64_REG, True, ''sub64'', AluReg),
      (MUL64_IMM, \<not> enable_pqr v, ''mul64'', AluImm),
      (ST_1B_IMM, move_memory_instruction_classes v, ''stb'', StImm),
      (MUL64_REG, \<not> enable_pqr v, ''mul64'', AluReg),
      (ST_1B_REG, move_memory_instruction_classes v, ''stxb'', StReg),
      (DIV64_IMM, \<not> enable_pqr v, ''div64'', AluImm),
      (ST_2B_IMM, move_memory_instruction_classes v, ''sth'', StImm),
      (DIV64_REG, \<not> enable_pqr v, ''div64'', AluReg),
      (ST_2B_REG, move_memory_instruction_classes v, ''stxh'', StReg),
      (OR64_IMM, True, ''or64'', AluImm),
      (OR64_REG, True, ''or64'', AluReg),
      (AND64_IMM, True, ''and64'', AluImm),
      (AND64_REG, True, ''and64'', AluReg),
      (LSH64_IMM, True, ''lsh64'', AluImm),
      (LSH64_REG, True, ''lsh64'', AluReg),
      (RSH64_IMM, True, ''rsh64'', AluImm),
      (RSH64_REG, True, ''rsh64'', AluReg),
      (ST_4B_IMM, move_memory_instruction_classes v, ''stw'', StImm),
      (NEG64, \<not> disable_neg v, ''neg64'', Unary),
      (ST_4B_REG, move_memory_instruction_classes v, ''stxw'', StReg),
      (MOD64_IMM, \<not> enable_pqr v, ''mod64'', AluImm),
      (ST_8B_IMM, move_memory_instruction_classes v, ''stdw'', StImm),
      (MOD64_REG, \<not> enable_pqr v, ''mod64'', AluReg),
      (ST_8B_REG, move_memory_instruction_classes v, ''stxdw'', StReg),
      (XOR64_IMM, True, ''xor64'', AluImm),
      (XOR64_REG, True, ''xor64'', AluReg),
      (MOV64_IMM, True, ''mov64'', AluImm),
      (MOV64_REG, True, ''mov64'', AluReg),
      (ARSH64_IMM, True, ''arsh64'', AluImm),
      (ARSH64_REG, True, ''arsh64'', AluReg),
      (HOR64_IMM, True, ''hor64'', AluImm)]"

definition isa_pqr :: "SBPFVersion \<Rightarrow> isa_arm list" where
  "isa_pqr v =
     [(LMUL32_IMM, enable_pqr v, ''lmul32'', AluImm),
      (LMUL32_REG, enable_pqr v, ''lmul32'', AluReg),
      (LMUL64_IMM, enable_pqr v, ''lmul64'', AluImm),
      (LMUL64_REG, enable_pqr v, ''lmul64'', AluReg),
      (UHMUL64_IMM, enable_pqr v, ''uhmul64'', AluImm),
      (UHMUL64_REG, enable_pqr v, ''uhmul64'', AluReg),
      (SHMUL64_IMM, enable_pqr v, ''shmul64'', AluImm),
      (SHMUL64_REG, enable_pqr v, ''shmul64'', AluReg),
      (UDIV32_IMM, enable_pqr v, ''udiv32'', AluImm),
      (UDIV32_REG, enable_pqr v, ''udiv32'', AluReg),
      (UDIV64_IMM, enable_pqr v, ''udiv64'', AluImm),
      (UDIV64_REG, enable_pqr v, ''udiv64'', AluReg),
      (UREM32_IMM, enable_pqr v, ''urem32'', AluImm),
      (UREM32_REG, enable_pqr v, ''urem32'', AluReg),
      (UREM64_IMM, enable_pqr v, ''urem64'', AluImm),
      (UREM64_REG, enable_pqr v, ''urem64'', AluReg),
      (SDIV32_IMM, enable_pqr v, ''sdiv32'', AluImm),
      (SDIV32_REG, enable_pqr v, ''sdiv32'', AluReg),
      (SDIV64_IMM, enable_pqr v, ''sdiv64'', AluImm),
      (SDIV64_REG, enable_pqr v, ''sdiv64'', AluReg),
      (SREM32_IMM, enable_pqr v, ''srem32'', AluImm),
      (SREM32_REG, enable_pqr v, ''srem32'', AluReg),
      (SREM64_IMM, enable_pqr v, ''srem64'', AluImm),
      (SREM64_REG, enable_pqr v, ''srem64'', AluReg)]"

definition isa_jmp32 :: "SBPFVersion \<Rightarrow> isa_arm list" where
  "isa_jmp32 v =
     [(JEQ32_IMM, enable_jmp32 v, ''jeq32'', JmpImm),
      (JEQ32_REG, enable_jmp32 v, ''jeq32'', JmpReg),
      (JGT32_IMM, enable_jmp32 v, ''jgt32'', JmpImm),
      (JGT32_REG, enable_jmp32 v, ''jgt32'', JmpReg),
      (JGE32_IMM, enable_jmp32 v, ''jge32'', JmpImm),
      (JGE32_REG, enable_jmp32 v, ''jge32'', JmpReg),
      (JLT32_IMM, enable_jmp32 v, ''jlt32'', JmpImm),
      (JLT32_REG, enable_jmp32 v, ''jlt32'', JmpReg),
      (JLE32_IMM, enable_jmp32 v, ''jle32'', JmpImm),
      (JLE32_REG, enable_jmp32 v, ''jle32'', JmpReg),
      (JSET32_IMM, enable_jmp32 v, ''jset32'', JmpImm),
      (JSET32_REG, enable_jmp32 v, ''jset32'', JmpReg),
      (JNE32_IMM, enable_jmp32 v, ''jne32'', JmpImm),
      (JNE32_REG, enable_jmp32 v, ''jne32'', JmpReg),
      (JSGT32_IMM, enable_jmp32 v, ''jsgt32'', JmpImm),
      (JSGT32_REG, enable_jmp32 v, ''jsgt32'', JmpReg),
      (JSGE32_IMM, enable_jmp32 v, ''jsge32'', JmpImm),
      (JSGE32_REG, enable_jmp32 v, ''jsge32'', JmpReg),
      (JSLT32_IMM, enable_jmp32 v, ''jslt32'', JmpImm),
      (JSLT32_REG, enable_jmp32 v, ''jslt32'', JmpReg),
      (JSLE32_IMM, enable_jmp32 v, ''jsle32'', JmpImm),
      (JSLE32_REG, enable_jmp32 v, ''jsle32'', JmpReg)]"

definition isa_jmp64 :: "SBPFVersion \<Rightarrow> isa_arm list" where
  "isa_jmp64 v =
     [(JA, True, ''ja'', Ja),
      (JEQ64_IMM, True, ''jeq'', JmpImm),
      (JEQ64_REG, True, ''jeq'', JmpReg),
      (JGT64_IMM, True, ''jgt'', JmpImm),
      (JGT64_REG, True, ''jgt'', JmpReg),
      (JGE64_IMM, True, ''jge'', JmpImm),
      (JGE64_REG, True, ''jge'', JmpReg),
      (JLT64_IMM, True, ''jlt'', JmpImm),
      (JLT64_REG, True, ''jlt'', JmpReg),
      (JLE64_IMM, True, ''jle'', JmpImm),
      (JLE64_REG, True, ''jle'', JmpReg),
      (JSET64_IMM, True, ''jset'', JmpImm),
      (JSET64_REG, True, ''jset'', JmpReg),
      (JNE64_IMM, True, ''jne'', JmpImm),
      (JNE64_REG, True, ''jne'', JmpReg),
      (JSGT64_IMM, True, ''jsgt'', JmpImm),
      (JSGT64_REG, True, ''jsgt'', JmpReg),
      (JSGE64_IMM, True, ''jsge'', JmpImm),
      (JSGE64_REG, True, ''jsge'', JmpReg),
      (JSLT64_IMM, True, ''jslt'', JmpImm),
      (JSLT64_REG, True, ''jslt'', JmpReg),
      (JSLE64_IMM, True, ''jsle'', JmpImm),
      (JSLE64_REG, True, ''jsle'', JmpReg),
      (CALL_IMM, True, ''call'', Call),
      (CALL_REG, True, ''callx'', Callx),
      (EXIT, True, ''exit'', NoArgs)]"

lemmas isa_defs = isa_ld_def isa_ldx_def isa_st_def isa_stx_def isa_alu32_load_def isa_alu64_store_def
  isa_pqr_def isa_jmp32_def isa_jmp64_def

definition isa :: "SBPFVersion \<Rightarrow> isa_arm list" where
  "isa v = isa_ld v @ isa_ldx v @ isa_st v @ isa_stx v @ isa_alu32_load v @ isa_alu64_store v @ isa_pqr v @
     isa_jmp32 v @ isa_jmp64 v"

section \<open>What the disassembler writes\<close>

fun shape_text ::
  "SBPFVersion \<Rightarrow> Insn \<Rightarrow> usize \<Rightarrow> (usize, CfgNode) btree \<Rightarrow> usize FunctionRegistry \<Rightarrow> 'f BuiltinProgram \<Rightarrow>
   string \<Rightarrow> shape \<Rightarrow> string option" where
  "shape_text v insn pc cfg fr loader name AluImm = Some (alu_imm_str name insn)"
| "shape_text v insn pc cfg fr loader name AluReg = Some (alu_reg_str name insn)"
| "shape_text v insn pc cfg fr loader name Unary = Some (name @ '' r'' @ show_u8 (dst insn))"
| "shape_text v insn pc cfg fr loader name Swap = Some (byteswap_str name insn)"
| "shape_text v insn pc cfg fr loader name LdReg = Some (ld_reg_str name insn)"
| "shape_text v insn pc cfg fr loader name StImm = Some (ld_st_imm_str name insn)"
| "shape_text v insn pc cfg fr loader name StReg = Some (st_reg_str name insn)"
| "shape_text v insn pc cfg fr loader name JmpImm = jmp_imm_str name insn cfg"
| "shape_text v insn pc cfg fr loader name JmpReg = jmp_reg_str name insn cfg"
| "shape_text v insn pc cfg fr loader name Ja = ja_str insn cfg"
| "shape_text v insn pc cfg fr loader name Lddw =
     Some (name @ '' r'' @ show_u8 (dst insn) @ '', '' @ show_hex (unat (imm insn)))"
| "shape_text v insn pc cfg fr loader name Call = call_imm_str insn pc fr loader v"
| "shape_text v insn pc cfg fr loader name Callx =
     Some (name @ '' r'' @ show_u8 (if callx_uses_src_reg v then src insn
       else if callx_uses_dst_reg v then dst insn else ucast (imm insn)))"
| "shape_text v insn pc cfg fr loader name NoArgs = Some name"

lemma disasm_arms_isa:
  "disasm_arms v insn pc cfg fr loader =
     map (\<lambda>(op, guard, name, sh). (op, guard, shape_text v insn pc cfg fr loader name sh)) (isa v)"
  unfolding disasm_arms_def isa_def map_append
  by (intro arg_cong2[where f = append];
      simp add: disasm_ld_def disasm_ldx_def disasm_st_def disasm_stx_def disasm_alu32_load_def
        disasm_alu64_store_def disasm_pqr_def disasm_jmp32_def disasm_jmp64_def isa_defs)

lemma select_arm_map:
  "select_arm (map (\<lambda>(op, guard, name, sh). (op, guard, f name sh)) arms) opcode =
     map_option (\<lambda>(name, sh). f name sh) (select_arm arms opcode)"
  by (induction arms) (auto simp: select_arm_def)

lemma disassemble_instruction_isa:
  assumes "select_arm (isa v) (opc insn) = Some (name, sh)"
  shows "disassemble_instruction insn pc cfg fr loader v = shape_text v insn pc cfg fr loader name sh"
  unfolding disassemble_instruction_def disasm_arms_isa select_arm_map using assms by simp

section \<open>What the assembler reads\<close>

text \<open>The operands of a shape, and the fields that the shape does not print: they are zero.\<close>

fun shape_type :: "i64 \<Rightarrow> shape \<Rightarrow> InstructionType" where
  "shape_type width AluImm = AluBinary"
| "shape_type width AluReg = AluBinary"
| "shape_type width Unary = AluUnary"
| "shape_type width Swap = Endian width"
| "shape_type width LdReg = LoadReg"
| "shape_type width StImm = StoreImm"
| "shape_type width StReg = StoreReg"
| "shape_type width JmpImm = JumpConditional"
| "shape_type width JmpReg = JumpConditional"
| "shape_type width Ja = JumpUnconditional"
| "shape_type width Lddw = LoadDwImm"
| "shape_type width Call = CallImm"
| "shape_type width Callx = CallReg"
| "shape_type width NoArgs = NoOperand"

definition shape_mnemonic :: "Insn \<Rightarrow> string \<Rightarrow> shape \<Rightarrow> string" where
  "shape_mnemonic insn name sh = (if sh = Swap then name @ show_i64 (imm insn) else name)"

definition register :: "u8 \<Rightarrow> Operand" where
  "register r = Register (ucast r)"

definition shape_label :: "Insn \<Rightarrow> (usize, CfgNode) btree \<Rightarrow> Operand" where
  "shape_label insn cfg = LabelOperand (dis_resolve_label cfg (nat (int (ptr insn) + sint (off insn) + 1)))"

fun shape_operands :: "SBPFVersion \<Rightarrow> Insn \<Rightarrow> (usize, CfgNode) btree \<Rightarrow> shape \<Rightarrow> Operand list" where
  "shape_operands v insn cfg AluImm = [register (dst insn), Integer (imm insn)]"
| "shape_operands v insn cfg AluReg = [register (dst insn), register (src insn)]"
| "shape_operands v insn cfg Unary = [register (dst insn)]"
| "shape_operands v insn cfg Swap = [register (dst insn)]"
| "shape_operands v insn cfg LdReg = [register (dst insn), Memory (ucast (src insn)) (scast (off insn))]"
| "shape_operands v insn cfg StImm = [Memory (ucast (dst insn)) (scast (off insn)), Integer (imm insn)]"
| "shape_operands v insn cfg StReg = [Memory (ucast (dst insn)) (scast (off insn)), register (src insn)]"
| "shape_operands v insn cfg JmpImm = [register (dst insn), Integer (imm insn), shape_label insn cfg]"
| "shape_operands v insn cfg JmpReg = [register (dst insn), register (src insn), shape_label insn cfg]"
| "shape_operands v insn cfg Ja = [shape_label insn cfg]"
| "shape_operands v insn cfg Lddw = [register (dst insn), Integer (imm insn)]"
| "shape_operands v insn cfg Call = []"
| "shape_operands v insn cfg Callx =
     [register (if callx_uses_src_reg v then src insn
       else if callx_uses_dst_reg v then dst insn else ucast (imm insn))]"
| "shape_operands v insn cfg NoArgs = []"

fun canonical :: "SBPFVersion \<Rightarrow> Insn \<Rightarrow> shape \<Rightarrow> bool" where
  "canonical v insn AluImm \<longleftrightarrow> src insn = 0 \<and> off insn = 0 \<and>
     (opc insn = ADD64_IMM \<and> dst insn = 10 \<longrightarrow> manual_stack_frame_bump v)"
| "canonical v insn AluReg \<longleftrightarrow> off insn = 0 \<and> imm insn = 0"
| "canonical v insn Unary \<longleftrightarrow> src insn = 0 \<and> off insn = 0 \<and> imm insn = 0"
| "canonical v insn Swap \<longleftrightarrow> src insn = 0 \<and> off insn = 0 \<and> imm insn \<in> {16, 32, 64}"
| "canonical v insn LdReg \<longleftrightarrow> imm insn = 0"
| "canonical v insn StImm \<longleftrightarrow> src insn = 0"
| "canonical v insn StReg \<longleftrightarrow> imm insn = 0"
| "canonical v insn JmpImm \<longleftrightarrow> src insn = 0"
| "canonical v insn JmpReg \<longleftrightarrow> imm insn = 0"
| "canonical v insn Ja \<longleftrightarrow> dst insn = 0 \<and> src insn = 0 \<and> imm insn = 0"
| "canonical v insn Lddw \<longleftrightarrow> src insn = 0 \<and> off insn = 0"
| "canonical v insn Call \<longleftrightarrow> False"
| "canonical v insn Callx \<longleftrightarrow> off insn = 0 \<and>
     (if callx_uses_src_reg v then dst insn = 0 \<and> imm insn = 0
      else if callx_uses_dst_reg v then src insn = 0 \<and> imm insn = 0
      else dst insn = 0 \<and> src insn = 0 \<and> imm insn = ucast (ucast (imm insn) :: u8))"
| "canonical v insn NoArgs \<longleftrightarrow> dst insn = 0 \<and> src insn = 0 \<and> off insn = 0 \<and> imm insn = 0"

text \<open>The operation code of the table, without the register flag the assembler adds.\<close>

fun shape_flag :: "shape \<Rightarrow> u8" where
  "shape_flag AluReg = BPF_X"
| "shape_flag JmpReg = BPF_X"
| "shape_flag _ = BPF_K"

definition table_of :: "SBPFVersion \<Rightarrow> shape \<Rightarrow> (string \<times> InstructionType \<times> u8) list" where
  "table_of v sh =
     (if sh \<in> {AluImm, AluReg} then alu_entries @ pqr_entries
      else if sh \<in> {LdReg, StImm, StReg} then mem_entries v
      else if sh \<in> {JmpImm, JmpReg} then jump_entries
      else if sh = Swap then endian_entries else misc_entries)"

definition arm_listed :: "SBPFVersion \<Rightarrow> isa_arm \<Rightarrow> bool" where
  "arm_listed v = (\<lambda>(op, guard, name, sh). guard \<and> sh \<noteq> Call \<longrightarrow>
     (op XOR shape_flag sh) OR shape_flag sh = op \<and>
     (if sh = Swap
      then \<forall>(digits, width) \<in> {(''16'', 16), (''32'', 32), (''64'', 64)}.
        (name @ digits, Endian width, op) \<in> set (table_of v sh)
      else (name, shape_type 0 sh, op XOR shape_flag sh) \<in> set (table_of v sh)))"

lemma isa_listed: "list_all (arm_listed v) (isa v)"
proof -
  have "list_all (arm_listed v) (isa_ld v @ isa_ldx v @ isa_st v @ isa_stx v)"
    by (simp add: isa_defs arm_listed_def table_of_def misc_entries_def mem_entries_def mem_classes_def
        mem_sizes_def opcode)
  moreover have "list_all (arm_listed v) (isa_alu32_load v)" "list_all (arm_listed v) (isa_alu64_store v)"
    by (simp_all add: isa_defs arm_listed_def table_of_def misc_entries_def mem_entries_def mem_classes_def
        mem_sizes_def alu_entries_def alu_binary_ops_def pqr_entries_def endian_entries_def opcode)
  moreover have "list_all (arm_listed v) (isa_pqr v)"
    by (simp add: isa_defs arm_listed_def table_of_def alu_entries_def alu_binary_ops_def pqr_entries_def
        opcode)
  moreover have "list_all (arm_listed v) (isa_jmp32 v)" "list_all (arm_listed v) (isa_jmp64 v)"
    by (simp_all add: isa_defs arm_listed_def table_of_def jump_entries_def jump_conditions_def
        misc_entries_def opcode)
  ultimately show ?thesis by (simp add: isa_def)
qed

section \<open>The text of a statement\<close>

text \<open>The forms of an operand that the disassembler uses, as \<open>operand\<close> of \<^verbatim>\<open>asm_parser.rs\<close> reads them:
  a register, a decimal or hexadecimal number, a register with an offset in brackets, a label.
  Operands are separated by a comma and a blank.\<close>

inductive operand_text :: "string \<Rightarrow> Operand \<Rightarrow> bool" where
  register_text: "n < 256 \<Longrightarrow> operand_text (''r'' @ show_nat n) (Register (of_nat n))"
| decimal_text: "- (2 ^ 63) < sint i \<Longrightarrow> operand_text (show_int (sint i)) (Integer i)"
| hex_text: "operand_text (show_hex (unat i)) (Integer i)"
| memory_plus: "n < 256 \<Longrightarrow> k < 2 ^ 63 \<Longrightarrow>
    operand_text (''[r'' @ show_nat n @ ''+'' @ show_hex k @ '']'') (Memory (of_nat n) (of_nat k))"
| memory_minus: "n < 256 \<Longrightarrow> k < 2 ^ 63 \<Longrightarrow>
    operand_text (''[r'' @ show_nat n @ ''-'' @ show_hex k @ '']'') (Memory (of_nat n) (- of_nat k))"
| label_text: "operand_text l (LabelOperand l)"

fun join :: "string list \<Rightarrow> string" where
  "join [] = []"
| "join [t] = t"
| "join (t # ts) = t @ '', '' @ join ts"

definition statement_text :: "string \<Rightarrow> string \<Rightarrow> Operand list \<Rightarrow> bool" where
  "statement_text text name ops \<longleftrightarrow>
     (\<exists>ts. list_all2 operand_text ts ops \<and> text = name @ (if ts = [] then [] else '' '' @ join ts))"

definition register_str :: "u8 \<Rightarrow> string" where
  "register_str r = ''r'' @ show_u8 r"

definition memory_str :: "u8 \<Rightarrow> i16 \<Rightarrow> string" where
  "memory_str r ofs = ''[r'' @ show_u8 r @ signed_off_str ofs @ '']''"

definition target_str :: "Insn \<Rightarrow> (usize, CfgNode) btree \<Rightarrow> string" where
  "target_str insn cfg = dis_resolve_label cfg (nat (int (ptr insn) + sint (off insn) + 1))"

lemma sint_scast_i32: "sint (scast (x :: i32) :: i64) = sint x"
  using sint_greater_eq[of x] sint_less[of x] by (simp add: signed_scast_eq signed_take_bit_int_eq_self_iff)

lemma sint_scast_i16: "sint (scast (x :: i16) :: i64) = sint x"
  using sint_greater_eq[of x] sint_less[of x] by (simp add: signed_scast_eq signed_take_bit_int_eq_self_iff)

lemma unat_u8: "unat (r :: u8) < 256"
  using unsigned_less[of r] by simp

lemma ucast_u8: "(ucast (r :: u8) :: i64) = of_nat (unat r)"
  by simp

lemma sint_ucast_u8: "sint (ucast (r :: u8) :: i64) = uint r"
  unfolding ucast_u8 using unat_u8[of r] by (subst sint_of_nat_small) simp_all

lemma register_operand: "operand_text (register_str r) (register r)"
  unfolding register_str_def register_def show_u8_def ucast_u8 by (rule register_text) (rule unat_u8)

lemma encodable_imm:
  assumes "insn_encodable insn"
  shows "- (2 ^ 31) \<le> sint (imm insn)" "sint (imm insn) < 2 ^ 31"
proof -
  have "imm insn = scast (ucast (imm insn) :: i32)" using assms by (simp add: insn_encodable_def)
  then have "sint (imm insn) = sint (ucast (imm insn) :: i32)" by (metis sint_scast_i32)
  then show "- (2 ^ 31) \<le> sint (imm insn)" "sint (imm insn) < 2 ^ 31"
    using sint_ge[of "ucast (imm insn) :: i32"] sint_less[of "ucast (imm insn) :: i32"] by simp_all
qed

lemma immediate_operand:
  assumes "insn_encodable insn"
  shows "operand_text (show_i64 (imm insn)) (Integer (imm insn))"
  unfolding show_i64_def using encodable_imm(1)[OF assms] by (intro decimal_text) simp

lemma memory_operand:
  "operand_text (memory_str r ofs) (Memory (ucast r) (scast ofs))"
proof -
  have o: "(scast ofs :: i64) = word_of_int (sint ofs)" by (rule scast_eq)
  have b: "- (2 ^ 15) \<le> sint ofs" "sint ofs < 2 ^ 15" using sint_ge[of ofs] sint_less[of ofs] by simp_all
  show ?thesis
  proof (cases "sint ofs < 0")
    case True
    then have e: "(scast ofs :: i64) = - of_nat (nat (- sint ofs))" unfolding o by simp
    have "operand_text (''[r'' @ show_nat (unat r) @ ''-'' @ show_hex (nat (- sint ofs)) @ '']'')
        (Memory (of_nat (unat r)) (- of_nat (nat (- sint ofs))))"
      by (rule memory_minus) (use unat_u8[of r] b in simp_all)
    with True show ?thesis unfolding e ucast_u8 memory_str_def show_u8_def signed_off_str_def by (simp only: if_True append_assoc)
  next
    case False
    then have e: "(scast ofs :: i64) = of_nat (nat (sint ofs))" unfolding o by simp
    have "operand_text (''[r'' @ show_nat (unat r) @ ''+'' @ show_hex (nat (sint ofs)) @ '']'')
        (Memory (of_nat (unat r)) (of_nat (nat (sint ofs))))"
      by (rule memory_plus) (use unat_u8[of r] b in simp_all)
    with False show ?thesis unfolding e ucast_u8 memory_str_def show_u8_def signed_off_str_def by (simp only: if_False append_assoc)
  qed
qed

section \<open>The round trip\<close>

lemma dis_target_pc_eq:
  assumes "ptr insn < 2 ^ 60" "0 \<le> int (ptr insn) + sint (off insn) + 1"
  shows "dis_target_pc insn = Some (nat (int (ptr insn) + sint (off insn) + 1))"
proof -
  let ?o = "scast (off insn) :: i64" and ?t = "int (ptr insn) + sint (off insn)"
  have o: "sint ?o = sint (off insn)" by (rule sint_scast_i16)
  have b: "sint (off insn) < 2 ^ 15" using sint_less[of "off insn"] by simp
  have p: "sint (of_nat (ptr insn) :: i64) = int (ptr insn)" using assms(1) by (intro sint_of_nat_small) simp
  have e: "(of_nat (ptr insn) + ?o :: i64) = word_of_int ?t" unfolding scast_eq by simp
  have t: "sint (word_of_int ?t :: i64) = ?t"
    unfolding signed_of_int using assms b by (simp add: signed_take_bit_int_eq_self)
  have "signed_add_ovf (of_nat (ptr insn)) ?o = Some (word_of_int ?t)"
    unfolding signed_add_ovf_def o p e using assms b by (simp add: int_fits_def sint_min_def sint_max_def)
  moreover have "signed_add_ovf (word_of_int ?t :: i64) 1 = Some (word_of_int (?t + 1))"
    unfolding signed_add_ovf_def t using assms b by (simp add: int_fits_def sint_min_def sint_max_def)
  moreover have "unat (word_of_int (?t + 1) :: i64) = nat (?t + 1)"
  proof -
    have "uint (word_of_int (?t + 1) :: i64) = ?t + 1"
      unfolding unsigned_of_int using assms b by (simp add: take_bit_int_eq_self)
    then show ?thesis by (simp only: unat_eq_nat_uint)
  qed
  ultimately show ?thesis unfolding dis_target_pc_def by (simp only: Option.bind.simps)
qed

definition jump_ok :: "Insn \<Rightarrow> (usize, CfgNode) btree \<Rightarrow> (string \<rightharpoonup> usize) \<Rightarrow> bool" where
  "jump_ok insn cfg labels \<longleftrightarrow>
     (let target = int (ptr insn) + sint (off insn) + 1 in
      ptr insn < 2 ^ 60 \<and> 0 \<le> target \<and>
      labels (dis_resolve_label cfg (nat target)) = Some (nat target))"

lemma jump_text:
  assumes "jump_ok insn cfg labels"
  shows "dis_target_pc insn = Some (nat (int (ptr insn) + sint (off insn) + 1))"
  using assms by (intro dis_target_pc_eq) (simp_all add: jump_ok_def Let_def)

lemmas shape_strings = alu_imm_str_def alu_reg_str_def byteswap_str_def ld_reg_str_def ld_st_imm_str_def
  st_reg_str_def jmp_imm_str_def jmp_reg_str_def ja_str_def

fun shape_texts :: "SBPFVersion \<Rightarrow> Insn \<Rightarrow> (usize, CfgNode) btree \<Rightarrow> shape \<Rightarrow> string list" where
  "shape_texts v insn cfg AluImm = [register_str (dst insn), show_i64 (imm insn)]"
| "shape_texts v insn cfg AluReg = [register_str (dst insn), register_str (src insn)]"
| "shape_texts v insn cfg Unary = [register_str (dst insn)]"
| "shape_texts v insn cfg Swap = [register_str (dst insn)]"
| "shape_texts v insn cfg LdReg = [register_str (dst insn), memory_str (src insn) (off insn)]"
| "shape_texts v insn cfg StImm = [memory_str (dst insn) (off insn), show_i64 (imm insn)]"
| "shape_texts v insn cfg StReg = [memory_str (dst insn) (off insn), register_str (src insn)]"
| "shape_texts v insn cfg JmpImm = [register_str (dst insn), show_i64 (imm insn), target_str insn cfg]"
| "shape_texts v insn cfg JmpReg = [register_str (dst insn), register_str (src insn), target_str insn cfg]"
| "shape_texts v insn cfg Ja = [target_str insn cfg]"
| "shape_texts v insn cfg Lddw = [register_str (dst insn), show_hex (unat (imm insn))]"
| "shape_texts v insn cfg Call = []"
| "shape_texts v insn cfg Callx =
     [register_str (if callx_uses_src_reg v then src insn
       else if callx_uses_dst_reg v then dst insn else ucast (imm insn))]"
| "shape_texts v insn cfg NoArgs = []"

lemma shape_texts_operands:
  assumes "canonical v insn sh" "insn_encodable insn"
  shows "list_all2 operand_text (shape_texts v insn cfg sh) (shape_operands v insn cfg sh)"
  using assms
  by (cases sh) (simp_all add: register_operand memory_operand immediate_operand hex_text label_text
      shape_label_def target_str_def)

lemma shape_text_join:
  assumes "canonical v insn sh" "sh \<in> {JmpImm, JmpReg, Ja} \<longrightarrow> jump_ok insn cfg labels"
    and "sh = Ja \<longrightarrow> name = ''ja''"
  shows "shape_text v insn pc cfg fr loader name sh =
    Some (shape_mnemonic insn name sh @
      (if shape_texts v insn cfg sh = [] then [] else '' '' @ join (shape_texts v insn cfg sh)))"
  using assms
  by (cases sh) (simp_all add: shape_mnemonic_def shape_strings jump_text register_str_def memory_str_def
      target_str_def)

lemma shape_text_statement:
  assumes "canonical v insn sh" "insn_encodable insn" "sh \<in> {JmpImm, JmpReg, Ja} \<longrightarrow> jump_ok insn cfg labels"
    and "sh = Ja \<longrightarrow> name = ''ja''"
  shows "\<exists>text. shape_text v insn pc cfg fr loader name sh = Some text \<and>
    statement_text text (shape_mnemonic insn name sh) (shape_operands v insn cfg sh)"
  unfolding shape_text_join[OF assms(1,3,4)] statement_text_def
  using shape_texts_operands[OF assms(1,2)] by blast

lemma ucast_ucast_u8: "ucast (ucast (r :: u8) :: i64) = r"
  by (rule bit_word_eqI) (simp add: bit_simps)

lemma ucast_u8_10: "ucast (r :: u8) = (10 :: i64) \<longleftrightarrow> r = 10"
  using ucast_ucast_u8[of r] by auto

lemma asm_insn_insn:
  assumes "insn_encodable insn"
  shows "asm_insn (opc insn) (ucast (dst insn)) (ucast (src insn)) (scast (off insn)) (imm insn) =
    Inr (insn\<lparr>ptr := 0\<rparr>)"
proof -
  have "uint (dst insn) < 16" "uint (src insn) < 16"
    using assms by (simp_all add: insn_encodable_def word_less_def)
  moreover have "ucast (scast x :: i64) = x" for x :: i16
    by (rule bit_word_eqI) (simp add: bit_simps)
  ultimately show ?thesis
    using encodable_imm[OF assms] sint_ge[of "off insn"] sint_less[of "off insn"]
    by (simp add: asm_insn_def sint_ucast_u8 sint_scast_i16 ucast_ucast_u8)
qed

lemma asm_resolve_jump:
  assumes "jump_ok insn cfg labels"
  shows "asm_resolve_label (ptr insn) labels
      (dis_resolve_label cfg (nat (int (ptr insn) + sint (off insn) + 1))) = Some (Inr (scast (off insn)))"
proof -
  let ?t = "int (ptr insn) + sint (off insn) + 1"
  have j: "ptr insn < 2 ^ 60" "0 \<le> ?t" "labels (dis_resolve_label cfg (nat ?t)) = Some (nat ?t)"
    using assms by (auto simp: jump_ok_def Let_def)
  have b: "- (2 ^ 15) \<le> sint (off insn)" "sint (off insn) < 2 ^ 15"
    using sint_ge[of "off insn"] sint_less[of "off insn"] by simp_all
  have p: "sint (of_nat (ptr insn) :: i64) = int (ptr insn)" using j by (intro sint_of_nat_small) simp
  have t: "sint (of_nat (nat ?t) :: i64) = ?t" using j b by (subst sint_of_nat_small) simp_all
  have e: "of_nat (nat ?t) - of_nat (ptr insn) = (word_of_int (sint (off insn) + 1) :: i64)" using j by simp
  have s: "sint (word_of_int (sint (off insn) + 1) :: i64) = sint (off insn) + 1"
    unfolding signed_of_int using b by (simp add: signed_take_bit_int_eq_self)
  have "signed_sub_ovf (of_nat (nat ?t)) (of_nat (ptr insn)) = Some (word_of_int (sint (off insn) + 1) :: i64)"
    unfolding signed_sub_ovf_def t p e using b by (simp add: int_fits_def sint_min_def sint_max_def)
  moreover have "signed_sub_ovf (word_of_int (sint (off insn) + 1) :: i64) 1 = Some (scast (off insn))"
    unfolding signed_sub_ovf_def s using b by (simp add: int_fits_def sint_min_def sint_max_def)
  ultimately show ?thesis using j(3) by (simp add: asm_resolve_label_def)
qed

lemma low_half:
  assumes "insn_encodable insn"
  shows "signed_drop_bit 32 (push_bit 32 (imm insn)) = imm insn"
proof -
  have e: "imm insn = scast (ucast (imm insn) :: i32)" using assms by (simp add: insn_encodable_def)
  show ?thesis by (subst (2) e) (rule bit_word_eqI, auto simp: bit_simps)
qed

lemma assemble_shape:
  assumes "canonical v insn sh" "insn_encodable insn" "sh \<in> {JmpImm, JmpReg, Ja} \<longrightarrow> jump_ok insn cfg labels"
    and "op OR shape_flag sh = opc insn"
  shows "assemble_operands hash v labels (ptr insn) (shape_type (imm insn) sh) op (shape_operands v insn cfg sh) =
    Some (Inr (insn\<lparr>ptr := 0\<rparr>))"
proof -
  note i = asm_insn_insn[OF assms(2)]
  have k: "x OR BPF_K = x" for x :: u8 by (simp add: BPF_K_def)
  show ?thesis using assms i
    by (cases sh) (auto simp: assemble_operands_def register_def shape_label_def k low_half
        asm_resolve_jump ucast_u8_10)
qed

lemma select_arm_Some:
  assumes "select_arm arms opcode = Some x"
  shows "\<exists>guard. (opcode, guard, x) \<in> set arms \<and> guard"
proof -
  from assms obtain op guard where "find (\<lambda>(op, guard, _). op = opcode \<and> guard) arms = Some (op, guard, x)"
    by (auto simp: select_arm_def)
  then show ?thesis by (auto simp: find_Some_iff intro: nth_mem) (metis nth_mem)
qed

lemma isa_ja: "(op, guard, name, Ja) \<in> set (isa v) \<Longrightarrow> name = ''ja''"
  by (simp add: isa_def isa_defs)

lemma table_of_instruction_table: "set (table_of v sh) \<subseteq> set (instruction_table v)"
  by (auto simp: table_of_def instruction_table_def)

lemma isa_instruction_map:
  assumes "select_arm (isa v) (opc insn) = Some (name, sh)" and "canonical v insn sh"
  shows "\<exists>op. make_instruction_map v (shape_mnemonic insn name sh) = Some (shape_type (imm insn) sh, op) \<and>
    op OR shape_flag sh = opc insn"
proof -
  from select_arm_Some[OF assms(1)] have "arm_listed v (opc insn, True, name, sh)"
    using isa_listed[of v] by (auto simp: list_all_iff)
  then have l: "(opc insn XOR shape_flag sh) OR shape_flag sh = opc insn"
    "if sh = Swap
      then \<forall>(digits, width) \<in> {(''16'', 16), (''32'', 32), (''64'', 64)}.
        (name @ digits, Endian width, opc insn) \<in> set (table_of v sh)
      else (name, shape_type 0 sh, opc insn XOR shape_flag sh) \<in> set (table_of v sh)"
    using assms(2) by (cases sh; simp add: arm_listed_def)+
  have "show_i64 16 = ''16''" "show_i64 32 = ''32''" "show_i64 64 = ''64''"
    by (simp_all add: show_i64_def show_int_def show_nat.simps char_of_def bit_0)
  then have "(shape_mnemonic insn name sh, shape_type (imm insn) sh, opc insn XOR shape_flag sh)
      \<in> set (table_of v sh)"
    using l(2) assms(2) by (cases sh) (auto simp: shape_mnemonic_def BPF_K_def)
  then show ?thesis
    using table_of_instruction_table l(1) by (auto simp: instruction_map_iff)
qed



section \<open>Where the round trip fails\<close>

text \<open>The mnemonics of multiplication, division and negation are entries of the map for every version.
  In V2 their operation codes are those of stores, so the assembler turns a multiplication into a
  store without an error.\<close>

lemma mul_assembles_to_store:
  "make_instruction_map V2 ''mul64'' = Some (AluBinary, ST_1B_IMM)"
  "assemble_operands hash V2 labels p AluBinary ST_1B_IMM [Register 1, Integer 5] =
     Some (Inr \<lparr>ptr = 0, opc = ST_1B_IMM, dst = 1, src = 0, off = 0, imm = 5\<rparr>)"
  "disassemble_instruction \<lparr>ptr = 0, opc = ST_1B_IMM, dst = 1, src = 0, off = 0, imm = 5\<rparr> pc cfg fr loader V2 =
     Some ''stb [r1+0x0], 5''"
proof -
  show "make_instruction_map V2 ''mul64'' = Some (AluBinary, ST_1B_IMM)"
    by (simp add: instruction_map_iff instruction_table_def alu_entries_def alu_binary_ops_def opcode)
  show "assemble_operands hash V2 labels p AluBinary ST_1B_IMM [Register 1, Integer 5] =
      Some (Inr \<lparr>ptr = 0, opc = ST_1B_IMM, dst = 1, src = 0, off = 0, imm = 5\<rparr>)"
    by (simp add: assemble_operands_def asm_insn_def opcode)
  have "select_arm (isa V2) ST_1B_IMM = Some (''stb'', StImm)"
    by (simp add: select_arm_def isa_def isa_defs features opcode)
  then show "disassemble_instruction \<lparr>ptr = 0, opc = ST_1B_IMM, dst = 1, src = 0, off = 0, imm = 5\<rparr> pc cfg fr
      loader V2 = Some ''stb [r1+0x0], 5''"
    by (simp add: disassemble_instruction_isa ld_st_imm_str_def show_u8_def show_i64_def show_int_def
        show_nat.simps char_of_def bit_0 signed_off_str_def show_hex_def show_hex_digits.simps)
qed

text \<open>Before V3 the assembler leaves the source register of a call zero, and the disassembler takes a
  zero source register for a system call, whatever the registry knows about the target.\<close>

lemma assembled_call_prints_syscall:
  assumes "\<not> static_syscalls v" "labels l = Some t" "t < 2 ^ 31"
  shows "assemble_operands hash v labels p CallImm CALL_IMM [LabelOperand l] =
      Some (Inr \<lparr>ptr = 0, opc = CALL_IMM, dst = 0, src = 0, off = 0, imm = of_nat t\<rparr>)"
    and "\<exists>nm. disassemble_instruction \<lparr>ptr = q, opc = CALL_IMM, dst = 0, src = 0, off = 0, imm = of_nat t\<rparr> pc cfg
      fr loader v = Some (''syscall '' @ nm)"
proof -
  have "sint (of_nat t :: i64) = int t" using assms(3) by (intro sint_of_nat_small) simp
  then show "assemble_operands hash v labels p CallImm CALL_IMM [LabelOperand l] =
      Some (Inr \<lparr>ptr = 0, opc = CALL_IMM, dst = 0, src = 0, off = 0, imm = of_nat t\<rparr>)"
    using assms by (simp add: assemble_operands_def assemble_call_label_def asm_insn_def)
  have "select_arm (isa v) CALL_IMM = Some (''call'', Call)"
    by (simp add: select_arm_def isa_def isa_defs opcode)
  then show "\<exists>nm. disassemble_instruction \<lparr>ptr = q, opc = CALL_IMM, dst = 0, src = 0, off = 0, imm = of_nat t\<rparr> pc
      cfg fr loader v = Some (''syscall '' @ nm)"
    by (simp add: disassemble_instruction_isa call_imm_str_def Let_def)
qed

text \<open>A negative count of a fill directive makes the two passes disagree.  The first pass adds the count
  as an unsigned number, so the next instruction overflows the instruction pointer.\<close>

lemma negative_fill_panics:
  "assemble_statements hash v [Directive ''fill'' [Integer (-1), Integer 0], InstructionStatement ''exit'' []] = None"
  by (simp add: assemble_statements_def usize_add_ovf_def usize_max_def unsigned_minus_1_eq_mask
      mask_eq_exp_minus_1)

end
