(* ===== verification/Aligned_Memory.thy ===== *)
theory Aligned_Memory
  imports Errors
begin

text \<open>
  The aligned byte buffer of \<^verbatim>\<open>src/src/aligned_memory.rs\<close>.  A \<open>Vec<u8>\<close> is its address, its contents and
  the bytes of its spare capacity, which are arbitrary for a fresh allocation and which
  \<open>set_len\<close> turns into contents.  The allocator is a parameter: \<open>alloc\<close> answers the first allocation
  of a vector and \<open>realloc\<close> an allocation that replaces one that is too small; both return an address and the
  bytes found there.  The value \<open>None\<close> is a panic, a failed \<open>debug_assert\<close> or undefined behaviour.
\<close>

section \<open>Vectors\<close>

record Vec =
  v_ptr :: nat
  v_data :: bytes
  v_spare :: bytes

type_synonym allocator = "usize \<Rightarrow> nat \<times> bytes"

definition alloc_ok :: "allocator \<Rightarrow> bool" where
  "alloc_ok alloc \<longleftrightarrow> (\<forall>n. n \<le> length (snd (alloc n)))"

definition vec_capacity :: "Vec \<Rightarrow> usize" where
  "vec_capacity v = length (v_data v) + length (v_spare v)"

definition vec_with_capacity :: "allocator \<Rightarrow> usize \<Rightarrow> Vec" where
  "vec_with_capacity alloc n = \<lparr>v_ptr = fst (alloc n), v_data = [], v_spare = snd (alloc n)\<rparr>"

definition vec_zeroed :: "allocator \<Rightarrow> usize \<Rightarrow> Vec" where
  "vec_zeroed alloc n = \<lparr>v_ptr = fst (alloc n), v_data = replicate n 0, v_spare = []\<rparr>"

definition vec_extend :: "allocator \<Rightarrow> bytes \<Rightarrow> Vec \<Rightarrow> Vec" where
  "vec_extend realloc bs v =
     (let n = length (v_data v) + length bs in
      if n \<le> vec_capacity v
      then v\<lparr>v_data := v_data v @ bs, v_spare := drop (length bs) (v_spare v)\<rparr>
      else \<lparr>v_ptr = fst (realloc n), v_data = v_data v @ bs, v_spare = drop n (snd (realloc n))\<rparr>)"

definition vec_truncate :: "usize \<Rightarrow> Vec \<Rightarrow> Vec" where
  "vec_truncate n v = v\<lparr>v_data := take n (v_data v), v_spare := drop n (v_data v) @ v_spare v\<rparr>"

definition vec_resize :: "allocator \<Rightarrow> usize \<Rightarrow> u8 \<Rightarrow> Vec \<Rightarrow> Vec" where
  "vec_resize realloc n b v =
     (if n \<le> length (v_data v) then vec_truncate n v
      else vec_extend realloc (replicate (n - length (v_data v)) b) v)"

definition vec_set_len :: "usize \<Rightarrow> Vec \<Rightarrow> Vec option" where
  "vec_set_len n v =
     (if n \<le> vec_capacity v
      then Some (v\<lparr>v_data := take n (v_data v @ v_spare v), v_spare := drop n (v_data v @ v_spare v)\<rparr>)
      else None)"

text \<open>\<open>ptr.align_offset(align)\<close> for a pointer to bytes.\<close>

definition ptr_align_offset :: "nat \<Rightarrow> usize \<Rightarrow> usize" where
  "ptr_align_offset p align = (align - p mod align) mod align"

section \<open>Aligned memory\<close>

record AlignedMemory =
  max_len :: usize
  align_offset :: usize
  mem :: Vec
  zero_up_to_max_len :: bool

definition get_mem :: "usize \<Rightarrow> allocator \<Rightarrow> usize \<Rightarrow> Vec \<times> usize" where
  "get_mem ALIGN alloc n =
     (let v = vec_with_capacity alloc (usize_saturating_add n ALIGN);
          align_offset = ptr_align_offset (v_ptr v) ALIGN
      in (vec_resize alloc align_offset 0 v, align_offset))"

definition get_mem_zeroed :: "usize \<Rightarrow> allocator \<Rightarrow> allocator \<Rightarrow> usize \<Rightarrow> Vec \<times> usize" where
  "get_mem_zeroed ALIGN alloc realloc n =
     (let v = vec_zeroed alloc n;
          align_offset = ptr_align_offset (v_ptr v) ALIGN
      in (vec_resize realloc (usize_saturating_add n align_offset) 0 v, align_offset))"

definition am_from_slice :: "usize \<Rightarrow> allocator \<Rightarrow> bytes \<Rightarrow> AlignedMemory" where
  "am_from_slice ALIGN alloc data =
     (let (v, ofs) = get_mem ALIGN alloc (length data) in
      \<lparr>max_len = length data, align_offset = ofs, mem = vec_extend alloc data v, zero_up_to_max_len = False\<rparr>)"

definition am_with_capacity :: "usize \<Rightarrow> allocator \<Rightarrow> usize \<Rightarrow> AlignedMemory" where
  "am_with_capacity ALIGN alloc n =
     (let (v, ofs) = get_mem ALIGN alloc n in
      \<lparr>max_len = n, align_offset = ofs, mem = v, zero_up_to_max_len = False\<rparr>)"

definition am_with_capacity_zeroed :: "usize \<Rightarrow> allocator \<Rightarrow> allocator \<Rightarrow> usize \<Rightarrow> AlignedMemory" where
  "am_with_capacity_zeroed ALIGN alloc realloc n =
     (let (v, ofs) = get_mem_zeroed ALIGN alloc realloc n in
      \<lparr>max_len = n, align_offset = ofs, mem = vec_truncate ofs v, zero_up_to_max_len = True\<rparr>)"

definition am_zero_filled :: "usize \<Rightarrow> allocator \<Rightarrow> allocator \<Rightarrow> usize \<Rightarrow> AlignedMemory" where
  "am_zero_filled ALIGN alloc realloc n =
     (let (v, ofs) = get_mem_zeroed ALIGN alloc realloc n in
      \<lparr>max_len = n, align_offset = ofs, mem = v, zero_up_to_max_len = True\<rparr>)"

text \<open>The size of the structure itself depends on the layout the compiler chose.\<close>

definition am_mem_size :: "usize \<Rightarrow> AlignedMemory \<Rightarrow> usize" where
  "am_mem_size size_of_self m = usize_saturating_add (vec_capacity (mem m)) size_of_self"

definition am_len :: "AlignedMemory \<Rightarrow> usize" where
  "am_len m = length (v_data (mem m)) - align_offset m"

definition am_is_empty :: "AlignedMemory \<Rightarrow> bool" where
  "am_is_empty m \<longleftrightarrow> length (v_data (mem m)) = align_offset m"

definition am_write_index :: "AlignedMemory \<Rightarrow> usize" where
  "am_write_index m = length (v_data (mem m))"

definition am_as_slice :: "AlignedMemory \<Rightarrow> bytes option" where
  "am_as_slice m = slice_range (v_data (mem m)) (align_offset m) (length (v_data (mem m)))"

text \<open>What the mutable slice lets a caller do: replace the bytes by as many others.\<close>

definition am_as_slice_mut :: "AlignedMemory \<Rightarrow> bytes \<Rightarrow> AlignedMemory option" where
  "am_as_slice_mut m bs =
     (if align_offset m \<le> length (v_data (mem m)) \<and> length bs = am_len m
      then Some (m\<lparr>mem := (mem m)\<lparr>v_data := take (align_offset m) (v_data (mem m)) @ bs\<rparr>\<rparr>)
      else None)"

datatype io_error = InvalidInput string

text \<open>The new length, when it overflows neither the address space nor the buffer.\<close>

definition am_new_len :: "AlignedMemory \<Rightarrow> usize \<Rightarrow> usize option" where
  "am_new_len m num = do {
     new_len \<leftarrow> usize_add_ovf (length (v_data (mem m))) num;
     allocation_end \<leftarrow> usize_add_ovf (align_offset m) (max_len m);
     if new_len \<le> allocation_end then Some new_len else None
   }"

definition am_fill_write ::
  "allocator \<Rightarrow> usize \<Rightarrow> u8 \<Rightarrow> AlignedMemory \<Rightarrow> (io_error + AlignedMemory) option" where
  "am_fill_write realloc num b m =
     (case am_new_len m num of
        None \<Rightarrow> Some (Inl (InvalidInput ''aligned memory fill_write failed''))
      | Some new_len \<Rightarrow>
          map_option (\<lambda>v. Inr (m\<lparr>mem := v\<rparr>))
            (if zero_up_to_max_len m \<and> b = 0 then vec_set_len new_len (mem m)
             else Some (vec_resize realloc new_len b (mem m))))"

text \<open>The two unchecked writes: a value of \<open>T\<close> is the bytes of its memory representation.\<close>

definition am_write_all_unchecked :: "bytes \<Rightarrow> AlignedMemory \<Rightarrow> AlignedMemory option" where
  "am_write_all_unchecked bs m = do {
     let pos = length (v_data (mem m));
     let new_len = usize_saturating_add pos (length bs);
     if new_len \<le> usize_saturating_add (align_offset m) (max_len m) then do {
       v \<leftarrow> vec_set_len new_len (mem m);
       if new_len - pos = length bs
       then Some (m\<lparr>mem := v\<lparr>v_data := take pos (v_data v) @ bs\<rparr>\<rparr>) else None
     } else None
   }"

definition am_write_unchecked :: "bytes \<Rightarrow> AlignedMemory \<Rightarrow> AlignedMemory option" where
  "am_write_unchecked bs m = am_write_all_unchecked bs m"

definition am_write :: "allocator \<Rightarrow> bytes \<Rightarrow> AlignedMemory \<Rightarrow> io_error + AlignedMemory \<times> usize" where
  "am_write realloc buf m =
     (case am_new_len m (length buf) of
        None \<Rightarrow> Inl (InvalidInput ''aligned memory write failed'')
      | Some _ \<Rightarrow> Inr (m\<lparr>mem := vec_extend realloc buf (mem m)\<rparr>, length buf))"

definition am_flush :: "AlignedMemory \<Rightarrow> io_error + AlignedMemory" where
  "am_flush m = Inr m"

definition am_clone :: "usize \<Rightarrow> allocator \<Rightarrow> AlignedMemory \<Rightarrow> AlignedMemory option" where
  "am_clone ALIGN alloc m = map_option (am_from_slice ALIGN alloc) (am_as_slice m)"

definition am_from :: "usize \<Rightarrow> allocator \<Rightarrow> bytes \<Rightarrow> AlignedMemory" where
  "am_from ALIGN alloc bs = am_from_slice ALIGN alloc bs"

section \<open>Invariant\<close>

text \<open>The buffer never outgrows its allocation, so its address stays; the spare bytes of a buffer that
  was created zeroed are zero up to its maximal length.\<close>

definition am_ok :: "usize \<Rightarrow> AlignedMemory \<Rightarrow> bool" where
  "am_ok ALIGN m \<longleftrightarrow>
     align_offset m \<le> length (v_data (mem m)) \<and>
     length (v_data (mem m)) \<le> align_offset m + max_len m \<and>
     align_offset m + max_len m \<le> vec_capacity (mem m) \<and>
     align_offset m + max_len m \<le> usize_max \<and>
     (v_ptr (mem m) + align_offset m) mod ALIGN = 0 \<and>
     (zero_up_to_max_len m \<longrightarrow>
       (\<forall>b \<in> set (take (align_offset m + max_len m - length (v_data (mem m))) (v_spare (mem m))). b = 0))"

definition am_content :: "AlignedMemory \<Rightarrow> bytes" where
  "am_content m = drop (align_offset m) (v_data (mem m))"

lemma align_offset_aligns: "0 < align \<Longrightarrow> (p + ptr_align_offset p align) mod align = 0"
  unfolding ptr_align_offset_def
  by (metis add.commute le_add_diff_inverse2 mod_add_left_eq mod_add_right_eq mod_le_divisor mod_self)

lemma align_offset_less: "0 < align \<Longrightarrow> ptr_align_offset p align < align"
  by (simp add: ptr_align_offset_def)

lemma vec_extend_fits:
  assumes "length (v_data v) + length bs \<le> vec_capacity v"
  shows "vec_extend realloc bs v = v\<lparr>v_data := v_data v @ bs, v_spare := drop (length bs) (v_spare v)\<rparr>"
    and "vec_capacity (vec_extend realloc bs v) = vec_capacity v"
  using assms by (simp_all add: vec_extend_def vec_capacity_def)

lemma get_mem_spec:
  assumes "0 < ALIGN" "alloc_ok alloc" "n + ALIGN \<le> usize_max" "get_mem ALIGN alloc n = (v, ofs)"
  shows "ofs < ALIGN" "v_data v = replicate ofs 0" "n + ALIGN \<le> vec_capacity v"
    "(v_ptr v + ofs) mod ALIGN = 0"
proof -
  let ?v = "vec_with_capacity alloc (n + ALIGN)" and ?o = "ptr_align_offset (fst (alloc (n + ALIGN))) ALIGN"
  have o: "?o < ALIGN" using assms(1) by (rule align_offset_less)
  have c: "n + ALIGN \<le> vec_capacity ?v"
    using assms(2) by (simp add: vec_with_capacity_def vec_capacity_def alloc_ok_def)
  have fits: "length (v_data ?v) + length (replicate ?o (0 :: u8)) \<le> vec_capacity ?v"
    using o c by (simp add: vec_with_capacity_def)
  have "ofs = ?o" "v = vec_extend alloc (replicate ?o 0) ?v"
    using assms(3,4)
    by (auto simp: get_mem_def Let_def usize_saturating_add_def vec_resize_def vec_with_capacity_def
        vec_truncate_def vec_extend_def vec_capacity_def)
  with vec_extend_fits[OF fits, of alloc] o c align_offset_aligns[OF assms(1), of "fst (alloc (n + ALIGN))"]
  show "ofs < ALIGN" "v_data v = replicate ofs 0" "n + ALIGN \<le> vec_capacity v" "(v_ptr v + ofs) mod ALIGN = 0"
    by (simp_all add: vec_with_capacity_def)
qed

lemma am_with_capacity_ok:
  assumes "0 < ALIGN" "alloc_ok alloc" "n + ALIGN \<le> usize_max"
  shows "am_ok ALIGN (am_with_capacity ALIGN alloc n)" "am_content (am_with_capacity ALIGN alloc n) = []"
    "max_len (am_with_capacity ALIGN alloc n) = n"
proof -
  obtain v ofs where g: "get_mem ALIGN alloc n = (v, ofs)" by fastforce
  from get_mem_spec[OF assms g] assms(3) g
  show "am_ok ALIGN (am_with_capacity ALIGN alloc n)" "am_content (am_with_capacity ALIGN alloc n) = []"
    "max_len (am_with_capacity ALIGN alloc n) = n"
    by (simp_all add: am_with_capacity_def am_ok_def am_content_def)
qed

lemma am_from_slice_ok:
  assumes "0 < ALIGN" "alloc_ok alloc" "length bs + ALIGN \<le> usize_max"
  shows "am_ok ALIGN (am_from_slice ALIGN alloc bs)" "am_content (am_from_slice ALIGN alloc bs) = bs"
proof -
  obtain v ofs where g: "get_mem ALIGN alloc (length bs) = (v, ofs)" by fastforce
  note v = get_mem_spec[OF assms g]
  then have "length (v_data v) + length bs \<le> vec_capacity v" by simp
  from vec_extend_fits[OF this, of alloc] v assms(3) g
  show "am_ok ALIGN (am_from_slice ALIGN alloc bs)" "am_content (am_from_slice ALIGN alloc bs) = bs"
    by (simp_all add: am_from_slice_def am_ok_def am_content_def)
qed

text \<open>The zeroed constructors keep their alignment when the first allocation is aligned: then nothing is
  added in front and the vector is not moved.\<close>

lemma am_zeroed_ok:
  assumes "0 < ALIGN" "n \<le> usize_max" "fst (alloc n) mod ALIGN = 0"
  shows "am_ok ALIGN (am_with_capacity_zeroed ALIGN alloc realloc n)"
    and "am_ok ALIGN (am_zero_filled ALIGN alloc realloc n)"
    and "am_content (am_with_capacity_zeroed ALIGN alloc realloc n) = []"
    and "am_content (am_zero_filled ALIGN alloc realloc n) = replicate n 0"
proof -
  have "ptr_align_offset (fst (alloc n)) ALIGN = 0" using assms by (simp add: ptr_align_offset_def)
  then have g: "get_mem_zeroed ALIGN alloc realloc n = (vec_zeroed alloc n, 0)"
    using assms(2) by (simp add: get_mem_zeroed_def Let_def vec_zeroed_def vec_resize_def vec_truncate_def
        usize_saturating_add_def)
  show "am_ok ALIGN (am_with_capacity_zeroed ALIGN alloc realloc n)"
    "am_ok ALIGN (am_zero_filled ALIGN alloc realloc n)"
    "am_content (am_with_capacity_zeroed ALIGN alloc realloc n) = []"
    "am_content (am_zero_filled ALIGN alloc realloc n) = replicate n 0"
    using assms by (simp_all add: g am_with_capacity_zeroed_def am_zero_filled_def am_ok_def am_content_def
        vec_zeroed_def vec_truncate_def vec_capacity_def)
qed

section \<open>Operations\<close>

lemma am_as_slice_ok: "am_ok ALIGN m \<Longrightarrow> am_as_slice m = Some (am_content m)"
  by (simp add: am_ok_def am_as_slice_def am_content_def slice_range_def)

lemma am_content_length: "am_ok ALIGN m \<Longrightarrow> length (v_data (mem m)) = align_offset m + length (am_content m)"
  by (simp add: am_ok_def am_content_def)

lemma am_new_len_iff:
  assumes "am_ok ALIGN m"
  shows "am_new_len m num =
    (if length (am_content m) + num \<le> max_len m then Some (length (v_data (mem m)) + num) else None)"
  using assms am_content_length[OF assms]
  by (auto simp: am_new_len_def am_ok_def usize_add_ovf_def bind_eq_Some_conv)

text \<open>Appending to the contents, whatever way the bytes got there.\<close>

definition am_append :: "bytes \<Rightarrow> AlignedMemory \<Rightarrow> AlignedMemory" where
  "am_append bs m =
     m\<lparr>mem := (mem m)\<lparr>v_data := v_data (mem m) @ bs, v_spare := drop (length bs) (v_spare (mem m))\<rparr>\<rparr>"

lemma take_drop_subset: "set (take n (drop k xs)) \<subseteq> set (take (n + k) xs)"
  by (metis set_drop_subset take_drop)

lemma am_append_ok:
  assumes "am_ok ALIGN m" "length (am_content m) + length bs \<le> max_len m"
  shows "am_ok ALIGN (am_append bs m)" "am_content (am_append bs m) = am_content m @ bs"
proof -
  have "set (take (align_offset m + max_len m - (length (v_data (mem m)) + length bs)) (drop (length bs) (v_spare (mem m))))
      \<subseteq> set (take (align_offset m + max_len m - length (v_data (mem m))) (v_spare (mem m)))"
    using take_drop_subset[of "align_offset m + max_len m - (length (v_data (mem m)) + length bs)" "length bs"
        "v_spare (mem m)"] assms am_content_length[OF assms(1)]
    by (simp add: algebra_simps)
  then show "am_ok ALIGN (am_append bs m)"
    using assms am_content_length[OF assms(1)]
    by (auto simp: am_ok_def am_append_def vec_capacity_def)
  show "am_content (am_append bs m) = am_content m @ bs"
    using assms by (simp add: am_content_def am_append_def am_ok_def)
qed

lemma am_write_fits:
  assumes "am_ok ALIGN m" "length (am_content m) + length bs \<le> max_len m"
  shows "am_write realloc bs m = Inr (am_append bs m, length bs)"
proof -
  have "length (v_data (mem m)) + length bs \<le> vec_capacity (mem m)"
    using assms am_content_length[OF assms(1)] by (simp add: am_ok_def)
  then show ?thesis
    using assms by (simp add: am_write_def am_new_len_iff vec_extend_fits am_append_def)
qed

lemma zero_spare:
  assumes "\<forall>b \<in> set (take k xs). b = (0 :: u8)" "n \<le> k" "k \<le> length xs"
  shows "take n xs = replicate n 0"
proof -
  have "take k xs = replicate k 0" using assms(1,3) by (intro replicate_eqI) simp_all
  then have "take n (take k xs) = replicate n 0" using assms(2) by simp
  then show ?thesis using assms(2) by (simp add: min_def)
qed

lemma am_fill_write_fits:
  assumes ok: "am_ok ALIGN m" and fits: "length (am_content m) + num \<le> max_len m"
  shows "am_fill_write realloc num b m = Some (Inr (am_append (replicate num b) m))"
proof -
  let ?v = "mem m" and ?n = "length (v_data (mem m)) + num"
  have cap: "?n \<le> vec_capacity ?v"
    using ok fits am_content_length[OF ok] by (simp add: am_ok_def)
  show ?thesis
  proof (cases "zero_up_to_max_len m \<and> b = 0")
    case True
    let ?k = "align_offset m + max_len m - length (v_data ?v)"
    have "take num (v_spare ?v) = replicate num 0"
    proof (rule zero_spare)
      show "\<forall>b \<in> set (take ?k (v_spare ?v)). b = 0" using ok True by (simp add: am_ok_def)
      show "num \<le> ?k" using fits am_content_length[OF ok] by simp
      have "align_offset m + max_len m \<le> length (v_data ?v) + length (v_spare ?v)"
        using ok by (simp add: am_ok_def vec_capacity_def)
      then show "?k \<le> length (v_spare ?v)" by linarith
    qed
    then show ?thesis
      using True ok fits cap by (simp add: am_fill_write_def am_new_len_iff vec_set_len_def am_append_def)
  next
    case False
    have "vec_resize realloc ?n b ?v = vec_extend realloc (replicate num b) ?v"
      by (cases "num = 0") (simp_all add: vec_resize_def vec_truncate_def vec_extend_def vec_capacity_def)
    then show ?thesis
      using False ok fits cap by (auto simp: am_fill_write_def am_new_len_iff vec_extend_fits am_append_def)
  qed
qed

lemma am_write_all_unchecked_fits:
  assumes "am_ok ALIGN m" "length (am_content m) + length bs \<le> max_len m"
  shows "am_write_all_unchecked bs m = Some (am_append bs m)"
proof -
  have "length (v_data (mem m)) + length bs \<le> vec_capacity (mem m)"
    "length (v_data (mem m)) + length bs \<le> align_offset m + max_len m" "align_offset m + max_len m \<le> usize_max"
    using assms am_content_length[OF assms(1)] by (simp_all add: am_ok_def)
  then show ?thesis
    by (simp add: am_write_all_unchecked_def usize_saturating_add_def vec_set_len_def am_append_def Let_def)
qed

section \<open>Sequences of writes\<close>

text \<open>A bounded buffer takes the bytes of an operation while they fit and fails without a change
  otherwise.\<close>

fun buffer_spec :: "nat \<Rightarrow> bytes list \<Rightarrow> bytes \<Rightarrow> bytes \<times> bool list" where
  "buffer_spec limit [] content = (content, [])"
| "buffer_spec limit (bs # bss) content =
     (if length content + length bs \<le> limit
      then map_prod id (Cons True) (buffer_spec limit bss (content @ bs))
      else map_prod id (Cons False) (buffer_spec limit bss content))"

fun run_ops :: "('op \<Rightarrow> 'm \<Rightarrow> ('e + 'm) option) \<Rightarrow> 'op list \<Rightarrow> 'm \<Rightarrow> ('m \<times> bool list) option" where
  "run_ops step [] m = Some (m, [])"
| "run_ops step (op # ops) m =
     (case step op m of
        None \<Rightarrow> None
      | Some (Inl _) \<Rightarrow> map_option (map_prod id (Cons False)) (run_ops step ops m)
      | Some (Inr m') \<Rightarrow> map_option (map_prod id (Cons True)) (run_ops step ops m'))"

locale bounded_buffer =
  fixes ok :: "'m \<Rightarrow> bool" and content :: "'m \<Rightarrow> bytes" and limit :: "'m \<Rightarrow> nat" and address :: "'m \<Rightarrow> nat"
    and step :: "'op \<Rightarrow> 'm \<Rightarrow> ('e + 'm) option" and appended :: "'op \<Rightarrow> bytes"
  assumes step_fits: "ok m \<Longrightarrow> length (content m) + length (appended op) \<le> limit m \<Longrightarrow>
      \<exists>m'. step op m = Some (Inr m') \<and> ok m' \<and> content m' = content m @ appended op \<and>
        limit m' = limit m \<and> address m' = address m"
    and step_full: "ok m \<Longrightarrow> limit m < length (content m) + length (appended op) \<Longrightarrow>
      \<exists>e. step op m = Some (Inl e)"
begin

lemma run_refines:
  "ok m \<Longrightarrow> \<exists>m'. run_ops step ops m = Some (m', snd (buffer_spec (limit m) (map appended ops) (content m))) \<and>
     ok m' \<and> content m' = fst (buffer_spec (limit m) (map appended ops) (content m)) \<and> address m' = address m"
proof (induction ops arbitrary: m)
  case (Cons op ops)
  show ?case
  proof (cases "length (content m) + length (appended op) \<le> limit m")
    case True
    from step_fits[OF Cons.prems this] obtain m1 where "step op m = Some (Inr m1)" "ok m1"
      "content m1 = content m @ appended op" "limit m1 = limit m" "address m1 = address m" by blast
    with Cons.IH[of m1] True show ?thesis by auto
  next
    case False
    with step_full[OF Cons.prems, of op] Cons.IH[OF Cons.prems] show ?thesis by auto
  qed
qed simp

end

datatype am_op = FillWrite usize u8 | WriteBytes bytes

fun am_step :: "allocator \<Rightarrow> am_op \<Rightarrow> AlignedMemory \<Rightarrow> (io_error + AlignedMemory) option" where
  "am_step realloc (FillWrite num b) m = am_fill_write realloc num b m"
| "am_step realloc (WriteBytes bs) m = Some (map_sum id fst (am_write realloc bs m))"

fun am_op_bytes :: "am_op \<Rightarrow> bytes" where
  "am_op_bytes (FillWrite num b) = replicate num b"
| "am_op_bytes (WriteBytes bs) = bs"

definition am_address :: "AlignedMemory \<Rightarrow> nat" where
  "am_address m = v_ptr (mem m) + align_offset m"

interpretation amb: bounded_buffer "am_ok ALIGN" am_content max_len am_address "am_step realloc" am_op_bytes
  for ALIGN realloc
proof
  fix m op
  assume ok: "am_ok ALIGN m" and fits: "length (am_content m) + length (am_op_bytes op) \<le> max_len m"
  then have "am_step realloc op m = Some (Inr (am_append (am_op_bytes op) m))"
    by (cases op) (simp_all add: am_fill_write_fits am_write_fits)
  then show "\<exists>m'. am_step realloc op m = Some (Inr m') \<and> am_ok ALIGN m' \<and>
      am_content m' = am_content m @ am_op_bytes op \<and> max_len m' = max_len m \<and> am_address m' = am_address m"
    using am_append_ok[OF ok fits] by (simp add: am_append_def am_address_def)
next
  fix m op
  assume "am_ok ALIGN m" "max_len m < length (am_content m) + length (am_op_bytes op)"
  then show "\<exists>e. am_step realloc op m = Some (Inl e)"
    by (cases op) (simp_all add: am_fill_write_def am_write_def am_new_len_iff)
qed



text \<open>The zeroed constructors measure the alignment of the first allocation and then resize the vector,
  which moves it when there is an offset to add.  The offset is stale then and the slice can start at any
  address.\<close>

lemma zero_filled_misaligned:
  "\<exists>alloc realloc. alloc_ok alloc \<and> alloc_ok realloc \<and> am_address (am_zero_filled 16 alloc realloc 8) mod 16 \<noteq> 0"
proof (intro exI conjI)
  show "am_address (am_zero_filled 16 (\<lambda>n. (1001, replicate n 0)) (\<lambda>n. (2000, replicate n 0)) 8) mod 16 \<noteq> 0"
    by (simp add: am_zero_filled_def get_mem_zeroed_def Let_def vec_zeroed_def ptr_align_offset_def vec_resize_def
        vec_extend_def vec_capacity_def usize_saturating_add_def usize_max_def am_address_def)
qed (simp_all add: alloc_ok_def)

end
