(* ===== verification/X86.thy ===== *)
theory X86
  imports Prelude "HOL-Library.Monad_Syntax"
begin

text \<open>
  The encoder for x86-64 instructions of \<^verbatim>\<open>src/src/x86.rs\<close>, with the operand sizes of
  \<^verbatim>\<open>src/src/jit.rs\<close>: the record \<open>X86Instruction\<close>, its constructors and the bytes \<open>emit\<close> writes.  A
  constructor that excludes operand sizes with a debug assertion returns \<open>None\<close> for them.
\<close>

unbundle bit_operations_syntax

section \<open>Registers and operands\<close>

datatype OperandSize = S0 | S8 | S16 | S32 | S64

datatype X86Register =
    RAX | RCX | RDX | RBX | RSP | RBP | RSI | RDI | R8 | R9 | R10 | R11 | R12 | R13 | R14 | R15
  | MM0 | MM1 | MM2 | MM3 | MM4 | MM5 | MM6 | MM7

text \<open>The cast \<open>as u8\<close> of a register.\<close>

fun register_number :: "X86Register \<Rightarrow> u8" where
  "register_number RAX = 0"
| "register_number RCX = 1"
| "register_number RDX = 2"
| "register_number RBX = 3"
| "register_number RSP = 4"
| "register_number RBP = 5"
| "register_number RSI = 6"
| "register_number RDI = 7"
| "register_number R8 = 8"
| "register_number R9 = 9"
| "register_number R10 = 10"
| "register_number R11 = 11"
| "register_number R12 = 12"
| "register_number R13 = 13"
| "register_number R14 = 14"
| "register_number R15 = 15"
| "register_number MM0 = 16"
| "register_number MM1 = 17"
| "register_number MM2 = 18"
| "register_number MM3 = 19"
| "register_number MM4 = 20"
| "register_number MM5 = 21"
| "register_number MM6 = 22"
| "register_number MM7 = 23"

definition ARGUMENT_REGISTERS :: "X86Register list" where
  "ARGUMENT_REGISTERS = [RDI, RSI, RDX, RCX, R8, R9]"

definition CALLER_SAVED_REGISTERS :: "X86Register list" where
  "CALLER_SAVED_REGISTERS = [RAX, RCX, RDX, RSI, RDI, R8, R9, R10, R11]"

definition CALLEE_SAVED_REGISTERS :: "X86Register list" where
  "CALLEE_SAVED_REGISTERS = [RBP, RBX, R12, R13, R14, R15]"

record X86Rex =
  rex_w :: bool
  rex_r :: bool
  rex_x :: bool
  rex_b :: bool

record X86ModRm =
  modrm_mode :: u8
  modrm_r :: u8
  modrm_m :: u8

record X86Sib =
  sib_scale :: u8
  sib_index :: u8
  sib_base :: u8

datatype X86IndirectAccess =
    Offset i32
  | OffsetIndexShift i32 X86Register u8

datatype FenceType = FenceLoad | FenceAll | FenceStore

fun fence_number :: "FenceType \<Rightarrow> u8" where
  "fence_number FenceLoad = 5"
| "fence_number FenceAll = 6"
| "fence_number FenceStore = 7"

record X86Instruction =
  x_size :: OperandSize
  x_opcode_escape_sequence :: u8
  x_opcode :: u8
  x_modrm :: bool
  x_indirect :: "X86IndirectAccess option"
  x_first_operand :: u8
  x_second_operand :: u8
  x_immediate_size :: OperandSize
  x_immediate :: i64

definition X86_DEFAULT :: X86Instruction where
  "X86_DEFAULT =
     \<lparr>x_size = S0,
      x_opcode_escape_sequence = 0,
      x_opcode = 0,
      x_modrm = True,
      x_indirect = None,
      x_first_operand = 0,
      x_second_operand = 0,
      x_immediate_size = S0,
      x_immediate = 0\<rparr>"

section \<open>Encoding\<close>

text \<open>\<open>emit_variable_length\<close> of \<open>JitCompiler\<close>: the bytes it writes.\<close>

definition variable_length :: "OperandSize \<Rightarrow> u64 \<Rightarrow> bytes" where
  "variable_length sz data =
     (case sz of
        S0 \<Rightarrow> []
      | S8 \<Rightarrow> [ucast data]
      | S16 \<Rightarrow> le_bytes 2 data
      | S32 \<Rightarrow> le_bytes 4 data
      | S64 \<Rightarrow> le_bytes 8 data)"

definition displacement_is_short :: "i32 \<Rightarrow> bool" where
  "displacement_is_short d \<longleftrightarrow> - 128 \<le> sint d \<and> sint d \<le> 127"

text \<open>The first half of \<open>emit\<close>: the prefix, the addressing bytes and the displacement.\<close>

definition x86_addressing ::
  "X86Instruction \<Rightarrow> (X86Rex \<times> X86ModRm \<times> X86Sib \<times> OperandSize \<times> i32) option" where
  "x86_addressing i =
     (let rex = \<lparr>rex_w = x_size i = S64, rex_r = x_first_operand i AND 8 \<noteq> 0, rex_x = False,
                 rex_b = x_second_operand i AND 8 \<noteq> 0\<rparr>;
          modrm = \<lparr>modrm_mode = 0, modrm_r = x_first_operand i AND 7, modrm_m = x_second_operand i AND 7\<rparr>;
          sib = \<lparr>sib_scale = 0, sib_index = 0, sib_base = 0\<rparr>
      in if \<not> x_modrm i then Some (rex, modrm, sib, S0, 0)
      else case x_indirect i of
        Some (Offset offset) \<Rightarrow>
          if x_second_operand i AND 7 = 4 then None
          else if displacement_is_short offset \<or> offset = 0 \<and> x_second_operand i AND 7 = 5
          then Some (rex, modrm\<lparr>modrm_mode := 1\<rparr>, sib, S8, offset)
          else Some (rex, modrm\<lparr>modrm_mode := 2\<rparr>, sib, S32, offset)
      | Some (OffsetIndexShift offset index shift) \<Rightarrow>
          let (mode, displacement_size) = (if displacement_is_short offset then (1, S8) else (2, S32)) in
          Some (rex\<lparr>rex_x := register_number index AND 8 \<noteq> 0\<rparr>,
                modrm\<lparr>modrm_mode := mode, modrm_m := 4\<rparr>,
                \<lparr>sib_scale = shift AND 3, sib_index = register_number index AND 7,
                 sib_base = x_second_operand i AND 7\<rparr>,
                displacement_size, offset)
      | None \<Rightarrow> Some (rex, modrm\<lparr>modrm_mode := 3\<rparr>, sib, S0, 0))"

definition rex_byte :: "X86Rex \<Rightarrow> u8" where
  "rex_byte rex =
     push_bit 3 (of_bool (rex_w rex)) OR push_bit 2 (of_bool (rex_r rex)) OR
     push_bit 1 (of_bool (rex_x rex)) OR of_bool (rex_b rex)"

definition modrm_byte :: "X86ModRm \<Rightarrow> u8" where
  "modrm_byte m = push_bit 6 (modrm_mode m) OR push_bit 3 (modrm_r m) OR modrm_m m"

definition sib_byte :: "X86Sib \<Rightarrow> u8" where
  "sib_byte s = push_bit 6 (sib_scale s) OR push_bit 3 (sib_index s) OR sib_base s"

definition escape_bytes :: "u8 \<Rightarrow> bytes" where
  "escape_bytes e =
     (if e = 1 then [0x0f]
      else if e = 2 then le_bytes 2 (0x0f38 :: u16)
      else if e = 3 then le_bytes 2 (0x0f3a :: u16)
      else [])"

text \<open>The bytes \<open>emit\<close> appends to the text section, in the order of its writes.\<close>

definition x86_emit :: "X86Instruction \<Rightarrow> bytes option" where
  "x86_emit i =
     (if x_size i = S0 then None
      else do {
        (rex, modrm, sib, displacement_size, displacement) \<leftarrow> x86_addressing i;
        Some
          ((if x_size i = S16 then [0x66] else []) @
           (if rex_byte rex \<noteq> 0 then [0x40 OR rex_byte rex] else []) @
           escape_bytes (x_opcode_escape_sequence i) @
           [x_opcode i] @
           (if x_modrm i
            then [modrm_byte modrm] @
              (if sib_byte sib \<noteq> 0 then [sib_byte sib] else []) @
              variable_length displacement_size (scast displacement)
            else []) @
           variable_length (x_immediate_size i) (x_immediate i))
      })"

section \<open>Constructors\<close>

definition exclude_operand_sizes :: "OperandSize \<Rightarrow> OperandSize list \<Rightarrow> X86Instruction \<Rightarrow> X86Instruction option" where
  "exclude_operand_sizes sz excluded i = (if sz \<in> set excluded then None else Some i)"

definition x86_alu_escaped where
  "x86_alu_escaped sz escape opcode source destination indirect =
     exclude_operand_sizes sz [S0, S8, S16]
       (X86_DEFAULT\<lparr>x_size := sz, x_opcode_escape_sequence := escape, x_opcode := opcode,
          x_first_operand := register_number source, x_second_operand := register_number destination,
          x_indirect := indirect\<rparr>)"

definition x86_alu_immediate_escaped where
  "x86_alu_immediate_escaped sz escape opcode opcode_extension destination immediate indirect =
     exclude_operand_sizes sz [S0, S8, S16]
       (X86_DEFAULT\<lparr>x_size := sz, x_opcode_escape_sequence := escape, x_opcode := opcode,
          x_first_operand := opcode_extension, x_second_operand := register_number destination,
          x_immediate_size :=
            (if opcode = 0xc1 then S8
             else if opcode = 0x81 then S32
             else if opcode = 0xf7 \<and> opcode_extension = 0 then S32
             else S0),
          x_immediate := immediate, x_indirect := indirect\<rparr>)"

definition x86_alu where
  "x86_alu sz opcode source destination indirect =
     x86_alu_escaped sz 0 opcode source destination indirect"

definition x86_alu_immediate where
  "x86_alu_immediate sz opcode opcode_extension destination immediate indirect =
     x86_alu_immediate_escaped sz 0 opcode opcode_extension destination immediate indirect"

definition x86_mov where
  "x86_mov sz source destination =
     exclude_operand_sizes sz [S0, S8, S16]
       (X86_DEFAULT\<lparr>x_size := sz, x_opcode := 0x89, x_first_operand := register_number source,
          x_second_operand := register_number destination\<rparr>)"

definition x86_mov_with_sign_extension where
  "x86_mov_with_sign_extension sz source destination =
     exclude_operand_sizes sz [S0, S8, S16]
       (X86_DEFAULT\<lparr>x_size := sz, x_opcode := 0x63, x_first_operand := register_number destination,
          x_second_operand := register_number source\<rparr>)"

definition x86_mov_mmx where
  "x86_mov_mmx sz source destination =
     exclude_operand_sizes sz [S0, S8, S16, S32]
       (if register_number destination AND 16 \<noteq> 0
        then X86_DEFAULT\<lparr>x_size := sz, x_opcode_escape_sequence := 1,
               x_opcode := (if register_number source AND 16 \<noteq> 0 then 0x6f else 0x6e),
               x_first_operand := register_number destination AND 0xf,
               x_second_operand := register_number source AND 0xf\<rparr>
        else X86_DEFAULT\<lparr>x_size := sz, x_opcode_escape_sequence := 1, x_opcode := 0x7e,
               x_first_operand := register_number source AND 0xf,
               x_second_operand := register_number destination AND 0xf\<rparr>)"

definition x86_cmov where
  "x86_cmov sz condition source destination =
     exclude_operand_sizes sz [S0, S8, S16]
       (X86_DEFAULT\<lparr>x_size := sz, x_opcode_escape_sequence := 1, x_opcode := condition,
          x_first_operand := register_number destination, x_second_operand := register_number source\<rparr>)"

definition x86_xchg where
  "x86_xchg sz source destination indirect =
     exclude_operand_sizes sz [S0, S8, S16, S32]
       (X86_DEFAULT\<lparr>x_size := sz, x_opcode := 0x87, x_first_operand := register_number source,
          x_second_operand := register_number destination, x_indirect := indirect\<rparr>)"

definition x86_bswap where
  "x86_bswap sz destination =
     exclude_operand_sizes sz [S0, S8]
       (if sz = S16
        then X86_DEFAULT\<lparr>x_size := sz, x_opcode := 0xc1, x_second_operand := register_number destination,
               x_immediate_size := S8, x_immediate := 8\<rparr>
        else X86_DEFAULT\<lparr>x_size := sz, x_opcode_escape_sequence := 1,
               x_opcode := 0xc8 OR (register_number destination AND 7), x_modrm := False,
               x_second_operand := register_number destination\<rparr>)"

definition x86_test where
  "x86_test sz source destination indirect =
     exclude_operand_sizes sz [S0]
       (X86_DEFAULT\<lparr>x_size := sz, x_opcode := (if sz = S8 then 0x84 else 0x85),
          x_first_operand := register_number source, x_second_operand := register_number destination,
          x_indirect := indirect\<rparr>)"

definition x86_test_immediate where
  "x86_test_immediate sz destination immediate indirect =
     exclude_operand_sizes sz [S0]
       (X86_DEFAULT\<lparr>x_size := sz, x_opcode := (if sz = S8 then 0xf6 else 0xf7),
          x_first_operand := 0, x_second_operand := register_number destination,
          x_immediate_size := (if sz = S64 then S32 else sz), x_immediate := immediate,
          x_indirect := indirect\<rparr>)"

definition x86_cmp where
  "x86_cmp sz source destination indirect =
     exclude_operand_sizes sz [S0]
       (X86_DEFAULT\<lparr>x_size := sz, x_opcode := (if sz = S8 then 0x38 else 0x39),
          x_first_operand := register_number source, x_second_operand := register_number destination,
          x_indirect := indirect\<rparr>)"

definition x86_cmp_immediate where
  "x86_cmp_immediate sz destination immediate indirect =
     exclude_operand_sizes sz [S0]
       (X86_DEFAULT\<lparr>x_size := sz, x_opcode := (if sz = S8 then 0x80 else 0x81),
          x_first_operand := 7, x_second_operand := register_number destination,
          x_immediate_size := (if sz = S64 then S32 else sz), x_immediate := immediate,
          x_indirect := indirect\<rparr>)"

definition x86_lea where
  "x86_lea sz source destination indirect =
     exclude_operand_sizes sz [S0, S8, S16, S32]
       (X86_DEFAULT\<lparr>x_size := sz, x_opcode := 0x8d, x_first_operand := register_number destination,
          x_second_operand := register_number source, x_indirect := indirect\<rparr>)"

definition x86_sign_extend_rax_rdx where
  "x86_sign_extend_rax_rdx sz =
     exclude_operand_sizes sz [S0, S8, S16] (X86_DEFAULT\<lparr>x_size := sz, x_opcode := 0x99, x_modrm := False\<rparr>)"

definition x86_load where
  "x86_load sz source destination indirect =
     exclude_operand_sizes sz [S0]
       (X86_DEFAULT\<lparr>x_size := (if sz = S64 then S64 else S32),
          x_opcode_escape_sequence := (if sz = S8 \<or> sz = S16 then 1 else 0),
          x_opcode := (if sz = S8 then 0xb6 else if sz = S16 then 0xb7 else 0x8b),
          x_first_operand := register_number destination, x_second_operand := register_number source,
          x_indirect := Some indirect\<rparr>)"

definition x86_store where
  "x86_store sz source destination indirect =
     exclude_operand_sizes sz [S0]
       (X86_DEFAULT\<lparr>x_size := sz, x_opcode := (if sz = S8 then 0x88 else 0x89),
          x_first_operand := register_number source, x_second_operand := register_number destination,
          x_indirect := Some indirect\<rparr>)"

definition x86_load_immediate :: "X86Register \<Rightarrow> i64 \<Rightarrow> X86Instruction option" where
  "x86_load_immediate destination immediate =
     (let sz = (if 0 \<le> sint immediate \<and> sint immediate \<le> 0xffffffff then S32 else S64) in
      Some
        (if sint immediate < 0 \<and> - (2 ^ 31) \<le> sint immediate
         then X86_DEFAULT\<lparr>x_size := S64, x_opcode := 0xc7, x_second_operand := register_number destination,
                x_immediate_size := S32, x_immediate := immediate\<rparr>
         else X86_DEFAULT\<lparr>x_size := sz, x_opcode := 0xb8 OR (register_number destination AND 7),
                x_modrm := False, x_second_operand := register_number destination,
                x_immediate_size := sz, x_immediate := immediate\<rparr>))"

definition x86_store_immediate where
  "x86_store_immediate sz destination indirect immediate =
     exclude_operand_sizes sz [S0]
       (X86_DEFAULT\<lparr>x_size := sz, x_opcode := (if sz = S8 then 0xc6 else 0xc7),
          x_second_operand := register_number destination, x_indirect := Some indirect,
          x_immediate_size := (if sz = S64 then S32 else sz), x_immediate := immediate\<rparr>)"

definition x86_push_immediate :: "OperandSize \<Rightarrow> i32 \<Rightarrow> X86Instruction option" where
  "x86_push_immediate sz immediate =
     exclude_operand_sizes sz [S0, S16]
       (X86_DEFAULT\<lparr>x_size := sz, x_opcode := (if sz = S8 then 0x6a else 0x68), x_modrm := False,
          x_immediate_size := (if sz = S64 then S32 else sz), x_immediate := scast immediate\<rparr>)"

definition x86_push :: "X86Register \<Rightarrow> X86IndirectAccess option \<Rightarrow> X86Instruction option" where
  "x86_push source indirect =
     Some
       (if indirect = None
        then X86_DEFAULT\<lparr>x_size := S32, x_opcode := 0x50 OR (register_number source AND 7),
               x_modrm := False, x_second_operand := register_number source\<rparr>
        else X86_DEFAULT\<lparr>x_size := S64, x_opcode := 0xff, x_modrm := True, x_first_operand := 6,
               x_second_operand := register_number source, x_indirect := indirect\<rparr>)"

definition x86_pop :: "X86Register \<Rightarrow> X86Instruction option" where
  "x86_pop destination =
     Some (X86_DEFAULT\<lparr>x_size := S32, x_opcode := 0x58 OR (register_number destination AND 7),
       x_modrm := False, x_second_operand := register_number destination\<rparr>)"

definition x86_conditional_jump_immediate :: "u8 \<Rightarrow> i32 \<Rightarrow> X86Instruction option" where
  "x86_conditional_jump_immediate opcode relative_destination =
     Some (X86_DEFAULT\<lparr>x_size := S32, x_opcode_escape_sequence := 1, x_opcode := opcode, x_modrm := False,
       x_immediate_size := S32, x_immediate := scast relative_destination\<rparr>)"

definition x86_jump_immediate :: "i32 \<Rightarrow> X86Instruction option" where
  "x86_jump_immediate relative_destination =
     Some (X86_DEFAULT\<lparr>x_size := S32, x_opcode := 0xe9, x_modrm := False,
       x_immediate_size := S32, x_immediate := scast relative_destination\<rparr>)"

definition x86_jump_reg :: "X86Register \<Rightarrow> X86IndirectAccess option \<Rightarrow> X86Instruction option" where
  "x86_jump_reg destination indirect =
     Some (X86_DEFAULT\<lparr>x_size := S64, x_opcode := 0xff, x_first_operand := 4,
       x_second_operand := register_number destination, x_indirect := indirect\<rparr>)"

definition x86_call_immediate :: "i32 \<Rightarrow> X86Instruction option" where
  "x86_call_immediate relative_destination =
     Some (X86_DEFAULT\<lparr>x_size := S32, x_opcode := 0xe8, x_modrm := False,
       x_immediate_size := S32, x_immediate := scast relative_destination\<rparr>)"

definition x86_call_reg :: "X86Register \<Rightarrow> X86IndirectAccess option \<Rightarrow> X86Instruction option" where
  "x86_call_reg destination indirect =
     Some (X86_DEFAULT\<lparr>x_size := S64, x_opcode := 0xff, x_first_operand := 2,
       x_second_operand := register_number destination, x_indirect := indirect\<rparr>)"

definition x86_return_near :: "X86Instruction option" where
  "x86_return_near = Some (X86_DEFAULT\<lparr>x_size := S32, x_opcode := 0xc3, x_modrm := False\<rparr>)"

definition x86_noop :: "X86Instruction option" where
  "x86_noop = Some (X86_DEFAULT\<lparr>x_size := S32, x_opcode := 0x90, x_modrm := False\<rparr>)"

definition x86_interrupt :: "u8 \<Rightarrow> X86Instruction option" where
  "x86_interrupt immediate =
     Some
       (if immediate = 3 then X86_DEFAULT\<lparr>x_size := S32, x_opcode := 0xcc, x_modrm := False\<rparr>
        else X86_DEFAULT\<lparr>x_size := S32, x_opcode := 0xcd, x_modrm := False, x_immediate_size := S8,
               x_immediate := ucast immediate\<rparr>)"

definition x86_cycle_count :: "X86Instruction option" where
  "x86_cycle_count =
     Some (X86_DEFAULT\<lparr>x_size := S32, x_opcode_escape_sequence := 1, x_opcode := 0x31, x_modrm := False\<rparr>)"

definition x86_fence :: "FenceType \<Rightarrow> X86Instruction option" where
  "x86_fence fence_type =
     Some (X86_DEFAULT\<lparr>x_size := S32, x_opcode_escape_sequence := 1, x_opcode := 0xae,
       x_first_operand := fence_number fence_type\<rparr>)"

named_theorems x86_instructions "the constructors of x86 instructions"

lemmas [x86_instructions] = x86_alu_escaped_def x86_alu_immediate_escaped_def x86_alu_def
  x86_alu_immediate_def x86_mov_def x86_mov_with_sign_extension_def x86_mov_mmx_def x86_cmov_def
  x86_xchg_def x86_bswap_def x86_test_def x86_test_immediate_def x86_cmp_def x86_cmp_immediate_def
  x86_lea_def x86_sign_extend_rax_rdx_def x86_load_def x86_store_def x86_load_immediate_def
  x86_store_immediate_def x86_push_immediate_def x86_push_def x86_pop_def
  x86_conditional_jump_immediate_def x86_jump_immediate_def x86_jump_reg_def x86_call_immediate_def
  x86_call_reg_def x86_return_near_def x86_noop_def x86_interrupt_def x86_cycle_count_def
  x86_fence_def exclude_operand_sizes_def X86_DEFAULT_def

end
