(* ===== verification/Jit_Emit.thy ===== *)
theory Jit_Emit
  imports X86 Executable
begin

text \<open>
  The code emission of \<^verbatim>\<open>src/src/jit.rs\<close>: the state of \<open>JitCompiler\<close>, the writes to the text section, the
  randomly inserted no-operations, constants that are hidden from the program that provides them,
  instruction metering, anchors and jumps.  A function that emits code maps the state to the new
  state; a failed debug assertion, an index out of range and a write behind the text section are \<open>None\<close>.

  Pointers into the text section are offsets from its start.  What the compiler takes from its
  surroundings is collected in one record: the addresses of the sections and of the functions the
  code calls, the layout of \<open>EbpfVm\<close> and of the errors, and the source of randomness.
\<close>

unbundle bit_operations_syntax

section \<open>State\<close>

record JitProgram =
  pc_section :: "u32 list"
  text_section :: bytes

record Jump =
  location :: usize
  jump_target_pc :: usize

datatype RuntimeEnvironmentSlot =
    HostStackPointer | CallDepth | ContextObjectPointer | PreviousInstructionMeter | DueInsnCount
  | StopwatchNumerator | StopwatchDenominator | Registers | SlotProgramResult | SlotMemoryMapping
  | RegisterTrace

record ('f, 'r) JitSurroundings =
  text_section_ptr :: u64
  pc_section_ptr :: u64
  slot_offset :: "RuntimeEnvironmentSlot \<Rightarrow> i32"
  err_kind :: "EbpfError \<Rightarrow> u64"
  builtin_fn :: "'f \<Rightarrow> i64"
  load_fn :: "nat \<Rightarrow> i64"
  store_fn :: "nat \<Rightarrow> i64"
  trace_fn :: i64
  stopwatch_fn :: i64
  sample_noop :: "'r \<Rightarrow> u32 \<times> 'r"
  sample_padding :: "'r \<Rightarrow> nat \<times> 'r"

record ('f, 'r) JitCompiler =
  result :: JitProgram
  text_section_jumps :: "Jump list"
  anchors :: "usize option list"
  offset_in_text_section :: usize
  jit_executable :: "'f Executable"
  jit_program :: bytes
  jit_program_vm_addr :: u64
  jit_config :: Config
  jit_pc :: usize
  last_instruction_meter_validation_pc :: usize
  next_noop_insertion :: u32
  runtime_environment_key :: i32
  immediate_value_key :: i64
  diversification_rng :: 'r
  stopwatch_is_active :: bool
  surroundings :: "('f, 'r) JitSurroundings"

type_synonym ('f, 'r) emitter = "('f, 'r) JitCompiler \<Rightarrow> ('f, 'r) JitCompiler option"

definition MAX_EMPTY_PROGRAM_MACHINE_CODE_LENGTH :: usize where
  "MAX_EMPTY_PROGRAM_MACHINE_CODE_LENGTH = 4096"

definition MAX_MACHINE_CODE_LENGTH_PER_INSTRUCTION :: usize where
  "MAX_MACHINE_CODE_LENGTH_PER_INSTRUCTION = 110"

definition MACHINE_CODE_PER_INSTRUCTION_METER_CHECKPOINT :: usize where
  "MACHINE_CODE_PER_INSTRUCTION_METER_CHECKPOINT = 24"

definition MAX_START_PADDING_LENGTH :: usize where
  "MAX_START_PADDING_LENGTH = 256"

definition ANCHOR_TRACE :: usize where
  "ANCHOR_TRACE = 0"

definition ANCHOR_THROW_EXCEEDED_MAX_INSTRUCTIONS :: usize where
  "ANCHOR_THROW_EXCEEDED_MAX_INSTRUCTIONS = 1"

definition ANCHOR_EPILOGUE :: usize where
  "ANCHOR_EPILOGUE = 2"

definition ANCHOR_THROW_EXCEPTION_UNCHECKED :: usize where
  "ANCHOR_THROW_EXCEPTION_UNCHECKED = 3"

definition ANCHOR_EXIT :: usize where
  "ANCHOR_EXIT = 4"

definition ANCHOR_THROW_EXCEPTION :: usize where
  "ANCHOR_THROW_EXCEPTION = 5"

definition ANCHOR_CALL_DEPTH_EXCEEDED :: usize where
  "ANCHOR_CALL_DEPTH_EXCEEDED = 6"

definition ANCHOR_CALL_REG_OUTSIDE_TEXT_SEGMENT :: usize where
  "ANCHOR_CALL_REG_OUTSIDE_TEXT_SEGMENT = 7"

definition ANCHOR_DIV_BY_ZERO :: usize where
  "ANCHOR_DIV_BY_ZERO = 8"

definition ANCHOR_DIV_OVERFLOW :: usize where
  "ANCHOR_DIV_OVERFLOW = 9"

definition ANCHOR_CALL_REG_UNSUPPORTED_INSTRUCTION :: usize where
  "ANCHOR_CALL_REG_UNSUPPORTED_INSTRUCTION = 10"

definition ANCHOR_CALL_UNSUPPORTED_INSTRUCTION :: usize where
  "ANCHOR_CALL_UNSUPPORTED_INSTRUCTION = 11"

definition ANCHOR_EXTERNAL_FUNCTION_CALL :: usize where
  "ANCHOR_EXTERNAL_FUNCTION_CALL = 12"

definition ANCHOR_INTERNAL_FUNCTION_CALL_PROLOGUE :: usize where
  "ANCHOR_INTERNAL_FUNCTION_CALL_PROLOGUE = 13"

definition ANCHOR_INTERNAL_FUNCTION_CALL_REG :: usize where
  "ANCHOR_INTERNAL_FUNCTION_CALL_REG = 14"

definition ANCHOR_TRANSLATE_MEMORY_ADDRESS :: usize where
  "ANCHOR_TRANSLATE_MEMORY_ADDRESS = 21"

definition ANCHOR_COUNT :: usize where
  "ANCHOR_COUNT = 34"

definition REGISTER_MAP :: "X86Register list" where
  "REGISTER_MAP =
     [CALLER_SAVED_REGISTERS ! 0,
      ARGUMENT_REGISTERS ! 1,
      ARGUMENT_REGISTERS ! 2,
      ARGUMENT_REGISTERS ! 3,
      ARGUMENT_REGISTERS ! 4,
      ARGUMENT_REGISTERS ! 5,
      CALLEE_SAVED_REGISTERS ! 1,
      CALLEE_SAVED_REGISTERS ! 2,
      CALLEE_SAVED_REGISTERS ! 3,
      CALLEE_SAVED_REGISTERS ! 4,
      CALLEE_SAVED_REGISTERS ! 5]"

definition REGISTER_PTR_TO_VM :: X86Register where
  "REGISTER_PTR_TO_VM = ARGUMENT_REGISTERS ! 0"

definition REGISTER_INSTRUCTION_METER :: X86Register where
  "REGISTER_INSTRUCTION_METER = CALLER_SAVED_REGISTERS ! 7"

definition REGISTER_SCRATCH :: X86Register where
  "REGISTER_SCRATCH = CALLER_SAVED_REGISTERS ! 8"

datatype Value =
    Register X86Register
  | RegisterIndirect X86Register i32 bool
  | RegisterPlusConstant32 X86Register i32 bool
  | RegisterPlusConstant64 X86Register i64 bool
  | Constant64 i64 bool

record Argument =
  arg_index :: usize
  arg_value :: Value

section \<open>Writing\<close>

definition jit_version :: "('f, 'r) JitCompiler \<Rightarrow> SBPFVersion" where
  "jit_version c = get_sbpf_version (jit_executable c)"

text \<open>\<open>emit\<close> for the bytes of its argument.\<close>

definition emit :: "bytes \<Rightarrow> ('f, 'r) emitter" where
  "emit bs c =
     (let t = text_section (result c); o1 = offset_in_text_section c in
      if o1 + length bs \<le> length t
      then Some (c\<lparr>result := (result c)\<lparr>text_section := take o1 t @ bs @ drop (o1 + length bs) t\<rparr>,
                   offset_in_text_section := o1 + length bs\<rparr>)
      else None)"

definition emit_variable_length :: "OperandSize \<Rightarrow> u64 \<Rightarrow> ('f, 'r) emitter" where
  "emit_variable_length sz data = emit (variable_length sz data)"

definition emit_ins :: "X86Instruction option \<Rightarrow> ('f, 'r) emitter" where
  "emit_ins instruction c =
     do {
       i \<leftarrow> instruction;
       bs \<leftarrow> x86_emit i;
       c \<leftarrow> emit bs c;
       if next_noop_insertion c = 0
       then let (n, rng) = sample_noop (surroundings c) (diversification_rng c) in
         emit [0x90] (c\<lparr>next_noop_insertion := n, diversification_rng := rng\<rparr>)
       else Some (c\<lparr>next_noop_insertion := next_noop_insertion c - 1\<rparr>)
     }"

text \<open>Emission in sequence.\<close>

fun emits :: "('f, 'r) emitter list \<Rightarrow> ('f, 'r) emitter" where
  "emits [] c = Some c"
| "emits (e # es) c = Option.bind (e c) (emits es)"

definition set_anchor :: "usize \<Rightarrow> ('f, 'r) emitter" where
  "set_anchor anchor c =
     map_option (\<lambda>as. c\<lparr>anchors := as\<rparr>) (slice_set (anchors c) anchor (Some (offset_in_text_section c)))"

definition relative_to_anchor :: "('f, 'r) JitCompiler \<Rightarrow> usize \<Rightarrow> usize \<Rightarrow> i32 option" where
  "relative_to_anchor c anchor instruction_length =
     do {
       let instruction_end = offset_in_text_section c + instruction_length;
       destination \<leftarrow> slice_get (anchors c) anchor;
       destination \<leftarrow> destination;
       Some (word_of_int (int destination - int instruction_end))
     }"

definition relative_to_target_pc ::
  "('f, 'r) JitCompiler \<Rightarrow> usize \<Rightarrow> usize \<Rightarrow> (i32 \<times> ('f, 'r) JitCompiler) option" where
  "relative_to_target_pc c target_pc instruction_length =
     do {
       let instruction_end = offset_in_text_section c + instruction_length;
       entry \<leftarrow> slice_get (pc_section (result c)) target_pc;
       if entry \<noteq> 0
       then do {
         let destination = unat (entry AND 0x7fffffff);
         _ \<leftarrow> slice_get (text_section (result c)) destination;
         Some (word_of_int (int destination - int instruction_end), c)
       }
       else Some (0, c\<lparr>text_section_jumps := text_section_jumps c @
         [\<lparr>location = instruction_end - 4, jump_target_pc = target_pc\<rparr>]\<rparr>)
     }"

text \<open>The three forms in which jumps to anchors are emitted.\<close>

definition emit_jump_to_anchor :: "usize \<Rightarrow> ('f, 'r) emitter" where
  "emit_jump_to_anchor anchor c =
     do { d \<leftarrow> relative_to_anchor c anchor 5; emit_ins (x86_jump_immediate d) c }"

definition emit_call_to_anchor :: "usize \<Rightarrow> ('f, 'r) emitter" where
  "emit_call_to_anchor anchor c =
     do { d \<leftarrow> relative_to_anchor c anchor 5; emit_ins (x86_call_immediate d) c }"

definition emit_conditional_jump_to_anchor :: "u8 \<Rightarrow> usize \<Rightarrow> ('f, 'r) emitter" where
  "emit_conditional_jump_to_anchor op anchor c =
     do { d \<leftarrow> relative_to_anchor c anchor 6; emit_ins (x86_conditional_jump_immediate op d) c }"

fun resolve_jump_list :: "Jump list \<Rightarrow> ('f, 'r) emitter" where
  "resolve_jump_list [] c = Some c"
| "resolve_jump_list (jump # jumps) c =
     do {
       entry \<leftarrow> slice_get (pc_section (result c)) (jump_target_pc jump);
       let destination = unat (entry AND 0x7fffffff);
       _ \<leftarrow> slice_get (text_section (result c)) destination;
       let offset_value = (word_of_int (int destination - int (location jump)) - 4 :: i32);
       let t = text_section (result c);
       if location jump + 4 \<le> length t
       then resolve_jump_list jumps
         (c\<lparr>result := (result c)\<lparr>text_section :=
             take (location jump) t @ le_bytes 4 offset_value @ drop (location jump + 4) t\<rparr>\<rparr>)
       else None
     }"

definition resolve_jumps :: "('f, 'r) emitter" where
  "resolve_jumps c = resolve_jump_list (text_section_jumps c) c"

section \<open>Constants\<close>

definition should_sanitize_constant :: "('f, 'r) JitCompiler \<Rightarrow> i64 \<Rightarrow> bool" where
  "should_sanitize_constant c v \<longleftrightarrow>
     sanitize_user_provided_values (jit_config c) \<and>
     v \<notin> {0xffff, 0xffffff, 0xffffffff, 0xffffffffff, 0xffffffffffff, 0xffffffffffffff,
           0xffffffffffffffff} \<and>
     \<not> v \<le> 0xff \<and> \<not> NOT v \<le> 0xff"

definition slot_in_vm :: "('f, 'r) JitCompiler \<Rightarrow> RuntimeEnvironmentSlot \<Rightarrow> i32" where
  "slot_in_vm c slot = slot_offset (surroundings c) slot - 8 * runtime_environment_key c"

definition fits_i32 :: "i64 \<Rightarrow> bool" where
  "fits_i32 v \<longleftrightarrow> - (2 ^ 31) \<le> sint v \<and> sint v \<le> 2 ^ 31 - 1"

definition lower_key :: "('f, 'r) JitCompiler \<Rightarrow> i64" where
  "lower_key c = scast (ucast (immediate_value_key c) :: i32)"

definition upper_key :: "('f, 'r) JitCompiler \<Rightarrow> i64" where
  "upper_key c = scast (ucast (signed_drop_bit 32 (immediate_value_key c)) :: i32)"

definition emit_sanitized_load_immediate :: "X86Register \<Rightarrow> i64 \<Rightarrow> ('f, 'r) emitter" where
  "emit_sanitized_load_immediate destination v c =
     (if fits_i32 v
      then emits
        [emit_ins (x86_load_immediate destination (v - lower_key c)),
         emit_ins (x86_alu_immediate S64 0x81 0 destination (lower_key c) None)] c
      else if v AND 0xffffffff = 0
      then emits
        [emit_ins (x86_load_immediate destination (word_rotr 32 v - lower_key c)),
         emit_ins (x86_alu_immediate S64 0x81 0 destination (lower_key c) None),
         emit_ins (x86_alu_immediate S64 0xc1 4 destination 32 None)] c
      else if destination \<noteq> REGISTER_SCRATCH
      then emits
        [emit_ins (x86_load_immediate destination (v - immediate_value_key c)),
         emit_ins (x86_load_immediate REGISTER_SCRATCH (immediate_value_key c)),
         emit_ins (x86_alu S64 0x01 REGISTER_SCRATCH destination None)] c
      else emits
        [emit_ins (x86_load_immediate destination (word_rotr 32 (v - lower_key c) - upper_key c)),
         emit_ins (x86_alu_immediate S64 0x81 0 destination (upper_key c) None),
         emit_ins (x86_alu_immediate S64 0xc1 1 destination 32 None),
         emit_ins (x86_alu_immediate S64 0x81 0 destination (lower_key c) None)] c)"

text \<open>The choice between a plain and a sanitized load, which the arms of \<open>compile\<close> spell out.\<close>

definition emit_user_constant :: "X86Register \<Rightarrow> i64 \<Rightarrow> i64 \<Rightarrow> ('f, 'r) emitter" where
  "emit_user_constant destination tested v c =
     (if should_sanitize_constant c tested then emit_sanitized_load_immediate destination v c
      else emit_ins (x86_load_immediate destination v) c)"

definition emit_sanitized_alu ::
  "OperandSize \<Rightarrow> u8 \<Rightarrow> u8 \<Rightarrow> X86Register \<Rightarrow> i64 \<Rightarrow> ('f, 'r) emitter" where
  "emit_sanitized_alu sz opcode opcode_extension destination immediate c =
     (if should_sanitize_constant c immediate
      then emits
        [emit_sanitized_load_immediate REGISTER_SCRATCH immediate,
         emit_ins (x86_alu sz opcode REGISTER_SCRATCH destination None)] c
      else if fits_i32 immediate
      then emit_ins (x86_alu_immediate sz 0x81 opcode_extension destination immediate None) c
      else emits
        [emit_ins (x86_load_immediate REGISTER_SCRATCH immediate),
         emit_ins (x86_alu sz opcode REGISTER_SCRATCH destination None)] c)"

section \<open>Metering\<close>

definition emit_validate_instruction_count :: "usize option \<Rightarrow> ('f, 'r) emitter" where
  "emit_validate_instruction_count pc c =
     (if \<not> enable_instruction_meter (jit_config c) then Some c
      else emits
        [\<lambda>c. case pc of
            Some pc \<Rightarrow> emit_sanitized_load_immediate REGISTER_SCRATCH (of_nat pc)
              (c\<lparr>last_instruction_meter_validation_pc := pc\<rparr>)
          | None \<Rightarrow> Some c,
         emit_ins (x86_cmp S64 REGISTER_SCRATCH REGISTER_INSTRUCTION_METER None),
         emit_conditional_jump_to_anchor 0x86 ANCHOR_THROW_EXCEEDED_MAX_INSTRUCTIONS] c)"

definition emit_profile_instruction_count :: "usize option \<Rightarrow> ('f, 'r) emitter" where
  "emit_profile_instruction_count target c =
     (if \<not> enable_instruction_meter (jit_config c) then Some c
      else case target of
        Some target_pc \<Rightarrow>
          emit_sanitized_alu S64 0x01 0 REGISTER_INSTRUCTION_METER (of_nat target_pc - of_nat (jit_pc c) - 1) c
      | None \<Rightarrow> emits
          [emit_ins (x86_alu S64 0x01 REGISTER_SCRATCH REGISTER_INSTRUCTION_METER None),
           emit_sanitized_alu S64 0x81 5 REGISTER_INSTRUCTION_METER (of_nat (jit_pc c) + 1)] c)"

definition emit_undo_profile_instruction_count :: "usize \<Rightarrow> ('f, 'r) emitter" where
  "emit_undo_profile_instruction_count target_pc c =
     (if enable_instruction_meter (jit_config c)
      then emit_sanitized_alu S64 0x01 0 REGISTER_INSTRUCTION_METER (of_nat (jit_pc c) + 1 - of_nat target_pc) c
      else Some c)"

definition emit_validate_and_profile_instruction_count :: "usize option \<Rightarrow> ('f, 'r) emitter" where
  "emit_validate_and_profile_instruction_count target c =
     emits
       [emit_validate_instruction_count (Some (jit_pc c)),
        emit_profile_instruction_count target] c"

section \<open>Branches, shifts, products and quotients\<close>

definition emit_conditional_jump_to_pc :: "u8 \<Rightarrow> usize \<Rightarrow> ('f, 'r) emitter" where
  "emit_conditional_jump_to_pc op target_pc c =
     do {
       (jump_offset, c) \<leftarrow> relative_to_target_pc c target_pc 6;
       emit_ins (x86_conditional_jump_immediate op jump_offset) c
     }"

definition emit_conditional_branch_reg ::
  "OperandSize \<Rightarrow> u8 \<Rightarrow> bool \<Rightarrow> X86Register \<Rightarrow> X86Register \<Rightarrow> usize \<Rightarrow> ('f, 'r) emitter" where
  "emit_conditional_branch_reg sz op bitwise first_operand second_operand target_pc =
     emits
       [emit_validate_and_profile_instruction_count (Some target_pc),
        (if bitwise then emit_ins (x86_test sz first_operand second_operand None)
         else emit_ins (x86_cmp sz first_operand second_operand None)),
        emit_conditional_jump_to_pc op target_pc,
        emit_undo_profile_instruction_count target_pc]"

definition emit_conditional_branch_imm ::
  "OperandSize \<Rightarrow> u8 \<Rightarrow> bool \<Rightarrow> i64 \<Rightarrow> X86Register \<Rightarrow> usize \<Rightarrow> ('f, 'r) emitter" where
  "emit_conditional_branch_imm sz op bitwise immediate second_operand target_pc =
     emits
       [emit_validate_and_profile_instruction_count (Some target_pc),
        \<lambda>c. if should_sanitize_constant c immediate
            then emits
              [emit_sanitized_load_immediate REGISTER_SCRATCH immediate,
               (if bitwise then emit_ins (x86_test sz REGISTER_SCRATCH second_operand None)
                else emit_ins (x86_cmp sz REGISTER_SCRATCH second_operand None))] c
            else if bitwise then emit_ins (x86_test_immediate sz second_operand immediate None) c
            else emit_ins (x86_cmp_immediate sz second_operand immediate None) c,
        emit_conditional_jump_to_pc op target_pc,
        emit_undo_profile_instruction_count target_pc]"

definition emit_shift ::
  "OperandSize \<Rightarrow> u8 \<Rightarrow> X86Register \<Rightarrow> X86Register \<Rightarrow> i64 option \<Rightarrow> ('f, 'r) emitter" where
  "emit_shift sz opcode_extension source destination immediate =
     (case immediate of
        Some immediate \<Rightarrow> emit_ins (x86_alu_immediate sz 0xc1 opcode_extension destination immediate None)
      | None \<Rightarrow> emits
          [(if sz = S32 then emit_ins (x86_mov S32 destination destination) else Some),
           (if source = RCX
            then emit_ins (x86_alu_immediate sz 0xd3 opcode_extension destination 0 None)
            else if destination = RCX
            then emits
              [emit_ins (x86_push source None),
               emit_ins (x86_xchg S64 source RCX None),
               emit_ins (x86_alu_immediate sz 0xd3 opcode_extension source 0 None),
               emit_ins (x86_mov S64 source RCX),
               emit_ins (x86_pop source)]
            else emits
              [emit_ins (x86_push RCX None),
               emit_ins (x86_mov S64 source RCX),
               emit_ins (x86_alu_immediate sz 0xd3 opcode_extension destination 0 None),
               emit_ins (x86_pop RCX)])])"

definition emit_product_quotient_remainder ::
  "OperandSize \<Rightarrow> bool \<Rightarrow> bool \<Rightarrow> bool \<Rightarrow> X86Register \<Rightarrow> X86Register \<Rightarrow> i64 option \<Rightarrow> ('f, 'r) emitter" where
  "emit_product_quotient_remainder sz alt_dst division is_signed source destination immediate c =
     emits
       [(if division
         then emits
           [(if immediate = None
             then emits
               [emit_ins (x86_load_immediate REGISTER_SCRATCH (of_nat (jit_pc c))),
                emit_ins (x86_test sz source source None),
                emit_conditional_jump_to_anchor 0x84 ANCHOR_DIV_BY_ZERO]
             else Some),
            (if is_signed \<and> (case immediate of None \<Rightarrow> True | Some i \<Rightarrow> i = - 1)
             then emits
               [emit_ins (x86_load_immediate REGISTER_SCRATCH (if sz = S64 then - (2 ^ 63) else - (2 ^ 31))),
                emit_ins (x86_cmp sz destination REGISTER_SCRATCH None),
                (if immediate = None
                 then emits
                   [emit_ins (x86_load_immediate REGISTER_SCRATCH 0),
                    emit_ins (x86_cmov sz 0x45 source REGISTER_SCRATCH),
                    emit_ins (x86_cmp_immediate sz source (- 1) None),
                    emit_ins (x86_cmov sz 0x45 source REGISTER_SCRATCH),
                    emit_ins (x86_test sz REGISTER_SCRATCH REGISTER_SCRATCH None)]
                 else Some),
                emit_ins (x86_load_immediate REGISTER_SCRATCH (of_nat (jit_pc c))),
                emit_conditional_jump_to_anchor 0x84 ANCHOR_DIV_OVERFLOW]
             else Some)]
         else Some),
        (case immediate of
           Some immediate \<Rightarrow> emit_user_constant REGISTER_SCRATCH immediate immediate
         | None \<Rightarrow> emit_ins (x86_mov S64 source REGISTER_SCRATCH)),
        (if destination \<noteq> RAX
         then emits [emit_ins (x86_push RAX None), emit_ins (x86_mov S64 destination RAX)] else Some),
        (if destination \<noteq> RDX then emit_ins (x86_push RDX None) else Some),
        (if division
         then if is_signed then emit_ins (x86_sign_extend_rax_rdx sz)
           else emit_ins (x86_alu sz 0x31 RDX RDX None)
         else Some),
        emit_ins (x86_alu_immediate sz 0xf7 (4 OR push_bit 1 (of_bool division) OR of_bool is_signed)
          REGISTER_SCRATCH 0 None),
        (if destination \<noteq> RDX
         then emits
           [(if alt_dst then emit_ins (x86_mov S64 RDX destination) else Some),
            emit_ins (x86_pop RDX)]
         else Some),
        (if destination \<noteq> RAX
         then emits
           [(if \<not> alt_dst then emit_ins (x86_mov S64 RAX destination) else Some),
            emit_ins (x86_pop RAX)]
         else Some),
        (if sz = S32 \<and> is_signed \<and> \<not> explicit_sign_extension_of_results (jit_version c)
         then emit_ins (x86_alu S64 0x63 destination destination None)
         else Some)] c"

end
