(* ===== verification/Jit_Compile.thy ===== *)
theory Jit_Compile
  imports Jit_Emit
begin

text \<open>
  The compiler of \<^verbatim>\<open>src/src/jit.rs\<close>: calls of Rust functions and of functions of the program, memory
  accesses, the subroutines in front of the program, and \<open>compile\<close> with one arm per operation code.
\<close>

unbundle bit_operations_syntax

section \<open>Calls\<close>

definition emit_push_argument :: "Argument \<Rightarrow> ('f, 'r) emitter" where
  "emit_push_argument argument =
     (let on_stack = arg_index argument \<ge> length ARGUMENT_REGISTERS;
          dst = (if on_stack then RSP else ARGUMENT_REGISTERS ! arg_index argument)
      in case arg_value argument of
        Register r \<Rightarrow>
          if on_stack then emit_ins (x86_push r None)
          else if r \<noteq> dst then emit_ins (x86_mov S64 r dst) else Some
      | RegisterIndirect r offset user_provided \<Rightarrow>
          if user_provided then (\<lambda>_. None)
          else if on_stack
          then (if r = RSP then (\<lambda>_. None) else emit_ins (x86_push r (Some (Offset offset))))
          else if r = RSP then emit_ins (x86_load S64 RSP dst (OffsetIndexShift offset RSP 0))
          else emit_ins (x86_load S64 r dst (Offset offset))
      | RegisterPlusConstant32 r offset user_provided \<Rightarrow>
          if user_provided then (\<lambda>_. None)
          else if on_stack
          then emits
            [emit_ins (x86_push r None),
             emit_ins (x86_alu_immediate S64 0x81 0 RSP (scast offset) (Some (OffsetIndexShift 0 RSP 0)))]
          else if r = RSP then emit_ins (x86_lea S64 RSP dst (Some (OffsetIndexShift offset RSP 0)))
          else emit_ins (x86_lea S64 r dst (Some (Offset offset)))
      | RegisterPlusConstant64 r offset user_provided \<Rightarrow>
          if user_provided then (\<lambda>_. None)
          else if on_stack
          then emits
            [emit_ins (x86_push r None),
             emit_ins (x86_alu_immediate S64 0x81 0 RSP offset (Some (OffsetIndexShift 0 RSP 0)))]
          else emits
            [emit_ins (x86_load_immediate dst offset),
             emit_ins (x86_alu S64 0x01 r dst None)]
      | Constant64 v user_provided \<Rightarrow>
          if user_provided \<or> on_stack then (\<lambda>_. None) else emit_ins (x86_load_immediate dst v))"

definition emit_rust_call :: "Value \<Rightarrow> Argument list \<Rightarrow> X86Register option \<Rightarrow> ('f, 'r) emitter" where
  "emit_rust_call target arguments result_reg =
     (let saved_registers =
            (case result_reg of None \<Rightarrow> CALLER_SAVED_REGISTERS | Some r \<Rightarrow> remove1 r CALLER_SAVED_REGISTERS);
          stack_arguments = length arguments - length ARGUMENT_REGISTERS;
          odd_arguments = (stack_arguments mod 2 \<noteq> 0)
      in emits
        (map (\<lambda>r. emit_ins (x86_push r None)) saved_registers @
         [(if odd_arguments then emit_ins (x86_alu_immediate S64 0x81 5 RSP 8 None) else Some)] @
         map emit_push_argument arguments @
         [(case target of
             Register r \<Rightarrow> emit_ins (x86_call_reg r None)
           | Constant64 v user_provided \<Rightarrow>
               if user_provided then (\<lambda>_. None)
               else emits [emit_ins (x86_load_immediate RAX v), emit_ins (x86_call_reg RAX None)]
           | _ \<Rightarrow> (\<lambda>_. None)),
          (case result_reg of Some r \<Rightarrow> emit_ins (x86_mov S64 RAX r) | None \<Rightarrow> Some),
          emit_ins (x86_alu_immediate S64 0x81 0 RSP
            (of_nat ((if odd_arguments then stack_arguments + 1 else stack_arguments) * 8)) None)] @
         map (\<lambda>r. emit_ins (x86_pop r)) (rev saved_registers)))"

text \<open>The guest registers that a call saves.\<close>

definition saved_guest_registers :: "X86Register list" where
  "saved_guest_registers = take SCRATCH_REGS (drop FIRST_SCRATCH_REG REGISTER_MAP)"

definition emit_internal_call :: "Value \<Rightarrow> ('f, 'r) emitter" where
  "emit_internal_call target c =
     emits
       ([emit_ins (x86_load_immediate REGISTER_SCRATCH (of_nat (jit_pc c))),
         \<lambda>c. Some (c\<lparr>last_instruction_meter_validation_pc := jit_pc c\<rparr>),
         emit_call_to_anchor ANCHOR_INTERNAL_FUNCTION_CALL_PROLOGUE,
         (case target of
            Register r \<Rightarrow> emits
              [emit_ins (x86_store S64 REGISTER_SCRATCH RSP (OffsetIndexShift (- 24) RSP 0)),
               emit_ins (x86_mov S64 r REGISTER_SCRATCH),
               emit_call_to_anchor ANCHOR_INTERNAL_FUNCTION_CALL_REG]
          | Constant64 target_pc user_provided \<Rightarrow>
              if \<not> user_provided then (\<lambda>_. None)
              else emits
                [emit_profile_instruction_count (Some (unat target_pc)),
                 emit_user_constant REGISTER_SCRATCH target_pc target_pc,
                 \<lambda>c. do {
                   (jump_offset, c) \<leftarrow> relative_to_target_pc c (unat target_pc) 5;
                   emit_ins (x86_call_immediate jump_offset) c
                 }]
          | _ \<Rightarrow> (\<lambda>_. None)),
         emit_undo_profile_instruction_count 0,
         emit_ins (x86_pop (REGISTER_MAP ! FRAME_PTR_REG))] @
        map (\<lambda>r. emit_ins (x86_pop r)) (rev saved_guest_registers)) c"

section \<open>Memory accesses\<close>

definition stack_slot_of_value_to_store :: X86IndirectAccess where
  "stack_slot_of_value_to_store = OffsetIndexShift (- 96) RSP 0"

definition access_log :: "nat \<Rightarrow> nat" where
  "access_log n = (if n = 1 then 0 else if n = 2 then 1 else if n = 4 then 2 else 3)"

definition access_size :: "nat \<Rightarrow> OperandSize" where
  "access_size n = (if n = 1 then S8 else if n = 2 then S16 else if n = 4 then S32 else S64)"

definition emit_value_to_store :: "Value option \<Rightarrow> ('f, 'r) emitter" where
  "emit_value_to_store v c =
     (case v of
        Some (Register r) \<Rightarrow> emit_ins (x86_store S64 r RSP stack_slot_of_value_to_store) c
      | Some (Constant64 constant user_provided) \<Rightarrow>
          if \<not> user_provided then None
          else emits
            [emit_ins (x86_load_immediate REGISTER_SCRATCH (constant - lower_key c)),
             emit_ins (x86_store S64 REGISTER_SCRATCH RSP stack_slot_of_value_to_store)] c
      | _ \<Rightarrow> Some c)"

definition emit_address_translation ::
  "X86Register option \<Rightarrow> Value \<Rightarrow> nat \<Rightarrow> Value option \<Rightarrow> ('f, 'r) emitter" where
  "emit_address_translation destination vm_address n v =
     (if (destination \<noteq> None) = (v \<noteq> None) then (\<lambda>_. None)
      else emits
        [emit_value_to_store v,
         (case vm_address of
            RegisterPlusConstant64 r constant user_provided \<Rightarrow> emits
              [\<lambda>c. if user_provided \<and> should_sanitize_constant c constant
                   then emit_sanitized_load_immediate REGISTER_SCRATCH constant c
                   else emit_ins (x86_load_immediate REGISTER_SCRATCH constant) c,
               emit_ins (x86_alu S64 0x01 r REGISTER_SCRATCH None)]
          | _ \<Rightarrow> (\<lambda>_. None)),
         \<lambda>c. if enable_address_translation (jit_config c)
           then let anchor_base = (case v of Some (Register _) \<Rightarrow> 4 | Some (Constant64 _ _) \<Rightarrow> 8 | _ \<Rightarrow> 0) in
             emits
               [emit_ins (x86_push_immediate S64 (of_nat (jit_pc c))),
                emit_call_to_anchor (ANCHOR_TRANSLATE_MEMORY_ADDRESS + anchor_base + access_log n),
                (case destination of Some d \<Rightarrow> emit_ins (x86_mov S64 REGISTER_SCRATCH d) | None \<Rightarrow> Some)] c
           else case destination of
             Some d \<Rightarrow> emit_ins (x86_load (access_size n) REGISTER_SCRATCH d (Offset 0)) c
           | None \<Rightarrow> emits
               [emit_ins (x86_xchg S64 RSP (REGISTER_MAP ! 0) (Some stack_slot_of_value_to_store)),
                emit_ins (x86_store (access_size n) (REGISTER_MAP ! 0) REGISTER_SCRATCH (Offset 0)),
                emit_ins (x86_xchg S64 RSP (REGISTER_MAP ! 0) (Some stack_slot_of_value_to_store))] c])"

section \<open>Exceptions and subroutines\<close>

definition emit_set_exception_kind :: "EbpfError \<Rightarrow> ('f, 'r) emitter" where
  "emit_set_exception_kind err c =
     emits
       [emit_ins (x86_lea S64 REGISTER_PTR_TO_VM (REGISTER_MAP ! 0) (Some (Offset (slot_in_vm c SlotProgramResult)))),
        emit_ins (x86_store_immediate S64 (REGISTER_MAP ! 0) (Offset 0) (discriminant (Err err :: ProgramResult))),
        emit_ins (x86_store_immediate S64 (REGISTER_MAP ! 0) (Offset 8) (err_kind (surroundings c) err))] c"

definition emit_result_is_err :: "X86Register \<Rightarrow> ('f, 'r) emitter" where
  "emit_result_is_err destination c =
     emits
       [emit_ins (x86_lea S64 REGISTER_PTR_TO_VM destination (Some (Offset (slot_in_vm c SlotProgramResult)))),
        emit_ins (x86_cmp_immediate S64 destination (discriminant (Ok 0 :: ProgramResult)) (Some (Offset 0)))] c"

definition emit_stopwatch :: "bool \<Rightarrow> ('f, 'r) emitter" where
  "emit_stopwatch begins c =
     emits
       [\<lambda>c. Some (c\<lparr>stopwatch_is_active := True\<rparr>),
        emit_ins (x86_push RDX None),
        emit_ins (x86_push RAX None),
        emit_ins (x86_fence FenceLoad),
        emit_ins x86_cycle_count,
        emit_ins (x86_fence FenceLoad),
        emit_ins (x86_alu_immediate S64 0xc1 4 RDX 32 None),
        emit_ins (x86_alu S64 0x09 RDX RAX None),
        (if begins
         then emit_ins (x86_alu S64 0x29 RAX REGISTER_PTR_TO_VM (Some (Offset (slot_in_vm c StopwatchNumerator))))
         else emits
           [emit_ins (x86_alu S64 0x01 RAX REGISTER_PTR_TO_VM (Some (Offset (slot_in_vm c StopwatchNumerator)))),
            emit_ins (x86_alu_immediate S64 0x81 0 REGISTER_PTR_TO_VM 1
              (Some (Offset (slot_in_vm c StopwatchDenominator))))]),
        emit_ins (x86_pop RAX),
        emit_ins (x86_pop RDX)] c"

text \<open>The routine for register tracing.\<close>

definition emit_trace_routine :: "('f, 'r) emitter" where
  "emit_trace_routine c =
     (if \<not> enable_register_tracing (jit_config c) then Some c
      else emits
        ([set_anchor ANCHOR_TRACE,
          emit_ins (x86_push REGISTER_SCRATCH None)] @
         map (\<lambda>r. emit_ins (x86_push r None)) (rev REGISTER_MAP) @
         [emit_ins (x86_mov S64 RSP (REGISTER_MAP ! 0)),
          emit_ins (x86_alu_immediate S64 0x81 0 RSP (- 24) None),
          emit_rust_call (Constant64 (trace_fn (surroundings c)) False)
            [\<lparr>arg_index = 1, arg_value = Register (REGISTER_MAP ! 0)\<rparr>,
             \<lparr>arg_index = 0, arg_value = RegisterPlusConstant32 REGISTER_PTR_TO_VM (slot_in_vm c RegisterTrace) False\<rparr>]
            None,
          emit_ins (x86_alu_immediate S64 0x81 0 RSP 24 None),
          emit_ins (x86_pop (REGISTER_MAP ! 0)),
          emit_ins (x86_alu_immediate S64 0x81 0 RSP (of_nat (8 * (length REGISTER_MAP - 1))) None),
          emit_ins (x86_pop REGISTER_SCRATCH),
          emit_ins x86_return_near]) c)"

definition emit_epilogue :: "('f, 'r) emitter" where
  "emit_epilogue c =
     emits
       [set_anchor ANCHOR_EPILOGUE,
        (if enable_instruction_meter (jit_config c)
         then emits
           [emit_ins (x86_alu_immediate S64 0x81 5 REGISTER_INSTRUCTION_METER 1 None),
            emit_ins (x86_alu S64 0x29 REGISTER_SCRATCH REGISTER_INSTRUCTION_METER None),
            emit_ins (x86_alu S64 0x2b REGISTER_INSTRUCTION_METER REGISTER_PTR_TO_VM
              (Some (Offset (slot_in_vm c PreviousInstructionMeter)))),
            emit_ins (x86_alu_immediate S64 0xf7 3 REGISTER_INSTRUCTION_METER 0 None),
            emit_ins (x86_store S64 REGISTER_INSTRUCTION_METER REGISTER_PTR_TO_VM (Offset (slot_in_vm c DueInsnCount)))]
         else Some),
        (if stopwatch_is_active c
         then emit_rust_call (Constant64 (stopwatch_fn (surroundings c)) False)
           [\<lparr>arg_index = 1, arg_value = RegisterIndirect REGISTER_PTR_TO_VM (slot_in_vm c StopwatchDenominator) False\<rparr>,
            \<lparr>arg_index = 0, arg_value = RegisterIndirect REGISTER_PTR_TO_VM (slot_in_vm c StopwatchNumerator) False\<rparr>]
           None
         else Some),
        emit_ins (x86_load S64 REGISTER_PTR_TO_VM RSP (Offset (slot_in_vm c HostStackPointer))),
        emit_ins x86_return_near] c"

text \<open>The handlers of errors and of the final exit.\<close>

definition emit_handlers :: "('f, 'r) emitter" where
  "emit_handlers c =
     emits
       [set_anchor ANCHOR_THROW_EXCEEDED_MAX_INSTRUCTIONS,
        emit_set_exception_kind ExceededMaxInstructions,
        emit_ins (x86_mov S64 REGISTER_INSTRUCTION_METER REGISTER_SCRATCH),
        set_anchor ANCHOR_THROW_EXCEPTION_UNCHECKED,
        emit_ins (x86_store S64 REGISTER_SCRATCH REGISTER_PTR_TO_VM (Offset (slot_in_vm c Registers + 88))),
        emit_jump_to_anchor ANCHOR_EPILOGUE,
        set_anchor ANCHOR_EXIT,
        (if enable_instruction_meter (jit_config c)
         then emit_ins (x86_alu_immediate S64 0x81 0 REGISTER_INSTRUCTION_METER 1 None) else Some),
        emit_ins (x86_lea S64 REGISTER_PTR_TO_VM REGISTER_SCRATCH (Some (Offset (slot_in_vm c SlotProgramResult)))),
        emit_ins (x86_store S64 (REGISTER_MAP ! 0) REGISTER_SCRATCH (Offset 8)),
        emit_ins (x86_alu S64 0x31 REGISTER_SCRATCH REGISTER_SCRATCH None),
        emit_jump_to_anchor ANCHOR_EPILOGUE,
        set_anchor ANCHOR_THROW_EXCEPTION,
        emit_validate_instruction_count None,
        emit_jump_to_anchor ANCHOR_THROW_EXCEPTION_UNCHECKED,
        set_anchor ANCHOR_CALL_DEPTH_EXCEEDED,
        emit_set_exception_kind CallDepthExceeded,
        emit_jump_to_anchor ANCHOR_THROW_EXCEPTION,
        set_anchor ANCHOR_CALL_REG_OUTSIDE_TEXT_SEGMENT,
        emit_set_exception_kind CallOutsideTextSegment,
        emit_ins (x86_load S64 RSP REGISTER_SCRATCH (OffsetIndexShift (- 8) RSP 0)),
        emit_jump_to_anchor ANCHOR_THROW_EXCEPTION,
        set_anchor ANCHOR_DIV_BY_ZERO,
        emit_set_exception_kind DivideByZero,
        emit_jump_to_anchor ANCHOR_THROW_EXCEPTION,
        set_anchor ANCHOR_DIV_OVERFLOW,
        emit_set_exception_kind DivideOverflow,
        emit_jump_to_anchor ANCHOR_THROW_EXCEPTION,
        set_anchor ANCHOR_CALL_REG_UNSUPPORTED_INSTRUCTION,
        emit_ins (x86_load S64 RSP REGISTER_SCRATCH (OffsetIndexShift (- 8) RSP 0)),
        emit_ins (x86_pop (REGISTER_MAP ! 0)),
        set_anchor ANCHOR_CALL_UNSUPPORTED_INSTRUCTION,
        (if enable_register_tracing (jit_config c) then emit_call_to_anchor ANCHOR_TRACE else Some),
        emit_set_exception_kind UnsupportedInstruction,
        emit_jump_to_anchor ANCHOR_THROW_EXCEPTION] c"

definition emit_external_function_call :: "('f, 'r) emitter" where
  "emit_external_function_call c =
     emits
       [set_anchor ANCHOR_EXTERNAL_FUNCTION_CALL,
        emit_ins (x86_push_immediate S64 (- 1)),
        (if enable_instruction_meter (jit_config c)
         then emit_ins (x86_store S64 REGISTER_INSTRUCTION_METER REGISTER_PTR_TO_VM (Offset (slot_in_vm c DueInsnCount)))
         else Some),
        emit_rust_call (Register REGISTER_SCRATCH)
          [\<lparr>arg_index = 5, arg_value = Register (ARGUMENT_REGISTERS ! 5)\<rparr>,
           \<lparr>arg_index = 4, arg_value = Register (ARGUMENT_REGISTERS ! 4)\<rparr>,
           \<lparr>arg_index = 3, arg_value = Register (ARGUMENT_REGISTERS ! 3)\<rparr>,
           \<lparr>arg_index = 2, arg_value = Register (ARGUMENT_REGISTERS ! 2)\<rparr>,
           \<lparr>arg_index = 1, arg_value = Register (ARGUMENT_REGISTERS ! 1)\<rparr>,
           \<lparr>arg_index = 0, arg_value = Register REGISTER_PTR_TO_VM\<rparr>] None,
        (if enable_instruction_meter (jit_config c)
         then emit_ins (x86_load S64 REGISTER_PTR_TO_VM REGISTER_INSTRUCTION_METER
           (Offset (slot_in_vm c PreviousInstructionMeter)))
         else Some),
        emit_result_is_err REGISTER_SCRATCH,
        emit_ins (x86_pop REGISTER_SCRATCH),
        emit_conditional_jump_to_anchor 0x85 ANCHOR_EPILOGUE,
        emit_ins (x86_lea S64 REGISTER_PTR_TO_VM REGISTER_SCRATCH (Some (Offset (slot_in_vm c SlotProgramResult)))),
        emit_ins (x86_load S64 REGISTER_SCRATCH (REGISTER_MAP ! 0) (Offset 8)),
        emit_ins x86_return_near] c"

definition emit_call_prologue :: "('f, 'r) emitter" where
  "emit_call_prologue c =
     (let call_depth_access = Offset (slot_in_vm c CallDepth) in
      emits
        ([set_anchor ANCHOR_INTERNAL_FUNCTION_CALL_PROLOGUE,
          emit_validate_instruction_count None,
          emit_ins (x86_alu_immediate S64 0x81 5 RSP (of_nat (8 * (SCRATCH_REGS + 1))) None),
          emit_ins (x86_store S64 REGISTER_SCRATCH RSP (OffsetIndexShift 0 RSP 0)),
          emit_ins (x86_load S64 RSP REGISTER_SCRATCH
            (OffsetIndexShift (of_nat (8 * (SCRATCH_REGS + 1))) RSP 0))] @
         map (\<lambda>(i, r). emit_ins (x86_store S64 r RSP (OffsetIndexShift (of_nat (8 * (SCRATCH_REGS - i + 1))) RSP 0)))
           (enumerate 0 saved_guest_registers) @
         [emit_ins (x86_store S64 (REGISTER_MAP ! FRAME_PTR_REG) RSP (OffsetIndexShift 8 RSP 0)),
          emit_ins (x86_xchg S64 REGISTER_SCRATCH RSP (Some (OffsetIndexShift 0 RSP 0))),
          emit_ins (x86_alu_immediate S64 0x81 0 REGISTER_PTR_TO_VM 1 (Some call_depth_access)),
          emit_ins (x86_cmp_immediate S32 REGISTER_PTR_TO_VM (of_nat (max_call_depth (jit_config c)))
            (Some call_depth_access)),
          emit_conditional_jump_to_anchor 0x83 ANCHOR_CALL_DEPTH_EXCEEDED,
          (if \<not> manual_stack_frame_bump (jit_version c)
           then emit_ins (x86_alu_immediate S64 0x81 0 (REGISTER_MAP ! FRAME_PTR_REG)
             (of_nat (stack_frame_size (jit_config c)) *
                (if stack_frame_gaps (jit_version c) \<and> enable_stack_frame_gaps (jit_config c) then 2 else 1)) None)
           else Some),
          emit_ins x86_return_near]) c)"

definition emit_call_reg_routine :: "('f, 'r) emitter" where
  "emit_call_reg_routine c =
     emits
       [set_anchor ANCHOR_INTERNAL_FUNCTION_CALL_REG,
        emit_ins (x86_push (REGISTER_MAP ! 0) None),
        emit_ins (x86_load_immediate (REGISTER_MAP ! 0) (jit_program_vm_addr c)),
        emit_ins (x86_alu S64 0x29 (REGISTER_MAP ! 0) REGISTER_SCRATCH None),
        emit_ins (x86_alu_immediate S64 0x81 4 REGISTER_SCRATCH (NOT (of_nat INSN_SIZE - 1)) None),
        emit_ins (x86_cmp_immediate S64 REGISTER_SCRATCH (of_nat (length (pc_section (result c)) * INSN_SIZE)) None),
        emit_conditional_jump_to_anchor 0x83 ANCHOR_CALL_REG_OUTSIDE_TEXT_SEGMENT,
        emit_ins (x86_alu_immediate S64 0xc1 5 REGISTER_SCRATCH 3 None),
        emit_ins (x86_load_immediate (REGISTER_MAP ! 0) (pc_section_ptr (surroundings c))),
        emit_ins (x86_load S32 (REGISTER_MAP ! 0) (REGISTER_MAP ! 0) (OffsetIndexShift 0 REGISTER_SCRATCH 2)),
        emit_ins (x86_test_immediate S32 (REGISTER_MAP ! 0) (push_bit 31 1) None),
        emit_conditional_jump_to_anchor 0x85 ANCHOR_CALL_REG_UNSUPPORTED_INSTRUCTION,
        emit_ins (x86_alu_immediate S32 0x81 4 (REGISTER_MAP ! 0) 0x7fffffff None),
        emit_ins (x86_alu S64 0x2b REGISTER_INSTRUCTION_METER RSP (Some (OffsetIndexShift (- 8) RSP 0))),
        emit_ins (x86_alu_immediate S64 0x81 5 REGISTER_INSTRUCTION_METER 1 None),
        emit_ins (x86_alu S64 0x01 REGISTER_SCRATCH REGISTER_INSTRUCTION_METER None),
        emit_ins (x86_mov_mmx S64 REGISTER_SCRATCH MM0),
        emit_ins (x86_load_immediate REGISTER_SCRATCH (text_section_ptr (surroundings c))),
        emit_ins (x86_alu S64 0x01 REGISTER_SCRATCH (REGISTER_MAP ! 0) None),
        emit_ins (x86_mov_mmx S64 MM0 REGISTER_SCRATCH),
        emit_ins (x86_xchg S64 (REGISTER_MAP ! 0) RSP (Some (OffsetIndexShift 0 RSP 0))),
        emit_ins x86_return_near] c"

definition emit_translation_routine :: "nat \<times> nat \<Rightarrow> ('f, 'r) emitter" where
  "emit_translation_routine kind c =
     (case kind of (anchor_base, n) \<Rightarrow>
      emits
        [set_anchor (ANCHOR_TRANSLATE_MEMORY_ADDRESS + anchor_base + access_log n),
         (if anchor_base = 0
          then emit_rust_call (Constant64 (load_fn (surroundings c) n) False)
            [\<lparr>arg_index = 2, arg_value = Register REGISTER_SCRATCH\<rparr>,
             \<lparr>arg_index = 3, arg_value = Constant64 0 False\<rparr>,
             \<lparr>arg_index = 1, arg_value = RegisterPlusConstant32 REGISTER_PTR_TO_VM (slot_in_vm c SlotMemoryMapping) False\<rparr>,
             \<lparr>arg_index = 0, arg_value = RegisterPlusConstant32 REGISTER_PTR_TO_VM (slot_in_vm c SlotProgramResult) False\<rparr>]
            None
          else emits
            [(if anchor_base = 8
              then emit_ins (x86_alu_immediate S64 0x81 0 RSP (lower_key c) (Some (OffsetIndexShift (- 80) RSP 0)))
              else Some),
             emit_rust_call (Constant64 (store_fn (surroundings c) n) False)
               [\<lparr>arg_index = 3, arg_value = Register REGISTER_SCRATCH\<rparr>,
                \<lparr>arg_index = 2, arg_value = RegisterIndirect RSP (- 8) False\<rparr>,
                \<lparr>arg_index = 4, arg_value = Constant64 0 False\<rparr>,
                \<lparr>arg_index = 1, arg_value = RegisterPlusConstant32 REGISTER_PTR_TO_VM (slot_in_vm c SlotMemoryMapping) False\<rparr>,
                \<lparr>arg_index = 0, arg_value = RegisterPlusConstant32 REGISTER_PTR_TO_VM (slot_in_vm c SlotProgramResult) False\<rparr>]
               None]),
         emit_result_is_err REGISTER_SCRATCH,
         emit_ins (x86_pop REGISTER_SCRATCH),
         emit_ins (x86_xchg S64 REGISTER_SCRATCH RSP (Some (OffsetIndexShift 0 RSP 0))),
         emit_conditional_jump_to_anchor 0x85 ANCHOR_THROW_EXCEPTION,
         (if anchor_base = 0
          then emit_ins (x86_load S64 REGISTER_PTR_TO_VM REGISTER_SCRATCH (Offset (slot_in_vm c SlotProgramResult + 8)))
          else Some),
         emit_ins x86_return_near] c)"

definition emit_subroutines :: "('f, 'r) emitter" where
  "emit_subroutines =
     emits
       ([emit_trace_routine, emit_epilogue, emit_handlers, emit_external_function_call, emit_call_prologue,
         emit_call_reg_routine] @
        map emit_translation_routine
          [(0, 1), (0, 2), (0, 4), (0, 8), (4, 1), (4, 2), (4, 4), (4, 8), (8, 1), (8, 2), (8, 4), (8, 8)])"

section \<open>Arms of \<open>compile\<close>\<close>

text \<open>The parts the arms share.  The program counter and the version do not change while an
  instruction is compiled.\<close>

definition emit_lddw :: "Insn \<Rightarrow> X86Register \<Rightarrow> ('f, 'r) emitter" where
  "emit_lddw insn d =
     emits
       [\<lambda>c. emit_validate_and_profile_instruction_count (Some (jit_pc c + 2)) c,
        \<lambda>c. do {
          destination \<leftarrow> slice_get (anchors c) ANCHOR_CALL_UNSUPPORTED_INSTRUCTION;
          destination \<leftarrow> destination;
          pcs \<leftarrow> slice_set (pc_section (result c)) (jit_pc c + 1) (of_nat destination);
          insn \<leftarrow> augment_lddw_unchecked (jit_program c) insn;
          emit_user_constant d (imm insn) (imm insn)
            (c\<lparr>jit_pc := jit_pc c + 1, result := (result c)\<lparr>pc_section := pcs\<rparr>\<rparr>)
        }]"

definition emit_load :: "nat \<Rightarrow> Insn \<Rightarrow> X86Register \<Rightarrow> X86Register \<Rightarrow> ('f, 'r) emitter" where
  "emit_load n insn d s =
     emit_address_translation (Some d) (RegisterPlusConstant64 s (scast (off insn)) True) n None"

definition emit_store_imm :: "nat \<Rightarrow> Insn \<Rightarrow> X86Register \<Rightarrow> ('f, 'r) emitter" where
  "emit_store_imm n insn d =
     emit_address_translation None (RegisterPlusConstant64 d (scast (off insn)) True) n
       (Some (Constant64 (imm insn) True))"

definition emit_store_reg :: "nat \<Rightarrow> Insn \<Rightarrow> X86Register \<Rightarrow> X86Register \<Rightarrow> ('f, 'r) emitter" where
  "emit_store_reg n insn d s =
     emit_address_translation None (RegisterPlusConstant64 d (scast (off insn)) True) n (Some (Register s))"

definition emit_sign_extension :: "X86Register \<Rightarrow> ('f, 'r) emitter" where
  "emit_sign_extension d c =
     (if \<not> explicit_sign_extension_of_results (jit_version c)
      then emit_ins (x86_alu S64 0x63 d d None) c else Some c)"

definition emit_sub_imm :: "OperandSize \<Rightarrow> SBPFVersion \<Rightarrow> Insn \<Rightarrow> X86Register \<Rightarrow> ('f, 'r) emitter" where
  "emit_sub_imm sz v insn d =
     (if swap_sub_reg_imm_operands v
      then emits
        [emit_ins (x86_alu_immediate sz 0xf7 3 d 0 None),
         (if imm insn \<noteq> 0 then emit_sanitized_alu sz 0x01 0 d (imm insn) else Some)]
      else emit_sanitized_alu sz 0x29 5 d (imm insn))"

definition emit_legacy_division ::
  "OperandSize \<Rightarrow> Insn \<Rightarrow> X86Register \<Rightarrow> X86Register \<Rightarrow> i64 option \<Rightarrow> ('f, 'r) emitter" where
  "emit_legacy_division sz insn source destination immediate =
     emit_product_quotient_remainder sz
       (opc insn AND BPF_ALU_OP_MASK = BPF_MOD)
       (opc insn AND BPF_ALU_OP_MASK \<noteq> BPF_MUL)
       (opc insn AND BPF_ALU_OP_MASK = BPF_MUL)
       source destination immediate"

definition pqr_size :: "Insn \<Rightarrow> OperandSize" where
  "pqr_size insn = (if bit (opc insn) 4 then S64 else S32)"

definition emit_pqr_imm :: "Insn \<Rightarrow> X86Register \<Rightarrow> ('f, 'r) emitter" where
  "emit_pqr_imm insn d =
     (let is_signed = bit (opc insn) 7;
          immediate = (if is_signed then imm insn else imm insn AND 0xffffffff)
      in emit_product_quotient_remainder (pqr_size insn) (bit (opc insn) 5) (bit (opc insn) 6) is_signed
           d d (Some immediate))"

definition emit_pqr_reg :: "Insn \<Rightarrow> X86Register \<Rightarrow> X86Register \<Rightarrow> ('f, 'r) emitter" where
  "emit_pqr_reg insn d s =
     emit_product_quotient_remainder (pqr_size insn) (bit (opc insn) 5) (bit (opc insn) 6) (bit (opc insn) 7)
       s d None"

definition emit_le :: "Insn \<Rightarrow> X86Register \<Rightarrow> EbpfError + ('f, 'r) emitter" where
  "emit_le insn d =
     (if imm insn = 16 then Inr (emit_ins (x86_alu_immediate S32 0x81 4 d 0xffff None))
      else if imm insn = 32 then Inr (emit_ins (x86_alu_immediate S32 0x81 4 d (- 1) None))
      else if imm insn = 64 then Inr Some
      else Inl InvalidInstruction)"

definition emit_be :: "Insn \<Rightarrow> X86Register \<Rightarrow> EbpfError + ('f, 'r) emitter" where
  "emit_be insn d =
     (if imm insn = 16
      then Inr (emits [emit_ins (x86_bswap S16 d), emit_ins (x86_alu_immediate S32 0x81 4 d 0xffff None)])
      else if imm insn = 32 then Inr (emit_ins (x86_bswap S32 d))
      else if imm insn = 64 then Inr (emit_ins (x86_bswap S64 d))
      else Inl InvalidInstruction)"

definition emit_ja :: "usize \<Rightarrow> ('f, 'r) emitter" where
  "emit_ja tpc =
     emits
       [emit_validate_and_profile_instruction_count (Some tpc),
        \<lambda>c. do {
          (jump_offset, c) \<leftarrow> relative_to_target_pc c tpc 5;
          emit_ins (x86_jump_immediate jump_offset) c
        }]"

definition emit_call_imm :: "SBPFVersion \<Rightarrow> Insn \<Rightarrow> ('f, 'r) emitter" where
  "emit_call_imm v insn c =
     (let syscall =
            (if \<not> static_syscalls v \<or> src insn = 0
             then lookup_by_key (get_function_registry (get_loader (jit_executable c))) (ucast (imm insn))
             else None);
          internal =
            (if static_syscalls v
             then let tpc = i64_saturating_add (i64_saturating_add (of_nat (jit_pc c)) (imm insn)) 1 in
               (if is_pc_in_program (jit_program c) (unat tpc) \<and> src insn = 1 then Some tpc else None)
             else map_option (\<lambda>(_, pc). of_nat pc)
               (lookup_by_key (exe_get_function_registry (jit_executable c)) (ucast (imm insn))))
      in emits
        [(case syscall of
            Some (_, function) \<Rightarrow> emits
              [emit_validate_and_profile_instruction_count (Some 0),
               emit_ins (x86_load_immediate REGISTER_SCRATCH (builtin_fn (surroundings c) function)),
               emit_call_to_anchor ANCHOR_EXTERNAL_FUNCTION_CALL,
               emit_undo_profile_instruction_count 0]
          | None \<Rightarrow> Some),
         (case internal of
            Some tpc \<Rightarrow> emit_internal_call (Constant64 tpc True)
          | None \<Rightarrow> Some),
         (if syscall = None \<and> internal = None
          then emits
            [emit_ins (x86_load_immediate REGISTER_SCRATCH (of_nat (jit_pc c))),
             emit_jump_to_anchor ANCHOR_CALL_UNSUPPORTED_INSTRUCTION]
          else Some)] c)"

definition emit_call_reg :: "SBPFVersion \<Rightarrow> Insn \<Rightarrow> X86Register \<Rightarrow> X86Register \<Rightarrow> ('f, 'r) emitter" where
  "emit_call_reg v insn d s c =
     do {
       target \<leftarrow>
         (if callx_uses_src_reg v then Some s
          else if callx_uses_dst_reg v then Some d
          else slice_get REGISTER_MAP (unat (imm insn)));
       emit_internal_call (Register target) c
     }"

definition emit_exit :: "('f, 'r) emitter" where
  "emit_exit c =
     (let call_depth_access = Offset (slot_in_vm c CallDepth) in
      emits
        [emit_validate_and_profile_instruction_count (Some 0),
         emit_ins (x86_cmp_immediate S32 REGISTER_PTR_TO_VM 0 (Some call_depth_access)),
         emit_conditional_jump_to_anchor 0x84 ANCHOR_EXIT,
         emit_ins (x86_alu_immediate S64 0x81 5 REGISTER_PTR_TO_VM 1 (Some call_depth_access)),
         emit_ins x86_return_near] c)"

type_synonym ('f, 'r) compile_arm = "u8 \<times> bool \<times> (EbpfError + ('f, 'r) emitter)"

definition compile_ld :: "SBPFVersion \<Rightarrow> Insn \<Rightarrow> X86Register \<Rightarrow> ('f, 'r) compile_arm list" where
  "compile_ld v insn d =
     [(LD_DW_IMM, \<not> disable_lddw v, Inr (emit_lddw insn d))]"

definition compile_ldx :: "SBPFVersion \<Rightarrow> Insn \<Rightarrow> X86Register \<Rightarrow> X86Register \<Rightarrow> ('f, 'r) compile_arm list" where
  "compile_ldx v insn d s =
     [(LD_B_REG, \<not> move_memory_instruction_classes v, Inr (emit_load 1 insn d s)),
      (LD_H_REG, \<not> move_memory_instruction_classes v, Inr (emit_load 2 insn d s)),
      (LD_W_REG, \<not> move_memory_instruction_classes v, Inr (emit_load 4 insn d s)),
      (LD_DW_REG, \<not> move_memory_instruction_classes v, Inr (emit_load 8 insn d s))]"

definition compile_st :: "SBPFVersion \<Rightarrow> Insn \<Rightarrow> X86Register \<Rightarrow> ('f, 'r) compile_arm list" where
  "compile_st v insn d =
     [(ST_B_IMM, \<not> move_memory_instruction_classes v, Inr (emit_store_imm 1 insn d)),
      (ST_H_IMM, \<not> move_memory_instruction_classes v, Inr (emit_store_imm 2 insn d)),
      (ST_W_IMM, \<not> move_memory_instruction_classes v, Inr (emit_store_imm 4 insn d)),
      (ST_DW_IMM, \<not> move_memory_instruction_classes v, Inr (emit_store_imm 8 insn d))]"

definition compile_stx :: "SBPFVersion \<Rightarrow> Insn \<Rightarrow> X86Register \<Rightarrow> X86Register \<Rightarrow> ('f, 'r) compile_arm list" where
  "compile_stx v insn d s =
     [(ST_B_REG, \<not> move_memory_instruction_classes v, Inr (emit_store_reg 1 insn d s)),
      (ST_H_REG, \<not> move_memory_instruction_classes v, Inr (emit_store_reg 2 insn d s)),
      (ST_W_REG, \<not> move_memory_instruction_classes v, Inr (emit_store_reg 4 insn d s)),
      (ST_DW_REG, \<not> move_memory_instruction_classes v, Inr (emit_store_reg 8 insn d s))]"

definition compile_alu32 :: "SBPFVersion \<Rightarrow> Insn \<Rightarrow> X86Register \<Rightarrow> X86Register \<Rightarrow> ('f, 'r) compile_arm list" where
  "compile_alu32 v insn d s =
     [(ADD32_IMM, True, Inr (emits [emit_sanitized_alu S32 0x01 0 d (imm insn), emit_sign_extension d])),
      (ADD32_REG, True, Inr (emits [emit_ins (x86_alu S32 0x01 s d None), emit_sign_extension d])),
      (SUB32_IMM, True, Inr (emits [emit_sub_imm S32 v insn d, emit_sign_extension d])),
      (SUB32_REG, True, Inr (emits [emit_ins (x86_alu S32 0x29 s d None), emit_sign_extension d])),
      (MUL32_IMM, \<not> enable_pqr v, Inr (emits
        [emit_user_constant REGISTER_SCRATCH (imm insn) (imm insn),
         emit_ins (x86_alu_escaped S32 1 0xaf d REGISTER_SCRATCH None),
         emit_sign_extension d])),
      (DIV32_IMM, \<not> enable_pqr v, Inr (emit_legacy_division S32 insn d d (Some (imm insn)))),
      (MOD32_IMM, \<not> enable_pqr v, Inr (emit_legacy_division S32 insn d d (Some (imm insn)))),
      (LD_1B_REG, move_memory_instruction_classes v, Inr (emit_load 1 insn d s)),
      (MUL32_REG, \<not> enable_pqr v, Inr (emits [emit_ins (x86_alu_escaped S32 1 0xaf d s None), emit_sign_extension d])),
      (DIV32_REG, \<not> enable_pqr v, Inr (emit_legacy_division S32 insn s d None)),
      (MOD32_REG, \<not> enable_pqr v, Inr (emit_legacy_division S32 insn s d None)),
      (LD_2B_REG, move_memory_instruction_classes v, Inr (emit_load 2 insn d s)),
      (OR32_IMM, True, Inr (emit_sanitized_alu S32 0x09 1 d (imm insn))),
      (OR32_REG, True, Inr (emit_ins (x86_alu S32 0x09 s d None))),
      (AND32_IMM, True, Inr (emit_sanitized_alu S32 0x21 4 d (imm insn))),
      (AND32_REG, True, Inr (emit_ins (x86_alu S32 0x21 s d None))),
      (LSH32_IMM, True, Inr (emit_shift S32 4 REGISTER_SCRATCH d (Some (imm insn)))),
      (LSH32_REG, True, Inr (emit_shift S32 4 s d None)),
      (RSH32_IMM, True, Inr (emit_shift S32 5 REGISTER_SCRATCH d (Some (imm insn)))),
      (RSH32_REG, True, Inr (emit_shift S32 5 s d None)),
      (NEG32, \<not> disable_neg v, Inr (emit_ins (x86_alu_immediate S32 0xf7 3 d 0 None))),
      (LD_4B_REG, move_memory_instruction_classes v, Inr (emit_load 4 insn d s)),
      (LD_8B_REG, move_memory_instruction_classes v, Inr (emit_load 8 insn d s)),
      (XOR32_IMM, True, Inr (emit_sanitized_alu S32 0x31 6 d (imm insn))),
      (XOR32_REG, True, Inr (emit_ins (x86_alu S32 0x31 s d None))),
      (MOV32_IMM, True, Inr (emit_user_constant d (imm insn) (ucast (ucast (imm insn) :: u32)))),
      (MOV32_REG, True, Inr (if explicit_sign_extension_of_results v
        then emit_ins (x86_mov_with_sign_extension S64 s d) else emit_ins (x86_mov S32 s d))),
      (ARSH32_IMM, True, Inr (emit_shift S32 7 REGISTER_SCRATCH d (Some (imm insn)))),
      (ARSH32_REG, True, Inr (emit_shift S32 7 s d None)),
      (LE, \<not> disable_le v, emit_le insn d),
      (BE, True, emit_be insn d)]"

definition compile_alu64 :: "SBPFVersion \<Rightarrow> Insn \<Rightarrow> X86Register \<Rightarrow> X86Register \<Rightarrow> ('f, 'r) compile_arm list" where
  "compile_alu64 v insn d s =
     [(ADD64_IMM, True, Inr (emit_sanitized_alu S64 0x01 0 d (imm insn))),
      (ADD64_REG, True, Inr (emit_ins (x86_alu S64 0x01 s d None))),
      (SUB64_IMM, True, Inr (emit_sub_imm S64 v insn d)),
      (SUB64_REG, True, Inr (emit_ins (x86_alu S64 0x29 s d None))),
      (MUL64_IMM, \<not> enable_pqr v, Inr (emits
        [emit_user_constant REGISTER_SCRATCH (imm insn) (imm insn),
         emit_ins (x86_alu_escaped S64 1 0xaf d REGISTER_SCRATCH None)])),
      (DIV64_IMM, \<not> enable_pqr v, Inr (emit_legacy_division S64 insn d d (Some (imm insn)))),
      (MOD64_IMM, \<not> enable_pqr v, Inr (emit_legacy_division S64 insn d d (Some (imm insn)))),
      (ST_1B_IMM, move_memory_instruction_classes v, Inr (emit_store_imm 1 insn d)),
      (ST_2B_IMM, move_memory_instruction_classes v, Inr (emit_store_imm 2 insn d)),
      (MUL64_REG, \<not> enable_pqr v, Inr (emit_ins (x86_alu_escaped S64 1 0xaf d s None))),
      (DIV64_REG, \<not> enable_pqr v, Inr (emit_legacy_division S64 insn s d None)),
      (MOD64_REG, \<not> enable_pqr v, Inr (emit_legacy_division S64 insn s d None)),
      (ST_1B_REG, move_memory_instruction_classes v, Inr (emit_store_reg 1 insn d s)),
      (ST_2B_REG, move_memory_instruction_classes v, Inr (emit_store_reg 2 insn d s)),
      (OR64_IMM, True, Inr (emit_sanitized_alu S64 0x09 1 d (imm insn))),
      (OR64_REG, True, Inr (emit_ins (x86_alu S64 0x09 s d None))),
      (AND64_IMM, True, Inr (emit_sanitized_alu S64 0x21 4 d (imm insn))),
      (AND64_REG, True, Inr (emit_ins (x86_alu S64 0x21 s d None))),
      (LSH64_IMM, True, Inr (emit_shift S64 4 REGISTER_SCRATCH d (Some (imm insn)))),
      (LSH64_REG, True, Inr (emit_shift S64 4 s d None)),
      (RSH64_IMM, True, Inr (emit_shift S64 5 REGISTER_SCRATCH d (Some (imm insn)))),
      (RSH64_REG, True, Inr (emit_shift S64 5 s d None)),
      (ST_4B_IMM, move_memory_instruction_classes v, Inr (emit_store_imm 4 insn d)),
      (NEG64, \<not> disable_neg v, Inr (emit_ins (x86_alu_immediate S64 0xf7 3 d 0 None))),
      (ST_4B_REG, move_memory_instruction_classes v, Inr (emit_store_reg 4 insn d s)),
      (ST_8B_IMM, move_memory_instruction_classes v, Inr (emit_store_imm 8 insn d)),
      (ST_8B_REG, move_memory_instruction_classes v, Inr (emit_store_reg 8 insn d s)),
      (XOR64_IMM, True, Inr (emit_sanitized_alu S64 0x31 6 d (imm insn))),
      (XOR64_REG, True, Inr (emit_ins (x86_alu S64 0x31 s d None))),
      (MOV64_IMM, True, Inr (emit_user_constant d (imm insn) (imm insn))),
      (MOV64_REG, True, Inr (emit_ins (x86_mov S64 s d))),
      (ARSH64_IMM, True, Inr (emit_shift S64 7 REGISTER_SCRATCH d (Some (imm insn)))),
      (ARSH64_REG, True, Inr (emit_shift S64 7 s d None)),
      (HOR64_IMM, disable_lddw v, Inr (emit_sanitized_alu S64 0x09 1 d (wrapping_shl (imm insn) 32)))]"

definition compile_pqr :: "SBPFVersion \<Rightarrow> Insn \<Rightarrow> X86Register \<Rightarrow> X86Register \<Rightarrow> ('f, 'r) compile_arm list" where
  "compile_pqr v insn d s =
     [(LMUL32_IMM, enable_pqr v, Inr (emit_pqr_imm insn d)),
      (LMUL64_IMM, enable_pqr v, Inr (emit_pqr_imm insn d)),
      (UHMUL64_IMM, enable_pqr v, Inr (emit_pqr_imm insn d)),
      (SHMUL64_IMM, enable_pqr v, Inr (emit_pqr_imm insn d)),
      (UDIV32_IMM, enable_pqr v, Inr (emit_pqr_imm insn d)),
      (UDIV64_IMM, enable_pqr v, Inr (emit_pqr_imm insn d)),
      (UREM32_IMM, enable_pqr v, Inr (emit_pqr_imm insn d)),
      (UREM64_IMM, enable_pqr v, Inr (emit_pqr_imm insn d)),
      (SDIV32_IMM, enable_pqr v, Inr (emit_pqr_imm insn d)),
      (SDIV64_IMM, enable_pqr v, Inr (emit_pqr_imm insn d)),
      (SREM32_IMM, enable_pqr v, Inr (emit_pqr_imm insn d)),
      (SREM64_IMM, enable_pqr v, Inr (emit_pqr_imm insn d)),
      (LMUL32_REG, enable_pqr v, Inr (emit_pqr_reg insn d s)),
      (LMUL64_REG, enable_pqr v, Inr (emit_pqr_reg insn d s)),
      (UHMUL64_REG, enable_pqr v, Inr (emit_pqr_reg insn d s)),
      (SHMUL64_REG, enable_pqr v, Inr (emit_pqr_reg insn d s)),
      (UDIV32_REG, enable_pqr v, Inr (emit_pqr_reg insn d s)),
      (UDIV64_REG, enable_pqr v, Inr (emit_pqr_reg insn d s)),
      (UREM32_REG, enable_pqr v, Inr (emit_pqr_reg insn d s)),
      (UREM64_REG, enable_pqr v, Inr (emit_pqr_reg insn d s)),
      (SDIV32_REG, enable_pqr v, Inr (emit_pqr_reg insn d s)),
      (SDIV64_REG, enable_pqr v, Inr (emit_pqr_reg insn d s)),
      (SREM32_REG, enable_pqr v, Inr (emit_pqr_reg insn d s)),
      (SREM64_REG, enable_pqr v, Inr (emit_pqr_reg insn d s))]"

definition compile_jmp32 :: "SBPFVersion \<Rightarrow> Insn \<Rightarrow> X86Register \<Rightarrow> X86Register \<Rightarrow> usize \<Rightarrow> ('f, 'r) compile_arm list" where
  "compile_jmp32 v insn d s tpc =
     [(JEQ32_IMM, enable_jmp32 v, Inr (emit_conditional_branch_imm S32 0x84 False (imm insn) d tpc)),
      (JEQ32_REG, enable_jmp32 v, Inr (emit_conditional_branch_reg S32 0x84 False s d tpc)),
      (JGT32_IMM, enable_jmp32 v, Inr (emit_conditional_branch_imm S32 0x87 False (imm insn) d tpc)),
      (JGT32_REG, enable_jmp32 v, Inr (emit_conditional_branch_reg S32 0x87 False s d tpc)),
      (JGE32_IMM, enable_jmp32 v, Inr (emit_conditional_branch_imm S32 0x83 False (imm insn) d tpc)),
      (JGE32_REG, enable_jmp32 v, Inr (emit_conditional_branch_reg S32 0x83 False s d tpc)),
      (JLT32_IMM, enable_jmp32 v, Inr (emit_conditional_branch_imm S32 0x82 False (imm insn) d tpc)),
      (JLT32_REG, enable_jmp32 v, Inr (emit_conditional_branch_reg S32 0x82 False s d tpc)),
      (JLE32_IMM, enable_jmp32 v, Inr (emit_conditional_branch_imm S32 0x86 False (imm insn) d tpc)),
      (JLE32_REG, enable_jmp32 v, Inr (emit_conditional_branch_reg S32 0x86 False s d tpc)),
      (JSET32_IMM, enable_jmp32 v, Inr (emit_conditional_branch_imm S32 0x85 True (imm insn) d tpc)),
      (JSET32_REG, enable_jmp32 v, Inr (emit_conditional_branch_reg S32 0x85 True s d tpc)),
      (JNE32_IMM, enable_jmp32 v, Inr (emit_conditional_branch_imm S32 0x85 False (imm insn) d tpc)),
      (JNE32_REG, enable_jmp32 v, Inr (emit_conditional_branch_reg S32 0x85 False s d tpc)),
      (JSGT32_IMM, enable_jmp32 v, Inr (emit_conditional_branch_imm S32 0x8f False (imm insn) d tpc)),
      (JSGT32_REG, enable_jmp32 v, Inr (emit_conditional_branch_reg S32 0x8f False s d tpc)),
      (JSGE32_IMM, enable_jmp32 v, Inr (emit_conditional_branch_imm S32 0x8d False (imm insn) d tpc)),
      (JSGE32_REG, enable_jmp32 v, Inr (emit_conditional_branch_reg S32 0x8d False s d tpc)),
      (JSLT32_IMM, enable_jmp32 v, Inr (emit_conditional_branch_imm S32 0x8c False (imm insn) d tpc)),
      (JSLT32_REG, enable_jmp32 v, Inr (emit_conditional_branch_reg S32 0x8c False s d tpc)),
      (JSLE32_IMM, enable_jmp32 v, Inr (emit_conditional_branch_imm S32 0x8e False (imm insn) d tpc)),
      (JSLE32_REG, enable_jmp32 v, Inr (emit_conditional_branch_reg S32 0x8e False s d tpc))]"

definition compile_jmp64 :: "SBPFVersion \<Rightarrow> Insn \<Rightarrow> X86Register \<Rightarrow> X86Register \<Rightarrow> usize \<Rightarrow> ('f, 'r) compile_arm list" where
  "compile_jmp64 v insn d s tpc =
     [(JA, True, Inr (emit_ja tpc)),
      (JEQ64_IMM, True, Inr (emit_conditional_branch_imm S64 0x84 False (imm insn) d tpc)),
      (JEQ64_REG, True, Inr (emit_conditional_branch_reg S64 0x84 False s d tpc)),
      (JGT64_IMM, True, Inr (emit_conditional_branch_imm S64 0x87 False (imm insn) d tpc)),
      (JGT64_REG, True, Inr (emit_conditional_branch_reg S64 0x87 False s d tpc)),
      (JGE64_IMM, True, Inr (emit_conditional_branch_imm S64 0x83 False (imm insn) d tpc)),
      (JGE64_REG, True, Inr (emit_conditional_branch_reg S64 0x83 False s d tpc)),
      (JLT64_IMM, True, Inr (emit_conditional_branch_imm S64 0x82 False (imm insn) d tpc)),
      (JLT64_REG, True, Inr (emit_conditional_branch_reg S64 0x82 False s d tpc)),
      (JLE64_IMM, True, Inr (emit_conditional_branch_imm S64 0x86 False (imm insn) d tpc)),
      (JLE64_REG, True, Inr (emit_conditional_branch_reg S64 0x86 False s d tpc)),
      (JSET64_IMM, True, Inr (emit_conditional_branch_imm S64 0x85 True (imm insn) d tpc)),
      (JSET64_REG, True, Inr (emit_conditional_branch_reg S64 0x85 True s d tpc)),
      (JNE64_IMM, True, Inr (emit_conditional_branch_imm S64 0x85 False (imm insn) d tpc)),
      (JNE64_REG, True, Inr (emit_conditional_branch_reg S64 0x85 False s d tpc)),
      (JSGT64_IMM, True, Inr (emit_conditional_branch_imm S64 0x8f False (imm insn) d tpc)),
      (JSGT64_REG, True, Inr (emit_conditional_branch_reg S64 0x8f False s d tpc)),
      (JSGE64_IMM, True, Inr (emit_conditional_branch_imm S64 0x8d False (imm insn) d tpc)),
      (JSGE64_REG, True, Inr (emit_conditional_branch_reg S64 0x8d False s d tpc)),
      (JSLT64_IMM, True, Inr (emit_conditional_branch_imm S64 0x8c False (imm insn) d tpc)),
      (JSLT64_REG, True, Inr (emit_conditional_branch_reg S64 0x8c False s d tpc)),
      (JSLE64_IMM, True, Inr (emit_conditional_branch_imm S64 0x8e False (imm insn) d tpc)),
      (JSLE64_REG, True, Inr (emit_conditional_branch_reg S64 0x8e False s d tpc))]"

definition compile_call :: "SBPFVersion \<Rightarrow> Insn \<Rightarrow> X86Register \<Rightarrow> X86Register \<Rightarrow> ('f, 'r) compile_arm list" where
  "compile_call v insn d s =
     [(CALL_IMM, True, Inr (emit_call_imm v insn)),
      (CALL_REG, True, Inr (emit_call_reg v insn d s)),
      (EXIT, True, Inr emit_exit)]"

definition compile_arms ::
  "SBPFVersion \<Rightarrow> Insn \<Rightarrow> X86Register \<Rightarrow> X86Register \<Rightarrow> usize \<Rightarrow> ('f, 'r) compile_arm list" where
  "compile_arms v insn d s tpc =
     compile_ld v insn d @ compile_ldx v insn d s @ compile_st v insn d @ compile_stx v insn d s @
     compile_alu32 v insn d s @ compile_alu64 v insn d s @ compile_pqr v insn d s @
     compile_jmp32 v insn d s tpc @ compile_jmp64 v insn d s tpc @ compile_call v insn d s"

section \<open>Compilation\<close>

definition compile_arm ::
  "('f, 'r) JitCompiler \<Rightarrow> Insn \<Rightarrow> (EbpfError + ('f, 'r) emitter) option" where
  "compile_arm c insn =
     do {
       d \<leftarrow> slice_get REGISTER_MAP (unat (dst insn));
       s \<leftarrow> slice_get REGISTER_MAP (unat (src insn));
       let tpc = unat (of_nat (jit_pc c) + scast (off insn) + 1 :: u64);
       Some (case select_arm (compile_arms (jit_version c) insn d s tpc) (opc insn) of
           Some arm \<Rightarrow> arm
         | None \<Rightarrow> Inl UnsupportedInstruction)
     }"

text \<open>One round of the loop over the instructions.\<close>

definition compile_insn :: "('f, 'r) JitCompiler \<Rightarrow> (EbpfError + ('f, 'r) JitCompiler) option" where
  "compile_insn c =
     (if offset_in_text_section c + MAX_MACHINE_CODE_LENGTH_PER_INSTRUCTION * 2 \<ge> length (text_section (result c))
      then Some (Inl (ExhaustedTextSegment (jit_pc c)))
      else do {
        insn \<leftarrow> get_insn_unchecked (jit_program c) (jit_pc c);
        pcs \<leftarrow> slice_set (pc_section (result c)) (jit_pc c) (of_nat (offset_in_text_section c));
        let c = c\<lparr>result := (result c)\<lparr>pc_section := pcs\<rparr>\<rparr>;
        c \<leftarrow> (if last_instruction_meter_validation_pc c +
                  instruction_meter_checkpoint_distance (jit_config c) \<le> jit_pc c
              then emit_validate_instruction_count (Some (jit_pc c)) c else Some c);
        c \<leftarrow> (if enable_register_tracing (jit_config c)
              then emits
                [emit_ins (x86_load_immediate REGISTER_SCRATCH (of_nat (jit_pc c))),
                 emit_call_to_anchor ANCHOR_TRACE,
                 emit_ins (x86_load_immediate REGISTER_SCRATCH 0)] c
              else Some c);
        arm \<leftarrow> compile_arm c insn;
        case arm of
          Inl err \<Rightarrow> Some (Inl err)
        | Inr e \<Rightarrow> map_option (\<lambda>c. Inr (c\<lparr>jit_pc := jit_pc c + 1\<rparr>)) (e c)
      })"

partial_function (option) compile_loop ::
  "('f, 'r) JitCompiler \<Rightarrow> (EbpfError + ('f, 'r) JitCompiler) option" where
  "compile_loop c =
     (if jit_pc c * INSN_SIZE < length (jit_program c)
      then do {
        r \<leftarrow> compile_insn c;
        case r of Inl err \<Rightarrow> Some (Inl err) | Inr c \<Rightarrow> compile_loop c
      }
      else Some (Inr c))"

declare compile_loop.simps [code]

text \<open>The padding, the subroutines, the program, the bumper behind it, and the relocation of forward
  jumps.  Sealing cuts the text section to its used part and fills its last page.\<close>

definition emit_padding :: "('f, 'r) emitter" where
  "emit_padding c =
     (if noop_instruction_rate (jit_config c) \<noteq> 0
      then let (n, rng) = sample_padding (surroundings c) (diversification_rng c) in
        emit (replicate n 0x90) (c\<lparr>diversification_rng := rng\<rparr>)
      else Some c)"

definition compile :: "('f, 'r) JitCompiler \<Rightarrow> (EbpfError + JitProgram) option" where
  "compile c =
     do {
       c \<leftarrow> emits [emit_padding, emit_subroutines] c;
       r \<leftarrow> compile_loop c;
       case r of
         Inl err \<Rightarrow> Some (Inl err)
       | Inr c \<Rightarrow>
           if offset_in_text_section c + MAX_MACHINE_CODE_LENGTH_PER_INSTRUCTION * 2 \<ge> length (text_section (result c))
           then Some (Inl (ExhaustedTextSegment (jit_pc c)))
           else do {
             c \<leftarrow> emits
               [emit_validate_and_profile_instruction_count (Some (jit_pc c + 1)),
                emit_ins (x86_load_immediate REGISTER_SCRATCH (of_nat (jit_pc c))),
                emit_set_exception_kind ExecutionOverrun,
                emit_jump_to_anchor ANCHOR_THROW_EXCEPTION,
                resolve_jumps] c;
             Some (Inr ((result c)\<lparr>text_section := take (offset_in_text_section c) (text_section (result c))\<rparr>))
           }
     }"

text \<open>\<open>JitCompiler::new\<close>: the number of instructions, the estimate of the length of the code and the
  initial state.  \<open>page_size\<close> is that of the operating system; the keys and the first distance to a
  no-operation are random.\<close>

fun count_insns :: "bytes \<Rightarrow> nat \<Rightarrow> usize \<Rightarrow> usize option" where
  "count_insns prog 0 pc = Some pc"
| "count_insns prog (Suc n) pc =
     (if (pc + 1) * INSN_SIZE \<le> length prog
      then do {
        insn \<leftarrow> get_insn_unchecked prog pc;
        count_insns prog n (pc + (if opc insn = LD_DW_IMM then 2 else 1))
      }
      else Some pc)"

definition round_to_page_size :: "usize \<Rightarrow> usize \<Rightarrow> usize" where
  "round_to_page_size n page_size =
     usize_saturating_mul ((usize_saturating_add n page_size - 1) div page_size) page_size"

definition code_length_estimate :: "Config \<Rightarrow> usize \<Rightarrow> usize" where
  "code_length_estimate config pc =
     (let estimate = MAX_EMPTY_PROGRAM_MACHINE_CODE_LENGTH + MAX_START_PADDING_LENGTH +
            MAX_MACHINE_CODE_LENGTH_PER_INSTRUCTION * pc;
          estimate = (if noop_instruction_rate config \<noteq> 0
            then estimate + estimate div unat (noop_instruction_rate config) else estimate)
      in if instruction_meter_checkpoint_distance config \<noteq> 0
         then estimate + pc div instruction_meter_checkpoint_distance config *
           MACHINE_CODE_PER_INSTRUCTION_METER_CHECKPOINT
         else estimate)"

definition JitCompiler_new ::
  "usize \<Rightarrow> i32 \<Rightarrow> i64 \<Rightarrow> u32 \<Rightarrow> 'r \<Rightarrow> ('f, 'r) JitSurroundings \<Rightarrow> 'f Executable \<Rightarrow> ('f, 'r) JitCompiler option" where
  "JitCompiler_new page_size environment_key immediate_key first_noop rng around exe =
     do {
       config \<leftarrow> exe_get_config exe;
       (program_vm_addr, prog) \<leftarrow> get_text_bytes exe;
       pc \<leftarrow> (if \<not> disable_lddw (get_sbpf_version exe) then count_insns prog (length prog) 0
             else Some (length prog div INSN_SIZE));
       if \<not> code_length_estimate config pc < 2 ^ 31 - 1 then None
       else Some
         \<lparr>result = \<lparr>pc_section = replicate pc 0,
            text_section = replicate (round_to_page_size (code_length_estimate config pc) page_size) 0\<rparr>,
          text_section_jumps = [],
          anchors = replicate ANCHOR_COUNT None,
          offset_in_text_section = 0,
          jit_executable = exe,
          jit_program = prog,
          jit_program_vm_addr = program_vm_addr,
          jit_config = config,
          jit_pc = 0,
          last_instruction_meter_validation_pc = 0,
          next_noop_insertion = (if noop_instruction_rate config = 0 then - 1 else first_noop),
          runtime_environment_key = environment_key,
          immediate_value_key = immediate_key,
          diversification_rng = rng,
          stopwatch_is_active = False,
          surroundings = around\<rparr>
     }"

end
