(* ===== verification/X86_Decode.thy ===== *)
theory X86_Decode
  imports X86
begin

text \<open>
  How a processor reads the bytes that \<open>X86\<close> writes: prefixes, operation code, addressing bytes,
  displacement and immediate, for the operation codes and addressing forms the encoder uses, after
  the instruction format of the architecture.  The length of an instruction follows from its bytes
  alone.  The encoder and the decoder agree: the bytes of an instruction decode to its operands, and the next
  instruction starts right behind them.
\<close>

unbundle bit_operations_syntax

section \<open>Instruction format\<close>

text \<open>The operand in the low part of the addressing byte: a register, or the memory at a base
  register plus a displacement plus an optional shifted index register.\<close>

datatype x86_rm =
    RM_reg u8
  | RM_mem u8 u64 "(u8 \<times> u8) option"

record x86_op =
  op_size16 :: bool
  op_wide :: bool
  op_escaped :: bool
  op_code :: u8
  op_reg :: u8
  op_rm :: x86_rm
  op_imm :: u64

text \<open>Which operation codes are followed by an addressing byte; \<open>None\<close> for the ones outside the
  subset.\<close>

definition opcode_has_modrm :: "bool \<Rightarrow> u8 \<Rightarrow> bool option" where
  "opcode_has_modrm escaped opcode =
     (if escaped
      then if opcode \<in> {0x6e, 0x6f, 0x7e, 0xae, 0xaf, 0xb6, 0xb7} \<or> opcode AND 0xf0 = 0x40 then Some True
           else if opcode = 0x31 \<or> opcode AND 0xf0 = 0x80 \<or> opcode AND 0xf8 = 0xc8 then Some False
           else None
      else if opcode \<in> {0x01, 0x03, 0x09, 0x21, 0x29, 0x2b, 0x31, 0x38, 0x39, 0x63, 0x80, 0x81, 0x84,
          0x85, 0x87, 0x88, 0x89, 0x8b, 0x8d, 0xc1, 0xc6, 0xc7, 0xd3, 0xf6, 0xf7, 0xff} then Some True
      else if opcode \<in> {0x68, 0x6a, 0x90, 0x99, 0xc3, 0xcc, 0xcd, 0xe8, 0xe9} \<or>
          opcode AND 0xf0 = 0x50 \<or> opcode AND 0xf8 = 0xb8 then Some False
      else None)"

definition opcode_imm_size :: "bool \<Rightarrow> u8 \<Rightarrow> u8 \<Rightarrow> bool \<Rightarrow> bool \<Rightarrow> OperandSize" where
  "opcode_imm_size escaped opcode reg size16 wide =
     (if escaped then if opcode AND 0xf0 = 0x80 then S32 else S0
      else if opcode \<in> {0x80, 0xc1, 0xc6, 0x6a, 0xcd} then S8
      else if opcode \<in> {0x81, 0xc7, 0x68} then if size16 then S16 else S32
      else if opcode \<in> {0xe8, 0xe9} then S32
      else if opcode AND 0xf8 = 0xb8 then if wide then S64 else if size16 then S16 else S32
      else if opcode = 0xf6 \<and> reg AND 7 \<in> {0, 1} then S8
      else if opcode = 0xf7 \<and> reg AND 7 \<in> {0, 1} then if size16 then S16 else S32
      else S0)"

section \<open>Decoding\<close>

definition size_bytes :: "OperandSize \<Rightarrow> nat" where
  "size_bytes sz = (case sz of S0 \<Rightarrow> 0 | S8 \<Rightarrow> 1 | S16 \<Rightarrow> 2 | S32 \<Rightarrow> 4 | S64 \<Rightarrow> 8)"

definition sign_extend :: "OperandSize \<Rightarrow> u64 \<Rightarrow> u64" where
  "sign_extend sz x =
     (case sz of
        S0 \<Rightarrow> 0
      | S8 \<Rightarrow> scast (ucast x :: 8 word)
      | S16 \<Rightarrow> scast (ucast x :: 16 word)
      | S32 \<Rightarrow> scast (ucast x :: 32 word)
      | S64 \<Rightarrow> x)"

definition read_imm :: "OperandSize \<Rightarrow> bytes \<Rightarrow> (u64 \<times> bytes) option" where
  "read_imm sz bs =
     (if length bs < size_bytes sz then None
      else Some (sign_extend sz (le_word (take (size_bytes sz) bs)), drop (size_bytes sz) bs))"

definition take_prefix16 :: "bytes \<Rightarrow> bool \<times> bytes" where
  "take_prefix16 bs = (case bs of b # r \<Rightarrow> if b = 0x66 then (True, r) else (False, bs) | [] \<Rightarrow> (False, []))"

definition take_rex :: "bytes \<Rightarrow> u8 \<times> bytes" where
  "take_rex bs = (case bs of b # r \<Rightarrow> if b AND 0xf0 = 0x40 then (b AND 0xf, r) else (0, bs) | [] \<Rightarrow> (0, []))"

definition take_escape :: "bytes \<Rightarrow> bool \<times> bytes" where
  "take_escape bs = (case bs of b # r \<Rightarrow> if b = 0x0f then (True, r) else (False, bs) | [] \<Rightarrow> (False, []))"

definition extend_reg :: "bool \<Rightarrow> u8 \<Rightarrow> u8" where
  "extend_reg b r = (if b then r OR 8 else r)"

text \<open>Index number 4 means that there is no index.\<close>

definition decode_base :: "u8 \<Rightarrow> u8 \<Rightarrow> bytes \<Rightarrow> (u8 \<times> (u8 \<times> u8) option \<times> bytes) option" where
  "decode_base rex rm bs =
     (if rm = 4
      then case bs of
          [] \<Rightarrow> None
        | s # r \<Rightarrow>
            let index = extend_reg (bit rex 1) (drop_bit 3 s AND 7) in
            Some (extend_reg (bit rex 0) (s AND 7), if index = 4 then None else Some (index, drop_bit 6 s), r)
      else Some (extend_reg (bit rex 0) rm, None, bs))"

definition decode_rm :: "u8 \<Rightarrow> u8 \<Rightarrow> bytes \<Rightarrow> (x86_rm \<times> bytes) option" where
  "decode_rm rex m bs =
     (if drop_bit 6 m = 3 then Some (RM_reg (extend_reg (bit rex 0) (m AND 7)), bs)
      else if drop_bit 6 m = 0 then None
      else do {
        (base, index, bs) \<leftarrow> decode_base rex (m AND 7) bs;
        (displacement, bs) \<leftarrow> read_imm (if drop_bit 6 m = 1 then S8 else S32) bs;
        Some (RM_mem base displacement index, bs)
      })"

definition decode_operands :: "bool \<Rightarrow> u8 \<Rightarrow> u8 \<Rightarrow> bytes \<Rightarrow> (u8 \<times> x86_rm \<times> bytes) option" where
  "decode_operands has_modrm rex opcode bs =
     (if has_modrm
      then case bs of
          [] \<Rightarrow> None
        | m # bs \<Rightarrow> do {
            (rm, bs) \<leftarrow> decode_rm rex m bs;
            Some (extend_reg (bit rex 2) (drop_bit 3 m AND 7), rm, bs)
          }
      else Some (0, RM_reg (extend_reg (bit rex 0) (opcode AND 7)), bs))"

definition x86_decode :: "bytes \<Rightarrow> (x86_op \<times> bytes) option" where
  "x86_decode bs =
     (let (size16, bs) = take_prefix16 bs;
          (rex, bs) = take_rex bs;
          (escaped, bs) = take_escape bs
      in case bs of
          [] \<Rightarrow> None
        | opcode # bs \<Rightarrow> do {
            has_modrm \<leftarrow> opcode_has_modrm escaped opcode;
            (reg, rm, bs) \<leftarrow> decode_operands has_modrm rex opcode bs;
            (immediate, bs) \<leftarrow> read_imm (opcode_imm_size escaped opcode reg size16 (bit rex 3)) bs;
            Some (\<lparr>op_size16 = size16, op_wide = bit rex 3, op_escaped = escaped, op_code = opcode,
                   op_reg = reg, op_rm = rm, op_imm = immediate\<rparr>, bs)
          })"

section \<open>The operands of an instruction\<close>

definition x86_operands :: "X86Instruction \<Rightarrow> x86_op" where
  "x86_operands i =
     \<lparr>op_size16 = x_size i = S16,
      op_wide = x_size i = S64,
      op_escaped = x_opcode_escape_sequence i = 1,
      op_code = x_opcode i,
      op_reg = (if x_modrm i then x_first_operand i else 0),
      op_rm =
        (if \<not> x_modrm i then RM_reg (extend_reg (bit (x_second_operand i) 3) (x_opcode i AND 7))
         else case x_indirect i of
             None \<Rightarrow> RM_reg (x_second_operand i)
           | Some (Offset offset) \<Rightarrow> RM_mem (x_second_operand i) (scast offset) None
           | Some (OffsetIndexShift offset index shift) \<Rightarrow>
               RM_mem (x_second_operand i) (scast offset)
                 (if index = RSP then None else Some (register_number index, shift))),
      op_imm = sign_extend (x_immediate_size i) (x_immediate i)\<rparr>"

text \<open>The instructions whose encoding is read back.  Beside the ranges of the fields, the flags of
  the record have to agree with the operation code, and the byte of an indexed access must not be
  zero, because \<open>emit\<close> leaves it out then.\<close>

definition x86_encodable :: "X86Instruction \<Rightarrow> bool" where
  "x86_encodable i \<longleftrightarrow>
     x_size i \<noteq> S0 \<and> x_opcode_escape_sequence i \<le> 1 \<and> x_first_operand i < 16 \<and> x_second_operand i < 16 \<and>
     opcode_has_modrm (x_opcode_escape_sequence i = 1) (x_opcode i) = Some (x_modrm i) \<and>
     opcode_imm_size (x_opcode_escape_sequence i = 1) (x_opcode i) (if x_modrm i then x_first_operand i else 0)
       (x_size i = S16) (x_size i = S64) = x_immediate_size i \<and>
     (case x_indirect i of
        None \<Rightarrow> True
      | Some (Offset offset) \<Rightarrow> x_second_operand i AND 7 \<noteq> 4
      | Some (OffsetIndexShift offset index shift) \<Rightarrow>
          register_number index < 16 \<and> shift < 4 \<and>
          \<not> (register_number index AND 7 = 0 \<and> shift = 0 \<and> x_second_operand i AND 7 = 0))"

section \<open>Bytes and fields\<close>

lemma and_7: "x AND 7 = take_bit 3 (x :: u8)"
  by (simp add: take_bit_eq_mask mask_eq_exp_minus_1)

lemma and_3: "x AND 3 = take_bit 2 (x :: u8)"
  by (simp add: take_bit_eq_mask mask_eq_exp_minus_1)

lemma and_8: "x AND 8 \<noteq> 0 \<longleftrightarrow> bit (x :: u8) 3"
proof -
  have "x AND 8 = x AND push_bit 3 1" by simp
  then show ?thesis by (simp add: bit_iff_and_push_bit_not_eq_0)
qed

lemma rex_byte_fields:
  "bit (rex_byte r) 0 = rex_b r" "bit (rex_byte r) (Suc 0) = rex_x r"
  "bit (rex_byte r) 2 = rex_r r" "bit (rex_byte r) 3 = rex_w r"
  by (simp_all add: rex_byte_def bit_simps)

lemma rex_byte_prefix: "(0x40 OR rex_byte r) AND 0xf0 = 0x40" "(0x40 OR rex_byte r) AND 0xf = rex_byte r"
  by (cases "rex_w r"; cases "rex_r r"; cases "rex_x r"; cases "rex_b r"; simp add: rex_byte_def)+

lemma rex_byte_not_prefix16: "0x40 OR rex_byte r \<noteq> 0x66"
  by (cases "rex_w r"; cases "rex_r r"; cases "rex_x r"; cases "rex_b r"; simp add: rex_byte_def)

text \<open>The three fields of the addressing bytes.\<close>

lemma byte_fields:
  assumes "take_bit 3 b = b" "take_bit 3 c = (c :: u8)"
  shows "drop_bit 6 (push_bit 6 a OR push_bit 3 b OR c) = take_bit 2 a"
    and "drop_bit 3 (push_bit 6 a OR push_bit 3 b OR c) AND 7 = b"
    and "(push_bit 6 a OR push_bit 3 b OR c) AND 7 = c"
proof -
  have b: "bit b n \<Longrightarrow> n < 3" and c: "bit c n \<Longrightarrow> n < 3" for n
    using assms by (metis bit_take_bit_iff)+
  show "drop_bit 6 (push_bit 6 a OR push_bit 3 b OR c) = take_bit 2 a"
    "drop_bit 3 (push_bit 6 a OR push_bit 3 b OR c) AND 7 = b"
    "(push_bit 6 a OR push_bit 3 b OR c) AND 7 = c"
    unfolding and_7 by (rule bit_word_eqI; auto simp: bit_simps dest: b c)+
qed

lemma modrm_byte_fields:
  assumes "take_bit 3 (modrm_r m) = modrm_r m" "take_bit 3 (modrm_m m) = modrm_m m"
    "take_bit 2 (modrm_mode m) = modrm_mode m"
  shows "drop_bit 6 (modrm_byte m) = modrm_mode m" "take_bit 3 (drop_bit 3 (modrm_byte m)) = modrm_r m"
    "take_bit 3 (modrm_byte m) = modrm_m m"
  using byte_fields[OF assms(1,2)] assms(3) by (simp_all only: modrm_byte_def and_7)

lemma sib_byte_fields:
  assumes "take_bit 3 (sib_index m) = sib_index m" "take_bit 3 (sib_base m) = sib_base m"
    "take_bit 2 (sib_scale m) = sib_scale m"
  shows "drop_bit 6 (sib_byte m) = sib_scale m" "take_bit 3 (drop_bit 3 (sib_byte m)) = sib_index m"
    "take_bit 3 (sib_byte m) = sib_base m"
  using byte_fields[OF assms(1,2)] assms(3) by (simp_all only: sib_byte_def and_7)

lemma sib_byte_zero: "sib_byte \<lparr>sib_scale = 0, sib_index = 0, sib_base = 0\<rparr> = 0"
  by (simp add: sib_byte_def)

lemma sib_byte_nonzero:
  assumes "take_bit 3 (sib_index m) = sib_index m" "take_bit 3 (sib_base m) = sib_base m"
    "take_bit 2 (sib_scale m) = sib_scale m" "\<not> (sib_scale m = 0 \<and> sib_index m = 0 \<and> sib_base m = 0)"
  shows "sib_byte m \<noteq> 0"
  using sib_byte_fields[OF assms(1-3)] assms(4) by auto

lemma register_number_RSP: "register_number r = 4 \<longleftrightarrow> r = RSP"
  by (cases r) simp_all

lemma word_less_4: "x < 4 \<longleftrightarrow> take_bit 2 x = (x :: u8)"
proof -
  have "x < 4 \<longleftrightarrow> unat x < 2 ^ 2" by (simp add: word_less_nat_alt)
  also have "\<dots> \<longleftrightarrow> take_bit 2 (unat x) = unat x" by (simp add: take_bit_nat_eq_self_iff)
  also have "\<dots> \<longleftrightarrow> take_bit 2 x = x" by (metis unsigned_take_bit_eq word_unat_eq_iff)
  finally show ?thesis .
qed

lemma word_less_16: "x < 16 \<longleftrightarrow> take_bit 4 x = (x :: u8)"
proof -
  have "x < 16 \<longleftrightarrow> unat x < 2 ^ 4" by (simp add: word_less_nat_alt)
  also have "\<dots> \<longleftrightarrow> take_bit 4 (unat x) = unat x" by (simp add: take_bit_nat_eq_self_iff)
  also have "\<dots> \<longleftrightarrow> take_bit 4 x = x" by (metis unsigned_take_bit_eq word_unat_eq_iff)
  finally show ?thesis .
qed

lemma extend_reg_low:
  assumes "x < 16"
  shows "extend_reg (bit x 3) (take_bit 3 x) = (x :: u8)"
proof (rule bit_word_eqI)
  fix n assume n: "n < LENGTH(8)"
  have "bit x n \<Longrightarrow> n < 4" using assms unfolding word_less_16 by (metis bit_take_bit_iff)
  moreover have "bit (push_bit 3 1 :: u8) n \<longleftrightarrow> n = 3" using n by (auto simp only: bit_simps possible_bit_word)
  then have "bit (8 :: u8) n \<longleftrightarrow> n = 3" by simp
  ultimately show "bit (extend_reg (bit x 3) (take_bit 3 x)) n = bit x n"
    by (auto simp: extend_reg_def bit_simps less_Suc_eq numeral_eq_Suc)
qed

section \<open>Immediates\<close>

lemma le_word_le_bytes_ucast:
  fixes x :: "'a::len word"
  assumes "LENGTH('b) \<le> 8 * n" "LENGTH('b) \<le> LENGTH('a)"
  shows "(ucast (le_word (le_bytes n x) :: 'a word) :: 'b::len word) = ucast x"
proof (rule bit_word_eqI)
  fix k assume k: "k < LENGTH('b)"
  then have i: "k div 8 < n" using assms by (simp add: div_less_iff_less_mult mult.commute)
  then show "bit (ucast (le_word (le_bytes n x) :: 'a word) :: 'b word) k = bit (ucast x :: 'b word) k"
    using k assms by (simp add: bit_le_word nth_le_bytes bit_simps)
qed

lemma length_variable_length: "length (variable_length sz x) = size_bytes sz"
  by (simp add: variable_length_def size_bytes_def split: OperandSize.split)

lemma variable_length_le_bytes: "variable_length sz x = le_bytes (size_bytes sz) x"
  by (simp add: variable_length_def size_bytes_def split: OperandSize.split)

lemma read_imm_append [simp]:
  "read_imm sz (variable_length sz x @ rest) = Some (sign_extend sz x, rest)"
proof -
  have "sign_extend sz (le_word (le_bytes (size_bytes sz) x)) = sign_extend sz x"
    by (cases sz) (simp_all add: sign_extend_def size_bytes_def le_word_le_bytes_ucast le_word_le_bytes
        del: One_nat_def)
  then show ?thesis
    by (simp add: read_imm_def variable_length_le_bytes)
qed

lemma sign_extend_short:
  assumes "displacement_is_short d"
  shows "sign_extend S8 (scast d) = scast d"
proof -
  have "(ucast (scast d :: u64) :: 8 word) = word_of_int (sint d)"
    unfolding scast_eq by (rule ucast_down_wi) (simp add: is_down)
  moreover have "signed_take_bit 7 (sint d) = sint d"
    using assms by (simp add: displacement_is_short_def signed_take_bit_int_eq_self_iff)
  ultimately have "sint (ucast (scast d :: u64) :: 8 word) = sint d"
    by (simp only: sint_sbintrunc') simp
  then have "(scast (ucast (scast d :: u64) :: 8 word) :: u64) = scast d"
    unfolding scast_eq by (rule arg_cong)
  then show ?thesis by (simp add: sign_extend_def)
qed

lemma sign_extend_long: "sign_extend S32 (scast (d :: i32)) = scast d"
proof -
  have "(ucast (scast d :: u64) :: 32 word) = d" by (rule bit_word_eqI) (simp add: bit_simps)
  then show ?thesis by (simp add: sign_extend_def)
qed

section \<open>Round trip\<close>

lemma take_prefix16_skip: "b \<noteq> 0x66 \<Longrightarrow> take_prefix16 (b # bs) = (False, b # bs)"
  by (simp add: take_prefix16_def)

lemma take_rex_emit:
  assumes "b AND 0xf0 \<noteq> 0x40"
  shows "take_rex ((if rex_byte r \<noteq> 0 then [0x40 OR rex_byte r] else []) @ b # bs) = (rex_byte r, b # bs)"
  using assms by (simp add: take_rex_def rex_byte_prefix)

text \<open>No operation code of the subset is read as a prefix.\<close>

lemma opcode_no_prefix:
  assumes "opcode_has_modrm False opcode = Some m"
  shows "opcode \<noteq> 0x66" "opcode AND 0xf0 \<noteq> 0x40" "opcode \<noteq> 0x0f"
proof -
  have *: "opcode AND 0xf0 = (opcode AND 0xf8) AND 0xf0" by (simp add: and.assoc)
  show "opcode \<noteq> 0x66" using assms by (auto simp: opcode_has_modrm_def)
  show "opcode \<noteq> 0x0f" using assms by (auto simp: opcode_has_modrm_def)
  show "opcode AND 0xf0 \<noteq> 0x40"
    using assms * by (auto simp: opcode_has_modrm_def split: if_splits)
qed

lemma prefixes_emit:
  assumes "opcode_has_modrm (e = 1) opcode = Some m" "e \<le> 1"
  shows "take_prefix16 ((if size16 then [0x66] else []) @
      (if rex_byte r \<noteq> 0 then [0x40 OR rex_byte r] else []) @ escape_bytes e @ opcode # bs) =
    (size16, (if rex_byte r \<noteq> 0 then [0x40 OR rex_byte r] else []) @ escape_bytes e @ opcode # bs)" (is ?t1)
    and "take_rex ((if rex_byte r \<noteq> 0 then [0x40 OR rex_byte r] else []) @ escape_bytes e @ opcode # bs) =
    (rex_byte r, escape_bytes e @ opcode # bs)" (is ?t2)
    and "take_escape (escape_bytes e @ opcode # bs) = (e = 1, opcode # bs)" (is ?t3)
proof -
  have "unat e = 0 \<or> unat e = 1" using assms(2) by (simp add: word_le_nat_alt) arith
  then consider "e = 1" | "e = 0" by (metis unat_eq_0 unat_1 word_unat_eq_iff)
  then have "?t1 \<and> ?t2 \<and> ?t3"
  proof cases
    case 1
    then show ?thesis
      by (simp add: escape_bytes_def take_escape_def take_rex_def take_prefix16_def rex_byte_prefix
          rex_byte_not_prefix16)
  next
    case 2
    then have "opcode_has_modrm False opcode = Some m" using assms(1) by simp
    note np = opcode_no_prefix[OF this]
    show ?thesis
      using 2 np by (simp add: escape_bytes_def take_escape_def take_rex_emit take_prefix16_def
          rex_byte_not_prefix16)
  qed
  then show ?t1 ?t2 ?t3 by simp_all
qed

lemma decode_operands_emit:
  assumes "x86_encodable i" "x86_addressing i = Some (rex, modrm, sib, ds, d)"
  shows "decode_operands (x_modrm i) (rex_byte rex) (x_opcode i)
      ((if x_modrm i
        then [modrm_byte modrm] @ (if sib_byte sib \<noteq> 0 then [sib_byte sib] else []) @ variable_length ds (scast d)
        else []) @ tail) =
    Some (op_reg (x86_operands i), op_rm (x86_operands i), tail)"
    and "rex_w rex = (x_size i = S64)"
proof -
  let ?f = "x_first_operand i" and ?s = "x_second_operand i"
  have lt: "?f < 16" "?s < 16" using assms(1) by (auto simp: x86_encodable_def)
  note low = extend_reg_low[OF lt(1)] extend_reg_low[OF lt(2)]
  show "rex_w rex = (x_size i = S64)"
    using assms(2) by (auto simp: x86_addressing_def Let_def split: if_splits option.splits X86IndirectAccess.splits)
  consider (plain) "\<not> x_modrm i" | (direct) "x_modrm i" "x_indirect i = None"
    | (offset) o1 where "x_modrm i" "x_indirect i = Some (Offset o1)"
    | (index) o1 idx sh where "x_modrm i" "x_indirect i = Some (OffsetIndexShift o1 idx sh)"
    by (metis X86IndirectAccess.exhaust option.exhaust)
  then show "decode_operands (x_modrm i) (rex_byte rex) (x_opcode i)
      ((if x_modrm i
        then [modrm_byte modrm] @ (if sib_byte sib \<noteq> 0 then [sib_byte sib] else []) @ variable_length ds (scast d)
        else []) @ tail) =
    Some (op_reg (x86_operands i), op_rm (x86_operands i), tail)"
  proof cases
    case plain
    then show ?thesis
      using assms(2) by (auto simp: x86_addressing_def decode_operands_def x86_operands_def rex_byte_fields and_8)
  next
    case direct
    then show ?thesis
      using assms(2) low
      by (auto simp: x86_addressing_def decode_operands_def x86_operands_def rex_byte_fields and_8
          decode_rm_def modrm_byte_fields and_7 sib_byte_def variable_length_def)
  next
    case offset
    have "rex = \<lparr>rex_w = x_size i = S64, rex_r = bit ?f 3, rex_x = False, rex_b = bit ?s 3\<rparr> \<and>
      sib = \<lparr>sib_scale = 0, sib_index = 0, sib_base = 0\<rparr> \<and> d = o1 \<and> take_bit 3 ?s \<noteq> 4 \<and>
      (\<exists>mode. modrm = \<lparr>modrm_mode = mode, modrm_r = take_bit 3 ?f, modrm_m = take_bit 3 ?s\<rparr> \<and>
        (mode = 1 \<and> ds = S8 \<and> displacement_is_short o1 \<or> mode = 2 \<and> ds = S32))"
      using assms(2) offset
      by (auto simp: x86_addressing_def Let_def and_7 and_8 displacement_is_short_def split: if_splits)
    then show ?thesis
      using offset low
      by (auto simp: decode_operands_def x86_operands_def rex_byte_fields decode_base_def
          decode_rm_def modrm_byte_fields and_7 sib_byte_zero sign_extend_short sign_extend_long)
  next
    case index
    then have ok: "register_number idx < 16" "sh < 4" "\<not> (sh = 0 \<and> take_bit 3 (register_number idx) = 0 \<and> take_bit 3 ?s = 0)"
      using assms(1) by (auto simp: x86_encodable_def and_7)
    let ?sib = "\<lparr>sib_scale = sh, sib_index = take_bit 3 (register_number idx), sib_base = take_bit 3 ?s\<rparr>"
    have sh: "take_bit 2 sh = sh" using ok(2) by (simp add: word_less_4)
    have "rex = \<lparr>rex_w = x_size i = S64, rex_r = bit ?f 3, rex_x = bit (register_number idx) 3, rex_b = bit ?s 3\<rparr> \<and>
      sib = ?sib \<and> d = o1 \<and>
      (\<exists>mode. modrm = \<lparr>modrm_mode = mode, modrm_r = take_bit 3 ?f, modrm_m = 4\<rparr> \<and>
        (mode = 1 \<and> ds = S8 \<and> displacement_is_short o1 \<or> mode = 2 \<and> ds = S32))"
      using assms(2) index
      by (auto simp: x86_addressing_def Let_def and_7 and_8 and_3 sh split: if_splits)
    moreover have "sib_byte ?sib \<noteq> 0" using ok(3) sh by (intro sib_byte_nonzero) auto
    ultimately show ?thesis
      using index low extend_reg_low[OF ok(1)] sh
      by (auto simp: decode_operands_def x86_operands_def rex_byte_fields decode_base_def register_number_RSP
          decode_rm_def modrm_byte_fields sib_byte_fields and_7 sign_extend_short sign_extend_long Let_def)
  qed
qed

lemma x86_emit_decodes:
  assumes "x86_encodable i"
  shows "\<exists>bs. x86_emit i = Some bs \<and> (\<forall>rest. x86_decode (bs @ rest) = Some (x86_operands i, rest))"
proof -
  have "x86_addressing i \<noteq> None"
    using assms
    by (auto simp: x86_addressing_def x86_encodable_def Let_def split: if_splits option.splits X86IndirectAccess.splits)
  then obtain rex modrm sib ds d where a: "x86_addressing i = Some (rex, modrm, sib, ds, d)"
    by (metis not_None_eq prod_cases5)
  have e: "x_size i \<noteq> S0" "opcode_has_modrm (x_opcode_escape_sequence i = 1) (x_opcode i) = Some (x_modrm i)"
    "x_opcode_escape_sequence i \<le> 1"
    "opcode_imm_size (x_opcode_escape_sequence i = 1) (x_opcode i) (op_reg (x86_operands i))
       (x_size i = S16) (x_size i = S64) = x_immediate_size i"
    using assms by (auto simp: x86_encodable_def x86_operands_def)
  show ?thesis
    using e(1) a
    by (simp add: x86_emit_def x86_decode_def prefixes_emit[OF e(2,3)] e(2) decode_operands_emit[OF assms a]
        rex_byte_fields e(4))
      (simp add: x86_operands_def)
qed

text \<open>What the condition on indexed accesses excludes: with base and index \<open>RAX\<close> and no shift the
  byte is zero and left out, although the addressing byte announces it, and the processor takes the
  displacement in its place.  The two-byte escape sequences are written with their bytes swapped.\<close>

lemma zero_sib_omitted:
  "Option.bind (x86_lea S64 RAX RCX (Some (OffsetIndexShift 0 RAX 0))) x86_emit = Some [0x48, 0x8d, 0x4c, 0]"
  "x86_decode [0x48, 0x8d, 0x4c, 0] = None"
  by (simp_all add: x86_instructions x86_emit_def x86_addressing_def displacement_is_short_def rex_byte_def
      modrm_byte_def sib_byte_def escape_bytes_def variable_length_def x86_decode_def take_prefix16_def
      take_rex_def take_escape_def opcode_has_modrm_def decode_operands_def decode_rm_def decode_base_def
      read_imm_def size_bytes_def Let_def)

lemma escape_sequence_swapped: "escape_bytes 2 = [0x38, 0x0f]" "escape_bytes 3 = [0x3a, 0x0f]"
  by (simp_all add: escape_bytes_def le_bytes_2)

end
