(* ===== verification/X86_Exec.thy ===== *)
theory X86_Exec
  imports X86_Decode Memory_Mapping
begin

text \<open>
  The instructions of the processor that the compiler of \<^verbatim>\<open>src/src/jit.rs\<close> emits in straight-line code,
  after the description of the architecture: general registers, status flags and memory.  A 32-bit
  result clears the upper half of its register.  Flags that an instruction leaves undefined, and
  flags nothing relies on, are \<open>None\<close>.  An instruction outside the subset, a fault of a division
  and an access to memory that is not there give \<open>None\<close>.
\<close>

unbundle bit_operations_syntax

section \<open>State\<close>

record x86_flags =
  zf :: bool
  cf :: bool
  sf :: bool
  ovf :: bool

record x86_state =
  gpr :: "u8 \<Rightarrow> u64"
  eflags :: "x86_flags option"
  x86_mem :: host_memory

definition set_gpr :: "u8 \<Rightarrow> u64 \<Rightarrow> x86_state \<Rightarrow> x86_state" where
  "set_gpr r v s = s\<lparr>gpr := (gpr s)(r := v)\<rparr>"

definition op_bytes :: "x86_op \<Rightarrow> nat" where
  "op_bytes i = (if op_wide i then 8 else if op_size16 i then 2 else 4)"

definition sized :: "x86_op \<Rightarrow> u64 \<Rightarrow> u64 \<Rightarrow> u64" where
  "sized i old v =
     (if op_wide i then v
      else if op_size16 i then (old AND NOT 0xffff) OR (v AND 0xffff)
      else ucast (ucast v :: u32))"

definition effective_address :: "x86_state \<Rightarrow> u8 \<Rightarrow> u64 \<Rightarrow> (u8 \<times> u8) option \<Rightarrow> u64" where
  "effective_address s base displacement index =
     gpr s base + displacement +
     (case index of None \<Rightarrow> 0 | Some (r, shift) \<Rightarrow> push_bit (unat shift) (gpr s r))"

definition read_rm :: "x86_op \<Rightarrow> x86_state \<Rightarrow> u64 option" where
  "read_rm i s =
     (case op_rm i of
        RM_reg r \<Rightarrow> Some (gpr s r)
      | RM_mem base d index \<Rightarrow>
          map_option le_word (host_read (x86_mem s) (effective_address s base d index) (op_bytes i)))"

definition write_reg :: "x86_op \<Rightarrow> u8 \<Rightarrow> u64 \<Rightarrow> x86_state \<Rightarrow> x86_state" where
  "write_reg i r v s = set_gpr r (sized i (gpr s r) v) s"

definition write_rm :: "x86_op \<Rightarrow> u64 \<Rightarrow> x86_state \<Rightarrow> x86_state option" where
  "write_rm i v s =
     (case op_rm i of
        RM_reg r \<Rightarrow> Some (write_reg i r v s)
      | RM_mem base d index \<Rightarrow>
          map_option (\<lambda>h. s\<lparr>x86_mem := h\<rparr>)
            (host_write (x86_mem s) (effective_address s base d index) (le_bytes (op_bytes i) v)))"

section \<open>Arithmetic\<close>

definition flags_add :: "'a::len word \<Rightarrow> 'a word \<Rightarrow> x86_flags" where
  "flags_add a b =
     \<lparr>zf = (a + b = 0), cf = \<not> unat a + unat b < 2 ^ LENGTH('a), sf = (sint (a + b) < 0),
      ovf = (sint (a + b) \<noteq> sint a + sint b)\<rparr>"

definition flags_sub :: "'a::len word \<Rightarrow> 'a word \<Rightarrow> x86_flags" where
  "flags_sub a b =
     \<lparr>zf = (a = b), cf = (a < b), sf = (sint (a - b) < 0), ovf = (sint (a - b) \<noteq> sint a - sint b)\<rparr>"

definition flags_logic :: "'a::len word \<Rightarrow> x86_flags" where
  "flags_logic r = \<lparr>zf = (r = 0), cf = False, sf = (sint r < 0), ovf = False\<rparr>"

text \<open>The operation by its number; number 7 is the comparison, which keeps the operand.\<close>

definition alu_compute :: "u8 \<Rightarrow> 'a::len word \<Rightarrow> 'a word \<Rightarrow> ('a word \<times> x86_flags) option" where
  "alu_compute k a b =
     (if k = 0 then Some (a + b, flags_add a b)
      else if k = 1 then Some (a OR b, flags_logic (a OR b))
      else if k = 4 then Some (a AND b, flags_logic (a AND b))
      else if k = 5 then Some (a - b, flags_sub a b)
      else if k = 6 then Some (a XOR b, flags_logic (a XOR b))
      else if k = 7 then Some (a, flags_sub a b)
      else None)"

definition alu_sized :: "x86_op \<Rightarrow> u8 \<Rightarrow> u64 \<Rightarrow> u64 \<Rightarrow> (u64 \<times> x86_flags) option" where
  "alu_sized i k a b =
     (if op_wide i then alu_compute k a b
      else if op_size16 i then None
      else map_option (map_prod ucast id) (alu_compute k (ucast a :: u32) (ucast b)))"

definition test_sized :: "x86_op \<Rightarrow> u64 \<Rightarrow> u64 \<Rightarrow> x86_flags" where
  "test_sized i a b = (if op_wide i then flags_logic (a AND b) else flags_logic (ucast (a AND b) :: u32))"

text \<open>Shifts and rotations take the count modulo the width of 32 or 64 bits.\<close>

definition shift_compute :: "u8 \<Rightarrow> 'a::len word \<Rightarrow> nat \<Rightarrow> 'a word option" where
  "shift_compute k a n =
     (if k = 0 then Some (word_rotl n a)
      else if k = 1 then Some (word_rotr n a)
      else if k = 4 then Some (push_bit n a)
      else if k = 5 then Some (drop_bit n a)
      else if k = 7 then Some (signed_drop_bit n a)
      else None)"

definition shift_sized :: "x86_op \<Rightarrow> u64 \<Rightarrow> u64 \<Rightarrow> u64 option" where
  "shift_sized i a count =
     (if op_wide i then shift_compute (op_reg i) a (unat count mod 64)
      else if op_size16 i then map_option ucast (shift_compute (op_reg i) (ucast a :: u16) (unat count mod 32))
      else map_option ucast (shift_compute (op_reg i) (ucast a :: u32) (unat count mod 32)))"

definition imul_sized :: "x86_op \<Rightarrow> u64 \<Rightarrow> u64 \<Rightarrow> u64" where
  "imul_sized i a b = (if op_wide i then a * b else ucast (ucast a * ucast b :: u32))"

text \<open>The one-operand products and quotients: the operands and results are halves of a value of
  double width.  A quotient that does not fit is a fault.\<close>

definition mul_wide :: "bool \<Rightarrow> u64 \<Rightarrow> u64 \<Rightarrow> u64 \<times> u64" where
  "mul_wide is_signed a b =
     (let p = (if is_signed then scast a * scast b else ucast a * ucast b :: u128)
      in (ucast p, ucast (drop_bit 64 p)))"

definition mul_narrow :: "bool \<Rightarrow> u64 \<Rightarrow> u64 \<Rightarrow> u64 \<times> u64" where
  "mul_narrow is_signed a b =
     (let a = (ucast a :: u32); b = (ucast b :: u32);
          p = (if is_signed then scast a * scast b else ucast a * ucast b :: u64)
      in (ucast (ucast p :: u32), ucast (ucast (drop_bit 32 p) :: u32)))"

definition div_compute :: "bool \<Rightarrow> 'a::len word \<Rightarrow> 'a word \<Rightarrow> 'a word \<Rightarrow> ('a word \<times> 'a word) option" where
  "div_compute is_signed high low b =
     (if b = 0 then None
      else if is_signed
      then let n = sint high * 2 ^ LENGTH('a) + uint low in
        (if int_fits TYPE('a) (n sdiv sint b)
         then Some (word_of_int (n sdiv sint b), word_of_int (n smod sint b)) else None)
      else let n = uint high * 2 ^ LENGTH('a) + uint low in
        (if n div uint b < 2 ^ LENGTH('a)
         then Some (word_of_int (n div uint b), word_of_int (n mod uint b)) else None))"

definition muldiv_sized :: "x86_op \<Rightarrow> u64 \<Rightarrow> u64 \<Rightarrow> u64 \<Rightarrow> (u64 \<times> u64) option" where
  "muldiv_sized i high low b =
     (let is_signed = bit (op_reg i) 0 in
      if op_size16 i then None
      else if op_reg i = 4 \<or> op_reg i = 5
      then Some (if op_wide i then mul_wide is_signed low b else mul_narrow is_signed low b)
      else if op_wide i then div_compute is_signed high low b
      else map_option (map_prod ucast ucast)
        (div_compute is_signed (ucast high :: u32) (ucast low :: u32) (ucast b :: u32)))"

section \<open>Conditions\<close>

definition condition_holds :: "u8 \<Rightarrow> x86_flags \<Rightarrow> bool option" where
  "condition_holds c f =
     (if c = 2 then Some (cf f)
      else if c = 3 then Some (\<not> cf f)
      else if c = 4 then Some (zf f)
      else if c = 5 then Some (\<not> zf f)
      else if c = 6 then Some (cf f \<or> zf f)
      else if c = 7 then Some (\<not> (cf f \<or> zf f))
      else if c = 0xc then Some (sf f \<noteq> ovf f)
      else if c = 0xd then Some (sf f = ovf f)
      else if c = 0xe then Some (zf f \<or> sf f \<noteq> ovf f)
      else if c = 0xf then Some (\<not> (zf f \<or> sf f \<noteq> ovf f))
      else None)"

definition condition_of :: "u8 \<Rightarrow> x86_state \<Rightarrow> bool option" where
  "condition_of c s = Option.bind (eflags s) (condition_holds (c AND 0xf))"

section \<open>Instructions\<close>

definition rsp :: u8 where
  "rsp = 4"

definition rcx :: u8 where
  "rcx = 1"

definition rax :: u8 where
  "rax = 0"

definition rdx :: u8 where
  "rdx = 2"

definition push_value :: "u64 \<Rightarrow> x86_state \<Rightarrow> x86_state option" where
  "push_value v s =
     (let sp = gpr s rsp - 8 in
      map_option (\<lambda>h. set_gpr rsp sp (s\<lparr>x86_mem := h\<rparr>)) (host_write (x86_mem s) sp (le_bytes 8 v)))"

definition pop_value :: "x86_state \<Rightarrow> (u64 \<times> x86_state) option" where
  "pop_value s =
     map_option (\<lambda>bs. (le_word bs, set_gpr rsp (gpr s rsp + 8) s)) (host_read (x86_mem s) (gpr s rsp) 8)"

definition exec_rm_reg :: "u8 \<Rightarrow> x86_op \<Rightarrow> x86_state \<Rightarrow> x86_state option" where
  "exec_rm_reg k i s =
     do {
       a \<leftarrow> read_rm i s;
       (r, f) \<leftarrow> alu_sized i k a (gpr s (op_reg i));
       s \<leftarrow> (if k = 7 then Some s else write_rm i r s);
       Some (s\<lparr>eflags := Some f\<rparr>)
     }"

definition exec_reg_rm :: "u8 \<Rightarrow> x86_op \<Rightarrow> x86_state \<Rightarrow> x86_state option" where
  "exec_reg_rm k i s =
     do {
       b \<leftarrow> read_rm i s;
       (r, f) \<leftarrow> alu_sized i k (gpr s (op_reg i)) b;
       Some ((write_reg i (op_reg i) r s)\<lparr>eflags := Some f\<rparr>)
     }"

definition exec_rm_imm :: "x86_op \<Rightarrow> x86_state \<Rightarrow> x86_state option" where
  "exec_rm_imm i s =
     do {
       a \<leftarrow> read_rm i s;
       (r, f) \<leftarrow> alu_sized i (op_reg i) a (op_imm i);
       s \<leftarrow> (if op_reg i = 7 then Some s else write_rm i r s);
       Some (s\<lparr>eflags := Some f\<rparr>)
     }"

definition exec_shift :: "u64 \<Rightarrow> x86_op \<Rightarrow> x86_state \<Rightarrow> x86_state option" where
  "exec_shift count i s =
     do {
       a \<leftarrow> read_rm i s;
       r \<leftarrow> shift_sized i a count;
       s \<leftarrow> write_rm i r s;
       Some (s\<lparr>eflags := None\<rparr>)
     }"

definition exec_group3 :: "x86_op \<Rightarrow> x86_state \<Rightarrow> x86_state option" where
  "exec_group3 i s =
     do {
       a \<leftarrow> read_rm i s;
       if op_reg i = 0 then Some (s\<lparr>eflags := Some (test_sized i a (op_imm i))\<rparr>)
       else if op_reg i = 3
       then do {
         (r, f) \<leftarrow> alu_sized i 5 0 a;
         s \<leftarrow> write_rm i r s;
         Some (s\<lparr>eflags := Some f\<rparr>)
       }
       else if op_reg i \<in> {4, 5, 6, 7}
       then do {
         (low, high) \<leftarrow> muldiv_sized i (gpr s rdx) (gpr s rax) a;
         Some ((set_gpr rdx high (set_gpr rax low s))\<lparr>eflags := None\<rparr>)
       }
       else None
     }"

definition exec_sign_extend :: "x86_op \<Rightarrow> x86_state \<Rightarrow> x86_state" where
  "exec_sign_extend i s =
     (let negative = (if op_wide i then sint (gpr s rax) < 0 else sint (ucast (gpr s rax) :: u32) < 0)
      in write_reg i rdx (if negative then - 1 else 0) s)"

definition exec_one_byte :: "x86_op \<Rightarrow> x86_state \<Rightarrow> x86_state option" where
  "exec_one_byte i s =
     (let c = op_code i in
      if c AND 0xf8 = 0xb8 then write_rm i (op_imm i) s
      else if c AND 0xf8 = 0x50 then Option.bind (read_rm (i\<lparr>op_wide := True\<rparr>) s) (\<lambda>v. push_value v s)
      else if c AND 0xf8 = 0x58
      then do { (v, s) \<leftarrow> pop_value s; write_rm (i\<lparr>op_wide := True\<rparr>) v s }
      else if c \<in> {0x01, 0x09, 0x21, 0x29, 0x31, 0x39} then exec_rm_reg (drop_bit 3 c) i s
      else if c \<in> {0x03, 0x2b} then exec_reg_rm (drop_bit 3 c) i s
      else if c = 0x81 then exec_rm_imm i s
      else if c = 0x63
      then map_option (\<lambda>v. write_reg i (op_reg i) (scast (ucast v :: u32)) s) (read_rm (i\<lparr>op_wide := False\<rparr>) s)
      else if c = 0x68 then push_value (op_imm i) s
      else if c = 0x85
      then map_option (\<lambda>v. s\<lparr>eflags := Some (test_sized i v (gpr s (op_reg i)))\<rparr>) (read_rm i s)
      else if c = 0x87
      then do { v \<leftarrow> read_rm i s; s' \<leftarrow> write_rm i (gpr s (op_reg i)) s; Some (write_reg i (op_reg i) v s') }
      else if c = 0x89 then write_rm i (gpr s (op_reg i)) s
      else if c = 0x8b then map_option (\<lambda>v. write_reg i (op_reg i) v s) (read_rm i s)
      else if c = 0x8d
      then (case op_rm i of
          RM_reg _ \<Rightarrow> None
        | RM_mem base d index \<Rightarrow> Some (write_reg i (op_reg i) (effective_address s base d index) s))
      else if c = 0x90 then Some s
      else if c = 0x99 then Some (exec_sign_extend i s)
      else if c = 0xc1 then exec_shift (op_imm i AND 0xff) i s
      else if c = 0xc7 then write_rm i (op_imm i) s
      else if c = 0xd3 then exec_shift (gpr s rcx AND 0xff) i s
      else if c = 0xf7 then exec_group3 i s
      else None)"

definition exec_escaped :: "x86_op \<Rightarrow> x86_state \<Rightarrow> x86_state option" where
  "exec_escaped i s =
     (let c = op_code i in
      if c AND 0xf8 = 0xc8
      then do {
        v \<leftarrow> read_rm i s;
        write_rm i (if op_wide i then swap_bytes v else ucast (swap_bytes (ucast v :: u32))) s
      }
      else if c AND 0xf0 = 0x40
      then do {
        v \<leftarrow> read_rm i s;
        taken \<leftarrow> condition_of c s;
        Some (write_reg i (op_reg i) (if taken then v else gpr s (op_reg i)) s)
      }
      else if c = 0xaf
      then do {
        v \<leftarrow> read_rm i s;
        Some ((write_reg i (op_reg i) (imul_sized i (gpr s (op_reg i)) v) s)\<lparr>eflags := None\<rparr>)
      }
      else None)"

text \<open>The state after an instruction, and the displacement of a jump that is taken.\<close>

definition x86_exec :: "x86_op \<Rightarrow> x86_state \<Rightarrow> (x86_state \<times> i32 option) option" where
  "x86_exec i s =
     (if op_escaped i \<and> op_code i AND 0xf0 = 0x80
      then map_option (\<lambda>taken. (s, if taken then Some (ucast (op_imm i)) else None)) (condition_of (op_code i) s)
      else if op_escaped i then map_option (\<lambda>s. (s, None)) (exec_escaped i s)
      else if op_code i = 0xe9 then Some (s, Some (ucast (op_imm i)))
      else map_option (\<lambda>s. (s, None)) (exec_one_byte i s))"

text \<open>Straight-line execution of a piece of code: to its end, or to a jump, which is given by the
  distance of its target from the start of the piece.\<close>

function x86_run :: "bytes \<Rightarrow> x86_state \<Rightarrow> (x86_state \<times> int option) option" where
  "x86_run bs s =
     (if bs = [] then Some (s, None)
      else do {
        (i, rest) \<leftarrow> x86_decode bs;
        if length rest < length bs
        then do {
          (s, jump) \<leftarrow> x86_exec i s;
          case jump of
            Some d \<Rightarrow> Some (s, Some (int (length bs) - int (length rest) + sint d))
          | None \<Rightarrow> map_option (map_prod id (map_option (\<lambda>n. int (length bs) - int (length rest) + n))) (x86_run rest s)
        }
        else None
      })"
  by pat_completeness auto
termination
  by (relation "measure (length \<circ> fst)") auto

declare x86_run.simps [simp del]

end
