(* ===== verification/Jit_Code.thy ===== *)
theory Jit_Code
  imports Jit_Compile X86_Exec Interpreter
begin

text \<open>
  Reasoning on emitted code.  \<open>yields n c e s Q\<close> states that with room for \<open>n\<close> instructions the emitter
  \<open>e\<close> returns in the state \<open>c\<close>, and that the bytes it appends take the processor from \<open>s\<close> to a state
  with \<open>Q\<close>: at the end of the bytes, or at a jump out of them.  The rules follow the sequence of emitted
  instructions; the random no-operations between them are covered once, in the rule for one
  instruction.
\<close>

unbundle bit_operations_syntax

section \<open>Appended code\<close>

definition same_setup :: "('f, 'r) JitCompiler \<Rightarrow> ('f, 'r) JitCompiler \<Rightarrow> bool" where
  "same_setup c c' \<longleftrightarrow>
     jit_executable c' = jit_executable c \<and> jit_program c' = jit_program c \<and> jit_config c' = jit_config c \<and>
     jit_pc c' = jit_pc c \<and> immediate_value_key c' = immediate_value_key c \<and>
     runtime_environment_key c' = runtime_environment_key c \<and> anchors c' = anchors c \<and>
     pc_section (result c') = pc_section (result c) \<and> surroundings c' = surroundings c"

definition appended :: "('f, 'r) JitCompiler \<Rightarrow> bytes \<Rightarrow> ('f, 'r) JitCompiler \<Rightarrow> bool" where
  "appended c bs c' \<longleftrightarrow>
     same_setup c c' \<and> offset_in_text_section c' = offset_in_text_section c + length bs \<and>
     length (text_section (result c')) = length (text_section (result c)) \<and>
     take (offset_in_text_section c') (text_section (result c')) =
       take (offset_in_text_section c) (text_section (result c)) @ bs"

lemma same_setup_refl [simp]: "same_setup c c"
  by (simp add: same_setup_def)

lemma same_setup_trans: "same_setup c c' \<Longrightarrow> same_setup c' c'' \<Longrightarrow> same_setup c c''"
  by (simp add: same_setup_def)

lemma appended_Nil [simp]: "appended c [] c"
  by (simp add: appended_def)

lemma appended_append: "appended c bs c' \<Longrightarrow> appended c' bs' c'' \<Longrightarrow> appended c (bs @ bs') c''"
  by (auto simp: appended_def intro: same_setup_trans)

lemma appended_setup: "appended c bs c' \<Longrightarrow> same_setup c c'"
  by (simp add: appended_def)

lemma emit_appended: "emit bs c = Some c' \<Longrightarrow> appended c bs c'"
  by (auto simp: emit_def appended_def same_setup_def Let_def split: if_splits)

text \<open>Room for \<open>n\<close> instructions, of at most 19 bytes and a no-operation each.\<close>

definition room :: "nat \<Rightarrow> ('f, 'r) JitCompiler \<Rightarrow> bool" where
  "room n c \<longleftrightarrow> offset_in_text_section c + 20 * n \<le> length (text_section (result c))"

lemma room_appended:
  "room (m + n) c \<Longrightarrow> appended c bs c' \<Longrightarrow> length bs \<le> 20 * m \<Longrightarrow> room n c'"
  by (simp add: room_def appended_def)

lemma room_mono: "room n c \<Longrightarrow> m \<le> n \<Longrightarrow> room m c"
  by (simp add: room_def)

lemma length_x86_emit:
  assumes "x86_emit i = Some bs"
  shows "length bs \<le> 19"
proof -
  obtain rex modrm sib ds d where a: "x86_addressing i = Some (rex, modrm, sib, ds, d)"
    using assms by (auto simp: x86_emit_def elim!: bind_eq_SomeE split: if_splits)
  have "ds = S0 \<or> ds = S8 \<or> ds = S32"
    using a by (auto simp: x86_addressing_def Let_def split: if_splits option.splits X86IndirectAccess.splits)
  then have "length (variable_length ds (scast d)) \<le> 4" by (auto simp: variable_length_def)
  moreover have "length (variable_length (x_immediate_size i) (x_immediate i)) \<le> 8"
    by (simp add: variable_length_def split: OperandSize.split)
  moreover have "length (escape_bytes (x_opcode_escape_sequence i)) \<le> 2" by (simp add: escape_bytes_def)
  moreover have "length bs =
      (if x_size i = S16 then 1 else 0) + (if rex_byte rex \<noteq> 0 then 1 else 0) +
      length (escape_bytes (x_opcode_escape_sequence i)) + 1 +
      (if x_modrm i then 1 + (if sib_byte sib \<noteq> 0 then 1 else 0) + length (variable_length ds (scast d)) else 0) +
      length (variable_length (x_immediate_size i) (x_immediate i))"
    using assms a by (auto simp: x86_emit_def split: if_splits)
  ultimately show ?thesis by (auto split: if_splits)
qed

section \<open>Running code\<close>

definition shift_exit :: "nat \<Rightarrow> (x86_state \<times> int option) option \<Rightarrow> (x86_state \<times> int option) option" where
  "shift_exit k = map_option (map_prod id (map_option (\<lambda>n. int k + n)))"

lemma shift_exit_simps [simp]:
  "shift_exit k None = None" "shift_exit k (Some (s, None)) = Some (s, None)"
  "shift_exit k (Some (s, Some n)) = Some (s, Some (int k + n))"
  by (simp_all add: shift_exit_def)

lemma shift_exit_0 [simp]: "shift_exit 0 r = r"
  by (cases r) (auto simp: shift_exit_def map_prod_def option.map_ident split: prod.split)

lemma shift_exit_add: "shift_exit j (shift_exit k r) = shift_exit (j + k) r"
  by (cases r) (auto simp: shift_exit_def map_prod_def option.map_comp comp_def algebra_simps split: prod.split)

definition runs :: "bytes \<Rightarrow> x86_state \<Rightarrow> x86_state \<Rightarrow> int option \<Rightarrow> bool" where
  "runs bs s s' exit \<longleftrightarrow>
     (case exit of
        None \<Rightarrow> (\<forall>rest. x86_run (bs @ rest) s = shift_exit (length bs) (x86_run rest s'))
      | Some n \<Rightarrow> (\<forall>rest. x86_run (bs @ rest) s = Some (s', Some n)))"

lemma runs_Nil [simp]: "runs [] s s None"
  by (simp add: runs_def)

lemma x86_run_Nil: "x86_run [] s = Some (s, None)"
  by (subst x86_run.simps) simp

lemma runs_end:
  assumes "runs bs s s' None"
  shows "x86_run bs s = Some (s', None)"
proof -
  have "x86_run (bs @ []) s = shift_exit (length bs) (x86_run [] s')" using assms by (simp only: runs_def option.case) 
  then show ?thesis by (simp add: x86_run_Nil)
qed

lemma runs_exit:
  assumes "runs bs s s' (Some n)"
  shows "x86_run bs s = Some (s', Some n)"
proof -
  have "x86_run (bs @ []) s = Some (s', Some n)" using assms by (simp only: runs_def option.case)
  then show ?thesis by simp
qed

lemma runs_append:
  assumes "runs bs s s1 None" "runs bs' s1 s2 exit"
  shows "runs (bs @ bs') s s2 (map_option (\<lambda>n. int (length bs) + n) exit)"
  using assms by (cases exit) (simp_all add: runs_def shift_exit_add)

lemma runs_exit_append: "runs bs s s' (Some n) \<Longrightarrow> runs (bs @ bs') s s' (Some n)"
  by (simp add: runs_def)

text \<open>One instruction.\<close>

lemma runs_decoded:
  assumes "\<And>rest. x86_decode (bs @ rest) = Some (i, rest)" "bs \<noteq> []"
    and "x86_exec i s = Some (s', j)"
  shows "runs bs s s' (map_option (\<lambda>d. int (length bs) + sint d) j)"
  using assms by (cases j) (simp_all add: runs_def x86_run.simps[of "bs @ _"] shift_exit_def)

definition nop_op :: x86_op where
  "nop_op = \<lparr>op_size16 = False, op_wide = False, op_escaped = False, op_code = 0x90, op_reg = 0,
     op_rm = RM_reg 0, op_imm = 0\<rparr>"

lemma runs_nop: "runs [0x90] s s None"
proof -
  have "x86_decode ([0x90] @ rest) = Some (nop_op, rest)" for rest
    by (simp add: x86_decode_def take_prefix16_def take_rex_def take_escape_def opcode_has_modrm_def
        decode_operands_def extend_reg_def opcode_imm_size_def read_imm_def size_bytes_def sign_extend_def nop_op_def)
  moreover have "x86_exec nop_op s = Some (s, None)"
    by (simp add: x86_exec_def nop_op_def exec_one_byte_def)
  ultimately show ?thesis using runs_decoded[of "[0x90]" nop_op s s None] by simp
qed

lemma x86_emit_nonempty: "x86_emit i = Some bs \<Longrightarrow> bs \<noteq> []"
  by (auto simp: x86_emit_def bind_eq_Some_conv split: if_splits)

section \<open>What emitters yield\<close>

definition yields ::
  "nat \<Rightarrow> ('f, 'r) JitCompiler \<Rightarrow> ('f, 'r) emitter \<Rightarrow> x86_state \<Rightarrow> (x86_state \<Rightarrow> int option \<Rightarrow> bool) \<Rightarrow> bool" where
  "yields n c e s Q \<longleftrightarrow>
     (room n c \<longrightarrow>
        (\<exists>c' bs s' exit. e c = Some c' \<and> appended c bs c' \<and> length bs \<le> 20 * n \<and> runs bs s s' exit \<and>
           Q s' (map_option (\<lambda>n. int (offset_in_text_section c) + n) exit)))"

text \<open>Falling through to the end of the code.\<close>

definition falls :: "(x86_state \<Rightarrow> bool) \<Rightarrow> x86_state \<Rightarrow> int option \<Rightarrow> bool" where
  "falls P s exit \<longleftrightarrow> exit = None \<and> P s"

lemma yields_mono: "yields n c e s Q \<Longrightarrow> (\<And>s' x. Q s' x \<Longrightarrow> Q' s' x) \<Longrightarrow> yields n c e s Q'"
  unfolding yields_def by blast

lemma yields_Some: "Q s None \<Longrightarrow> yields 0 c Some s Q"
  unfolding yields_def by (auto intro!: exI[of _ "[]"] exI[of _ s] exI[of _ None])

lemma yields_Nil: "Q s None \<Longrightarrow> yields 0 c (emits []) s Q"
  unfolding yields_def by (auto intro!: exI[of _ "[]"] exI[of _ s] exI[of _ None])

lemma yieldsD:
  assumes "yields n c e s Q" "room n c"
  obtains c' bs s' exit where "e c = Some c'" "appended c bs c'" "length bs \<le> 20 * n" "runs bs s s' exit"
    "Q s' (map_option (\<lambda>n. int (offset_in_text_section c) + n) exit)"
  using assms unfolding yields_def by blast

text \<open>Code that jumps may be followed by any code that is emitted.\<close>

definition emitted :: "nat \<Rightarrow> ('f, 'r) JitCompiler \<Rightarrow> ('f, 'r) emitter \<Rightarrow> bool" where
  "emitted n c e \<longleftrightarrow> (room n c \<longrightarrow> (\<exists>c' bs. e c = Some c' \<and> appended c bs c' \<and> length bs \<le> 20 * n))"

lemma yields_emitted: "yields n c e s Q \<Longrightarrow> emitted n c e"
  unfolding yields_def emitted_def by blast

lemma yields_Cons_exit:
  assumes e: "yields m c e s (\<lambda>s1 exit. case exit of
      None \<Rightarrow> \<forall>c'. same_setup c c' \<longrightarrow> yields n c' (emits es) s1 Q
    | Some x \<Rightarrow> (\<forall>c'. same_setup c c' \<longrightarrow> emitted n c' (emits es)) \<and> Q s1 (Some x))"
  shows "yields (m + n) c (emits (e # es)) s Q"
  unfolding yields_def
proof (intro impI)
  assume room: "room (m + n) c"
  let ?Q = "\<lambda>s1 exit. case exit of
      None \<Rightarrow> \<forall>c'. same_setup c c' \<longrightarrow> yields n c' (emits es) s1 Q
    | Some x \<Rightarrow> (\<forall>c'. same_setup c c' \<longrightarrow> emitted n c' (emits es)) \<and> Q s1 (Some x)"
  obtain c1 bs s1 exit where c1: "e c = Some c1" and 1: "appended c bs c1" "length bs \<le> 20 * m" "runs bs s s1 exit"
    and Q: "?Q s1 (map_option (\<lambda>n. int (offset_in_text_section c) + n) exit)"
    using yieldsD[OF e room_mono[OF room le_add1]] .
  note room1 = room_appended[OF room 1(1,2)] and same = appended_setup[OF 1(1)]
  show "\<exists>c' bs s' exit. emits (e # es) c = Some c' \<and> appended c bs c' \<and> length bs \<le> 20 * (m + n) \<and>
      runs bs s s' exit \<and> Q s' (map_option (\<lambda>n. int (offset_in_text_section c) + n) exit)"
  proof (cases exit)
    case None
    then have "yields n c1 (emits es) s1 Q" using Q same by simp
    then obtain c' bs' s2 exit' where 2: "emits es c1 = Some c'" "appended c1 bs' c'" "length bs' \<le> 20 * n"
      "runs bs' s1 s2 exit'" "Q s2 (map_option (\<lambda>n. int (offset_in_text_section c1) + n) exit')"
      using room1 by (rule yieldsD)
    have "offset_in_text_section c1 = offset_in_text_section c + length bs" using 1(1) by (simp add: appended_def)
    then show ?thesis
      using c1 2 1(2) appended_append[OF 1(1) 2(2)] runs_append[of bs s s1 bs' s2 exit'] 1(3) None
      by (intro exI[of _ c'] exI[of _ "bs @ bs'"] exI[of _ s2] exI[of _ "map_option (\<lambda>n. int (length bs) + n) exit'"])
        (simp add: option.map_comp comp_def add.assoc)
  next
    case (Some x)
    then have "emitted n c1 (emits es)" using Q same by simp
    then obtain c' bs' where 2: "emits es c1 = Some c'" "appended c1 bs' c'" "length bs' \<le> 20 * n"
      using room1 unfolding emitted_def by blast
    then show ?thesis
      using c1 1(2) appended_append[OF 1(1) 2(2)] runs_exit_append[of bs s s1 x bs'] 1(3) Some Q
      by (intro exI[of _ c'] exI[of _ "bs @ bs'"] exI[of _ s1] exI[of _ "Some x"]) simp
  qed
qed

lemma yields_Cons:
  assumes "yields m c e s (falls P)" "\<And>c' s1. same_setup c c' \<Longrightarrow> P s1 \<Longrightarrow> yields n c' (emits es) s1 Q"
  shows "yields (m + n) c (emits (e # es)) s Q"
  by (rule yields_Cons_exit, rule yields_mono[OF assms(1)]) (auto simp: falls_def intro: assms(2))

text \<open>One instruction and the no-operation that may follow it.\<close>

lemma appended_skip:
  "appended (c\<lparr>next_noop_insertion := n, diversification_rng := r\<rparr>) bs c' \<longleftrightarrow> appended c bs c'"
  "appended c bs (c1\<lparr>next_noop_insertion := n\<rparr>) \<longleftrightarrow> appended c bs c1"
  by (simp_all add: appended_def same_setup_def)

lemma emit_returns:
  "offset_in_text_section c + length bs \<le> length (text_section (result c)) \<Longrightarrow> \<exists>c'. emit bs c = Some c'"
  by (simp add: emit_def Let_def)

lemma emit_ins_returns:
  assumes "room 1 c" "x86_emit i = Some bs"
  shows "\<exists>c' ws. emit_ins (Some i) c = Some c' \<and> appended c (bs @ ws) c' \<and> (ws = [] \<or> ws = [0x90])"
proof -
  have l: "length bs \<le> 19" by (rule length_x86_emit[OF assms(2)])
  then obtain c1 where c1: "emit bs c = Some c1"
    using emit_returns[of c bs] assms(1) by (auto simp: room_def)
  note a = emit_appended[OF c1]
  show ?thesis
  proof (cases "next_noop_insertion c1 = 0")
    case True
    obtain n rng where nr: "sample_noop (surroundings c1) (diversification_rng c1) = (n, rng)" by fastforce
    let ?c = "c1\<lparr>next_noop_insertion := n, diversification_rng := rng\<rparr>"
    obtain c' where c': "emit [0x90] ?c = Some c'"
      using emit_returns[of ?c "[0x90]"] a assms(1) l by (auto simp: room_def appended_def)
    from emit_appended[OF c'] have "appended c1 [0x90] c'" by (simp only: appended_skip)
    then show ?thesis
      using appended_append[OF a] c1 c' True nr assms(2)
      by (intro exI[of _ c'] exI[of _ "[0x90]"]) (simp add: emit_ins_def)
  next
    case False
    then show ?thesis
      using a c1 assms(2)
      by (intro exI[of _ "c1\<lparr>next_noop_insertion := next_noop_insertion c1 - 1\<rparr>"] exI[of _ "[]"])
        (simp add: emit_ins_def appended_skip)
  qed
qed

lemma emitted_ins: "io = Some i \<Longrightarrow> x86_emit i \<noteq> None \<Longrightarrow> emitted 1 c (emit_ins io)"
  unfolding emitted_def
proof (intro impI)
  assume "io = Some i" "x86_emit i \<noteq> None" "room 1 c"
  then obtain bs where "x86_emit i = Some bs" by blast
  from emit_ins_returns[OF \<open>room 1 c\<close> this] length_x86_emit[OF this]
  show "\<exists>c' bs. emit_ins io c = Some c' \<and> appended c bs c' \<and> length bs \<le> 20 * 1"
    using \<open>io = Some i\<close> by fastforce
qed

lemma yields_ins:
  assumes i: "io = Some i" "x86_encodable i" and x: "x86_exec (x86_operands i) s = Some (s', j)"
    and Q: "j = None \<Longrightarrow> Q s' None"
      "\<And>d bs. j = Some d \<Longrightarrow> x86_emit i = Some bs \<Longrightarrow>
         Q s' (Some (int (offset_in_text_section c) + int (length bs) + sint d))"
  shows "yields 1 c (emit_ins io) s Q"
  unfolding yields_def
proof (intro impI)
  assume room: "room 1 c"
  obtain bs where bs: "x86_emit i = Some bs"
    and dec: "\<And>rest. x86_decode (bs @ rest) = Some (x86_operands i, rest)"
    using x86_emit_decodes[OF i(2)] by blast
  obtain c' ws where c': "emit_ins io c = Some c'" "appended c (bs @ ws) c'" and ws: "ws = [] \<or> ws = [0x90]"
    using emit_ins_returns[OF room bs] i(1) by blast
  have l: "length (bs @ ws) \<le> 20 * 1" using length_x86_emit[OF bs] ws by auto
  have r: "runs bs s s' (map_option (\<lambda>d. int (length bs) + sint d) j)"
    using dec x86_emit_nonempty[OF bs] by (intro runs_decoded[OF _ _ x])
  have w: "runs ws s' s' None" using ws runs_nop by auto
  show "\<exists>c' bs s' exit. emit_ins io c = Some c' \<and> appended c bs c' \<and> length bs \<le> 20 * 1 \<and> runs bs s s' exit \<and>
      Q s' (map_option (\<lambda>n. int (offset_in_text_section c) + n) exit)"
  proof (cases j)
    case None
    then have "runs (bs @ ws) s s' None" using runs_append[of bs s s' ws s' None] r w by simp
    then show ?thesis
      using c' l Q(1)[OF None] by (intro exI[of _ c'] exI[of _ "bs @ ws"] exI[of _ s'] exI[of _ None]) simp
  next
    case (Some d)
    then have "runs (bs @ ws) s s' (Some (int (length bs) + sint d))" using runs_exit_append r by simp
    then show ?thesis
      using c' l Q(2)[OF Some bs]
      by (intro exI[of _ c'] exI[of _ "bs @ ws"] exI[of _ s'] exI[of _ "Some (int (length bs) + sint d)"])
        (simp add: add.assoc)
  qed
qed

end
