(* ===== verification/Spec2Isabelle.thy ===== *)
theory Spec2Isabelle
  imports Load_Execute Insn_Builder Reassembly Aligned_Memory Jit_Code
begin

text \<open>
  Verification of the Solana eBPF virtual machine, crate \<^verbatim>\<open>solana-sbpf\<close> (sources in
  \<^verbatim>\<open>src/src\<close>, file names below are relative to it).

  \<^bold>\<open>The program.\<close>  A program arrives as an ELF file.  The loader (\<^verbatim>\<open>elf.rs\<close>, on top of the parser in
  \<^verbatim>\<open>elf_parser\<close>) checks its structure, relocates it and yields an executable: the text, the read-only
  data, the entry point and the registry of its functions (\<^verbatim>\<open>program.rs\<close>).  The verifier
  (\<^verbatim>\<open>verifier.rs\<close>) scans the text once and rejects malformed instructions.  The virtual machine
  (\<^verbatim>\<open>vm.rs\<close>) holds the registers, the call frames and the memory mapping (\<^verbatim>\<open>memory_region.rs\<close>), and the
  interpreter (\<^verbatim>\<open>interpreter.rs\<close>) runs the text on it, charging a budget per instruction; built-in
  functions are called through an adapter.  Beside this path there are a program builder
  (\<^verbatim>\<open>insn_builder.rs\<close>), an assembler (\<^verbatim>\<open>assembler.rs\<close>), a disassembler (\<^verbatim>\<open>disassembler.rs\<close>) and an
  aligned buffer (\<^verbatim>\<open>aligned_memory.rs\<close>).

  \<^bold>\<open>Conventions.\<close>  A machine integer is a word of its width, read as signed where the source casts;
  \<open>usize\<close> is a natural number, with the points at which it could overflow written out.  A
  definition that may go wrong (a panic, an index out of range, a failed overflow or debug
  assertion, an access to host memory that is not there) returns an option, and \<open>None\<close> is going
  wrong.  Errors the code reports are values: \<open>Inl\<close> of a sum, or the constructor \<open>Err\<close> of
  \<open>StableResult\<close>.  Mutable state is a record that is passed and returned.  Host memory is a partial
  map from addresses to bytes.  A \<open>match\<close> over operation codes is the list of its arms with their
  guards, searched in order.

  \<^bold>\<open>Theories.\<close>
  \<^item> \<open>Prelude\<close>, \<open>BTree_Map\<close>, \<open>Rust_Text\<close>: integers, slices, little-endian codecs, ordered maps and
    text, as far as the sources use the standard library.
  \<^item> \<open>Opcodes\<close>, \<open>Ebpf\<close> (\<^verbatim>\<open>ebpf.rs\<close>): the constants, the record \<open>Insn\<close>, \<open>get_insn\<close>, \<open>to_array\<close> and the
    wide load; encoding and decoding are inverse to each other.
  \<^item> \<open>Errors\<close>, \<open>Config\<close> (\<^verbatim>\<open>error.rs\<close>, \<^verbatim>\<open>program.rs\<close>, \<^verbatim>\<open>vm.rs\<close>): errors, results, versions with their
    feature switches, configuration.
  \<^item> \<open>Program\<close> (\<^verbatim>\<open>program.rs\<close>): the function registry and the built-in program; registration and
    both lookups are characterised.
  \<^item> \<open>Memory_Region\<close>, \<open>Mapping_Cache\<close>, \<open>Mapping_Common\<close>, \<open>Unaligned_Mapping\<close>, \<open>Aligned_Mapping\<close>,
    \<open>Memory_Mapping\<close> (\<^verbatim>\<open>memory_region.rs\<close>): translation within a region with and without gaps; the ring
    buffer cache refines a list; the Eytzinger search with its cache refines a linear search under
    every sequence of lookups; loads and stores stay inside the slices of the regions, stores inside
    writable ones; a load returns what was stored; both layouts agree.
  \<^item> \<open>Verifier\<close> (\<^verbatim>\<open>verifier.rs\<close>): acceptance is equivalent to admissibility of every scanned
    instruction, so the jumps of an accepted program lead to instructions.
  \<^item> \<open>Executable\<close>, \<open>Vm\<close>, \<open>Interpreter\<close>, \<open>Execute\<close> (\<^verbatim>\<open>elf.rs\<close>, \<^verbatim>\<open>vm.rs\<close>, \<^verbatim>\<open>interpreter.rs\<close>): the executable as
    the machine sees it, the machine state, one step with every instruction, the loop around it and
    \<open>execute_program\<close>.
  \<^item> \<open>Interpreter_Safety\<close>, \<open>Interpreter_Step\<close>, \<open>Semantics\<close>, \<open>Frames\<close>: a step of a verified program never
    goes wrong, keeps the machine invariant and uses up budget, hence every execution returns; what
    calls, returns, products, quotients and the error states do; the frame pointer counts the frames.
  \<^item> \<open>Test_Syscalls\<close> (\<^verbatim>\<open>../test_utils/src/syscalls.rs\<close>): the built-in functions of the test suite.
  \<^item> \<open>Elf_Consts\<close>, \<open>Elf_Types\<close>, \<open>Elf_Parser\<close> (\<^verbatim>\<open>elf_parser\<close>): structures with their layouts, the casts of
    byte slices to tables, headers, sections, the dynamic table, string lookups; parsing never
    performs an undefined cast, and accepted files are well-formed.
  \<^item> \<open>Elf_Loader\<close>, \<open>Elf_Safety\<close>, \<open>Elf_Relocation\<close> (\<^verbatim>\<open>elf.rs\<close>): the strict and the lenient loader;
    loading returns on every file, its results lie inside the file, the strict loader recovers what
    a file was built from, and relocated calls resolve to their targets.
  \<^item> \<open>Load_Execute\<close>: the path from file to result, under the checks of loader and verifier alone.
  \<^item> \<open>Insn_Builder\<close> (\<^verbatim>\<open>insn_builder.rs\<close>): the seven builders behind one interface; a built program
    decodes to what was asked for.
  \<^item> \<open>Assembler\<close>, \<open>Assembler_Labels\<close> (\<^verbatim>\<open>assembler.rs\<close>): both passes; jumps and calls of an assembled
    executable lead to their labels.
  \<^item> \<open>Disassembler\<close>, \<open>Reassembly\<close> (\<^verbatim>\<open>disassembler.rs\<close>): the text of every instruction, and that the
    assembler translates it back.
  \<^item> \<open>Aligned_Memory\<close> (\<^verbatim>\<open>aligned_memory.rs\<close>): the buffer refines a bounded list of bytes.

  \<^bold>\<open>Interfaces.\<close>  The contracts between components are locales, each interpreted on the definitions of
  the component that provides it: \<open>ordered_map\<close> (the maps behind the registries), \<open>plain_data\<close> (the
  structures the ELF parser casts to), \<open>region_finder\<close> (what loads and stores rely on of a lookup of
  regions, provided by both mappings), \<open>context_object\<close> and \<open>syscall_interface\<close> (what the interpreter
  relies on of the embedding and of built-in functions), \<open>builder\<close> (the builder interface) and
  \<open>bounded_buffer\<close> (what the aligned memory promises).

  \<^bold>\<open>Parameters.\<close>  Code that is not part of the repository is an argument: the hash of symbol names
  (\<^verbatim>\<open>hash32\<close>), the bodies of built-in functions, the parser combinators (\<^verbatim>\<open>combine\<close>), the addresses an
  allocator returns, demangling.  What is relied on is a named hypothesis, and each theorem with one
  has an instance in which it holds.

  \<^bold>\<open>Bounds and termination.\<close>  There is no fuel.  The interpreter loop is a \<open>partial_function\<close> in which
  not returning is \<open>None\<close>; each step that continues increases the count of due instructions, and the
  meter check stops the loop at the budget, so the termination theorems state that the result is
  \<open>Some\<close>.  All other loops are structural or come with a measure.  The length of a slice fits into
  \<open>isize\<close>, as Rust guarantees (\<open>slice_fits\<close>).

  \<^bold>\<open>Constants.\<close>  Every constant of \<^verbatim>\<open>ebpf.rs\<close> and \<^verbatim>\<open>elf_parser/consts.rs\<close> is a definition of its own, in
  the order of the source.

  \<^bold>\<open>Not modelled.\<close>
  \<^item> The compiler to machine code (\<^verbatim>\<open>jit.rs\<close>, \<^verbatim>\<open>x86.rs\<close>, \<^verbatim>\<open>memory_management.rs\<close>).  Its results run on the
    processor and call back into the crate through raw pointers; \<open>execute_program\<close> is modelled with
    the interpreter, and without a compiled program its other branch returns \<open>JitNotCompiled\<close>.
    \<^verbatim>\<open>aarch64.rs\<close> is not compiled into the crate.
  \<^item> The debugger (\<^verbatim>\<open>debugger.rs\<close>), a server for the protocol of a third-party crate, behind a feature
    that is off by default.
  \<^item> Static analysis (\<^verbatim>\<open>static_analysis.rs\<close>) beyond the graph nodes the disassembler prints labels of.
  \<^item> The grammar of the assembler (\<^verbatim>\<open>asm_parser.rs\<close>), written in parser combinators; its statements
    and operands are modelled.
  \<^item> \<open>SyscallTracePrintf\<close>, which takes floating-point logarithms; console output; \<open>mem_size\<close>, which
    adds up capacities of allocations; \<open>Debug\<close> formatters.
  \<^item> The command line, the fuzz targets and the benchmarks, which only call the crate.
\<close>

end
